(* ===== verification/Gluon_Prelude.thy ===== *)
theory Gluon_Prelude
  imports Main "HOL-Library.Word" "HOL-Library.AList" "HOL-Library.Multiset"
begin

text \<open>
  The vocabulary every component shares: machine integers and byte strings, the outcome of a
  Rust computation (a value, an error, a panic or no return at all), the operations that run
  against a state and keep what they changed when they fail, the hash maps of the standard
  library, and the logic of invariants by which whole handlers are verified.
\<close>

section \<open>Fact collections\<close>

named_theorems act_simps \<open>what the combinators of effectful operations compute\<close>
named_theorems keeps_rules \<open>operations that keep an invariant\<close>

section \<open>Machine integers and byte strings\<close>

type_synonym u8 = "8 word"
type_synonym u32 = "32 word"
type_synonym bytes = "u8 list"

text \<open>
  A Rust \<open>String\<close> is its UTF-8 bytes; a character of the model is one such byte.
\<close>

definition byte_of_char :: "char \<Rightarrow> u8" where
  "byte_of_char c = word_of_nat (of_char c)"

definition char_of_byte :: "u8 \<Rightarrow> char" where
  "char_of_byte b = char_of (unat b)"

definition as_bytes :: "string \<Rightarrow> bytes" where
  "as_bytes s = map byte_of_char s"

lemma char_of_byte_of_char [simp]: "char_of_byte (byte_of_char c) = c"
  by (simp add: char_of_byte_def byte_of_char_def unat_of_nat)

lemma byte_of_char_of_byte [simp]: "byte_of_char (char_of_byte b) = b"
proof -
  have "unat b < 256"
    using unsigned_less [of b, where ?'a = nat] by simp
  then show ?thesis
    by (simp add: char_of_byte_def byte_of_char_def)
qed

lemma as_bytes_inj [simp]: "as_bytes s = as_bytes t \<longleftrightarrow> s = t"
  by (metis as_bytes_def char_of_byte_of_char inj_onI map_inj_on)

lemma as_bytes_append [simp]: "as_bytes (s @ t) = as_bytes s @ as_bytes t"
  by (simp add: as_bytes_def)

lemma length_as_bytes [simp]: "length (as_bytes s) = length s"
  by (simp add: as_bytes_def)

text \<open>\<open>u32::to_le_bytes\<close>: least significant byte first.\<close>

definition to_le_bytes :: "u32 \<Rightarrow> bytes" where
  "to_le_bytes w =
     [ucast w, ucast (drop_bit 8 w), ucast (drop_bit 16 w), ucast (drop_bit 24 w)]"

lemma length_to_le_bytes [simp]: "length (to_le_bytes w) = 4"
  by (simp add: to_le_bytes_def)

lemma to_le_bytes_inj [simp]: "to_le_bytes v = to_le_bytes w \<longleftrightarrow> v = w"
proof
  assume eq: "to_le_bytes v = to_le_bytes w"
  show "v = w"
  proof (rule bit_word_eqI)
    fix n assume "n < LENGTH(32)"
    moreover from eq have
      "\<And>i. bit (ucast v :: u8) i = bit (ucast w :: u8) i"
      "\<And>i. bit (ucast (drop_bit 8 v) :: u8) i = bit (ucast (drop_bit 8 w) :: u8) i"
      "\<And>i. bit (ucast (drop_bit 16 v) :: u8) i = bit (ucast (drop_bit 16 w) :: u8) i"
      "\<And>i. bit (ucast (drop_bit 24 v) :: u8) i = bit (ucast (drop_bit 24 w) :: u8) i"
      by (simp_all add: to_le_bytes_def)
    ultimately have low: "n < 32"
      "\<And>i. i < 8 \<Longrightarrow> bit v i = bit w i"
      "\<And>i. i < 8 \<Longrightarrow> bit v (8 + i) = bit w (8 + i)"
      "\<And>i. i < 8 \<Longrightarrow> bit v (16 + i) = bit w (16 + i)"
      "\<And>i. i < 8 \<Longrightarrow> bit v (24 + i) = bit w (24 + i)"
      by (auto simp: bit_simps)
    consider "n < 8" | "8 \<le> n" "n < 16" | "16 \<le> n" "n < 24" | "24 \<le> n" "n < 32"
      using low(1) by linarith
    then show "bit v n = bit w n"
      by cases (use low(2) [of n] low(3) [of "n - 8"] low(4) [of "n - 16"] low(5) [of "n - 24"]
        in auto)
  qed
qed simp

text \<open>\<open>String::from_utf8\<close> accepts exactly the well-formed UTF-8 sequences.\<close>

definition utf8_cont :: "u8 \<Rightarrow> bool" where
  "utf8_cont b \<longleftrightarrow> 128 \<le> b \<and> b \<le> 191"

fun utf8_valid :: "bytes \<Rightarrow> bool" where
  "utf8_valid [] = True"
| "utf8_valid (b # bs) =
     (if b < 128 then utf8_valid bs
      else if 194 \<le> b \<and> b \<le> 223 then
        (case bs of c # r \<Rightarrow> utf8_cont c \<and> utf8_valid r | _ \<Rightarrow> False)
      else if 224 \<le> b \<and> b \<le> 239 then
        (case bs of
           c # d # r \<Rightarrow>
             utf8_cont c \<and> (b = 224 \<longrightarrow> 160 \<le> c) \<and> (b = 237 \<longrightarrow> c \<le> 159) \<and>
             utf8_cont d \<and> utf8_valid r
         | _ \<Rightarrow> False)
      else if 240 \<le> b \<and> b \<le> 244 then
        (case bs of
           c # d # e # r \<Rightarrow>
             utf8_cont c \<and> (b = 240 \<longrightarrow> 144 \<le> c) \<and> (b = 244 \<longrightarrow> c \<le> 143) \<and>
             utf8_cont d \<and> utf8_cont e \<and> utf8_valid r
         | _ \<Rightarrow> False)
      else False)"

definition from_utf8 :: "bytes \<Rightarrow> string option" where
  "from_utf8 bs = (if utf8_valid bs then Some (map char_of_byte bs) else None)"

lemma from_utf8_as_bytes: "from_utf8 bs = Some s \<Longrightarrow> as_bytes s = bs"
  by (auto simp: from_utf8_def as_bytes_def o_def split: if_splits)

lemma from_utf8_ascii: "list_all (\<lambda>b. b < 128) bs \<Longrightarrow> from_utf8 bs = Some (map char_of_byte bs)"
proof -
  assume "list_all (\<lambda>b. b < 128) bs"
  then have "utf8_valid bs" by (induction bs) auto
  then show ?thesis by (simp add: from_utf8_def)
qed

text \<open>\<open>str::split\<close> on one character: never the empty list.\<close>

fun split_on :: "char \<Rightarrow> string \<Rightarrow> string list" where
  "split_on c [] = [[]]"
| "split_on c (x # xs) =
     (if x = c then [] # split_on c xs
      else (case split_on c xs of p # ps \<Rightarrow> (x # p) # ps | [] \<Rightarrow> [[x]]))"

fun join_with :: "char \<Rightarrow> string list \<Rightarrow> string" where
  "join_with c [] = []"
| "join_with c [p] = p"
| "join_with c (p # q # ps) = p @ c # join_with c (q # ps)"

lemma split_on_nonempty [simp]: "split_on c s \<noteq> []"
  by (induction s) (auto split: list.splits)

lemma join_split_on [simp]: "join_with c (split_on c s) = s"
proof (induction s)
  case (Cons x xs)
  then show ?case
    by (cases "split_on c xs"; cases "tl (split_on c xs)") auto
qed simp

lemma split_on_pieces: "p \<in> set (split_on c s) \<Longrightarrow> c \<notin> set p"
  by (induction s arbitrary: p) (auto split: list.splits if_splits)

lemma split_on_plain: "c \<notin> set p \<Longrightarrow> split_on c p = [p]"
  by (induction p) auto

lemma split_on_append: "c \<notin> set p \<Longrightarrow> split_on c (p @ c # s) = p # split_on c s"
  by (induction p) auto

lemma split_join_on:
  "ps \<noteq> [] \<Longrightarrow> \<forall>p \<in> set ps. c \<notin> set p \<Longrightarrow> split_on c (join_with c ps) = ps"
  by (induction ps rule: join_with.induct [of _ c]) (auto simp: split_on_plain split_on_append)

section \<open>Outcomes and effectful operations\<close>

text \<open>
  What a Rust function call comes to: \<open>Ok\<close>, \<open>Err\<close>, a panic (which no \<open>match\<close> on the
  result can see), or a loop that never returns.
\<close>

datatype ('e, 'a) outcome = Ok 'a | Err 'e | Panic | Diverge

fun of_result :: "'e + 'a \<Rightarrow> ('e, 'a) outcome" where
  "of_result (Inl e) = Err e"
| "of_result (Inr x) = Ok x"

fun ok_or :: "'e \<Rightarrow> 'a option \<Rightarrow> ('e, 'a) outcome" where
  "ok_or e None = Err e"
| "ok_or e (Some x) = Ok x"

lemma of_result_Ok_iff [simp]: "of_result r = Ok x \<longleftrightarrow> r = Inr x"
  by (cases r) auto

lemma of_result_no_panic [simp]: "of_result r \<noteq> Panic" "of_result r \<noteq> Diverge"
  by (cases r; simp)+

lemma ok_or_Ok_iff [simp]: "ok_or e v = Ok x \<longleftrightarrow> v = Some x"
  by (cases v) auto

lemma ok_or_no_panic [simp]: "ok_or e v \<noteq> Panic" "ok_or e v \<noteq> Diverge"
  by (cases v; simp)+

text \<open>
  An operation reads and extends a state. When it fails, the state keeps what was done before
  the failure: nothing in the program rolls back.
\<close>

type_synonym ('s, 'e, 'a) act = "'s \<Rightarrow> ('e, 'a) outcome \<times> 's"

definition liftA :: "('e, 'a) outcome \<Rightarrow> ('s, 'e, 'a) act" where
  "liftA r = (\<lambda>s. (r, s))"

definition returnA :: "'a \<Rightarrow> ('s, 'e, 'a) act" where
  "returnA x = liftA (Ok x)"

definition failA :: "'e \<Rightarrow> ('s, 'e, 'a) act" where
  "failA e = liftA (Err e)"

definition panicA :: "('s, 'e, 'a) act" where
  "panicA = liftA Panic"

text \<open>\<open>bindA m f\<close> is \<open>let x = m?; f x\<close>, \<open>seqA m k\<close> is \<open>m?; k\<close>.\<close>

definition bindA :: "('s, 'e, 'a) act \<Rightarrow> ('a \<Rightarrow> ('s, 'e, 'b) act) \<Rightarrow> ('s, 'e, 'b) act" where
  "bindA m f = (\<lambda>s. case m s of
       (Ok x, s') \<Rightarrow> f x s'
     | (Err e, s') \<Rightarrow> (Err e, s')
     | (Panic, s') \<Rightarrow> (Panic, s')
     | (Diverge, s') \<Rightarrow> (Diverge, s'))"

definition seqA :: "('s, 'e, 'a) act \<Rightarrow> ('s, 'e, 'b) act \<Rightarrow> ('s, 'e, 'b) act" where
  "seqA m k = bindA m (\<lambda>_. k)"

text \<open>\<open>matchA m f g\<close> is \<open>match m { Ok(x) => f x, Err(e) => g e }\<close>.\<close>

definition matchA ::
  "('s, 'e, 'a) act \<Rightarrow> ('a \<Rightarrow> ('s, 'e, 'b) act) \<Rightarrow> ('e \<Rightarrow> ('s, 'e, 'b) act) \<Rightarrow> ('s, 'e, 'b) act"
where
  "matchA m f g = (\<lambda>s. case m s of
       (Ok x, s') \<Rightarrow> f x s'
     | (Err e, s') \<Rightarrow> g e s'
     | (Panic, s') \<Rightarrow> (Panic, s')
     | (Diverge, s') \<Rightarrow> (Diverge, s'))"

text \<open>\<open>for x in xs { f(x)?; }\<close> and the loop that pushes each \<open>f(x)?\<close> on a vector.\<close>

fun for_each :: "('a \<Rightarrow> ('s, 'e, unit) act) \<Rightarrow> 'a list \<Rightarrow> ('s, 'e, unit) act" where
  "for_each f [] = returnA ()"
| "for_each f (x # xs) = seqA (f x) (for_each f xs)"

fun collect_each :: "('a \<Rightarrow> ('s, 'e, 'b) act) \<Rightarrow> 'a list \<Rightarrow> ('s, 'e, 'b list) act" where
  "collect_each f [] = returnA []"
| "collect_each f (x # xs) =
     bindA (f x) (\<lambda>y. bindA (collect_each f xs) (\<lambda>ys. returnA (y # ys)))"

lemma liftA_app [act_simps]: "liftA r s = (r, s)"
  by (simp add: liftA_def)

lemma returnA_app [act_simps]: "returnA x s = (Ok x, s)"
  by (simp add: returnA_def act_simps)

lemma failA_app [act_simps]: "failA e s = (Err e, s)"
  by (simp add: failA_def act_simps)

lemma panicA_app [act_simps]: "panicA s = (Panic, s)"
  by (simp add: panicA_def act_simps)

lemma bindA_app [act_simps]:
  "m s = (Ok x, s') \<Longrightarrow> bindA m f s = f x s'"
  "m s = (Err e, s') \<Longrightarrow> bindA m f s = (Err e, s')"
  "m s = (Panic, s') \<Longrightarrow> bindA m f s = (Panic, s')"
  "m s = (Diverge, s') \<Longrightarrow> bindA m f s = (Diverge, s')"
  by (simp_all add: bindA_def)

lemma seqA_app [act_simps]:
  "m s = (Ok x, s') \<Longrightarrow> seqA m k s = k s'"
  "m s = (Err e, s') \<Longrightarrow> seqA m k s = (Err e, s')"
  "m s = (Panic, s') \<Longrightarrow> seqA m k s = (Panic, s')"
  "m s = (Diverge, s') \<Longrightarrow> seqA m k s = (Diverge, s')"
  by (simp_all add: seqA_def act_simps)

lemma matchA_app [act_simps]:
  "m s = (Ok x, s') \<Longrightarrow> matchA m f g s = f x s'"
  "m s = (Err e, s') \<Longrightarrow> matchA m f g s = g e s'"
  "m s = (Panic, s') \<Longrightarrow> matchA m f g s = (Panic, s')"
  "m s = (Diverge, s') \<Longrightarrow> matchA m f g s = (Diverge, s')"
  by (simp_all add: matchA_def)

lemma bindA_liftA:
  "bindA (liftA (Ok x)) f s = f x s" "bindA (liftA (Err e)) f s = (Err e, s)"
  "bindA (liftA Panic) f s = (Panic, s)" "bindA (liftA Diverge) f s = (Diverge, s)"
  by (simp_all add: act_simps)

lemma bindA_returnA [simp]: "bindA (returnA x) f = f x"
  by (rule ext) (simp add: act_simps)

lemma bindA_assoc: "bindA (bindA m f) g = bindA m (\<lambda>x. bindA (f x) g)"
  by (rule ext) (auto simp: bindA_def split: prod.splits outcome.splits)

lemma bindA_Ok_iff:
  "bindA m f s = (Ok y, t) \<longleftrightarrow> (\<exists>x s'. m s = (Ok x, s') \<and> f x s' = (Ok y, t))"
  by (auto simp: bindA_def split: prod.splits outcome.splits)

lemma seqA_Ok_iff:
  "seqA m k s = (Ok y, t) \<longleftrightarrow> (\<exists>x s'. m s = (Ok x, s') \<and> k s' = (Ok y, t))"
  by (simp add: seqA_def bindA_Ok_iff)

lemma collect_each_length:
  "collect_each f xs s = (Ok ys, t) \<Longrightarrow> length ys = length xs"
  by (induction xs arbitrary: s ys t) (auto simp: act_simps bindA_Ok_iff)

section \<open>Operations that keep an invariant\<close>

text \<open>
  \<open>keeps I Q m\<close>: from a state that satisfies \<open>I\<close>, the operation \<open>m\<close> ends in one that
  satisfies \<open>I\<close>, however it ends, and a value it returns satisfies \<open>Q\<close>. The rules follow
  the shape of a program, so a handler is verified by applying them to its text.
\<close>

definition keeps :: "('s \<Rightarrow> bool) \<Rightarrow> ('a \<Rightarrow> bool) \<Rightarrow> ('s, 'e, 'a) act \<Rightarrow> bool" where
  "keeps I Q m \<longleftrightarrow> (\<forall>s. I s \<longrightarrow> I (snd (m s)) \<and> (\<forall>x. fst (m s) = Ok x \<longrightarrow> Q x))"

abbreviation keeps_inv :: "('s \<Rightarrow> bool) \<Rightarrow> ('s, 'e, 'a) act \<Rightarrow> bool" where
  "keeps_inv I m \<equiv> keeps I (\<lambda>_. True) m"

lemma keepsD: "keeps I Q m \<Longrightarrow> I s \<Longrightarrow> m s = (r, s') \<Longrightarrow> I s'"
  by (auto simp: keeps_def dest!: spec [of _ s])

lemma keeps_valueD: "keeps I Q m \<Longrightarrow> I s \<Longrightarrow> m s = (Ok x, s') \<Longrightarrow> Q x"
  by (auto simp: keeps_def dest!: spec [of _ s])

lemma keeps_weaken: "keeps I Q m \<Longrightarrow> (\<And>x. Q x \<Longrightarrow> R x) \<Longrightarrow> keeps I R m"
  by (auto simp: keeps_def)

lemma keeps_any: "keeps I Q m \<Longrightarrow> keeps_inv I m"
  by (erule keeps_weaken) simp

lemma keeps_liftA: "(\<And>x. r = Ok x \<Longrightarrow> Q x) \<Longrightarrow> keeps I Q (liftA r)"
  by (auto simp: keeps_def act_simps)

lemma keeps_returnA: "Q x \<Longrightarrow> keeps I Q (returnA x)"
  by (auto simp: keeps_def act_simps)

lemma keeps_failA: "keeps I Q (failA e)"
  by (auto simp: keeps_def act_simps)

lemma keeps_panicA: "keeps I Q panicA"
  by (auto simp: keeps_def act_simps)

lemma keeps_bindA:
  assumes "keeps I Q m" "\<And>x. Q x \<Longrightarrow> keeps I R (f x)"
  shows "keeps I R (bindA m f)"
  unfolding keeps_def
proof (intro allI impI)
  fix s assume "I s"
  show "I (snd (bindA m f s)) \<and> (\<forall>x. fst (bindA m f s) = Ok x \<longrightarrow> R x)"
  proof (cases "m s")
    case (Pair r s')
    with assms(1) \<open>I s\<close> have "I s'" "\<And>x. r = Ok x \<Longrightarrow> Q x"
      by (auto simp: keeps_def dest!: spec [of _ s])
    then show ?thesis
      using Pair assms(2) by (cases r) (auto simp: act_simps keeps_def)
  qed
qed

lemma keeps_seqA: "keeps I Q m \<Longrightarrow> keeps I R k \<Longrightarrow> keeps I R (seqA m k)"
  unfolding seqA_def by (erule keeps_bindA)

lemma keeps_matchA:
  assumes "keeps I Q m" "\<And>x. Q x \<Longrightarrow> keeps I R (f x)" "\<And>e. keeps I R (g e)"
  shows "keeps I R (matchA m f g)"
  unfolding keeps_def
proof (intro allI impI)
  fix s assume "I s"
  show "I (snd (matchA m f g s)) \<and> (\<forall>x. fst (matchA m f g s) = Ok x \<longrightarrow> R x)"
  proof (cases "m s")
    case (Pair r s')
    with assms(1) \<open>I s\<close> have "I s'" "\<And>x. r = Ok x \<Longrightarrow> Q x"
      by (auto simp: keeps_def dest!: spec [of _ s])
    then show ?thesis
      using Pair assms(2,3) by (cases r) (auto simp: act_simps keeps_def)
  qed
qed

lemma keeps_for_each:
  assumes "\<And>x. x \<in> set xs \<Longrightarrow> keeps_inv I (f x)"
  shows "keeps_inv I (for_each f xs)"
  using assms by (induction xs) (auto intro: keeps_returnA keeps_seqA)

lemma keeps_collect_each:
  assumes "\<And>x. x \<in> set xs \<Longrightarrow> keeps_inv I (f x)"
  shows "keeps_inv I (collect_each f xs)"
  using assms by (induction xs) (auto intro!: keeps_returnA keeps_bindA [where Q = "\<lambda>_. True"])

lemma keeps_if: "(b \<Longrightarrow> keeps I Q m) \<Longrightarrow> (\<not> b \<Longrightarrow> keeps I Q k) \<Longrightarrow> keeps I Q (if b then m else k)"
  by simp

lemma keeps_option:
  "(v = None \<Longrightarrow> keeps I Q m) \<Longrightarrow> (\<And>x. v = Some x \<Longrightarrow> keeps I Q (f x)) \<Longrightarrow>
   keeps I Q (case v of None \<Rightarrow> m | Some x \<Rightarrow> f x)"
  by (cases v) auto

section \<open>Hash maps\<close>

text \<open>
  A \<open>HashMap<String, V>\<close> holds each key once; its iteration order is unspecified. The model
  keeps the entries in an association list and takes the iteration order as an argument: any
  function \<open>ord\<close> on the key list, used where it is a permutation.
\<close>

type_synonym 'v hmap = "(string \<times> 'v) list"

definition hm_get :: "'v hmap \<Rightarrow> string \<Rightarrow> 'v option" where
  "hm_get m k = map_of m k"

definition hm_insert :: "string \<Rightarrow> 'v \<Rightarrow> 'v hmap \<Rightarrow> 'v hmap" where
  "hm_insert k v m = AList.update k v m"

definition hm_wf :: "'v hmap \<Rightarrow> bool" where
  "hm_wf m \<longleftrightarrow> distinct (map fst m)"

definition hm_order :: "(string list \<Rightarrow> string list) \<Rightarrow> 'v hmap \<Rightarrow> string list" where
  "hm_order ord m =
     (let ks = map fst m in if mset (ord ks) = mset ks then ord ks else ks)"

definition hm_entries :: "(string list \<Rightarrow> string list) \<Rightarrow> 'v hmap \<Rightarrow> (string \<times> 'v) list" where
  "hm_entries ord m =
     List.map_filter (\<lambda>k. map_option (Pair k) (map_of m k)) (hm_order ord m)"

lemma hm_get_Nil [simp]: "hm_get [] k = None"
  by (simp add: hm_get_def)

lemma hm_get_insert [simp]: "hm_get (hm_insert k v m) k' = (if k' = k then Some v else hm_get m k')"
  by (simp add: hm_get_def hm_insert_def update_conv')

lemma hm_wf_Nil [simp]: "hm_wf []"
  by (simp add: hm_wf_def)

lemma hm_wf_insert [simp]: "hm_wf m \<Longrightarrow> hm_wf (hm_insert k v m)"
  by (simp add: hm_wf_def hm_insert_def distinct_update)

lemma mset_hm_order [simp]: "mset (hm_order ord m) = mset (map fst m)"
  by (auto simp: hm_order_def Let_def)

lemma set_hm_order [simp]: "set (hm_order ord m) = fst ` set m"
  using mset_hm_order [of ord m] by (metis list.set_map set_mset_mset)

lemma set_map_filter_iff: "y \<in> set (List.map_filter f xs) \<longleftrightarrow> (\<exists>x \<in> set xs. f x = Some y)"
  by (induction xs) (auto split: option.splits)

lemma set_hm_entries: "hm_wf m \<Longrightarrow> set (hm_entries ord m) = set m"
  by (force simp: hm_entries_def hm_wf_def set_map_filter_iff dest: map_of_SomeD)

lemma distinct_hm_entries:
  assumes "hm_wf m"
  shows "distinct (map fst (hm_entries ord m))"
proof -
  have "distinct (hm_order ord m)"
    using assms mset_hm_order [of ord m] by (metis hm_wf_def mset_eq_imp_distinct_iff)
  moreover have "map fst (List.map_filter (\<lambda>k. map_option (Pair k) (map_of m k)) ks)
      = filter (\<lambda>k. map_of m k \<noteq> None) ks" for ks
    by (induction ks) (auto simp: List.map_filter_simps split: option.splits)
  ultimately show ?thesis
    by (simp add: hm_entries_def)
qed

lemma mset_hm_entries:
  assumes "hm_wf m"
  shows "mset (hm_entries ord m) = mset m"
proof -
  have "distinct (hm_entries ord m)" "distinct m"
    using distinct_hm_entries [OF assms, of ord] assms
    by (auto simp: hm_wf_def distinct_map)
  then show ?thesis
    by (simp add: set_eq_iff_mset_eq_distinct [symmetric] set_hm_entries [OF assms])
qed

lemma hm_get_entries:
  assumes "hm_wf m"
  shows "map_of (hm_entries ord m) k = hm_get m k"
  unfolding hm_get_def
  by (rule map_of_eqI [THEN fun_cong])
    (use assms in \<open>auto simp: distinct_hm_entries set_hm_entries hm_wf_def
      dest: map_of_SomeD\<close>)

text \<open>A map whose values are filled in, each once.\<close>

lemma map_filter_snd_found: "List.map_filter snd m = map (the \<circ> snd) (filter (\<lambda>(_, v). v \<noteq> None) m)"
  by (induction m) (auto simp: List.map_filter_simps)

lemma mset_filled:
  assumes "hm_wf m" "\<And>p. hm_get m p = (if p \<in> P then Some (map_of as p) else None)"
    and "distinct (map fst as)" "fst ` set as \<subseteq> P"
  shows "mset (List.map_filter snd m) = mset (map snd as)"
proof -
  let ?m = "filter (\<lambda>(_, v). v \<noteq> None) m" and ?as = "map (\<lambda>(p, d). (p, Some d)) as"
  have in_m: "(p, v) \<in> set m \<longleftrightarrow> p \<in> P \<and> v = map_of as p" for p v
  proof -
    have "(p, v) \<in> set m \<longleftrightarrow> hm_get m p = Some v"
      using assms(1) by (simp add: hm_get_def hm_wf_def)
    then show ?thesis by (auto simp: assms(2))
  qed
  have in_as: "(p, d) \<in> set as \<longleftrightarrow> map_of as p = Some d" for p d
    using assms(3) by simp
  have "set ?m = set ?as"
  proof (intro set_eqI iffI; clarify)
    fix p v assume "(p, v) \<in> set ?m"
    then have "p \<in> P" "v = map_of as p" "v \<noteq> None" by (auto simp: in_m)
    then show "(p, v) \<in> set ?as" by (force simp: in_as)
  next
    fix p v assume "(p, v) \<in> set ?as"
    then obtain d where "(p, d) \<in> set as" "v = Some d" by auto
    moreover from this have "p \<in> P" using assms(4) by force
    ultimately show "(p, v) \<in> set ?m" by (simp add: in_m in_as)
  qed
  moreover have "distinct ?m"
    using assms(1) by (auto simp: hm_wf_def distinct_map)
  moreover have "map fst ?as = map fst as"
    by auto
  then have "distinct ?as"
    using assms(3) by (metis distinct_map)
  ultimately have "mset ?m = mset ?as"
    by (simp only: set_eq_iff_mset_eq_distinct)
  then have "mset (map (the \<circ> snd) ?m) = mset (map (the \<circ> snd) ?as)"
    by (simp only: mset_map)
  also have "map (the \<circ> snd) ?as = map snd as"
    by auto
  finally show ?thesis
    by (simp only: map_filter_snd_found)
qed

lemma length_filled:
  assumes "hm_wf m" "\<And>p. hm_get m p = (if p \<in> P then Some (map_of as p) else None)"
    and "distinct (map fst as)" "fst ` set as \<subseteq> P"
  shows "length (filter (\<lambda>(_, v). v \<noteq> None) m) = length as"
  by (metis mset_filled [OF assms] map_filter_snd_found size_mset length_map)

end
