(* ===== verification/Gluon_Data.thy ===== *)
theory Gluon_Data
  imports Gluon_Prelude
begin

text \<open>
  The data of the actor: the task descriptions, the four store items with their states, and the
  protobuf messages the handlers build and take apart. A message carries the fields the source
  reads or writes; the two \<open>cap_desc\<close> fields, which the source always sets to \<open>None\<close> and
  never reads, and the empty \<open>TaskPaymentDescription\<close> are left out.
\<close>

section \<open>Task descriptions\<close>

record execution_info =
  ei_n :: u8
  ei_k :: u8
  ei_task_type :: string

definition execution_info_default :: execution_info where
  "execution_info_default = \<lparr>ei_n = 0, ei_k = 0, ei_task_type = ''''\<rparr>"

record task_info =
  ti_task_id :: string
  ti_exec_info :: execution_info

record executor_info =
  xi_peer_id :: string
  xi_rsa_pub_key :: bytes

record initial_pinner_info =
  pi_peer_id :: string
  pi_rsa_pub_key :: bytes

definition initial_pinner_info_from :: "executor_info \<Rightarrow> initial_pinner_info" where
  "initial_pinner_info_from exe =
     \<lparr>pi_peer_id = xi_peer_id exe, pi_rsa_pub_key = xi_rsa_pub_key exe\<rparr>"

section \<open>Store items\<close>

datatype kg_state =
    KgInit | InvitedCandidates | RaBegun | RaCompleted | KgSentToExecutor
  | ReceivedExecutionResult | SentToInitialPinner | ReceivedAllPinnerResponse

record kg_item =
  kg_task_info :: task_info
  kg_status :: kg_state
  kg_nonce :: bytes
  kg_executor :: "executor_info option"
  kg_initial_pinners :: "initial_pinner_info list"
  kg_p1_public_key :: bytes
  kg_p2_public_key :: "bytes option"
  kg_multi_sig_account :: "bytes option"
  kg_initial_pinner_responses :: "string option hmap"
  kg_candidate_executors :: "executor_info list"
  kg_candidate_initial_pinners :: "initial_pinner_info list"

datatype sg_state = SgInit | Initialized | FindingDeployments | SgSentToExecutor | CommitResult

record key_slice_info =
  ks_peer_id :: string
  ks_encrypted_key_slice :: bytes

record sg_item =
  sg_task_info :: task_info
  sg_status :: sg_state
  sg_executor :: "executor_info option"
  sg_multi_sig_account :: bytes
  sg_p1_signature :: bytes
  sg_transaction_data :: bytes
  sg_nonce :: bytes
  sg_key_slices :: "key_slice_info option hmap"
  sg_deployment_candidates :: "string list hmap"

datatype ex_state = ExInit | ExRequested | ExResponded | Executed

record ex_item =
  ex_task_info :: task_info
  ex_status :: ex_state

datatype ip_state = IpInit | IpRequested | IpResponded | Deployed

record ip_item =
  ip_task_info :: task_info
  ip_status :: ip_state

text \<open>
  The key generation states in the order the protocol visits them.
\<close>

fun kg_rank :: "kg_state \<Rightarrow> nat" where
  "kg_rank KgInit = 0"
| "kg_rank InvitedCandidates = 1"
| "kg_rank RaBegun = 2"
| "kg_rank RaCompleted = 3"
| "kg_rank KgSentToExecutor = 4"
| "kg_rank ReceivedExecutionResult = 5"
| "kg_rank SentToInitialPinner = 6"
| "kg_rank ReceivedAllPinnerResponse = 7"

lemma kg_rank_inj [simp]: "kg_rank a = kg_rank b \<longleftrightarrow> a = b"
  by (cases a; cases b) auto

instantiation kg_state :: linorder
begin

definition less_eq_kg_state :: "kg_state \<Rightarrow> kg_state \<Rightarrow> bool" where
  "less_eq_kg_state a b \<longleftrightarrow> kg_rank a \<le> kg_rank b"

definition less_kg_state :: "kg_state \<Rightarrow> kg_state \<Rightarrow> bool" where
  "less_kg_state a b \<longleftrightarrow> kg_rank a < kg_rank b"

instance
  by standard (auto simp: less_eq_kg_state_def less_kg_state_def)

end

fun sg_rank :: "sg_state \<Rightarrow> nat" where
  "sg_rank SgInit = 0"
| "sg_rank Initialized = 1"
| "sg_rank FindingDeployments = 2"
| "sg_rank SgSentToExecutor = 3"
| "sg_rank CommitResult = 4"

lemma sg_rank_inj [simp]: "sg_rank a = sg_rank b \<longleftrightarrow> a = b"
  by (cases a; cases b) auto

instantiation sg_state :: linorder
begin

definition less_eq_sg_state :: "sg_state \<Rightarrow> sg_state \<Rightarrow> bool" where
  "less_eq_sg_state a b \<longleftrightarrow> sg_rank a \<le> sg_rank b"

definition less_sg_state :: "sg_state \<Rightarrow> sg_state \<Rightarrow> bool" where
  "less_sg_state a b \<longleftrightarrow> sg_rank a < sg_rank b"

instance
  by standard (auto simp: less_eq_sg_state_def less_sg_state_def)

end

section \<open>Messages between peers (\<open>p2p_proto\<close>)\<close>

record key_generation_candidate_request =
  kgc_task_id :: string
  kgc_n :: u32
  kgc_k :: u32
  kgc_key_type :: string
  kgc_delegator_ephemeral_id :: bytes
  kgc_executor :: bool
  kgc_signature :: bytes

record task_key_generation_apply_request =
  kga_task_id :: string
  kga_rsa_pub_key :: bytes
  kga_apply_executor :: bool

record task_execution_initial_pinner_data =
  tep_peer_id :: string
  tep_rsa_pub_key :: bytes

record task_execution_request =
  ter_task_id :: string
  ter_initial_pinners :: "task_execution_initial_pinner_data list"
  ter_minimum_recovery_number :: u32
  ter_key_type :: string
  ter_p1_public_key :: bytes

record task_result_initial_pinner_data =
  trp_peer_id :: string
  trp_encrypted_key_slice :: bytes

record task_execution_response =
  tes_task_id :: string
  tes_initial_pinners :: "task_result_initial_pinner_data list"
  tes_p2_public_key :: bytes
  tes_multi_sig_account :: bytes

record task_pinner_key_slice_request =
  pkr_task_id :: string
  pkr_public_key :: bytes
  pkr_encrypted_key_slice :: bytes
  pkr_multi_sig_account :: bytes

record task_pinner_key_slice_response =
  pks_task_id :: string
  pks_deployment_id :: string

record sign_candidate_request =
  scr_task_id :: string
  scr_multi_sig_account :: bytes
  scr_n :: u32
  scr_k :: u32
  scr_task_type :: string

record task_sign_with_key_slices_request =
  swr_task_id :: string
  swr_rsa_pub_key :: bytes

record task_sign_with_key_slices_response =
  sws_task_id :: string
  sws_adhoc_data :: bytes
  sws_p1_signature :: bytes
  sws_key_type :: string
  sws_encrypted_key_slices :: "bytes list"

record task_sign_get_pinner_key_slice_request =
  sgr_task_id :: string
  sgr_rsa_pub_key :: bytes
  sgr_deployment_id :: string

record task_sign_get_pinner_key_slice_response =
  sgs_task_id :: string
  sgs_encrypted_key_slice :: bytes
  sgs_deployment_id :: string

record task_commit_sign_result_request =
  csr_task_id :: string
  csr_witness :: bytes

text \<open>
  \<open>GeneralMsg.msg\<close>: the twelve kinds the actor handles; \<open>UnknownMsg\<close> is a message of any
  other kind, or of none.
\<close>

datatype general_msg =
    TaskKeyGenerationApplyRequst task_key_generation_apply_request
  | TaskExecutionRequest task_execution_request
  | TaskExecutionResponse task_execution_response
  | TaskPinnerKeySliceRequest task_pinner_key_slice_request
  | TaskPinnerKeySliceResponse task_pinner_key_slice_response
  | TaskSignWithKeySlicesRequst task_sign_with_key_slices_request
  | TaskSignWithKeySlicesResponse task_sign_with_key_slices_response
  | TaskSignGetPinnerKeySliceRequest task_sign_get_pinner_key_slice_request
  | TaskSignGetPinnerKeySliceResponse task_sign_get_pinner_key_slice_response
  | TaskCommitSignResultRequest task_commit_sign_result_request
  | KeyGenerationCandidateRequest key_generation_candidate_request
  | SignCandidateRequest sign_candidate_request
  | UnknownMsg

section \<open>Messages of layer 1 (\<open>actor_delegate_proto\<close>)\<close>

record key_generation_response =
  kgr_task_id :: bytes
  kgr_n :: u32
  kgr_k :: u32
  kgr_key_type :: string
  kgr_delegator_tea_nonce_hash :: bytes
  kgr_delegator_tea_nonce_rsa_encryption :: bytes
  kgr_p1_public_key :: bytes

record sign_transaction_response =
  str_task_id :: bytes
  str_transaction_data :: bytes
  str_delegator_tea_nonce_hash :: bytes
  str_delegator_tea_nonce_rsa_encryption :: bytes
  str_p1_signature :: bytes
  str_multi_sig_account :: bytes

record update_key_generation_result =
  ukr_task_id :: bytes
  ukr_delegator_nonce :: bytes
  ukr_multi_sig_account :: bytes
  ukr_public_key :: bytes
  ukr_deployment_ids :: "string list"

record delegate =
  dl_tea_id :: bytes
  dl_peer_id :: string

record asset_generated_response =
  agr_task_id :: bytes
  agr_multi_sig_account :: bytes
  agr_p2_deployment_ids :: "string list"

section \<open>Messages of the pinner actor (\<open>actor_pinner_proto\<close>)\<close>

record property_key_pair =
  pp_key :: string
  pp_value :: string

definition property_key_pair_default :: property_key_pair where
  "property_key_pair_default = \<lparr>pp_key = '''', pp_value = ''''\<rparr>"

record challange_store_item =
  cs_uuid :: string
  cs_properties :: "property_key_pair list"

record client_operation_after_verify =
  coa_item :: "challange_store_item option"
  coa_peer_id :: string
  coa_pinner_ephemeral_id :: bytes

text \<open>The messages the actor encodes itself (\<open>encode_protobuf\<close>).\<close>

datatype pb =
    PbPeerApproveRaRequest string string "property_key_pair list"
      \<comment> \<open>\<open>send_to_actor\<close>, \<open>peer_id\<close>, \<open>properties\<close>\<close>
  | PbGetDelegatesRequest u32 u32
      \<comment> \<open>\<open>start\<close>, \<open>limit\<close>\<close>
  | PbCommitDataUploadRequest string string string string
      \<comment> \<open>\<open>deployment_id\<close>, \<open>cid_code\<close>, \<open>cid_description\<close>, \<open>cid_capchecker\<close>\<close>
  | PbUpdateConflictListRequest bytes "string list" "string list" u32
      \<comment> \<open>\<open>key\<close>, \<open>deployment_ids\<close>, \<open>current_items\<close>, \<open>max_allowed\<close>\<close>
  | PbDataUploadCompletedProcessRequest "string option" "string option" "string option"
      "string option"
      \<comment> \<open>\<open>cid_code\<close>, \<open>cid_description\<close>, \<open>cid_capchecker\<close>, \<open>key_url_encoded\<close>\<close>
  | PbUpdateKeyGenerationResult update_key_generation_result
  | PbGetDeploymentIds bytes
      \<comment> \<open>\<open>multi_sig_account\<close>\<close>
  | PbFindPinnersRequest string string "property_key_pair list" u32 bytes
      \<comment> \<open>\<open>send_to_actor\<close>, \<open>deployment_id\<close>, \<open>properties\<close>, \<open>delay_seconds\<close>, \<open>finding_mode\<close>\<close>
  | PbServerCheckStrategyResult bool string
      \<comment> \<open>\<open>verify\<close>, \<open>message\<close>\<close>
  | PbSignTransactionResponse sign_transaction_response
  | PbKeyGenerationResponse key_generation_response

text \<open>A message of the broker.\<close>

record broker_message =
  bm_subject :: string
  bm_reply_to :: string
  bm_body :: bytes

end
