(* ===== verification/Gluon_Host.thy ===== *)
theory Gluon_Host
  imports Gluon_Data
begin

text \<open>
  The boundary of the actor. Everything the program calls outside its own source (the key/value
  provider, the peer-to-peer and broker messages, the cryptography, base64 and the protobuf
  codec) is a field of the \<open>host\<close>, a parameter of every definition that uses it. A call is an
  \<open>event\<close> appended to the trace (newest first), and the host answers from the trace so far, so
  any behaviour of the environment is some host. Calls that take a callback record it, as data,
  in their event; the inbox later runs it.
\<close>

section \<open>Errors\<close>

text \<open>One constructor for each place of the source that makes an error; \<open>Ext\<close> is an error of
  the environment.\<close>

datatype error =
    Ext string
  | Utf8Error
  | InvalidN
  | InvalidK
  | TaskNotFound string
  | InvalidCandidateSignature
  | DelegatorPeerMismatch string string
  | NoRsaPrivateKey string
  | FailedToGetKey1 string
  | NoDataCidOnCommit
  | NoDeploymentIdOnCommit
  | ExpectChallangeStoreItem
  | NonceHashMismatch
  | NotElectedProperly string
  | NoCandidateExecutor
  | MultiSigAccountEmpty
  | PublicKeyEmpty
  | NoTaskIdProperty string
  | NoRsaPubKeyProperty string
  | NoDeploymentIdProperty string
  | DeploymentNotExists string
  | NoExecutor string
  | NoDelegatorKey

section \<open>Callbacks\<close>

text \<open>
  A closure handed to an asynchronous call, with the variables it captures. They are grouped by
  what the closure is applied to: a broker message, a node profile, the readiness of the node,
  or the deployment information.
\<close>

datatype delegator_cont =
    ContKeyGenEvent key_generation_response
  | ContSignEvent sign_transaction_response

datatype verify_cont =
    ContExecutorCandidate string key_generation_candidate_request
  | ContPinnerCandidate string key_generation_candidate_request

datatype candidate_op =
    OpInviteExecutor
  | OpSignCandidate sg_item

datatype invited_cont =
    ContInvitePinners
  | ContFindPinners "string list" "string hmap"

datatype deploy_cont =
    ContDeployed bytes ip_item string task_pinner_key_slice_request string

datatype dump_op =
    DumpSign string bytes
  | DumpKeyGen string

datatype msg_callback =
    CbLogOnly
  | CbGetDelegatorKey bytes bytes delegator_cont
  | CbGetDelegates task_info candidate_op invited_cont
  | CbRegisterUploadRsaKey string task_pinner_key_slice_request deploy_cont
  | CbProcessDataUpload deploy_cont
  | CbUpdateKeyGenResult string
  | CbGetDeploymentIds sign_transaction_response bytes
  | CbGetDelegatorPubKey string dump_op

datatype profile_callback =
    CbVerifyCandidate string verify_cont
  | CbInviteCandidate task_info candidate_op

datatype ready_callback =
    CbKeyGenerationRequest bytes
  | CbSignWithKeySlices bytes

datatype deployment_callback =
    CbPinnerKeySlice task_sign_get_pinner_key_slice_request string string

text \<open>What the inbox runs: a callback with its argument.\<close>

datatype invocation =
    InvokeMsg msg_callback broker_message
  | InvokeProfile profile_callback string
      \<comment> \<open>the \<open>peer_id\<close> of the profile\<close>
  | InvokeReady ready_callback bool
  | InvokeDeployment deployment_callback "string option" "bytes option"
      \<comment> \<open>\<open>data_cid\<close> and \<open>key1\<close>\<close>

section \<open>Events\<close>

datatype kv_val =
    VKeyGen kg_item
  | VSign sg_item
  | VExec ex_item
  | VPinner ip_item
  | VString string
  | VStrings "string list"

datatype event =
    EDeliver broker_message
      \<comment> \<open>the broker hands a message to the actor\<close>
  | ELock string
  | EUnlock string
  | EGet string
  | ESet string kv_val "nat option"
      \<comment> \<open>\<open>set\<close> with its time to live, \<open>set_forever\<close> with \<open>None\<close>\<close>
  | ESetFailed string
  | EPrim string
      \<comment> \<open>a computation done by the environment\<close>
  | ESend string string general_msg
      \<comment> \<open>\<open>send_message(peer_id, task_id, msg)\<close>\<close>
  | EReply string bytes
      \<comment> \<open>\<open>response_reply_with_subject("", reply_to, body)\<close>\<close>
  | EReplyTo string bytes
  | ERejectP2p string string string string
      \<comment> \<open>\<open>response_ipfs_p2p(reply_to, peer_id, task_id, text, Rejected)\<close>\<close>
  | ELogReject string string string string
      \<comment> \<open>\<open>log_and_response(reply_to, peer_id, task_id, text, Rejected)\<close>\<close>
  | ELogError string string string string
      \<comment> \<open>\<open>log_and_response_with_error(reply_to, peer_id, task_id, text)\<close>\<close>
  | EClose string
  | EIntercom string string broker_message msg_callback
      \<comment> \<open>\<open>call_async_intercom(to, from, message, callback)\<close>\<close>
  | ECall string string bytes msg_callback
      \<comment> \<open>\<open>action::call(subject, inbox, body, callback)\<close>\<close>
  | ELookupProfile bytes string profile_callback
  | ELookupProfileByTeaId bytes string profile_callback
  | EIsNodeReady string ready_callback
  | EGetDeploymentInfo string string deployment_callback

type_synonym trace = "event list"
type_synonym 'a io = "(trace, error, 'a) act"

section \<open>The host\<close>

record host =
  \<comment> \<open>build configuration\<close>
  h_overflow_checks :: bool
  h_dev :: bool
  \<comment> \<open>standard library and pure third-party functions\<close>
  h_key_order :: "string list \<Rightarrow> string list"
  h_display_error :: "error \<Rightarrow> string"
  h_base64_encode :: "bytes \<Rightarrow> string"
  h_base64_decode :: "bytes \<Rightarrow> error + bytes"
  h_encode_protobuf :: "pb \<Rightarrow> error + bytes"
  h_serialize_as_much_as_possible :: "error + bytes"
  h_deserialize_key :: "bytes \<Rightarrow> error + bytes option"
  h_rsa_key_to_bytes :: "string \<Rightarrow> error + bytes"
  h_decode_key_generation_response :: "bytes \<Rightarrow> error + key_generation_response"
  h_decode_sign_transaction_response :: "bytes \<Rightarrow> error + sign_transaction_response"
  h_decode_asset_generated_response :: "bytes \<Rightarrow> error + asset_generated_response"
  h_decode_get_delegates_response :: "bytes \<Rightarrow> error + delegate list"
  h_decode_get_deployment_ids_response :: "bytes \<Rightarrow> error + string list"
  h_decode_server_check_strategy :: "bytes \<Rightarrow> error + challange_store_item option"
  h_decode_client_operation :: "bytes \<Rightarrow> error + client_operation_after_verify"
  \<comment> \<open>the key/value provider\<close>
  h_kv_get_keygen :: "trace \<Rightarrow> string \<Rightarrow> error + kg_item option"
  h_kv_get_sign :: "trace \<Rightarrow> string \<Rightarrow> error + sg_item option"
  h_kv_get_exec :: "trace \<Rightarrow> string \<Rightarrow> error + ex_item option"
  h_kv_get_pinner :: "trace \<Rightarrow> string \<Rightarrow> error + ip_item option"
  h_kv_get_string :: "trace \<Rightarrow> string \<Rightarrow> error + string option"
  h_kv_get_strings :: "trace \<Rightarrow> string \<Rightarrow> error + string list option"
  h_kv_set :: "trace \<Rightarrow> string \<Rightarrow> kv_val \<Rightarrow> nat option \<Rightarrow> error + unit"
  \<comment> \<open>cryptography, storage and randomness\<close>
  h_get_my_ephemeral_id :: "trace \<Rightarrow> error + bytes"
  h_sign_ed25519 :: "trace \<Rightarrow> bytes \<Rightarrow> error + bytes"
  h_verify_ed25519 :: "trace \<Rightarrow> bytes \<Rightarrow> bytes \<Rightarrow> bytes \<Rightarrow> error + bool"
  h_generate_rsa_keypair :: "trace \<Rightarrow> error + string \<times> string"
  h_rsa_encrypt :: "trace \<Rightarrow> bytes \<Rightarrow> bytes \<Rightarrow> error + bytes"
  h_rsa_decrypt :: "trace \<Rightarrow> bytes \<Rightarrow> bytes \<Rightarrow> error + bytes"
  h_sha256 :: "trace \<Rightarrow> bytes \<Rightarrow> error + bytes"
  h_generate :: "trace \<Rightarrow> string \<Rightarrow> error + bytes \<times> bytes"
  h_sign :: "trace \<Rightarrow> string \<Rightarrow> bytes \<Rightarrow> bytes \<Rightarrow> error + bytes"
  h_shamir_share :: "trace \<Rightarrow> u8 \<Rightarrow> u8 \<Rightarrow> bytes \<Rightarrow> error + bytes list"
  h_shamir_recovery :: "trace \<Rightarrow> u8 \<Rightarrow> bytes list \<Rightarrow> error + bytes"
  h_generate_multi_sig_asset :: "trace \<Rightarrow> u8 \<Rightarrow> bytes list \<Rightarrow> string \<Rightarrow> error + string"
  h_combine_to_witness :: "trace \<Rightarrow> u8 \<Rightarrow> bytes list \<Rightarrow> bytes list \<Rightarrow> string \<Rightarrow> error + bytes"
  h_generate_aes_key :: "trace \<Rightarrow> error + bytes"
  h_aes_encrypt :: "trace \<Rightarrow> bytes \<Rightarrow> bytes \<Rightarrow> error + bytes"
  h_aes_decrypt :: "trace \<Rightarrow> bytes \<Rightarrow> bytes \<Rightarrow> error + bytes"
  h_ipfs_block_put :: "trace \<Rightarrow> bytes \<Rightarrow> bool \<Rightarrow> error + string"
  h_ipfs_block_get :: "trace \<Rightarrow> string \<Rightarrow> error + bytes"
  h_ipfs_swarm_peers :: "trace \<Rightarrow> error + string list"
  h_get_guid :: "trace \<Rightarrow> error + string"
  h_get_random :: "trace \<Rightarrow> error + u32"
  h_get_uuid :: "trace \<Rightarrow> string"
  \<comment> \<open>messages: whether the call itself fails\<close>
  h_call :: "trace \<Rightarrow> event \<Rightarrow> error + unit"
  \<comment> \<open>what arrives: the decoded peer message, and the callback the inbox holds for a message\<close>
  h_listen_message ::
    "trace \<Rightarrow> string \<Rightarrow> broker_message \<Rightarrow> error + (general_msg \<times> string \<times> string)"
  h_result_handler :: "trace \<Rightarrow> broker_message \<Rightarrow> string \<Rightarrow> error + invocation option"

section \<open>Primitive operations\<close>

definition prim :: "(trace \<Rightarrow> error + 'a) \<Rightarrow> event \<Rightarrow> 'a io" where
  "prim f e = (\<lambda>t. (of_result (f t), e # t))"

text \<open>A call whose only answer is whether it failed.\<close>

definition call :: "host \<Rightarrow> event \<Rightarrow> unit io" where
  "call H e = prim (\<lambda>t. h_call H t e) e"

definition pure :: "error + 'a \<Rightarrow> 'a io" where
  "pure r = liftA (of_result r)"

definition require :: "error \<Rightarrow> 'a option \<Rightarrow> 'a io" where
  "require e v = liftA (ok_or e v)"

text \<open>The lock is released when its guard goes out of scope, also on an early return.\<close>

definition with_lock :: "string \<Rightarrow> 'a io \<Rightarrow> 'a io" where
  "with_lock key m = (\<lambda>t. case m (ELock key # t) of (r, t') \<Rightarrow> (r, EUnlock key # t'))"

definition kv_set :: "host \<Rightarrow> string \<Rightarrow> kv_val \<Rightarrow> nat option \<Rightarrow> unit io" where
  "kv_set H k v ttl = (\<lambda>t. case h_kv_set H t k v ttl of
       Inr _ \<Rightarrow> (Ok (), ESet k v ttl # t)
     | Inl e \<Rightarrow> (Err e, ESetFailed k # t))"

definition kv_get :: "(trace \<Rightarrow> string \<Rightarrow> error + 'a option) \<Rightarrow> string \<Rightarrow> 'a option io" where
  "kv_get g k = prim (\<lambda>t. g t k) (EGet k)"

abbreviation send_message :: "host \<Rightarrow> string \<Rightarrow> string \<Rightarrow> general_msg \<Rightarrow> unit io" where
  "send_message H peer_id task_id m \<equiv> call H (ESend peer_id task_id m)"

abbreviation response_reply_with_subject :: "host \<Rightarrow> string \<Rightarrow> bytes \<Rightarrow> unit io" where
  "response_reply_with_subject H reply_to body \<equiv> call H (EReply reply_to body)"

abbreviation close_p2p :: "host \<Rightarrow> string \<Rightarrow> unit io" where
  "close_p2p H peer_id \<equiv> call H (EClose peer_id)"

definition utf8_string :: "bytes \<Rightarrow> string io" where
  "utf8_string bs = require Utf8Error (from_utf8 bs)"

text \<open>\<open>base64::decode(String::from_utf8(body)?)?\<close>, as four handlers do it.\<close>

definition decode_body :: "host \<Rightarrow> bytes \<Rightarrow> bytes io" where
  "decode_body H body = bindA (utf8_string body) (\<lambda>s. pure (h_base64_decode H (as_bytes s)))"

definition BINDING_NAME :: string where
  "BINDING_NAME = ''tea_gluon''"

definition MY_ACTOR_NAME :: string where
  "MY_ACTOR_NAME = ''gluon''"

definition PINNER_ACTOR_NAME :: string where
  "PINNER_ACTOR_NAME = ''pinner''"

text \<open>An intercom call to the pinner actor, with the message built as everywhere in the source:
  no reply subject.\<close>

definition call_pinner :: "host \<Rightarrow> string \<Rightarrow> bytes \<Rightarrow> msg_callback \<Rightarrow> unit io" where
  "call_pinner H subject body cb =
     call H (EIntercom PINNER_ACTOR_NAME MY_ACTOR_NAME
       \<lparr>bm_subject = subject, bm_reply_to = '''', bm_body = body\<rparr> cb)"

lemma prim_app [act_simps]:
  "f t = Inr x \<Longrightarrow> prim f e t = (Ok x, e # t)"
  "f t = Inl d \<Longrightarrow> prim f e t = (Err d, e # t)"
  by (simp_all add: prim_def)

lemma pure_app [act_simps]: "pure (Inr x) t = (Ok x, t)" "pure (Inl e) t = (Err e, t)"
  by (simp_all add: pure_def act_simps)

lemma require_app [act_simps]:
  "require e (Some x) t = (Ok x, t)" "require e None t = (Err e, t)"
  by (simp_all add: require_def act_simps)

lemma call_app [act_simps]:
  "h_call H t e = Inr u \<Longrightarrow> call H e t = (Ok u, e # t)"
  "h_call H t e = Inl d \<Longrightarrow> call H e t = (Err d, e # t)"
  by (simp_all add: call_def act_simps)

lemma call_pinner_app [act_simps]:
  "h_call H t (EIntercom PINNER_ACTOR_NAME MY_ACTOR_NAME
      \<lparr>bm_subject = subject, bm_reply_to = '''', bm_body = body\<rparr> cb) = Inr u \<Longrightarrow>
   call_pinner H subject body cb t =
     (Ok u, EIntercom PINNER_ACTOR_NAME MY_ACTOR_NAME
      \<lparr>bm_subject = subject, bm_reply_to = '''', bm_body = body\<rparr> cb # t)"
  by (simp add: call_pinner_def act_simps)

section \<open>What a trace says of the store\<close>

text \<open>The last value written under a key.\<close>

primrec stored :: "trace \<Rightarrow> string \<Rightarrow> kv_val option" where
  "stored [] k = None"
| "stored (e # t) k =
     (case e of ESet k' v ttl \<Rightarrow> if k' = k then Some v else stored t k | _ \<Rightarrow> stored t k)"

text \<open>
  The documented behaviour of the key/value provider the properties rely on, as named
  hypotheses: a read of an item that succeeds returns the last one written under the key, and
  nothing if nothing was written. The items of the four stores are written for ever, so none of
  them expires. Texts are written with a time to live; nothing is assumed of reading them.
\<close>

definition reads_back ::
  "(trace \<Rightarrow> string \<Rightarrow> error + 'a option) \<Rightarrow> ('a \<Rightarrow> kv_val) \<Rightarrow> bool"
where
  "reads_back g wrap \<longleftrightarrow>
     (\<forall>t k v. g t k = Inr v \<longrightarrow>
        (stored t k = None \<longrightarrow> v = None) \<and> (\<forall>x. stored t k = Some (wrap x) \<longrightarrow> v = Some x))"

lemma reads_backD:
  assumes "reads_back g wrap" "g t k = Inr v"
  shows "stored t k = None \<Longrightarrow> v = None" "stored t k = Some (wrap x) \<Longrightarrow> v = Some x"
  using assms by (simp_all add: reads_back_def)

definition kv_faithful :: "host \<Rightarrow> bool" where
  "kv_faithful H \<longleftrightarrow>
     reads_back (h_kv_get_keygen H) VKeyGen \<and> reads_back (h_kv_get_sign H) VSign \<and>
     reads_back (h_kv_get_exec H) VExec \<and> reads_back (h_kv_get_pinner H) VPinner"

text \<open>
  An environment in which nothing fails and nothing expires: every call is accepted and every
  read returns what is stored. Safety properties do not assume it; it is the hypothesis of the
  properties that say what a handler achieves.
\<close>

definition reads_all ::
  "(trace \<Rightarrow> string \<Rightarrow> error + 'a option) \<Rightarrow> ('a \<Rightarrow> kv_val) \<Rightarrow> bool"
where
  "reads_all g wrap \<longleftrightarrow>
     (\<forall>t k. (stored t k = None \<longrightarrow> g t k = Inr None) \<and>
        (\<forall>x. stored t k = Some (wrap x) \<longrightarrow> g t k = Inr (Some x)))"

definition accepting :: "host \<Rightarrow> bool" where
  "accepting H \<longleftrightarrow> (\<forall>t e. h_call H t e = Inr ()) \<and> (\<forall>t k v ttl. h_kv_set H t k v ttl = Inr ())"

definition working :: "host \<Rightarrow> bool" where
  "working H \<longleftrightarrow> accepting H \<and>
     reads_all (h_kv_get_keygen H) VKeyGen \<and> reads_all (h_kv_get_sign H) VSign \<and>
     reads_all (h_kv_get_exec H) VExec \<and> reads_all (h_kv_get_pinner H) VPinner \<and>
     reads_all (h_kv_get_string H) VString"

lemma reads_allD:
  "reads_all g wrap \<Longrightarrow> stored t k = None \<Longrightarrow> g t k = Inr None"
  "reads_all g wrap \<Longrightarrow> stored t k = Some (wrap x) \<Longrightarrow> g t k = Inr (Some x)"
  by (simp_all add: reads_all_def)

lemma working_call: "working H \<Longrightarrow> call H e t = (Ok (), e # t)"
  by (simp add: working_def accepting_def act_simps)

lemma working_call_pinner:
  "working H \<Longrightarrow> call_pinner H subject body cb t = (Ok (), EIntercom PINNER_ACTOR_NAME MY_ACTOR_NAME
      \<lparr>bm_subject = subject, bm_reply_to = '''', bm_body = body\<rparr> cb # t)"
  by (simp add: call_pinner_def working_call)

lemma working_kv_set: "working H \<Longrightarrow> kv_set H k v ttl t = (Ok (), ESet k v ttl # t)"
  by (simp add: working_def accepting_def kv_set_def)

lemma working_for_each_call:
  "working H \<Longrightarrow> for_each (\<lambda>x. call H (ev x)) xs t = (Ok (), rev (map ev xs) @ t)"
  by (induction xs arbitrary: t) (simp_all add: act_simps seqA_app(1) [OF working_call])

text \<open>The messages a trace sent, and the callbacks it left for the inbox.\<close>

definition sends :: "trace \<Rightarrow> (string \<times> string \<times> general_msg) list" where
  "sends t = List.map_filter (\<lambda>e. case e of ESend p i m \<Rightarrow> Some (p, i, m) | _ \<Rightarrow> None) t"

fun registers :: "event \<Rightarrow> invocation \<Rightarrow> bool" where
  "registers (EIntercom to fr m cb) (InvokeMsg cb' msg) = (cb' = cb)"
| "registers (ECall s inbox body cb) (InvokeMsg cb' msg) = (cb' = cb)"
| "registers (ELookupProfile eid s cb) (InvokeProfile cb' p) = (cb' = cb)"
| "registers (ELookupProfileByTeaId tid s cb) (InvokeProfile cb' p) = (cb' = cb)"
| "registers (EIsNodeReady a cb) (InvokeReady cb' b) = (cb' = cb)"
| "registers (EGetDeploymentInfo a d cb) (InvokeDeployment cb' c k) = (cb' = cb)"
| "registers e i = False"

text \<open>The inbox only runs callbacks that a call of the actor registered.\<close>

definition inbox_faithful :: "host \<Rightarrow> bool" where
  "inbox_faithful H \<longleftrightarrow>
     (\<forall>t m u i. h_result_handler H t m u = Inr (Some i) \<longrightarrow> (\<exists>e \<in> set t. registers e i))"

lemma sends_Nil [simp]: "sends [] = []"
  by (simp add: sends_def)

lemma sends_Cons [simp]:
  "sends (e # t) = (case e of ESend p i m \<Rightarrow> (p, i, m) # sends t | _ \<Rightarrow> sends t)"
  by (simp add: sends_def split: event.splits)

lemma sends_append [simp]: "sends (t @ t') = sends t @ sends t'"
  by (induction t) (auto split: event.splits)

lemma stored_append: "stored (t @ t') k = (case stored t k of None \<Rightarrow> stored t' k | Some v \<Rightarrow> Some v)"
  by (induction t) (auto split: event.splits)

lemma sends_rev_map [simp]:
  "sends (rev (map (\<lambda>x. ESend (f x) (g x) (h x)) xs)) = rev (map (\<lambda>x. (f x, g x, h x)) xs)"
  by (induction xs) simp_all

lemma stored_rev_sends [simp]: "stored (rev (map (\<lambda>x. ESend (f x) (g x) (h x)) xs) @ t) = stored t"
  by (induction xs arbitrary: t) (simp_all add: fun_eq_iff stored_append split: option.splits)

section \<open>Primitives that keep an invariant of the trace\<close>

lemma keeps_prim: "(\<And>t. I t \<Longrightarrow> I (e # t)) \<Longrightarrow> keeps_inv I (prim f e)"
  by (auto simp: keeps_def prim_def)

lemma keeps_call: "(\<And>t. I t \<Longrightarrow> I (e # t)) \<Longrightarrow> keeps_inv I (call H e)"
  by (simp add: call_def keeps_prim)

lemma keeps_call_pinner:
  "(\<And>t. I t \<Longrightarrow> I (EIntercom PINNER_ACTOR_NAME MY_ACTOR_NAME
      \<lparr>bm_subject = subject, bm_reply_to = '''', bm_body = body\<rparr> cb # t)) \<Longrightarrow>
   keeps_inv I (call_pinner H subject body cb)"
  by (simp add: call_pinner_def keeps_call)

lemma keeps_pure: "(\<And>x. r = Inr x \<Longrightarrow> Q x) \<Longrightarrow> keeps I Q (pure r)"
  by (auto simp: pure_def intro: keeps_liftA)

lemma keeps_require: "(\<And>x. v = Some x \<Longrightarrow> Q x) \<Longrightarrow> keeps I Q (require e v)"
  by (auto simp: require_def intro: keeps_liftA)

lemma keeps_kv_set:
  assumes "\<And>t. I t \<Longrightarrow> I (ESet k v ttl # t)" "\<And>t. I t \<Longrightarrow> I (ESetFailed k # t)"
  shows "keeps_inv I (kv_set H k v ttl)"
  using assms by (auto simp: keeps_def kv_set_def split: sum.splits)

lemma keeps_kv_get:
  assumes "\<And>t. I t \<Longrightarrow> I (EGet k # t)" "\<And>t x. I t \<Longrightarrow> g t k = Inr x \<Longrightarrow> Q x"
  shows "keeps I Q (kv_get g k)"
  using assms by (auto simp: keeps_def kv_get_def prim_def)

lemma keeps_with_lock:
  assumes "keeps I Q m"
    and "\<And>t. I t \<Longrightarrow> I (ELock key # t)" "\<And>t. I t \<Longrightarrow> I (EUnlock key # t)"
  shows "keeps I Q (with_lock key m)"
  unfolding keeps_def
proof (intro allI impI)
  fix t assume "I t"
  then have "I (ELock key # t)" by (rule assms(2))
  with assms(1,3) show "I (snd (with_lock key m t)) \<and> (\<forall>x. fst (with_lock key m t) = Ok x \<longrightarrow> Q x)"
    by (auto simp: keeps_def with_lock_def split: prod.splits dest!: spec [of _ "ELock key # t"])
qed

lemma keeps_utf8_string: "keeps_inv I (utf8_string bs)"
  by (simp add: utf8_string_def keeps_require)

lemma keeps_decode_body: "keeps_inv I (decode_body H body)"
  unfolding decode_body_def by (rule keeps_bindA [OF keeps_utf8_string]) (simp add: keeps_pure)

end
