(* ===== verification/Gluon_Store.thy ===== *)
theory Gluon_Store
  imports Gluon_Host
begin

text \<open>
  The keys under which the actor stores its data, and the \<open>get\<close>, \<open>save\<close> and \<open>contains\<close> of
  the four store items. The locale \<open>item_store\<close> is the contract the handlers rely on: what a
  \<open>get\<close> returns after a \<open>save\<close>, and that a save touches no other key. The four stores of the
  code are its interpretations.
\<close>

section \<open>Keys\<close>

definition kg_task_store_item_key :: "string \<Rightarrow> string" where
  "kg_task_store_item_key task_id = ''delegator_task_key_gen_store_item'' @ ''_'' @ task_id"

definition sg_task_store_item_key :: "string \<Rightarrow> string" where
  "sg_task_store_item_key task_id = ''delegator_task_sign_store_item'' @ ''_'' @ task_id"

definition ex_task_store_item_key :: "string \<Rightarrow> string" where
  "ex_task_store_item_key task_id = ''executor_task_store_item'' @ ''_'' @ task_id"

definition ip_task_store_item_key :: "string \<Rightarrow> string" where
  "ip_task_store_item_key task_id = ''pinner_task_store_item'' @ ''_'' @ task_id"

definition key_gen_rsa_encrypt_key :: "string \<Rightarrow> string" where
  "key_gen_rsa_encrypt_key task_id = ''key_gen_rsa_key'' @ ''_'' @ task_id"

definition sign_rsa_encrypt_key :: "string \<Rightarrow> string" where
  "sign_rsa_encrypt_key task_id = ''sign_rsa_key'' @ ''_'' @ task_id"

definition get_temp_deployment_key :: "host \<Rightarrow> bytes \<Rightarrow> string" where
  "get_temp_deployment_key H multi_sig_account =
     ''depl-id'' @ ''-'' @ h_base64_encode H multi_sig_account"

definition get_temp_data_cid_key :: "host \<Rightarrow> bytes \<Rightarrow> string" where
  "get_temp_data_cid_key H multi_sig_account =
     ''data-cid'' @ ''-'' @ h_base64_encode H multi_sig_account"

definition DEPLOYMENT_IDS_KEY :: string where
  "DEPLOYMENT_IDS_KEY = ''predefined deployments ids''"

lemmas key_defs =
  kg_task_store_item_key_def sg_task_store_item_key_def ex_task_store_item_key_def
  ip_task_store_item_key_def key_gen_rsa_encrypt_key_def sign_rsa_encrypt_key_def
  get_temp_deployment_key_def get_temp_data_cid_key_def DEPLOYMENT_IDS_KEY_def

text \<open>Which of the nine kinds a key belongs to, read off its first characters.\<close>

datatype key_kind =
    KKeyGen | KSign | KExec | KPinner | KKeyGenRsa | KSignRsa | KDeployment | KDataCid | KDeploymentIds

definition key_kind_of :: "string \<Rightarrow> key_kind option" where
  "key_kind_of k =
     (if take 15 k = ''delegator_task_'' then
        (if take 19 k = ''delegator_task_key_'' then Some KKeyGen
         else if take 20 k = ''delegator_task_sign_'' then Some KSign else None)
      else if take 9 k = ''executor_'' then Some KExec
      else if take 7 k = ''pinner_'' then Some KPinner
      else if take 8 k = ''key_gen_'' then Some KKeyGenRsa
      else if take 9 k = ''sign_rsa_'' then Some KSignRsa
      else if take 8 k = ''depl-id-'' then Some KDeployment
      else if take 9 k = ''data-cid-'' then Some KDataCid
      else if k = DEPLOYMENT_IDS_KEY then Some KDeploymentIds
      else None)"

lemma key_kinds [simp]:
  "key_kind_of (kg_task_store_item_key i) = Some KKeyGen"
  "key_kind_of (sg_task_store_item_key i) = Some KSign"
  "key_kind_of (ex_task_store_item_key i) = Some KExec"
  "key_kind_of (ip_task_store_item_key i) = Some KPinner"
  "key_kind_of (key_gen_rsa_encrypt_key i) = Some KKeyGenRsa"
  "key_kind_of (sign_rsa_encrypt_key i) = Some KSignRsa"
  "key_kind_of (get_temp_deployment_key H a) = Some KDeployment"
  "key_kind_of (get_temp_data_cid_key H a) = Some KDataCid"
  "key_kind_of DEPLOYMENT_IDS_KEY = Some KDeploymentIds"
  by (simp_all add: key_kind_of_def key_defs)

lemma key_inj [simp]:
  "kg_task_store_item_key i = kg_task_store_item_key j \<longleftrightarrow> i = j"
  "sg_task_store_item_key i = sg_task_store_item_key j \<longleftrightarrow> i = j"
  "ex_task_store_item_key i = ex_task_store_item_key j \<longleftrightarrow> i = j"
  "ip_task_store_item_key i = ip_task_store_item_key j \<longleftrightarrow> i = j"
  "key_gen_rsa_encrypt_key i = key_gen_rsa_encrypt_key j \<longleftrightarrow> i = j"
  "sign_rsa_encrypt_key i = sign_rsa_encrypt_key j \<longleftrightarrow> i = j"
  by (simp_all add: key_defs)

lemma key_kind_neq: "key_kind_of k \<noteq> key_kind_of l \<Longrightarrow> k \<noteq> l"
  by auto

section \<open>The stores\<close>

definition kg_get :: "host \<Rightarrow> string \<Rightarrow> kg_item io" where
  "kg_get H task_id = with_lock task_id
     (bindA (kv_get (h_kv_get_keygen H) (kg_task_store_item_key task_id))
       (require (TaskNotFound task_id)))"

definition kg_save :: "host \<Rightarrow> kg_item \<Rightarrow> unit io" where
  "kg_save H item = with_lock (ti_task_id (kg_task_info item))
     (kv_set H (kg_task_store_item_key (ti_task_id (kg_task_info item))) (VKeyGen item) None)"

definition sg_get :: "host \<Rightarrow> string \<Rightarrow> sg_item io" where
  "sg_get H task_id = with_lock task_id
     (bindA (kv_get (h_kv_get_sign H) (sg_task_store_item_key task_id))
       (require (TaskNotFound task_id)))"

definition sg_save :: "host \<Rightarrow> sg_item \<Rightarrow> unit io" where
  "sg_save H item = with_lock (ti_task_id (sg_task_info item))
     (kv_set H (sg_task_store_item_key (ti_task_id (sg_task_info item))) (VSign item) None)"

definition ex_contains :: "host \<Rightarrow> string \<Rightarrow> bool io" where
  "ex_contains H task_id = with_lock task_id
     (bindA (kv_get (h_kv_get_exec H) (ex_task_store_item_key task_id))
       (\<lambda>v. returnA (v \<noteq> None)))"

definition ex_get :: "host \<Rightarrow> string \<Rightarrow> ex_item io" where
  "ex_get H task_id = with_lock task_id
     (bindA (kv_get (h_kv_get_exec H) (ex_task_store_item_key task_id))
       (require (TaskNotFound task_id)))"

definition ex_save :: "host \<Rightarrow> ex_item \<Rightarrow> unit io" where
  "ex_save H item = with_lock (ti_task_id (ex_task_info item))
     (kv_set H (ex_task_store_item_key (ti_task_id (ex_task_info item))) (VExec item) None)"

definition ip_contains :: "host \<Rightarrow> string \<Rightarrow> bool io" where
  "ip_contains H task_id = with_lock task_id
     (bindA (kv_get (h_kv_get_pinner H) (ip_task_store_item_key task_id))
       (\<lambda>v. returnA (v \<noteq> None)))"

definition ip_get :: "host \<Rightarrow> string \<Rightarrow> ip_item io" where
  "ip_get H task_id = with_lock task_id
     (bindA (kv_get (h_kv_get_pinner H) (ip_task_store_item_key task_id))
       (require (TaskNotFound task_id)))"

definition ip_save :: "host \<Rightarrow> ip_item \<Rightarrow> unit io" where
  "ip_save H item = with_lock (ti_task_id (ip_task_info item))
     (kv_set H (ip_task_store_item_key (ti_task_id (ip_task_info item))) (VPinner item) None)"

section \<open>The contract of an item store\<close>

definition read_result :: "string \<Rightarrow> error + 'i option \<Rightarrow> (error, 'i) outcome" where
  "read_result task_id r =
     (case r of Inl e \<Rightarrow> Err e | Inr v \<Rightarrow> ok_or (TaskNotFound task_id) v)"

text \<open>
  \<open>get\<close> and \<open>save\<close> of a store whose items are found under \<open>key\<close> of their task id: each is one
  access to the provider, under the lock of the task.
\<close>

locale item_store =
  fixes get :: "string \<Rightarrow> 'i io"
    and save :: "'i \<Rightarrow> unit io"
    and key :: "string \<Rightarrow> string"
    and id_of :: "'i \<Rightarrow> string"
    and wrap :: "'i \<Rightarrow> kv_val"
    and read :: "trace \<Rightarrow> string \<Rightarrow> error + 'i option"
    and put :: "trace \<Rightarrow> string \<Rightarrow> kv_val \<Rightarrow> nat option \<Rightarrow> error + unit"
  assumes get_eq: "get i t =
      (read_result i (read (ELock i # t) (key i)), EUnlock i # EGet (key i) # ELock i # t)"
    and save_eq: "save it t =
      (case put (ELock (id_of it) # t) (key (id_of it)) (wrap it) None of
         Inr _ \<Rightarrow> (Ok (), EUnlock (id_of it) # ESet (key (id_of it)) (wrap it) None
                     # ELock (id_of it) # t)
       | Inl e \<Rightarrow> (Err e, EUnlock (id_of it) # ESetFailed (key (id_of it))
                     # ELock (id_of it) # t))"
    and key_inject: "key i = key j \<longleftrightarrow> i = j"
begin

lemma get_trace: "get i t = (r, t') \<Longrightarrow> t' = EUnlock i # EGet (key i) # ELock i # t"
  by (simp add: get_eq)

lemma get_no_panic: "get i t \<noteq> (Panic, t')" "get i t \<noteq> (Diverge, t')"
  by (auto simp: get_eq read_result_def split: sum.splits)

lemma get_stored: "get i t = (r, t') \<Longrightarrow> stored t' = stored t"
  by (auto simp: get_eq fun_eq_iff)

lemma get_sends: "get i t = (r, t') \<Longrightarrow> sends t' = sends t"
  by (auto simp: get_eq)

lemma save_stored:
  "save it t = (Ok u, t') \<Longrightarrow>
   stored t' k = (if k = key (id_of it) then Some (wrap it) else stored t k)"
  by (auto simp: save_eq split: sum.splits if_splits)

lemma save_failed_stored: "save it t = (Err e, t') \<Longrightarrow> stored t' = stored t"
  by (auto simp: save_eq fun_eq_iff split: sum.splits)

lemma save_sends: "save it t = (r, t') \<Longrightarrow> sends t' = sends t"
  by (auto simp: save_eq split: sum.splits)

lemma save_no_panic: "save it t \<noteq> (Panic, t')" "save it t \<noteq> (Diverge, t')"
  by (auto simp: save_eq split: sum.splits)

lemma get_reads:
  assumes "reads_back read wrap" "get i t = (Ok it, t')"
  shows "stored t (key i) \<noteq> None"
    and "stored t (key i) = Some (wrap it') \<Longrightarrow> it = it'"
proof -
  have read: "read (ELock i # t) (key i) = Inr (Some it)"
    using assms(2) by (auto simp: get_eq read_result_def split: sum.splits)
  show "stored t (key i) \<noteq> None"
    using reads_backD(1) [OF assms(1) read] by auto
  show "it = it'" if "stored t (key i) = Some (wrap it')"
    using reads_backD(2) [OF assms(1) read, of it'] that by simp
qed

lemma get_after_save:
  assumes "reads_back read wrap" "save it t = (Ok u, t1)" "get (id_of it) t1 = (Ok it', t2)"
  shows "it' = it"
  using get_reads(2) [OF assms(1,3)] save_stored [OF assms(2)] by simp

lemma get_after_other_save:
  assumes "reads_back read wrap" "save it t = (Ok u, t1)" "i \<noteq> id_of it"
    and "stored t (key i) = Some (wrap it0)" "get i t1 = (Ok it', t2)"
  shows "it' = it0"
  using get_reads(2) [OF assms(1,5)] save_stored [OF assms(2), of "key i"] assms(3,4)
  by (simp add: key_inject)

lemma keeps_get:
  assumes "\<And>t. I t \<Longrightarrow> I (ELock i # t)" "\<And>t. I t \<Longrightarrow> I (EUnlock i # t)"
    and "\<And>t. I t \<Longrightarrow> I (EGet (key i) # t)"
    and "\<And>t it. I t \<Longrightarrow> read t (key i) = Inr (Some it) \<Longrightarrow> Q it"
  shows "keeps I Q (get i)"
  using assms(1-3) assms(4) [OF assms(1)]
  by (auto simp: keeps_def get_eq read_result_def split: sum.splits)

lemma keeps_save:
  assumes "\<And>t. I t \<Longrightarrow> I (ELock (id_of it) # t)" "\<And>t. I t \<Longrightarrow> I (EUnlock (id_of it) # t)"
    and "\<And>t. I t \<Longrightarrow> I (ESetFailed (key (id_of it)) # t)"
    and "\<And>t. I t \<Longrightarrow> I (ESet (key (id_of it)) (wrap it) None # t)"
  shows "keeps_inv I (save it)"
  using assms by (auto simp: keeps_def save_eq split: sum.splits)

end

text \<open>A store that can also be asked whether it holds a task.\<close>

locale item_store_contains = item_store +
  fixes contains :: "string \<Rightarrow> bool io"
  assumes contains_eq: "contains i t =
      (case read (ELock i # t) (key i) of Inl e \<Rightarrow> Err e | Inr v \<Rightarrow> Ok (v \<noteq> None),
       EUnlock i # EGet (key i) # ELock i # t)"
begin

lemma contains_stored:
  assumes "reads_back read wrap" "contains i t = (Ok b, t')"
  shows "stored t (key i) = None \<Longrightarrow> \<not> b"
    and "stored t (key i) = Some (wrap it) \<Longrightarrow> b"
proof -
  obtain v where read: "read (ELock i # t) (key i) = Inr v" and b: "b \<longleftrightarrow> v \<noteq> None"
    using assms(2) by (auto simp: contains_eq split: sum.splits)
  show "\<not> b" if "stored t (key i) = None"
    using reads_backD(1) [OF assms(1) read] that b by simp
  show "b" if "stored t (key i) = Some (wrap it)"
    using reads_backD(2) [OF assms(1) read, of it] that b by simp
qed

lemma contains_agrees_get:
  assumes "read (ELock i # t) (key i) = Inr v"
  shows "fst (contains i t) = Ok (\<exists>it. fst (get i t) = Ok it)"
  using assms by (cases v) (simp_all add: contains_eq get_eq read_result_def)

lemma keeps_contains:
  assumes "\<And>t. I t \<Longrightarrow> I (ELock i # t)" "\<And>t. I t \<Longrightarrow> I (EUnlock i # t)"
    and "\<And>t. I t \<Longrightarrow> I (EGet (key i) # t)"
  shows "keeps_inv I (contains i)"
  using assms by (auto simp: keeps_def contains_eq)

end

lemmas store_access_simps =
  with_lock_def kv_get_def kv_set_def prim_def bindA_def require_def liftA_def returnA_def
  read_result_def

interpretation kg: item_store "kg_get H" "kg_save H" kg_task_store_item_key
    "\<lambda>it. ti_task_id (kg_task_info it)" VKeyGen "h_kv_get_keygen H" "h_kv_set H" for H
  by unfold_locales
    (auto simp: kg_get_def kg_save_def store_access_simps split: sum.splits option.splits)

interpretation sg: item_store "sg_get H" "sg_save H" sg_task_store_item_key
    "\<lambda>it. ti_task_id (sg_task_info it)" VSign "h_kv_get_sign H" "h_kv_set H" for H
  by unfold_locales
    (auto simp: sg_get_def sg_save_def store_access_simps split: sum.splits option.splits)

interpretation ex: item_store_contains "ex_get H" "ex_save H" ex_task_store_item_key
    "\<lambda>it. ti_task_id (ex_task_info it)" VExec "h_kv_get_exec H" "h_kv_set H" "ex_contains H" for H
  by unfold_locales
    (auto simp: ex_get_def ex_save_def ex_contains_def store_access_simps
      split: sum.splits option.splits)

interpretation ip: item_store_contains "ip_get H" "ip_save H" ip_task_store_item_key
    "\<lambda>it. ti_task_id (ip_task_info it)" VPinner "h_kv_get_pinner H" "h_kv_set H" "ip_contains H"
    for H
  by unfold_locales
    (auto simp: ip_get_def ip_save_def ip_contains_def store_access_simps
      split: sum.splits option.splits)

lemmas store_eqs = kg.get_eq kg.save_eq sg.get_eq sg.save_eq ex.get_eq ex.save_eq ex.contains_eq
  ip.get_eq ip.save_eq ip.contains_eq

section \<open>The stores of a working environment\<close>

lemma working_kg_save:
  "working H \<Longrightarrow> kg_save H it t =
     (Ok (), EUnlock (ti_task_id (kg_task_info it)) #
        ESet (kg_task_store_item_key (ti_task_id (kg_task_info it))) (VKeyGen it) None #
        ELock (ti_task_id (kg_task_info it)) # t)"
  by (simp add: kg.save_eq working_def accepting_def)

lemma working_sg_save:
  "working H \<Longrightarrow> sg_save H it t =
     (Ok (), EUnlock (ti_task_id (sg_task_info it)) #
        ESet (sg_task_store_item_key (ti_task_id (sg_task_info it))) (VSign it) None #
        ELock (ti_task_id (sg_task_info it)) # t)"
  by (simp add: sg.save_eq working_def accepting_def)

lemma working_ex_save:
  "working H \<Longrightarrow> ex_save H it t =
     (Ok (), EUnlock (ti_task_id (ex_task_info it)) #
        ESet (ex_task_store_item_key (ti_task_id (ex_task_info it))) (VExec it) None #
        ELock (ti_task_id (ex_task_info it)) # t)"
  by (simp add: ex.save_eq working_def accepting_def)

lemma working_ip_save:
  "working H \<Longrightarrow> ip_save H it t =
     (Ok (), EUnlock (ti_task_id (ip_task_info it)) #
        ESet (ip_task_store_item_key (ti_task_id (ip_task_info it))) (VPinner it) None #
        ELock (ti_task_id (ip_task_info it)) # t)"
  by (simp add: ip.save_eq working_def accepting_def)

lemma working_kg_get:
  assumes "working H" "stored t (kg_task_store_item_key i) = Some (VKeyGen it)"
  shows "kg_get H i t = (Ok it, EUnlock i # EGet (kg_task_store_item_key i) # ELock i # t)"
  using assms by (simp add: kg.get_eq working_def read_result_def reads_all_def)

lemma working_sg_get:
  assumes "working H" "stored t (sg_task_store_item_key i) = Some (VSign it)"
  shows "sg_get H i t = (Ok it, EUnlock i # EGet (sg_task_store_item_key i) # ELock i # t)"
  using assms by (simp add: sg.get_eq working_def read_result_def reads_all_def)

lemma working_ex_get:
  assumes "working H" "stored t (ex_task_store_item_key i) = Some (VExec it)"
  shows "ex_get H i t = (Ok it, EUnlock i # EGet (ex_task_store_item_key i) # ELock i # t)"
  using assms by (simp add: ex.get_eq working_def read_result_def reads_all_def)

lemma working_ip_get:
  assumes "working H" "stored t (ip_task_store_item_key i) = Some (VPinner it)"
  shows "ip_get H i t = (Ok it, EUnlock i # EGet (ip_task_store_item_key i) # ELock i # t)"
  using assms by (simp add: ip.get_eq working_def read_result_def reads_all_def)

lemma working_get_none:
  assumes "working H"
  shows "stored t (kg_task_store_item_key i) = None \<Longrightarrow>
      kg_get H i t = (Err (TaskNotFound i), EUnlock i # EGet (kg_task_store_item_key i) # ELock i # t)"
    "stored t (sg_task_store_item_key i) = None \<Longrightarrow>
      sg_get H i t = (Err (TaskNotFound i), EUnlock i # EGet (sg_task_store_item_key i) # ELock i # t)"
    "stored t (ex_task_store_item_key i) = None \<Longrightarrow>
      ex_get H i t = (Err (TaskNotFound i), EUnlock i # EGet (ex_task_store_item_key i) # ELock i # t)"
    "stored t (ip_task_store_item_key i) = None \<Longrightarrow>
      ip_get H i t = (Err (TaskNotFound i), EUnlock i # EGet (ip_task_store_item_key i) # ELock i # t)"
  using assms
  by (simp_all add: kg.get_eq sg.get_eq ex.get_eq ip.get_eq working_def read_result_def reads_all_def)

end
