(* ===== verification/Gluon_Common.thy ===== *)
theory Gluon_Common
  imports Gluon_Store
begin

text \<open>
  The module \<open>common\<close>: task descriptions made from requests and validated (\<open>task_info.rs\<close>), the
  signed candidate invitations and the RSA key exchange of key generation
  (\<open>key_generation.rs\<close>), and the remote attestation and delegate queries (\<open>utils.rs\<close>).
\<close>

section \<open>Task descriptions\<close>

definition validate_task_info :: "task_info \<Rightarrow> error + task_info" where
  "validate_task_info info =
     (let e = ti_exec_info info in
      if ei_n e = 0 then Inl InvalidN
      else if ei_k e = 0 \<or> ei_k e \<ge> ei_n e then Inl InvalidK
      else Inr info)"

definition task_info_from_candidate_request ::
  "key_generation_candidate_request \<Rightarrow> error + task_info"
where
  "task_info_from_candidate_request value = validate_task_info
     \<lparr>ti_task_id = kgc_task_id value,
      ti_exec_info = \<lparr>ei_n = ucast (kgc_n value), ei_k = ucast (kgc_k value),
                      ei_task_type = kgc_key_type value\<rparr>\<rparr>"

definition task_info_from_sign_candidate_request :: "sign_candidate_request \<Rightarrow> task_info" where
  "task_info_from_sign_candidate_request value =
     \<lparr>ti_task_id = scr_task_id value,
      ti_exec_info = \<lparr>ei_n = ucast (scr_n value), ei_k = ucast (scr_k value),
                      ei_task_type = scr_task_type value\<rparr>\<rparr>"

definition task_info_from_key_generation_response ::
  "host \<Rightarrow> key_generation_response \<Rightarrow> error + task_info"
where
  "task_info_from_key_generation_response H value = validate_task_info
     \<lparr>ti_task_id = h_base64_encode H (kgr_task_id value),
      ti_exec_info = \<lparr>ei_n = ucast (kgr_n value), ei_k = ucast (kgr_k value),
                      ei_task_type = kgr_key_type value\<rparr>\<rparr>"

text \<open>What validation promises: a threshold between one and the number of slices less one.\<close>

definition valid_task :: "task_info \<Rightarrow> bool" where
  "valid_task info \<longleftrightarrow> 0 < ei_k (ti_exec_info info) \<and> ei_k (ti_exec_info info) < ei_n (ti_exec_info info)"

lemma validate_task_info_iff:
  "validate_task_info info = Inr info' \<longleftrightarrow> info' = info \<and> valid_task info"
  by (auto simp: validate_task_info_def valid_task_def Let_def word_gt_0 not_le)

lemma validate_task_info_errors:
  "validate_task_info info = Inl e \<longleftrightarrow>
     (e = InvalidN \<and> ei_n (ti_exec_info info) = 0) \<or>
     (e = InvalidK \<and> ei_n (ti_exec_info info) \<noteq> 0 \<and>
      (ei_k (ti_exec_info info) = 0 \<or> ei_n (ti_exec_info info) \<le> ei_k (ti_exec_info info)))"
  by (auto simp: validate_task_info_def Let_def)

lemma u8_of_u32: "unat (ucast (w :: u32) :: u8) = unat w mod 256"
  by (simp add: unsigned_ucast_eq take_bit_eq_mod)

lemma valid_task_nat:
  "valid_task info \<longleftrightarrow>
     0 < unat (ei_k (ti_exec_info info)) \<and>
     unat (ei_k (ti_exec_info info)) < unat (ei_n (ti_exec_info info))"
  by (auto simp: valid_task_def word_less_nat_alt)

section \<open>Invitations to be a candidate\<close>

definition to_candidate_signature_bytes ::
  "string \<Rightarrow> u32 \<Rightarrow> u32 \<Rightarrow> string \<Rightarrow> bytes \<Rightarrow> bool \<Rightarrow> bytes"
where
  "to_candidate_signature_bytes task_id n k key_type delegator_ephemeral_id executor =
     as_bytes task_id @ to_le_bytes n @ to_le_bytes k @ as_bytes key_type @
     delegator_ephemeral_id @ [if executor then 1 else 0]"

definition send_key_candidate_request :: "host \<Rightarrow> string \<Rightarrow> task_info \<Rightarrow> bool \<Rightarrow> unit io" where
  "send_key_candidate_request H peer_id task_info executor =
     (let task_id = ti_task_id task_info;
          n = ucast (ei_n (ti_exec_info task_info)) :: u32;
          k = ucast (ei_k (ti_exec_info task_info)) :: u32;
          key_type = ei_task_type (ti_exec_info task_info)
      in bindA (prim (h_get_my_ephemeral_id H) (EPrim ''get_my_ephemeral_id''))
           (\<lambda>delegator_ephemeral_id.
         bindA (prim
             (\<lambda>t. h_sign_ed25519 H t
                (to_candidate_signature_bytes task_id n k key_type delegator_ephemeral_id executor))
             (EPrim ''sign_ed25519_message''))
           (\<lambda>signature.
         send_message H peer_id task_id (KeyGenerationCandidateRequest
           \<lparr>kgc_task_id = task_id, kgc_n = n, kgc_k = k, kgc_key_type = key_type,
            kgc_delegator_ephemeral_id = delegator_ephemeral_id, kgc_executor = executor,
            kgc_signature = signature\<rparr>))))"

definition verify_to_candidate_signature ::
  "host \<Rightarrow> string \<Rightarrow> key_generation_candidate_request \<Rightarrow> verify_cont \<Rightarrow> unit io"
where
  "verify_to_candidate_signature H peer_id req callback =
     bindA (prim
         (\<lambda>t. h_verify_ed25519 H t (kgc_delegator_ephemeral_id req)
            (to_candidate_signature_bytes (kgc_task_id req) (kgc_n req) (kgc_k req)
               (kgc_key_type req) (kgc_delegator_ephemeral_id req) (kgc_executor req))
            (kgc_signature req))
         (EPrim ''verify_ed25519_signature''))
       (\<lambda>valid.
     if \<not> valid then failA InvalidCandidateSignature
     else call H (ELookupProfile (kgc_delegator_ephemeral_id req) ''actor.gluon.inbox''
            (CbVerifyCandidate peer_id callback)))"

text \<open>The callback of the profile lookup: the sender has to be the delegator's own node.\<close>

definition verify_candidate_callback :: "string \<Rightarrow> unit io \<Rightarrow> string \<Rightarrow> unit io" where
  "verify_candidate_callback peer_id callback profile_peer_id =
     (if peer_id \<noteq> profile_peer_id then failA (DelegatorPeerMismatch profile_peer_id peer_id)
      else callback)"

section \<open>The RSA key of a key generation task\<close>

definition send_key_generation_request :: "host \<Rightarrow> string \<Rightarrow> task_info \<Rightarrow> bool \<Rightarrow> unit io" where
  "send_key_generation_request H peer_id task_info apply_executor =
     bindA (prim (h_generate_rsa_keypair H) (EPrim ''generate_rsa_keypair''))
       (\<lambda>(public_key, private_key).
     seqA (kv_set H (key_gen_rsa_encrypt_key (ti_task_id task_info)) (VString private_key) (Some 6000))
     (bindA (pure (h_rsa_key_to_bytes H public_key))
       (\<lambda>rsa_pub_key.
     send_message H peer_id (ti_task_id task_info) (TaskKeyGenerationApplyRequst
       \<lparr>kga_task_id = ti_task_id task_info, kga_rsa_pub_key = rsa_pub_key,
        kga_apply_executor = apply_executor\<rparr>))))"

definition decrypt_key_slice :: "host \<Rightarrow> string \<Rightarrow> bytes \<Rightarrow> bytes io" where
  "decrypt_key_slice H task_id key_slice_encrypted =
     bindA (kv_get (h_kv_get_string H) (key_gen_rsa_encrypt_key task_id))
       (\<lambda>found.
     bindA (require (NoRsaPrivateKey task_id) found)
       (\<lambda>rsa_priv_key.
     bindA (pure (h_rsa_key_to_bytes H rsa_priv_key))
       (\<lambda>key.
     prim (\<lambda>t. h_rsa_decrypt H t key key_slice_encrypted) (EPrim ''rsa_decrypt''))))"

section \<open>Remote attestation and delegates\<close>

definition from_hash_map :: "host \<Rightarrow> string hmap \<Rightarrow> property_key_pair list" where
  "from_hash_map H items =
     map (\<lambda>(key, value). \<lparr>pp_key = key, pp_value = value\<rparr>) (hm_entries (h_key_order H) items)"

definition send_ra_request :: "host \<Rightarrow> string \<Rightarrow> string hmap \<Rightarrow> unit io" where
  "send_ra_request H peer_id properties =
     bindA (pure (h_encode_protobuf H
         (PbPeerApproveRaRequest MY_ACTOR_NAME peer_id (from_hash_map H properties))))
       (\<lambda>body.
     call_pinner H ''actor.pinner.intercom.request_peer_approve_ra'' body CbLogOnly)"

definition invite_candidate_executors ::
  "host \<Rightarrow> task_info \<Rightarrow> candidate_op \<Rightarrow> invited_cont \<Rightarrow> unit io"
where
  "invite_candidate_executors H task_info candidate_op callback =
     bindA (pure (h_encode_protobuf H
         (PbGetDelegatesRequest 0 (ucast (ei_n (ti_exec_info task_info))))))
       (\<lambda>request.
     call H (ECall ''layer1.async.reply.get_delegates'' ''actor.gluon.inbox''
       (as_bytes (h_base64_encode H request)) (CbGetDelegates task_info candidate_op callback)))"

text \<open>The callback of the query: every delegate is invited, then \<open>callback\<close> gets their peers.\<close>

definition get_delegates_callback ::
  "host \<Rightarrow> task_info \<Rightarrow> candidate_op \<Rightarrow> (task_info \<Rightarrow> string list \<Rightarrow> unit io) \<Rightarrow>
   broker_message \<Rightarrow> unit io"
where
  "get_delegates_callback H task_info candidate_op callback msg =
     bindA (decode_body H (bm_body msg))
       (\<lambda>body.
     bindA (pure (h_decode_get_delegates_response H body))
       (\<lambda>delegates.
     seqA (for_each
         (\<lambda>tea_id. call H (ELookupProfileByTeaId tea_id ''actor.gluon.inbox''
            (CbInviteCandidate task_info candidate_op)))
         (map dl_tea_id delegates))
       (callback task_info (map dl_peer_id delegates))))"

text \<open>\<open>item.properties.iter().find(|v| K.eq(&v.key))\<close>, as the observers read attestations.\<close>

definition find_property :: "string \<Rightarrow> property_key_pair list \<Rightarrow> property_key_pair option" where
  "find_property key properties = List.find (\<lambda>v. pp_key v = key) properties"

definition property_or_default :: "string \<Rightarrow> challange_store_item \<Rightarrow> string" where
  "property_or_default key item =
     pp_value (case find_property key (cs_properties item) of
       Some p \<Rightarrow> p | None \<Rightarrow> property_key_pair_default)"

section \<open>Facts\<close>

text \<open>The signed bytes determine the invitation, for task and delegator ids of fixed length.\<close>

lemma to_candidate_signature_bytes_inject:
  assumes "length task_id = length task_id'" "length eid = length eid'"
  shows "to_candidate_signature_bytes task_id n k key_type eid executor =
         to_candidate_signature_bytes task_id' n' k' key_type' eid' executor' \<longleftrightarrow>
         task_id = task_id' \<and> n = n' \<and> k = k' \<and> key_type = key_type' \<and> eid = eid' \<and>
         executor = executor'"
proof
  assume eq: "to_candidate_signature_bytes task_id n k key_type eid executor =
              to_candidate_signature_bytes task_id' n' k' key_type' eid' executor'"
  then have front: "task_id = task_id' \<and> n = n' \<and> k = k' \<and>
      (as_bytes key_type @ eid @ [if executor then 1 else 0]) =
      (as_bytes key_type' @ eid' @ [if executor' then 1 else 0])"
    using assms(1) by (simp add: to_candidate_signature_bytes_def append_eq_append_conv)
  moreover from front have "length key_type = length key_type'"
    using assms(2) by (auto dest!: arg_cong [where f = length])
  ultimately show "task_id = task_id' \<and> n = n' \<and> k = k' \<and> key_type = key_type' \<and>
      eid = eid' \<and> executor = executor'"
    using assms(2) by (auto simp: append_eq_append_conv split: if_splits)
qed simp

lemma find_property_from_hash_map:
  assumes "hm_wf m"
  shows "find_property key (from_hash_map H m) =
         map_option (\<lambda>v. \<lparr>pp_key = key, pp_value = v\<rparr>) (hm_get m key)"
proof -
  have "List.find (\<lambda>v. pp_key v = key) (map (\<lambda>(k, v). \<lparr>pp_key = k, pp_value = v\<rparr>) es) =
      map_option (\<lambda>v. \<lparr>pp_key = key, pp_value = v\<rparr>) (map_of es key)" for es
    by (induction es) auto
  then show ?thesis
    using hm_get_entries [OF assms] by (simp add: find_property_def from_hash_map_def)
qed

lemma find_property_perm:
  assumes "mset ps = mset qs" "distinct (map pp_key ps)"
  shows "find_property key ps = find_property key qs"
proof -
  have distinct: "distinct (map pp_key qs)"
    using assms by (metis mset_eq_imp_distinct_iff mset_map)
  have found: "find_property key xs = Some p \<longleftrightarrow> p \<in> set xs \<and> pp_key p = key"
    if "distinct (map pp_key xs)" for xs p
    using that unfolding find_property_def
    by (induction xs) (auto simp: image_iff)
  have "set ps = set qs"
    using assms(1) by (metis set_mset_mset)
  then have "find_property key ps = Some p \<longleftrightarrow> find_property key qs = Some p" for p
    by (simp add: found [OF assms(2)] found [OF distinct])
  then show ?thesis
    by (metis not_Some_eq)
qed

lemma distinct_from_hash_map: "hm_wf m \<Longrightarrow> distinct (map pp_key (from_hash_map H m))"
proof -
  assume "hm_wf m"
  then have "distinct (map fst (hm_entries (h_key_order H) m))"
    by (rule distinct_hm_entries)
  then show ?thesis
    by (simp add: from_hash_map_def o_def case_prod_beta)
qed

lemma found_in_map:
  assumes "hm_wf m" "mset properties = mset (from_hash_map H m)"
  shows "find_property key properties = map_option (\<lambda>v. \<lparr>pp_key = key, pp_value = v\<rparr>) (hm_get m key)"
  using find_property_perm [OF assms(2) [symmetric] distinct_from_hash_map [OF assms(1)]]
    find_property_from_hash_map [OF assms(1)]
  by metis

end
