(* ===== verification/Gluon_Memory_Host.thy ===== *)
theory Gluon_Memory_Host
  imports Gluon_Store
begin

text \<open>
  A concrete host, for showing that the hypotheses of the properties can hold: the key/value
  provider keeps what the trace wrote, every message is accepted, base64 and the ciphers are the
  identity, the id of a block is its content, and whatever has to be decoded fails unless a witness says otherwise.
\<close>

definition memory_read :: "(kv_val \<Rightarrow> 'a option) \<Rightarrow> trace \<Rightarrow> string \<Rightarrow> error + 'a option" where
  "memory_read unwrap t k =
     (case stored t k of
        None \<Rightarrow> Inr None
      | Some v \<Rightarrow> (case unwrap v of Some x \<Rightarrow> Inr (Some x) | None \<Rightarrow> Inl (Ext ''deserialize'')))"

definition undecodable :: "error + 'a" where
  "undecodable = Inl (Ext ''decode'')"

definition memory_host :: host where
  "memory_host =
     \<lparr>h_overflow_checks = False,
      h_dev = False,
      h_key_order = (\<lambda>ks. ks),
      h_display_error = (\<lambda>e. case e of Ext s \<Rightarrow> s | _ \<Rightarrow> ''error''),
      h_base64_encode = map char_of_byte,
      h_base64_decode = Inr,
      h_encode_protobuf = (\<lambda>_. Inr []),
      h_serialize_as_much_as_possible = Inr [],
      h_deserialize_key = (\<lambda>_. Inr (Some [1])),
      h_rsa_key_to_bytes = (\<lambda>s. Inr (as_bytes s)),
      h_decode_key_generation_response = (\<lambda>_. undecodable),
      h_decode_sign_transaction_response = (\<lambda>_. undecodable),
      h_decode_asset_generated_response = (\<lambda>_. undecodable),
      h_decode_get_delegates_response = (\<lambda>_. undecodable),
      h_decode_get_deployment_ids_response = (\<lambda>_. undecodable),
      h_decode_server_check_strategy = (\<lambda>_. undecodable),
      h_decode_client_operation = (\<lambda>_. undecodable),
      h_kv_get_keygen = memory_read (\<lambda>v. case v of VKeyGen x \<Rightarrow> Some x | _ \<Rightarrow> None),
      h_kv_get_sign = memory_read (\<lambda>v. case v of VSign x \<Rightarrow> Some x | _ \<Rightarrow> None),
      h_kv_get_exec = memory_read (\<lambda>v. case v of VExec x \<Rightarrow> Some x | _ \<Rightarrow> None),
      h_kv_get_pinner = memory_read (\<lambda>v. case v of VPinner x \<Rightarrow> Some x | _ \<Rightarrow> None),
      h_kv_get_string = memory_read (\<lambda>v. case v of VString x \<Rightarrow> Some x | _ \<Rightarrow> None),
      h_kv_get_strings = memory_read (\<lambda>v. case v of VStrings x \<Rightarrow> Some x | _ \<Rightarrow> None),
      h_kv_set = (\<lambda>_ _ _ _. Inr ()),
      h_get_my_ephemeral_id = (\<lambda>_. Inr [7]),
      h_sign_ed25519 = (\<lambda>_ d. Inr d),
      h_verify_ed25519 = (\<lambda>_ _ d s. Inr (s = d)),
      h_generate_rsa_keypair = (\<lambda>_. Inr (''public'', ''private'')),
      h_rsa_encrypt = (\<lambda>_ _ d. Inr d),
      h_rsa_decrypt = (\<lambda>_ _ d. Inr d),
      h_sha256 = (\<lambda>_ d. Inr d),
      h_generate = (\<lambda>_ _. Inr ([2], [3])),
      h_sign = (\<lambda>_ _ key d. Inr (key @ d)),
      h_shamir_share = (\<lambda>_ n _ d. Inr (replicate (unat n) d)),
      h_shamir_recovery = (\<lambda>_ _ ds. case ds of d # _ \<Rightarrow> Inr d | [] \<Rightarrow> Inl (Ext ''shamir'')),
      h_generate_multi_sig_asset = (\<lambda>_ _ _ _. Inr ''multisig''),
      h_combine_to_witness = (\<lambda>_ _ _ sigs _. Inr (concat sigs)),
      h_generate_aes_key = (\<lambda>_. Inr [4]),
      h_aes_encrypt = (\<lambda>_ _ d. Inr d),
      h_aes_decrypt = (\<lambda>_ _ d. Inr d),
      h_ipfs_block_put = (\<lambda>_ d _. Inr (map char_of_byte d)),
      h_ipfs_block_get = (\<lambda>_ cid. Inr (as_bytes cid)),
      h_ipfs_swarm_peers = (\<lambda>_. Inr []),
      h_get_guid = (\<lambda>_. Inr ''guid''),
      h_get_random = (\<lambda>_. Inr 0),
      h_get_uuid = (\<lambda>_. ''uuid''),
      h_call = (\<lambda>_ _. Inr ()),
      h_listen_message = (\<lambda>_ _ _. undecodable),
      h_result_handler = (\<lambda>_ _ _. Inr None)\<rparr>"

lemma memory_read_reads_back: "(\<And>x. unwrap (wrap x) = Some x) \<Longrightarrow> reads_back (memory_read unwrap) wrap"
  by (auto simp: reads_back_def memory_read_def split: option.splits)

lemma memory_host_faithful: "kv_faithful memory_host"
  by (simp add: kv_faithful_def memory_host_def memory_read_reads_back)

lemma memory_host_base64: "h_base64_decode memory_host (as_bytes (h_base64_encode memory_host bs)) = Inr bs"
  by (simp add: memory_host_def as_bytes_def o_def)

lemma memory_host_calls [simp]:
  "h_call memory_host = (\<lambda>_ _. Inr ())" "h_kv_set memory_host = (\<lambda>_ _ _ _. Inr ())"
  by (simp_all add: memory_host_def)

lemma memory_host_working: "working memory_host"
  by (simp add: working_def accepting_def reads_all_def memory_host_def memory_read_def)

lemma memory_host_pure [simp]:
  "h_encode_protobuf memory_host x = Inr []" "h_base64_encode memory_host = map char_of_byte"
  "h_base64_decode memory_host = Inr" "h_key_order memory_host = (\<lambda>ks. ks)"
  "h_deserialize_key memory_host b = Inr (Some [1])" "h_rsa_key_to_bytes memory_host s = Inr (as_bytes s)"
  by (simp_all add: memory_host_def)

lemma memory_host_prims [simp]:
  "h_rsa_encrypt memory_host t k d = Inr d" "h_rsa_decrypt memory_host t k d = Inr d"
  "h_aes_encrypt memory_host t k d = Inr d" "h_aes_decrypt memory_host t k d = Inr d"
  "h_sha256 memory_host t d = Inr d" "h_generate memory_host t s = Inr ([2], [3])"
  "h_shamir_share memory_host t n m d = Inr (replicate (unat n) d)"
  "h_generate_multi_sig_asset memory_host t m ds s = Inr ''multisig''"
  by (simp_all add: memory_host_def)

end
