(* ===== verification/Gluon_KeyGen_Item.thy ===== *)
theory Gluon_KeyGen_Item
  imports Gluon_Common Gluon_Memory_Host
begin

text \<open>
  The delegator's record of a key generation task
  (\<open>delegator/key_gen/store_item.rs\<close>): how candidates are collected, when there are enough, and
  how the executor and the initial pinners are elected from them. The election is a loop that
  need not end; the development characterises exactly when it does and what it elects.
\<close>

section \<open>The code\<close>

abbreviation kg_n :: "kg_item \<Rightarrow> u8" where
  "kg_n it \<equiv> ei_n (ti_exec_info (kg_task_info it))"

abbreviation kg_k :: "kg_item \<Rightarrow> u8" where
  "kg_k it \<equiv> ei_k (ti_exec_info (kg_task_info it))"

definition kg_item_try_from :: "host \<Rightarrow> key_generation_response \<Rightarrow> error + kg_item" where
  "kg_item_try_from H value =
     (case task_info_from_key_generation_response H value of
        Inl e \<Rightarrow> Inl e
      | Inr task_info \<Rightarrow> Inr
          \<lparr>kg_task_info = task_info, kg_status = KgInit, kg_nonce = [], kg_executor = None,
           kg_initial_pinners = [], kg_p1_public_key = kgr_p1_public_key value,
           kg_p2_public_key = None, kg_multi_sig_account = None,
           kg_initial_pinner_responses = [], kg_candidate_executors = [],
           kg_candidate_initial_pinners = []\<rparr>)"

text \<open>
  \<open>TaskCandidates::ready\<close>. The sum \<open>n + 1\<close> is a \<open>u8\<close>: for 255 it panics in a build with overflow
  checks and is 0 in one without. It is only computed if there is an executor.
\<close>

definition candidates_ready :: "bool \<Rightarrow> kg_item \<Rightarrow> (error, bool) outcome" where
  "candidates_ready checks it =
     (if kg_candidate_executors it = [] then Ok False
      else if checks \<and> kg_n it = 255 then Panic
      else Ok (unat (kg_n it + 1) \<le>
               length (kg_candidate_executors it) + length (kg_candidate_initial_pinners it)))"

definition insert_executor :: "executor_info \<Rightarrow> kg_item \<Rightarrow> kg_item" where
  "insert_executor executor it =
     it\<lparr>kg_candidate_executors := kg_candidate_executors it @ [executor]\<rparr>"

definition insert_initial_pinner :: "initial_pinner_info \<Rightarrow> kg_item \<Rightarrow> kg_item" where
  "insert_initial_pinner pinner it =
     it\<lparr>kg_candidate_initial_pinners := kg_candidate_initial_pinners it @ [pinner]\<rparr>"

definition select_executor :: "kg_item \<Rightarrow> (error, kg_item) outcome" where
  "select_executor it =
     (if kg_candidate_executors it = [] then Err NoCandidateExecutor
      else Ok (it\<lparr>kg_executor := Some (last (kg_candidate_executors it)),
                  kg_candidate_executors := butlast (kg_candidate_executors it)\<rparr>))"

text \<open>The \<open>while\<close> loop of \<open>select_initial_pinners\<close>; \<open>None\<close> if it does not end.\<close>

partial_function (option) select_initial_pinners :: "kg_item \<Rightarrow> kg_item option" where
  "select_initial_pinners it =
     (if length (kg_initial_pinners it) < unat (kg_n it) \<or>
         kg_candidate_initial_pinners it \<noteq> [] \<and> kg_candidate_executors it \<noteq> []
      then
        if kg_candidate_initial_pinners it \<noteq> []
        then select_initial_pinners
          (it\<lparr>kg_initial_pinners := kg_initial_pinners it @ [last (kg_candidate_initial_pinners it)],
              kg_candidate_initial_pinners := butlast (kg_candidate_initial_pinners it)\<rparr>)
        else if kg_candidate_executors it \<noteq> []
        then select_initial_pinners
          (it\<lparr>kg_initial_pinners := kg_initial_pinners it @
                 [initial_pinner_info_from (last (kg_candidate_executors it))],
              kg_candidate_executors := butlast (kg_candidate_executors it)\<rparr>)
        else select_initial_pinners it
      else Some it)"

definition elect :: "kg_item \<Rightarrow> (error, kg_item) outcome" where
  "elect it =
     (case select_executor it of
        Ok it' \<Rightarrow> (case select_initial_pinners it' of Some it'' \<Rightarrow> Ok it'' | None \<Rightarrow> Diverge)
      | r \<Rightarrow> r)"

text \<open>\<open>ExecutorRequestConstructor\<close>\<close>

definition request_ready :: "kg_item \<Rightarrow> bool" where
  "request_ready it \<longleftrightarrow>
     kg_executor it \<noteq> None \<and> length (kg_initial_pinners it) = unat (kg_n it)"

definition generate_request :: "kg_item \<Rightarrow> task_execution_request" where
  "generate_request it =
     \<lparr>ter_task_id = ti_task_id (kg_task_info it),
      ter_initial_pinners =
        map (\<lambda>p. \<lparr>tep_peer_id = pi_peer_id p, tep_rsa_pub_key = pi_rsa_pub_key p\<rparr>)
          (kg_initial_pinners it),
      ter_minimum_recovery_number = ucast (kg_k it),
      ter_key_type = ei_task_type (ti_exec_info (kg_task_info it)),
      ter_p1_public_key = kg_p1_public_key it\<rparr>"

definition is_all_initial_pinners_ready :: "kg_item \<Rightarrow> bool" where
  "is_all_initial_pinners_ready it \<longleftrightarrow> list_all (\<lambda>(_, v). v \<noteq> None) (kg_initial_pinner_responses it)"

text \<open>\<open>TryInto<UpdateKeyGenerationResult>\<close>: the fields are evaluated in the order of the literal.\<close>

definition update_result_try_from :: "host \<Rightarrow> kg_item \<Rightarrow> update_key_generation_result io" where
  "update_result_try_from H it =
     bindA (pure (h_base64_decode H (as_bytes (ti_task_id (kg_task_info it)))))
       (\<lambda>task_id.
     bindA (require MultiSigAccountEmpty (kg_multi_sig_account it))
       (\<lambda>multi_sig_account.
     bindA (require PublicKeyEmpty (kg_p2_public_key it))
       (\<lambda>public_key.
     returnA
       \<lparr>ukr_task_id = task_id, ukr_delegator_nonce = kg_nonce it,
        ukr_multi_sig_account = multi_sig_account, ukr_public_key = public_key,
        ukr_deployment_ids =
          List.map_filter snd (hm_entries (h_key_order H) (kg_initial_pinner_responses it))\<rparr>)))"

section \<open>The loop of the election\<close>

declare select_initial_pinners.simps [code, simp del]

lemma select_initial_pinners_stop:
  "unat (kg_n it) \<le> length (kg_initial_pinners it) \<Longrightarrow>
   kg_candidate_initial_pinners it = [] \<or> kg_candidate_executors it = [] \<Longrightarrow>
   select_initial_pinners it = Some it"
  by (subst select_initial_pinners.simps) auto

lemma select_initial_pinners_pinner:
  assumes "kg_candidate_initial_pinners it = cs @ [c]"
    and "length (kg_initial_pinners it) < unat (kg_n it) \<or> kg_candidate_executors it \<noteq> []"
  shows "select_initial_pinners it = select_initial_pinners
    (it\<lparr>kg_initial_pinners := kg_initial_pinners it @ [c], kg_candidate_initial_pinners := cs\<rparr>)"
  using assms by (subst select_initial_pinners.simps) auto

lemma select_initial_pinners_executor:
  assumes "kg_candidate_initial_pinners it = []" "kg_candidate_executors it = es @ [e]"
    and "length (kg_initial_pinners it) < unat (kg_n it)"
  shows "select_initial_pinners it = select_initial_pinners
    (it\<lparr>kg_initial_pinners := kg_initial_pinners it @ [initial_pinner_info_from e],
        kg_candidate_executors := es\<rparr>)"
  using assms by (subst select_initial_pinners.simps) auto

text \<open>Once the candidates for pinning are used up, the spare executors fill the places left.\<close>

lemma select_from_executors:
  assumes "kg_candidate_initial_pinners it = []"
    and "need = unat (kg_n it) - length (kg_initial_pinners it)"
    and "need \<le> length (kg_candidate_executors it)"
  shows "select_initial_pinners it = Some
    (it\<lparr>kg_initial_pinners := kg_initial_pinners it @
           map initial_pinner_info_from (take need (rev (kg_candidate_executors it))),
        kg_candidate_executors :=
           take (length (kg_candidate_executors it) - need) (kg_candidate_executors it)\<rparr>)"
  using assms
proof (induction need arbitrary: it)
  case 0
  then show ?case by (simp add: select_initial_pinners_stop)
next
  case (Suc need)
  then obtain es e where es: "kg_candidate_executors it = es @ [e]"
    by (cases "kg_candidate_executors it" rule: rev_cases) auto
  let ?it = "it\<lparr>kg_initial_pinners := kg_initial_pinners it @ [initial_pinner_info_from e],
                kg_candidate_executors := es\<rparr>"
  have "select_initial_pinners it = select_initial_pinners ?it"
    using Suc.prems by (intro select_initial_pinners_executor [OF Suc.prems(1) es]) simp
  also have "\<dots> = Some (?it\<lparr>kg_initial_pinners := kg_initial_pinners ?it @
        map initial_pinner_info_from (take need (rev (kg_candidate_executors ?it))),
      kg_candidate_executors :=
        take (length (kg_candidate_executors ?it) - need) (kg_candidate_executors ?it)\<rparr>)"
    using Suc.prems es by (intro Suc.IH) auto
  finally show ?case
    using es by simp
qed

text \<open>How many candidates for pinning the loop takes: all of them while executors are left over.\<close>

definition pinners_taken :: "kg_item \<Rightarrow> nat" where
  "pinners_taken it =
     (if kg_candidate_executors it = []
      then min (length (kg_candidate_initial_pinners it))
             (unat (kg_n it) - length (kg_initial_pinners it))
      else length (kg_candidate_initial_pinners it))"

definition executors_taken :: "kg_item \<Rightarrow> nat" where
  "executors_taken it = unat (kg_n it) - length (kg_initial_pinners it) - pinners_taken it"

definition selected :: "kg_item \<Rightarrow> kg_item" where
  "selected it =
     it\<lparr>kg_initial_pinners := kg_initial_pinners it @
          take (pinners_taken it) (rev (kg_candidate_initial_pinners it)) @
          map initial_pinner_info_from (take (executors_taken it) (rev (kg_candidate_executors it))),
        kg_candidate_initial_pinners :=
          take (length (kg_candidate_initial_pinners it) - pinners_taken it)
            (kg_candidate_initial_pinners it),
        kg_candidate_executors :=
          take (length (kg_candidate_executors it) - executors_taken it) (kg_candidate_executors it)\<rparr>"

lemma select_initial_pinners_selected:
  assumes "unat (kg_n it) \<le> length (kg_initial_pinners it) +
    length (kg_candidate_initial_pinners it) + length (kg_candidate_executors it)"
  shows "select_initial_pinners it = Some (selected it)"
  using assms
proof (induction "kg_candidate_initial_pinners it" arbitrary: it rule: rev_induct)
  case Nil
  then show ?case
    by (subst select_from_executors [OF _ refl])
      (auto simp: selected_def executors_taken_def pinners_taken_def)
next
  case (snoc c cs)
  note cs = snoc.hyps(2) [symmetric]
  show ?case
  proof (cases "length (kg_initial_pinners it) < unat (kg_n it) \<or> kg_candidate_executors it \<noteq> []")
    case True
    let ?it = "it\<lparr>kg_initial_pinners := kg_initial_pinners it @ [c],
                  kg_candidate_initial_pinners := cs\<rparr>"
    have "select_initial_pinners it = select_initial_pinners ?it"
      by (rule select_initial_pinners_pinner [OF cs True])
    also have "\<dots> = Some (selected ?it)"
      using snoc.prems cs by (intro snoc.hyps(1)) auto
    also have "selected ?it = selected it"
    proof -
      have "pinners_taken it = Suc (pinners_taken ?it)" "executors_taken it = executors_taken ?it"
        using True cs by (auto simp: pinners_taken_def executors_taken_def)
      then show ?thesis by (simp add: selected_def cs)
    qed
    finally show ?thesis .
  next
    case False
    then show ?thesis
      by (simp add: select_initial_pinners_stop selected_def pinners_taken_def executors_taken_def)
  qed
qed

lemma select_initial_pinners_returns:
  assumes "select_initial_pinners it = Some it'"
  shows "unat (kg_n it) \<le> length (kg_initial_pinners it) +
    length (kg_candidate_initial_pinners it) + length (kg_candidate_executors it)"
proof (rule select_initial_pinners.raw_induct [where P = "\<lambda>it it'. unat (kg_n it) \<le>
    length (kg_initial_pinners it) + length (kg_candidate_initial_pinners it) +
    length (kg_candidate_executors it)", OF _ assms], goal_cases)
  case (1 f it it')
  note IH = "1"(1) and eq = "1"(2)
  show ?case
  proof (cases "kg_candidate_initial_pinners it" rule: rev_cases)
    case Nil
    then show ?thesis
      using eq IH [of _ it']
      by (cases "kg_candidate_executors it" rule: rev_cases) (fastforce split: if_splits)+
  next
    case (snoc cs c)
    then show ?thesis
      using eq IH [of _ it'] by (fastforce split: if_splits)
  qed
qed

section \<open>When the election ends, and what it elects\<close>

lemma select_initial_pinners_eq:
  "select_initial_pinners it =
     (if unat (kg_n it) \<le> length (kg_initial_pinners it) +
         length (kg_candidate_initial_pinners it) + length (kg_candidate_executors it)
      then Some (selected it) else None)"
proof (cases "select_initial_pinners it")
  case None
  then show ?thesis using select_initial_pinners_selected [of it] by auto
next
  case (Some it')
  then show ?thesis
    using select_initial_pinners_selected [of it] select_initial_pinners_returns [of it it'] by auto
qed

text \<open>C11: the loop of \<open>select_initial_pinners\<close> ends exactly if the elected and the candidates together
  reach \<open>n\<close>; then it takes the candidates for pinning from the end (all of them while there are
  spare executors) and fills the places left with spare executors, from the end.\<close>

theorem select_initial_pinners_spec:
  "select_initial_pinners it =
     (if unat (kg_n it) \<le> length (kg_initial_pinners it) +
         length (kg_candidate_initial_pinners it) + length (kg_candidate_executors it)
      then Some (selected it) else None)"
  by (rule select_initial_pinners_eq)

definition with_executor :: "kg_item \<Rightarrow> kg_item" where
  "with_executor it =
     it\<lparr>kg_executor := Some (last (kg_candidate_executors it)),
        kg_candidate_executors := butlast (kg_candidate_executors it)\<rparr>"

definition enough_candidates :: "kg_item \<Rightarrow> bool" where
  "enough_candidates it \<longleftrightarrow> unat (kg_n it) < length (kg_initial_pinners it) +
     length (kg_candidate_initial_pinners it) + length (kg_candidate_executors it)"

lemma elect_eq:
  "elect it =
     (if kg_candidate_executors it = [] then Err NoCandidateExecutor
      else if enough_candidates it then Ok (selected (with_executor it)) else Diverge)"
proof (cases "kg_candidate_executors it" rule: rev_cases)
  case (snoc es e)
  then have "select_initial_pinners (with_executor it) =
      (if enough_candidates it then Some (selected (with_executor it)) else None)"
    by (auto simp: select_initial_pinners_eq with_executor_def enough_candidates_def)
  with snoc show ?thesis
    by (auto simp: elect_def select_executor_def with_executor_def split: option.splits)
qed (simp add: elect_def select_executor_def)

lemma unat_n_plus_1: "unat ((n :: u8) + 1) = (if n = 255 then 0 else Suc (unat n))"
proof (cases "n = 255")
  case False
  then have "1 + n \<noteq> 0" by (auto simp: add_eq_0_iff)
  then show ?thesis using False by (simp add: unatSuc add.commute)
qed simp

lemma candidates_ready_Ok:
  "candidates_ready checks it = Ok True \<longleftrightarrow>
     kg_candidate_executors it \<noteq> [] \<and>
     (if kg_n it = 255 then \<not> checks
      else unat (kg_n it) < length (kg_candidate_executors it) + length (kg_candidate_initial_pinners it))"
  by (auto simp: candidates_ready_def unat_n_plus_1)

text \<open>C12: the readiness test guards the election loop: an election that was found ready never ends
  exactly in a build without overflow checks, for 255 slices, with at most 255 candidates.\<close>

theorem ready_elect_diverges_iff:
  "candidates_ready checks it = Ok True \<and> elect it = Diverge \<longleftrightarrow>
     \<not> checks \<and> kg_n it = 255 \<and> kg_candidate_executors it \<noteq> [] \<and>
     length (kg_initial_pinners it) + length (kg_candidate_initial_pinners it) +
       length (kg_candidate_executors it) \<le> 255"
  by (auto simp: candidates_ready_Ok elect_eq enough_candidates_def)

lemma length_selected:
  assumes "kg_initial_pinners it = []" "enough_candidates it" "kg_candidate_executors it \<noteq> []"
  shows "length (kg_initial_pinners (selected (with_executor it))) =
    (if length (kg_candidate_executors it) = 1 then unat (kg_n it)
     else max (unat (kg_n it)) (length (kg_candidate_initial_pinners it)))"
proof -
  have "butlast (kg_candidate_executors it) = [] \<longleftrightarrow> length (kg_candidate_executors it) = 1"
    using assms(3) by (cases "kg_candidate_executors it" rule: rev_cases) auto
  then show ?thesis
    using assms
    by (auto simp: selected_def with_executor_def pinners_taken_def executors_taken_def
        enough_candidates_def min_def max_def)
qed

text \<open>From enough candidates, an election elects the last candidate executor, and what it elected
  can be sent exactly if there was one candidate executor or at most \<open>n\<close> candidates for
  pinning.\<close>

lemma elect_request_ready:
  assumes "kg_initial_pinners it = []" "kg_candidate_executors it \<noteq> []"
    and "unat (kg_n it) < length (kg_candidate_executors it) + length (kg_candidate_initial_pinners it)"
  shows "\<exists>it'. elect it = Ok it' \<and> kg_executor it' = Some (last (kg_candidate_executors it)) \<and>
    (request_ready it' \<longleftrightarrow> length (kg_candidate_executors it) = 1 \<or>
       length (kg_candidate_initial_pinners it) \<le> unat (kg_n it))"
proof -
  have enough: "enough_candidates it"
    using assms by (simp add: enough_candidates_def)
  have "kg_n (selected (with_executor it)) = kg_n it"
    "kg_executor (selected (with_executor it)) = Some (last (kg_candidate_executors it))"
    by (simp_all add: selected_def with_executor_def)
  then show ?thesis
    using assms(2) enough length_selected [OF assms(1) enough assms(2)]
    by (auto simp: elect_eq request_ready_def)
qed

definition sample_executor :: "string \<Rightarrow> executor_info" where
  "sample_executor p = \<lparr>xi_peer_id = p, xi_rsa_pub_key = as_bytes p\<rparr>"

definition sample_pinner :: "string \<Rightarrow> initial_pinner_info" where
  "sample_pinner p = \<lparr>pi_peer_id = p, pi_rsa_pub_key = as_bytes p\<rparr>"

definition sample_item :: "u8 \<Rightarrow> u8 \<Rightarrow> string list \<Rightarrow> string list \<Rightarrow> kg_item" where
  "sample_item n k executors pinners =
     \<lparr>kg_task_info = \<lparr>ti_task_id = ''task'',
        ti_exec_info = \<lparr>ei_n = n, ei_k = k, ei_task_type = ''bitcoin_mainnet''\<rparr>\<rparr>,
      kg_status = InvitedCandidates, kg_nonce = [], kg_executor = None, kg_initial_pinners = [],
      kg_p1_public_key = [], kg_p2_public_key = None, kg_multi_sig_account = None,
      kg_initial_pinner_responses = [],
      kg_candidate_executors = map sample_executor executors,
      kg_candidate_initial_pinners = map sample_pinner pinners\<rparr>"

text \<open>C13: an election held as soon as the candidates are just enough uses every one of them once: the
  elected executor, the elected initial pinners and nobody left over.\<close>

theorem elect_uses_all:
  assumes "kg_initial_pinners it = []" "kg_candidate_executors it \<noteq> []"
    and "length (kg_candidate_executors it) + length (kg_candidate_initial_pinners it) =
         Suc (unat (kg_n it))"
  shows "\<exists>it' e. elect it = Ok it' \<and> request_ready it' \<and> kg_executor it' = Some e \<and>
    kg_candidate_executors it' = [] \<and> kg_candidate_initial_pinners it' = [] \<and>
    add_mset (initial_pinner_info_from e) (mset (kg_initial_pinners it')) =
      mset (map initial_pinner_info_from (kg_candidate_executors it)) +
      mset (kg_candidate_initial_pinners it)"
proof -
  let ?it' = "selected (with_executor it)"
  obtain es e where es: "kg_candidate_executors it = es @ [e]"
    using assms(2) by (cases "kg_candidate_executors it" rule: rev_cases) auto
  have n: "unat (kg_n it) = length es + length (kg_candidate_initial_pinners it)"
    using assms(3) es by simp
  have elect: "elect it = Ok ?it'"
    using assms es n by (simp add: elect_eq enough_candidates_def)
  have taken: "pinners_taken (with_executor it) = length (kg_candidate_initial_pinners it)"
    "executors_taken (with_executor it) = length es"
    using assms(1) es n by (auto simp: pinners_taken_def executors_taken_def with_executor_def)
  have "request_ready ?it'"
    using assms(1) es n
    by (simp add: request_ready_def selected_def taken) (simp add: with_executor_def)
  moreover have "kg_executor ?it' = Some e" "kg_candidate_executors ?it' = []"
    "kg_candidate_initial_pinners ?it' = []"
    "add_mset (initial_pinner_info_from e) (mset (kg_initial_pinners ?it')) =
      mset (map initial_pinner_info_from (kg_candidate_executors it)) +
      mset (kg_candidate_initial_pinners it)"
    using assms(1) es by (simp_all add: selected_def taken) (simp_all add: with_executor_def)
  ultimately show ?thesis
    using elect by blast
qed

theorem elect_uses_all_witness:
  "\<exists>it' e. elect (sample_item 2 1 [''d'', ''e''] [''p'']) = Ok it' \<and> request_ready it' \<and>
     kg_executor it' = Some e \<and> kg_candidate_executors it' = [] \<and>
     kg_candidate_initial_pinners it' = []"
  using elect_uses_all [of "sample_item 2 1 [''d'', ''e''] [''p'']"]
  by (fastforce simp: sample_item_def)

text \<open>A task with two or more candidate executors and more than \<open>n\<close> candidates for pinning.\<close>

definition election_stuck :: "kg_item \<Rightarrow> bool" where
  "election_stuck it \<longleftrightarrow> kg_initial_pinners it = [] \<and> 2 \<le> length (kg_candidate_executors it) \<and>
     unat (kg_n it) < length (kg_candidate_initial_pinners it)"

text \<open>C14: such a task can never be sent: each election elects too many initial pinners, and every
  further candidate leaves the task as stuck as before.\<close>

theorem election_stuck_forever:
  assumes "election_stuck it"
  shows "election_stuck (insert_executor e it) \<and> election_stuck (insert_initial_pinner p it) \<and>
    (\<exists>it'. elect it = Ok it' \<and> \<not> request_ready it')"
  using assms elect_request_ready [of it]
  by (fastforce simp: election_stuck_def insert_executor_def insert_initial_pinner_def)

theorem election_stuck_forever_witness:
  "\<exists>it'. elect (sample_item 2 1 [''d'', ''e''] [''p'', ''q'', ''r'']) = Ok it' \<and>
     \<not> request_ready it'"
  using election_stuck_forever [of "sample_item 2 1 [''d'', ''e''] [''p'', ''q'', ''r'']"]
  by (simp add: election_stuck_def sample_item_def)

section \<open>The result reported to layer 1\<close>

lemma mset_map_filter: "mset (List.map_filter f xs) = \<Sum>\<^sub># (image_mset (\<lambda>x. case f x of None \<Rightarrow> {#} | Some y \<Rightarrow> {#y#}) (mset xs))"
  by (induction xs) (auto split: option.splits)

text \<open>C23: the update sent to layer 1 fails exactly if the task id is no base64 text or the execution
  result is missing; otherwise it reports the deployments the initial pinners answered with,
  each of them once, whatever the iteration order of the map.\<close>

theorem update_result_spec:
  assumes "hm_wf (kg_initial_pinner_responses it)"
  shows "case update_result_try_from H it t of
      (Ok r, t') \<Rightarrow> t' = t \<and>
        h_base64_decode H (as_bytes (ti_task_id (kg_task_info it))) = Inr (ukr_task_id r) \<and>
        ukr_delegator_nonce r = kg_nonce it \<and>
        kg_multi_sig_account it = Some (ukr_multi_sig_account r) \<and>
        kg_p2_public_key it = Some (ukr_public_key r) \<and>
        mset (ukr_deployment_ids r) = mset (List.map_filter snd (kg_initial_pinner_responses it))
    | (Err e, t') \<Rightarrow> t' = t \<and>
        (h_base64_decode H (as_bytes (ti_task_id (kg_task_info it))) = Inl e \<or>
         e = MultiSigAccountEmpty \<and> kg_multi_sig_account it = None \<or>
         e = PublicKeyEmpty \<and> kg_p2_public_key it = None)
    | _ \<Rightarrow> False"
proof -
  have "mset (List.map_filter snd (hm_entries (h_key_order H) (kg_initial_pinner_responses it))) =
      mset (List.map_filter snd (kg_initial_pinner_responses it))"
    by (simp add: mset_map_filter mset_hm_entries [OF assms])
  then show ?thesis
    by (cases "h_base64_decode H (as_bytes (ti_task_id (kg_task_info it)))";
        cases "kg_multi_sig_account it"; cases "kg_p2_public_key it")
      (simp_all add: update_result_try_from_def act_simps)
qed

theorem update_result_spec_witness:
  "\<exists>r. update_result_try_from memory_host
      (sample_item 2 1 [] []\<lparr>kg_multi_sig_account := Some [1], kg_p2_public_key := Some [2],
         kg_initial_pinner_responses := [(''p'', Some ''d''), (''q'', None)]\<rparr>) [] = (Ok r, []) \<and>
     mset (ukr_deployment_ids r) = {#''d''#}"
  using update_result_spec [of "sample_item 2 1 [] []\<lparr>kg_multi_sig_account := Some [1],
      kg_p2_public_key := Some [2], kg_initial_pinner_responses := [(''p'', Some ''d''), (''q'', None)]\<rparr>"
      "[]" memory_host]
  by (auto simp: hm_wf_def sample_item_def List.map_filter_simps split: prod.splits outcome.splits)

end
