(* ===== verification/Gluon_Candidates.thy ===== *)
theory Gluon_Candidates
  imports Gluon_Common
begin

text \<open>
  The choice of the peers invited to pin the key slices (\<open>delegator/key_gen/candidates.rs\<close>).
  Peers are taken in rounds of growing distance between their lucky number and that of the task
  until twice the number of slices is reached. The development shows that the loop ends on
  every input whatever the build profile, that it panics exactly on an empty id or a zero \<open>n\<close>,
  and that what it selects are all the peers up to a least sufficient distance, nearest first.
\<close>

section \<open>The code\<close>

text \<open>Indexing the last byte of an empty id panics, and so does a remainder by zero.\<close>

definition calculate_lucky_number :: "u8 \<Rightarrow> string \<Rightarrow> (error, u8) outcome" where
  "calculate_lucky_number n peer =
     (if as_bytes peer = [] then Panic
      else if n = 0 then Panic
      else Ok (last (as_bytes peer) mod n))"

text \<open>\<open>(lucky as i16 - lucky_number as i16).abs() as u8\<close>\<close>

definition lucky_distance :: "u8 \<Rightarrow> u8 \<Rightarrow> u8" where
  "lucky_distance lucky lucky_number = word_of_int \<bar>uint lucky - uint lucky_number\<bar>"

text \<open>One pass of the \<open>filter\<close>: the peers it moves to the candidates, and those it keeps.\<close>

fun select_pass ::
  "u8 \<Rightarrow> u8 \<Rightarrow> u8 \<Rightarrow> string list \<Rightarrow> (error, string list \<times> string list) outcome"
where
  "select_pass n lucky_number distance [] = Ok ([], [])"
| "select_pass n lucky_number distance (item # ids) =
     (case calculate_lucky_number n item of
        Ok lucky \<Rightarrow>
          (case select_pass n lucky_number distance ids of
             Ok (picked, kept) \<Rightarrow>
               if lucky_distance lucky lucky_number \<le> distance
               then Ok (item # picked, kept) else Ok (picked, item # kept)
           | Err e \<Rightarrow> Err e | Panic \<Rightarrow> Panic | Diverge \<Rightarrow> Diverge)
      | Err e \<Rightarrow> Err e | Panic \<Rightarrow> Panic | Diverge \<Rightarrow> Diverge)"

lemma select_pass_shrinks:
  "select_pass n l d ids = Ok (picked, kept) \<Longrightarrow> length picked + length kept = length ids"
  by (induction ids arbitrary: picked kept) (auto split: outcome.splits if_splits)

lemma select_pass_last:
  "select_pass n l 255 ids = Ok (picked, kept) \<Longrightarrow> kept = []"
proof (induction ids arbitrary: picked kept)
  case (Cons x xs)
  have "lucky_distance a l \<le> 255" for a
    using unsigned_less [of "lucky_distance a l", where ?'a = nat] by (simp add: word_le_nat_alt)
  with Cons show ?case by (auto split: outcome.splits if_splits)
qed simp

text \<open>
  The \<open>while\<close> loop. \<open>distance += 1\<close> on a \<open>u8\<close> panics at 255 in a build with overflow checks
  and wraps to 0 in one without.
\<close>

function select_rounds ::
  "bool \<Rightarrow> u8 \<Rightarrow> u8 \<Rightarrow> nat \<Rightarrow> string list \<Rightarrow> u8 \<Rightarrow> string list \<Rightarrow> (error, string list) outcome"
where
  "select_rounds checks n lucky_number candidates_count ids distance candidates_peers =
     (if length candidates_peers < candidates_count \<and> ids \<noteq> [] then
        (case select_pass n lucky_number distance ids of
           Ok (picked, kept) \<Rightarrow>
             if distance = 255 then
               (if checks then Panic
                else select_rounds checks n lucky_number candidates_count kept 0
                       (candidates_peers @ picked))
             else select_rounds checks n lucky_number candidates_count kept (distance + 1)
                    (candidates_peers @ picked)
         | Err e \<Rightarrow> Err e | Panic \<Rightarrow> Panic | Diverge \<Rightarrow> Diverge)
      else Ok candidates_peers)"
  by pat_completeness auto
termination
proof (relation "measures [\<lambda>(c, n, l, m, ids, d, ps). length ids,
    \<lambda>(c, n, l, m, ids, d, ps). 256 - unat d]", goal_cases)
  case 1
  then show ?case by simp
next
  case (2 checks n l m ids d ps x picked kept)
  then show ?case using select_pass_last [of n l ids picked kept] by simp
next
  case (3 checks n l m ids d ps x picked kept)
  have "1 + d \<noteq> 0"
    using 3 by (auto simp: add_eq_0_iff)
  then have "unat (d + 1) = Suc (unat d)"
    by (simp add: unatSuc add.commute)
  then show ?case
    using 3 select_pass_shrinks [of n l d ids picked kept] unsigned_less [of "d + 1", where ?'a = nat]
    by auto
qed

declare select_rounds.simps [simp del]

definition random_select_peers ::
  "bool \<Rightarrow> string list \<Rightarrow> u8 \<Rightarrow> string \<Rightarrow> (error, string list) outcome"
where
  "random_select_peers checks ids n task_id =
     (let candidates_count = unat n * 2 in
      if length ids < candidates_count then Ok ids
      else (case calculate_lucky_number n task_id of
              Ok lucky_number \<Rightarrow> select_rounds checks n lucky_number candidates_count ids 0 []
            | Err e \<Rightarrow> Err e | Panic \<Rightarrow> Panic | Diverge \<Rightarrow> Diverge))"

definition invite_candidate_initial_pinners ::
  "host \<Rightarrow> task_info \<Rightarrow> string list \<Rightarrow> unit io"
where
  "invite_candidate_initial_pinners H task_info filter_ids =
     bindA (prim (h_ipfs_swarm_peers H) (EPrim ''ipfs_swarm_peers''))
       (\<lambda>peers_ids.
     bindA (liftA (random_select_peers (h_overflow_checks H)
         (filter (\<lambda>v. v \<notin> set filter_ids) peers_ids)
         (ei_n (ti_exec_info task_info)) (ti_task_id task_info)))
       (\<lambda>selected.
     for_each (\<lambda>peer_id. send_key_candidate_request H peer_id task_info False)
       (take (unat (ei_n (ti_exec_info task_info)) * 2) selected)))"

section \<open>Reference definition\<close>

text \<open>The distance on natural numbers, and the peers nearer than \<open>D\<close>, by growing distance.\<close>

definition peer_distance :: "u8 \<Rightarrow> u8 \<Rightarrow> string \<Rightarrow> nat" where
  "peer_distance n l p = nat \<bar>uint (last (as_bytes p) mod n) - uint l\<bar>"

definition nearest :: "u8 \<Rightarrow> u8 \<Rightarrow> nat \<Rightarrow> string list \<Rightarrow> string list" where
  "nearest n l D ids = concat (map (\<lambda>d. filter (\<lambda>p. peer_distance n l p = d) ids) [0..<D])"

lemma as_bytes_Nil_iff [simp]: "as_bytes p = [] \<longleftrightarrow> p = []"
  by (simp add: as_bytes_def)

lemma unat_lucky_distance: "unat (lucky_distance a b) = nat \<bar>uint a - uint b\<bar>"
proof -
  have "uint a < 256" "uint b < 256" "0 \<le> uint a" "0 \<le> uint b"
    using unsigned_less [of a, where ?'a = int] unsigned_less [of b, where ?'a = int] by simp_all
  then have "0 \<le> \<bar>uint a - uint b\<bar>" "\<bar>uint a - uint b\<bar> < 256"
    by linarith+
  then have "uint (lucky_distance a b) = \<bar>uint a - uint b\<bar>"
    unfolding lucky_distance_def by (simp add: uint_word_of_int)
  then show ?thesis
    by (metis unat_eq_nat_uint)
qed

lemma select_pass_filter:
  assumes "n \<noteq> 0" "[] \<notin> set ids"
  shows "select_pass n l d ids =
    Ok (filter (\<lambda>p. peer_distance n l p \<le> unat d) ids, filter (\<lambda>p. unat d < peer_distance n l p) ids)"
  using assms
  by (induction ids)
    (auto simp: calculate_lucky_number_def word_le_nat_alt unat_lucky_distance peer_distance_def)

lemma select_pass_panics: "n \<noteq> 0 \<Longrightarrow> [] \<in> set ids \<Longrightarrow> select_pass n l d ids = Panic"
proof (induction ids)
  case (Cons x xs)
  then show ?case
    using select_pass_filter [of n xs l d]
    by (cases "[] \<in> set xs") (auto simp: calculate_lucky_number_def)
qed simp

lemma peer_distance_less: "l < n \<Longrightarrow> peer_distance n l p < 255"
proof -
  assume "l < n"
  then have "n \<noteq> 0" by auto
  then have "last (as_bytes p) mod n < n"
    by (simp add: word_gt_0 word_mod_less_divisor)
  then have "uint (last (as_bytes p) mod n) < 255" "uint l < 255"
    using \<open>l < n\<close> unsigned_less [of n, where ?'a = int] by (simp_all add: word_less_def)
  moreover have "0 \<le> uint (last (as_bytes p) mod n)" "0 \<le> uint l"
    by simp_all
  ultimately have "\<bar>uint (last (as_bytes p) mod n) - uint l\<bar> < 255"
    by linarith
  then show ?thesis
    by (simp add: peer_distance_def)
qed

lemma nearest_Suc: "nearest n l (Suc D) ids = nearest n l D ids @ filter (\<lambda>p. peer_distance n l p = D) ids"
  by (simp add: nearest_def)

lemma set_nearest: "set (nearest n l D ids) = {p \<in> set ids. peer_distance n l p < D}"
  by (induction D) (auto simp: nearest_Suc nearest_def less_Suc_eq)

lemma mset_nearest: "mset (nearest n l D ids) = filter_mset (\<lambda>p. peer_distance n l p < D) (mset ids)"
proof (induction D)
  case (Suc D)
  have "filter_mset (\<lambda>p. peer_distance n l p < Suc D) M =
      filter_mset (\<lambda>p. peer_distance n l p < D) M + filter_mset (\<lambda>p. peer_distance n l p = D) M" for M
    by (induction M) (auto simp: less_Suc_eq)
  with Suc show ?case by (simp add: nearest_Suc)
qed (simp add: nearest_def)

lemma select_rounds_nearest:
  assumes "n \<noteq> 0" "l < n" "[] \<notin> set ids0"
    and "ids = filter (\<lambda>p. unat d \<le> peer_distance n l p) ids0"
    and "acc = nearest n l (unat d) ids0"
  shows "\<exists>D \<ge> unat d. select_rounds checks n l m ids d acc = Ok (nearest n l D ids0) \<and>
     (length (nearest n l D ids0) < m \<longrightarrow> filter (\<lambda>p. D \<le> peer_distance n l p) ids0 = []) \<and>
     (unat d < D \<longrightarrow> length (nearest n l (D - 1) ids0) < m)"
  using assms
proof (induction checks n l m ids d acc rule: select_rounds.induct)
  case (1 checks n l m ids d acc)
  show ?case
  proof (cases "length acc < m \<and> ids \<noteq> []")
    case False
    then show ?thesis
      using "1.prems" by (intro exI [of _ "unat d"]) (auto simp: select_rounds.simps)
  next
    case True
    let ?picked = "filter (\<lambda>p. peer_distance n l p \<le> unat d) ids"
    let ?kept = "filter (\<lambda>p. unat d < peer_distance n l p) ids"
    have pass: "select_pass n l d ids = Ok (?picked, ?kept)"
      using "1.prems" by (intro select_pass_filter) auto
    have "unat d \<noteq> 255"
    proof
      assume "unat d = 255"
      then have "ids = []"
        using "1.prems"(4) peer_distance_less [OF "1.prems"(2)] by (simp add: filter_empty_conv not_le)
      with True show False by simp
    qed
    then have d: "d \<noteq> 255" by auto
    then have "1 + d \<noteq> 0"
      by (auto simp: add_eq_0_iff)
    then have Suc: "unat (d + 1) = Suc (unat d)"
      by (simp add: unatSuc add.commute)
    have acc: "acc @ ?picked = nearest n l (unat (d + 1)) ids0"
      unfolding Suc nearest_Suc "1.prems"(4,5) by (auto intro: filter_cong)
    have kept: "?kept = filter (\<lambda>p. unat (d + 1) \<le> peer_distance n l p) ids0"
      unfolding Suc "1.prems"(4) by (auto intro: filter_cong)
    have step: "select_rounds checks n l m ids d acc =
        select_rounds checks n l m ?kept (d + 1) (acc @ ?picked)"
      using True d by (subst select_rounds.simps) (simp add: pass)
    obtain D where D: "D \<ge> unat (d + 1)"
      "select_rounds checks n l m ?kept (d + 1) (acc @ ?picked) = Ok (nearest n l D ids0)"
      "length (nearest n l D ids0) < m \<longrightarrow> filter (\<lambda>p. D \<le> peer_distance n l p) ids0 = []"
      "unat (d + 1) < D \<longrightarrow> length (nearest n l (D - 1) ids0) < m"
      using "1.IH"(2) [OF True pass refl d "1.prems"(1-3) kept acc] by blast
    have "length (nearest n l (D - 1) ids0) < m"
      using D(1,4) True "1.prems"(5) Suc by (cases "D = unat (d + 1)") auto
    then show ?thesis
      using D Suc step by (intro exI [of _ D]) auto
  qed
qed

lemma select_rounds_panics:
  assumes "n \<noteq> 0" "[] \<in> set ids" "length acc < m"
  shows "select_rounds checks n l m ids d acc = Panic"
  using assms by (subst select_rounds.simps) (auto simp: select_pass_panics)

lemma calculate_lucky_number_less:
  "calculate_lucky_number n p = Ok l \<Longrightarrow> n \<noteq> 0 \<and> p \<noteq> [] \<and> l < n"
  by (auto simp: calculate_lucky_number_def word_gt_0 word_mod_less_divisor split: if_splits)

section \<open>What is selected\<close>

text \<open>The least distance below which there are enough peers.\<close>

definition sufficient_distance :: "u8 \<Rightarrow> u8 \<Rightarrow> string list \<Rightarrow> nat" where
  "sufficient_distance n l ids = (LEAST D. unat n * 2 \<le> length (nearest n l D ids))"

lemma length_nearest_mono: "D \<le> E \<Longrightarrow> length (nearest n l D ids) \<le> length (nearest n l E ids)"
  by (rule lift_Suc_mono_le [where f = "\<lambda>D. length (nearest n l D ids)"]) (simp_all add: nearest_Suc)

lemma nearest_all:
  "filter (\<lambda>p. D \<le> peer_distance n l p) ids = [] \<Longrightarrow> mset (nearest n l D ids) = mset ids"
  by (auto simp: mset_nearest filter_empty_conv not_le intro!: filter_mset_eq_conv [THEN iffD2])

lemma sufficient_distance_eq:
  assumes "unat n * 2 \<le> length (nearest n l D ids)"
    and "0 < D \<Longrightarrow> length (nearest n l (D - 1) ids) < unat n * 2"
  shows "sufficient_distance n l ids = D"
  unfolding sufficient_distance_def
proof (rule Least_equality, rule assms(1), rule ccontr)
  fix E assume E: "unat n * 2 \<le> length (nearest n l E ids)" "\<not> D \<le> E"
  then have "length (nearest n l E ids) \<le> length (nearest n l (D - 1) ids)"
    by (intro length_nearest_mono) simp
  with assms(2) E show False by simp
qed

lemma random_select_peers_eq:
  "random_select_peers checks ids n task_id =
     (if length ids < unat n * 2 then Ok ids
      else if n = 0 \<or> task_id = [] \<or> [] \<in> set ids then Panic
      else let l = last (as_bytes task_id) mod n
           in Ok (nearest n l (sufficient_distance n l ids) ids))"
proof (cases "length ids < unat n * 2 \<or> n = 0 \<or> task_id = []")
  case True
  then show ?thesis
    by (auto simp: random_select_peers_def calculate_lucky_number_def)
next
  case False
  define l where "l = last (as_bytes task_id) mod n"
  from False have n: "n \<noteq> 0" "0 < unat n * 2" and enough: "unat n * 2 \<le> length ids"
    by (auto simp: unat_gt_0)
  have lucky: "calculate_lucky_number n task_id = Ok l"
    using False by (simp add: calculate_lucky_number_def l_def)
  note l = calculate_lucky_number_less [OF this]
  show ?thesis
  proof (cases "[] \<in> set ids")
    case True
    then show ?thesis
      using False lucky n by (simp add: random_select_peers_def select_rounds_panics)
  next
    case nonempty: False
    obtain D where D:
      "select_rounds checks n l (unat n * 2) ids 0 [] = Ok (nearest n l D ids)"
      "length (nearest n l D ids) < unat n * 2 \<longrightarrow> filter (\<lambda>p. D \<le> peer_distance n l p) ids = []"
      "0 < D \<longrightarrow> length (nearest n l (D - 1) ids) < unat n * 2"
      using select_rounds_nearest [of n l ids ids 0 "[]" checks "unat n * 2"] n l nonempty
      by (auto simp: nearest_def)
    have "unat n * 2 \<le> length (nearest n l D ids)"
      using D(2) nearest_all [of D n l ids] enough by (metis not_le size_mset)
    then have "sufficient_distance n l ids = D"
      using D(3) by (intro sufficient_distance_eq) auto
    then show ?thesis
      using False lucky nonempty enough D(1) by (simp add: random_select_peers_def l_def)
  qed
qed

text \<open>C15: \<open>random_select_peers\<close> returns on every input, whatever the build profile: all the ids if
  there are fewer than \<open>2n\<close>, even empty ones; else a panic exactly if \<open>n\<close> is zero or an id (the
  task's or a peer's) is empty; otherwise all the peers nearer than the least sufficient distance, nearest first and
  in their order within a distance.\<close>

theorem random_select_peers_spec:
  "random_select_peers checks ids n task_id =
     (if length ids < unat n * 2 then Ok ids
      else if n = 0 \<or> task_id = [] \<or> [] \<in> set ids then Panic
      else let l = last (as_bytes task_id) mod n
           in Ok (nearest n l (sufficient_distance n l ids) ids))"
  by (rule random_select_peers_eq)

lemma random_select_peers_no_error:
  "random_select_peers checks ids n task_id \<noteq> Err e"
  "random_select_peers checks ids n task_id \<noteq> Diverge"
  by (simp_all add: random_select_peers_eq Let_def)

lemma sufficient_distance_reached:
  assumes "unat n * 2 \<le> length ids" "l < n"
  shows "unat n * 2 \<le> length (nearest n l (sufficient_distance n l ids) ids)"
  unfolding sufficient_distance_def
proof (rule LeastI)
  have "filter (\<lambda>p. 255 \<le> peer_distance n l p) ids = []"
    using peer_distance_less [OF assms(2)] by (simp add: filter_empty_conv not_le)
  then have "mset (nearest n l 255 ids) = mset ids"
    by (rule nearest_all)
  then show "unat n * 2 \<le> length (nearest n l 255 ids)"
    using assms(1) by (metis size_mset)
qed

lemma random_select_peers_Ok:
  assumes "random_select_peers checks ids n task_id = Ok ps"
  shows "mset ps \<subseteq># mset ids"
    and "min (unat n * 2) (length ids) \<le> length ps"
    and "x \<in> set ps \<Longrightarrow> y \<in> set ids - set ps \<Longrightarrow>
         peer_distance n (last (as_bytes task_id) mod n) x < peer_distance n (last (as_bytes task_id) mod n) y"
proof -
  let ?l = "last (as_bytes task_id) mod n"
  consider "ps = ids" | "unat n * 2 \<le> length ids" "n \<noteq> 0"
      "ps = nearest n ?l (sufficient_distance n ?l ids) ids"
    using assms by (auto simp: random_select_peers_eq Let_def split: if_splits)
  then have "mset ps \<subseteq># mset ids \<and> min (unat n * 2) (length ids) \<le> length ps \<and>
      (x \<in> set ps \<longrightarrow> y \<in> set ids - set ps \<longrightarrow> peer_distance n ?l x < peer_distance n ?l y)"
  proof cases
    case 2
    then have "?l < n" by (simp add: word_gt_0 word_mod_less_divisor)
    then show ?thesis
      using 2 sufficient_distance_reached [OF 2(1)] by (auto simp: mset_nearest set_nearest)
  qed auto
  then show "mset ps \<subseteq># mset ids" "min (unat n * 2) (length ids) \<le> length ps"
    "x \<in> set ps \<Longrightarrow> y \<in> set ids - set ps \<Longrightarrow> peer_distance n ?l x < peer_distance n ?l y"
    by auto
qed

end
