(* ===== verification/Gluon_KeyGen.thy ===== *)
theory Gluon_KeyGen
  imports Gluon_KeyGen_Item Gluon_Candidates Gluon_Memory_Host
begin

text \<open>
  The delegator of a key generation task: the proof that it may be the delegator
  (\<open>verifier.rs\<close>), the handlers (\<open>key_gen.rs\<close>), the remote attestation of candidates
  (\<open>key_gen/ra.rs\<close>) and what follows a successful one (\<open>key_gen/observers.rs\<close>,
  \<open>client_observer.rs\<close>).
\<close>

section \<open>Becoming the delegator\<close>

definition try_to_be_delegator :: "host \<Rightarrow> bytes \<Rightarrow> bytes \<Rightarrow> delegator_cont \<Rightarrow> unit io" where
  "try_to_be_delegator H nonce_encrypted nonce_hash callback =
     call_pinner H ''actor.pinner.intercom.get_delegator_key'' []
       (CbGetDelegatorKey nonce_encrypted nonce_hash callback)"

definition get_delegator_key_callback ::
  "host \<Rightarrow> bytes \<Rightarrow> bytes \<Rightarrow> (bytes \<Rightarrow> unit io) \<Rightarrow> broker_message \<Rightarrow> unit io"
where
  "get_delegator_key_callback H nonce_encrypted nonce_hash callback msg =
     bindA (pure (h_deserialize_key H (bm_body msg)))
       (\<lambda>key.
     case key of
       Some key \<Rightarrow>
         matchA (prim (\<lambda>t. h_rsa_decrypt H t key nonce_encrypted) (EPrim ''rsa_decrypt''))
           (\<lambda>nonce.
             bindA (prim (\<lambda>t. h_sha256 H t nonce) (EPrim ''sha256''))
               (\<lambda>hash. if nonce_hash \<noteq> hash then failA NonceHashMismatch else callback nonce))
           (\<lambda>_. returnA ())
     | None \<Rightarrow> returnA ())"

section \<open>The request of layer 1\<close>

definition process_key_generation_event :: "host \<Rightarrow> key_generation_response \<Rightarrow> unit io" where
  "process_key_generation_event H res =
     try_to_be_delegator H (kgr_delegator_tea_nonce_rsa_encryption res)
       (kgr_delegator_tea_nonce_hash res) (ContKeyGenEvent res)"

definition key_generation_event_callback ::
  "host \<Rightarrow> key_generation_response \<Rightarrow> bytes \<Rightarrow> unit io"
where
  "key_generation_event_callback H res nonce =
     bindA (pure (kg_item_try_from H res))
       (\<lambda>item.
     let store_item = item\<lparr>kg_nonce := nonce\<rparr> in
     seqA (kg_save H store_item)
     (seqA (invite_candidate_executors H (kg_task_info store_item) OpInviteExecutor ContInvitePinners)
     (kg_save H (store_item\<lparr>kg_status := InvitedCandidates\<rparr>))))"

section \<open>Sending the task to the executor\<close>

definition kg_try_send_to_executor :: "host \<Rightarrow> kg_item \<Rightarrow> unit io" where
  "kg_try_send_to_executor H item =
     bindA (liftA (candidates_ready (h_overflow_checks H) item))
       (\<lambda>ready.
     if \<not> ready then returnA ()
     else bindA (liftA (elect item))
       (\<lambda>item.
     if \<not> request_ready item then failA (NotElectedProperly (ti_task_id (kg_task_info item)))
     else case kg_executor item of
       None \<Rightarrow> panicA
     | Some executor \<Rightarrow>
         seqA (send_message H (xi_peer_id executor) (ti_task_id (kg_task_info item))
           (TaskExecutionRequest (generate_request item)))
         (kg_save H (item\<lparr>kg_status := KgSentToExecutor\<rparr>))))"

section \<open>Answers of the executor and the initial pinners\<close>

definition delegator_store_item_handler ::
  "host \<Rightarrow> string \<Rightarrow> string \<Rightarrow> string \<Rightarrow> (kg_item \<Rightarrow> unit io) \<Rightarrow> unit io"
where
  "delegator_store_item_handler H task_id peer_id reply_to action =
     matchA (kg_get H task_id) action
       (\<lambda>e. call H (ELogError reply_to peer_id task_id
          (''failed to get DelegatorStoreItem with task_id '' @ task_id @ '', details: '' @
           h_display_error H e)))"

definition share_slices_to_initial_pinner ::
  "host \<Rightarrow> string \<Rightarrow> task_result_initial_pinner_data \<Rightarrow> bytes \<Rightarrow> bytes \<Rightarrow> unit io"
where
  "share_slices_to_initial_pinner H task_id data pub_key multi_sig_account =
     send_message H (trp_peer_id data) task_id (TaskPinnerKeySliceRequest
       \<lparr>pkr_task_id = task_id, pkr_public_key = pub_key,
        pkr_encrypted_key_slice = trp_encrypted_key_slice data,
        pkr_multi_sig_account = multi_sig_account\<rparr>)"

text \<open>The map after the loop: every pinner of the response still has to answer.\<close>

definition await_pinners ::
  "task_result_initial_pinner_data list \<Rightarrow> string option hmap \<Rightarrow> string option hmap"
where
  "await_pinners pinners responses = fold (\<lambda>p. hm_insert (trp_peer_id p) None) pinners responses"

definition process_task_execution_response ::
  "host \<Rightarrow> task_execution_response \<Rightarrow> string \<Rightarrow> string \<Rightarrow> unit io"
where
  "process_task_execution_response H res peer_id reply_to =
     delegator_store_item_handler H (tes_task_id res) peer_id reply_to
       (\<lambda>item.
     let item1 = item\<lparr>kg_p2_public_key := Some (tes_p2_public_key res),
                     kg_multi_sig_account := Some (tes_multi_sig_account res),
                     kg_status := ReceivedExecutionResult\<rparr>;
         item2 = item1\<lparr>kg_initial_pinner_responses :=
                     await_pinners (tes_initial_pinners res) (kg_initial_pinner_responses item1),
                     kg_status := SentToInitialPinner\<rparr>
     in
     seqA (kg_save H item1)
     (seqA (for_each
         (\<lambda>pinner_data. share_slices_to_initial_pinner H (ti_task_id (kg_task_info item1))
            pinner_data (tes_p2_public_key res) (tes_multi_sig_account res))
         (tes_initial_pinners res))
     (seqA (kg_save H item2)
     (response_reply_with_subject H reply_to (as_bytes ''received task response'')))))"

definition process_task_pinner_key_slice_response ::
  "host \<Rightarrow> task_pinner_key_slice_response \<Rightarrow> string \<Rightarrow> string \<Rightarrow> unit io"
where
  "process_task_pinner_key_slice_response H res peer_id reply_to =
     delegator_store_item_handler H (pks_task_id res) peer_id reply_to
       (\<lambda>item.
     case hm_get (kg_initial_pinner_responses item) peer_id of
       None \<Rightarrow> call H (ELogReject reply_to peer_id (pks_task_id res)
         (''failed to get initial pinner's (peer id is '' @ peer_id @ '') info with task_id of '' @
          pks_task_id res))
     | Some _ \<Rightarrow>
         let item1 = item\<lparr>kg_initial_pinner_responses := hm_insert peer_id
               (Some (pks_deployment_id res)) (kg_initial_pinner_responses item)\<rparr>
         in if is_all_initial_pinners_ready item1 then
              let item2 = item1\<lparr>kg_status := ReceivedAllPinnerResponse\<rparr> in
              seqA (kg_save H item2)
              (bindA (update_result_try_from H item2)
                (\<lambda>result.
              bindA (pure (h_encode_protobuf H (PbUpdateKeyGenerationResult result)))
                (\<lambda>body.
              call H (ECall ''layer1.async.reply.update_generate_key_result'' ''actor.gluon.inbox''
                (as_bytes (h_base64_encode H body))
                (CbUpdateKeyGenResult (ti_task_id (kg_task_info item2)))))))
            else
              seqA (kg_save H item1)
              (response_reply_with_subject H reply_to
                (as_bytes ''received initial pinner key slice response'')))"

definition close_p2p_connections :: "host \<Rightarrow> string \<Rightarrow> unit io" where
  "close_p2p_connections H task_id =
     bindA (kg_get H task_id)
       (\<lambda>item.
     seqA (for_each (\<lambda>pinner. close_p2p H (pi_peer_id pinner)) (kg_initial_pinners item))
     (case kg_executor item of
        Some executor \<Rightarrow> close_p2p H (xi_peer_id executor)
      | None \<Rightarrow> returnA ()))"

section \<open>Remote attestation of candidates\<close>

definition PROPERTY_TASK_ID :: string where
  "PROPERTY_TASK_ID = ''task_id''"

definition PROPERTY_RSA_PUB_KEY :: string where
  "PROPERTY_RSA_PUB_KEY = ''rsa_pub_key''"

definition KG_PROPERTY_DELEGATOR_RA_TARGET_ROLE :: string where
  "KG_PROPERTY_DELEGATOR_RA_TARGET_ROLE = ''delegator_ra_target_role''"

definition VALUE_RA_TARGET_EXECUTOR :: string where
  "VALUE_RA_TARGET_EXECUTOR = ''executor''"

definition VALUE_RA_TARGET_INITIAL_PINNER :: string where
  "VALUE_RA_TARGET_INITIAL_PINNER = ''initial_pinner''"

definition PROPERTY_KEY_GEN_FLAG :: string where
  "PROPERTY_KEY_GEN_FLAG = ''task_delegator_key_gen_flag''"

definition tag_for_key_gen :: "string hmap \<Rightarrow> string hmap" where
  "tag_for_key_gen settings = hm_insert PROPERTY_KEY_GEN_FLAG BINDING_NAME settings"

definition is_key_gen_tag :: "challange_store_item \<Rightarrow> bool" where
  "is_key_gen_tag item \<longleftrightarrow> property_or_default PROPERTY_KEY_GEN_FLAG item = BINDING_NAME"

text \<open>The properties of both attestation requests, which differ in the role only.\<close>

definition kg_ra_properties :: "host \<Rightarrow> task_key_generation_apply_request \<Rightarrow> string \<Rightarrow> string hmap" where
  "kg_ra_properties H request role =
     tag_for_key_gen
       (hm_insert KG_PROPERTY_DELEGATOR_RA_TARGET_ROLE role
       (hm_insert PROPERTY_RSA_PUB_KEY (h_base64_encode H (kga_rsa_pub_key request))
       (hm_insert PROPERTY_TASK_ID (kga_task_id request) [])))"

definition kg_remote_attestation_executor ::
  "host \<Rightarrow> task_key_generation_apply_request \<Rightarrow> string \<Rightarrow> string \<Rightarrow> unit io"
where
  "kg_remote_attestation_executor H request peer_id reply_to =
     seqA (response_reply_with_subject H reply_to (as_bytes ''key generation to ra executor sent''))
     (send_ra_request H peer_id (kg_ra_properties H request VALUE_RA_TARGET_EXECUTOR))"

definition remote_attestation_initial_pinner ::
  "host \<Rightarrow> task_key_generation_apply_request \<Rightarrow> string \<Rightarrow> string \<Rightarrow> unit io"
where
  "remote_attestation_initial_pinner H request peer_id reply_to =
     seqA (response_reply_with_subject H reply_to
       (as_bytes ''key generation to ra initial pinner sent''))
     (send_ra_request H peer_id (kg_ra_properties H request VALUE_RA_TARGET_INITIAL_PINNER))"

definition kg_is_executor_ra_response :: "challange_store_item \<Rightarrow> bool" where
  "kg_is_executor_ra_response item \<longleftrightarrow>
     property_or_default KG_PROPERTY_DELEGATOR_RA_TARGET_ROLE item = VALUE_RA_TARGET_EXECUTOR"

definition is_initial_pinner_ra_response :: "challange_store_item \<Rightarrow> bool" where
  "is_initial_pinner_ra_response item \<longleftrightarrow>
     property_or_default KG_PROPERTY_DELEGATOR_RA_TARGET_ROLE item = VALUE_RA_TARGET_INITIAL_PINNER"

definition task_key_generation_apply_request_handler ::
  "host \<Rightarrow> task_key_generation_apply_request \<Rightarrow> string \<Rightarrow> string \<Rightarrow> unit io"
where
  "task_key_generation_apply_request_handler H request peer_id reply_to =
     (if kga_apply_executor request
      then kg_remote_attestation_executor H request peer_id reply_to
      else remote_attestation_initial_pinner H request peer_id reply_to)"

section \<open>After a successful attestation\<close>

definition kg_on_executor_ra_success :: "host \<Rightarrow> string \<Rightarrow> string \<Rightarrow> bytes \<Rightarrow> unit io" where
  "kg_on_executor_ra_success H task_id peer_id rsa_pub_key =
     bindA (kg_get H task_id)
       (\<lambda>store_item.
     if kg_status store_item \<noteq> InvitedCandidates then returnA ()
     else
       let store_item' =
             insert_executor \<lparr>xi_peer_id = peer_id, xi_rsa_pub_key = rsa_pub_key\<rparr> store_item
       in seqA (kg_save H store_item') (kg_try_send_to_executor H store_item'))"

definition on_initial_pinner_ra_success :: "host \<Rightarrow> string \<Rightarrow> string \<Rightarrow> bytes \<Rightarrow> unit io" where
  "on_initial_pinner_ra_success H task_id peer_id rsa_pub_key =
     bindA (kg_get H task_id)
       (\<lambda>store_item.
     if kg_status store_item \<noteq> InvitedCandidates then returnA ()
     else
       let store_item' =
             insert_initial_pinner \<lparr>pi_peer_id = peer_id, pi_rsa_pub_key = rsa_pub_key\<rparr> store_item
       in seqA (kg_save H store_item') (kg_try_send_to_executor H store_item'))"

definition kg_operation_after_verify_handler ::
  "host \<Rightarrow> string \<Rightarrow> bytes \<Rightarrow> challange_store_item \<Rightarrow> unit io"
where
  "kg_operation_after_verify_handler H peer_id ephemeral_id item =
     bindA (require (NoTaskIdProperty (cs_uuid item))
         (find_property PROPERTY_TASK_ID (cs_properties item)))
       (\<lambda>task_id.
     bindA (require (NoRsaPubKeyProperty (cs_uuid item))
         (find_property PROPERTY_RSA_PUB_KEY (cs_properties item)))
       (\<lambda>rsa_pub_key_text.
     bindA (pure (h_base64_decode H (as_bytes (pp_value rsa_pub_key_text))))
       (\<lambda>rsa_pub_key.
     if kg_is_executor_ra_response item
     then kg_on_executor_ra_success H (pp_value task_id) peer_id rsa_pub_key
     else if is_initial_pinner_ra_response item
     then on_initial_pinner_ra_success H (pp_value task_id) peer_id rsa_pub_key
     else returnA ())))"

lemmas ra_property_defs =
  PROPERTY_TASK_ID_def PROPERTY_RSA_PUB_KEY_def KG_PROPERTY_DELEGATOR_RA_TARGET_ROLE_def
  VALUE_RA_TARGET_EXECUTOR_def VALUE_RA_TARGET_INITIAL_PINNER_def PROPERTY_KEY_GEN_FLAG_def

end
