(* ===== verification/Gluon_Sign.thy ===== *)
theory Gluon_Sign
  imports Gluon_KeyGen
begin

text \<open>
  The delegator of a sign task: its store item (\<open>delegator/sign/store_item.rs\<close>), its handlers
  (\<open>delegator/sign.rs\<close>), the remote attestation of the executor and of the pinners
  (\<open>sign/ra.rs\<close>) and what follows a successful one (\<open>sign/observers.rs\<close>,
  \<open>client_observer.rs\<close>).
\<close>

section \<open>The store item\<close>

abbreviation sg_task_id :: "sg_item \<Rightarrow> string" where
  "sg_task_id it \<equiv> ti_task_id (sg_task_info it)"

abbreviation sg_k :: "sg_item \<Rightarrow> u8" where
  "sg_k it \<equiv> ei_k (ti_exec_info (sg_task_info it))"

definition sg_item_try_from :: "host \<Rightarrow> sign_transaction_response \<Rightarrow> error + sg_item" where
  "sg_item_try_from H value = Inr
     \<lparr>sg_task_info = \<lparr>ti_task_id = h_base64_encode H (str_task_id value),
        ti_exec_info = \<lparr>ei_n = 0, ei_k = 0, ei_task_type = ''''\<rparr>\<rparr>,
      sg_status = SgInit, sg_executor = None,
      sg_multi_sig_account = str_multi_sig_account value,
      sg_p1_signature = str_p1_signature value,
      sg_transaction_data = str_transaction_data value,
      sg_nonce = [], sg_key_slices = [], sg_deployment_candidates = []\<rparr>"

definition init_deployment_resources :: "string list \<Rightarrow> sg_item \<Rightarrow> sg_item" where
  "init_deployment_resources deployment_ids it = fold
     (\<lambda>i it. it\<lparr>sg_key_slices := hm_insert i None (sg_key_slices it),
                sg_deployment_candidates := hm_insert i [] (sg_deployment_candidates it)\<rparr>)
     deployment_ids it"

definition has_found_key_slice :: "sg_item \<Rightarrow> string \<Rightarrow> bool" where
  "has_found_key_slice it deployment_id =
     (case hm_get (sg_key_slices it) deployment_id of
        Some found \<Rightarrow> found \<noteq> None
      | None \<Rightarrow> False)"

definition insert_deployment :: "string \<Rightarrow> string \<Rightarrow> sg_item \<Rightarrow> error + sg_item" where
  "insert_deployment deployment_id peer_id it =
     (case hm_get (sg_deployment_candidates it) deployment_id of
        None \<Rightarrow> Inl (DeploymentNotExists deployment_id)
      | Some peers \<Rightarrow> Inr (it\<lparr>sg_deployment_candidates :=
          hm_insert deployment_id (peers @ [peer_id]) (sg_deployment_candidates it)\<rparr>))"

definition insert_key_slice_info :: "string \<Rightarrow> key_slice_info \<Rightarrow> sg_item \<Rightarrow> error + sg_item" where
  "insert_key_slice_info deployment_id info it =
     (case hm_get (sg_key_slices it) deployment_id of
        None \<Rightarrow> Inl (DeploymentNotExists deployment_id)
      | Some _ \<Rightarrow> Inr (it\<lparr>sg_key_slices :=
          hm_insert deployment_id (Some info) (sg_key_slices it)\<rparr>))"

definition ready_send_to_executor :: "sg_item \<Rightarrow> bool" where
  "ready_send_to_executor it \<longleftrightarrow>
     unat (sg_k it) \<le> length (filter (\<lambda>(_, value). value \<noteq> None) (sg_key_slices it))"

definition pop_all_candidates :: "sg_item \<Rightarrow> string list hmap \<times> sg_item" where
  "pop_all_candidates it = (sg_deployment_candidates it, it\<lparr>sg_deployment_candidates := []\<rparr>)"

definition get_encrypted_key_slices :: "host \<Rightarrow> sg_item \<Rightarrow> bytes list" where
  "get_encrypted_key_slices H it =
     List.map_filter (\<lambda>(_, v). map_option ks_encrypted_key_slice v)
       (hm_entries (h_key_order H) (sg_key_slices it))"

section \<open>Remote attestation\<close>

definition SG_PROPERTY_DELEGATOR_RA_TARGET_ROLE :: string where
  "SG_PROPERTY_DELEGATOR_RA_TARGET_ROLE = ''delegator_sign_ra_target_role''"

definition VALUE_RA_TARGET_PINNER :: string where
  "VALUE_RA_TARGET_PINNER = ''pinner''"

definition PROPERTY_SIGN_FLAG :: string where
  "PROPERTY_SIGN_FLAG = ''task_delegator_sign_flag''"

definition PROPERTY_KEY_DEPLOYMENT_ID :: string where
  "PROPERTY_KEY_DEPLOYMENT_ID = ''deployment_id''"

definition tag_for_sign :: "string hmap \<Rightarrow> string hmap" where
  "tag_for_sign settings = hm_insert PROPERTY_SIGN_FLAG BINDING_NAME settings"

definition is_sign_tag :: "challange_store_item \<Rightarrow> bool" where
  "is_sign_tag item \<longleftrightarrow> property_or_default PROPERTY_SIGN_FLAG item = BINDING_NAME"

definition sg_executor_ra_properties ::
  "host \<Rightarrow> task_sign_with_key_slices_request \<Rightarrow> string hmap"
where
  "sg_executor_ra_properties H request =
     tag_for_sign
       (hm_insert SG_PROPERTY_DELEGATOR_RA_TARGET_ROLE VALUE_RA_TARGET_EXECUTOR
       (hm_insert PROPERTY_RSA_PUB_KEY (h_base64_encode H (swr_rsa_pub_key request))
       (hm_insert PROPERTY_TASK_ID (swr_task_id request) [])))"

definition sg_remote_attestation_executor ::
  "host \<Rightarrow> task_sign_with_key_slices_request \<Rightarrow> string \<Rightarrow> string \<Rightarrow> unit io"
where
  "sg_remote_attestation_executor H request peer_id reply_to =
     seqA (response_reply_with_subject H reply_to (as_bytes ''sign to ra executor sent''))
     (send_ra_request H peer_id (sg_executor_ra_properties H request))"

definition generate_pinner_ra_properties :: "string \<Rightarrow> string hmap" where
  "generate_pinner_ra_properties task_id =
     tag_for_sign
       (hm_insert SG_PROPERTY_DELEGATOR_RA_TARGET_ROLE VALUE_RA_TARGET_PINNER
       (hm_insert PROPERTY_TASK_ID task_id []))"

definition sg_is_executor_ra_response :: "challange_store_item \<Rightarrow> bool" where
  "sg_is_executor_ra_response item \<longleftrightarrow>
     property_or_default SG_PROPERTY_DELEGATOR_RA_TARGET_ROLE item = VALUE_RA_TARGET_EXECUTOR"

definition is_pinner_ra_response :: "challange_store_item \<Rightarrow> bool" where
  "is_pinner_ra_response item \<longleftrightarrow>
     property_or_default SG_PROPERTY_DELEGATOR_RA_TARGET_ROLE item = VALUE_RA_TARGET_PINNER"

section \<open>The request of layer 1\<close>

definition process_sign_with_key_slices_event :: "host \<Rightarrow> sign_transaction_response \<Rightarrow> unit io" where
  "process_sign_with_key_slices_event H res =
     try_to_be_delegator H (str_delegator_tea_nonce_rsa_encryption res)
       (str_delegator_tea_nonce_hash res) (ContSignEvent res)"

definition sign_event_with_deployments ::
  "host \<Rightarrow> sign_transaction_response \<Rightarrow> bytes \<Rightarrow> string list \<Rightarrow> unit io"
where
  "sign_event_with_deployments H res nonce deployment_ids =
     bindA (pure (sg_item_try_from H res))
       (\<lambda>item0.
     let item1 = item0\<lparr>sg_nonce := nonce\<rparr>;
         properties = generate_pinner_ra_properties (sg_task_id item1);
         item2 = item1\<lparr>sg_task_info := (sg_task_info item1)
           \<lparr>ti_exec_info := \<lparr>ei_n = 2, ei_k = 1, ei_task_type = ''bitcoin_mainnet''\<rparr>\<rparr>\<rparr>;
         item = (init_deployment_resources deployment_ids item2)\<lparr>sg_status := Initialized\<rparr>
     in seqA (sg_save H item)
        (invite_candidate_executors H (sg_task_info item) (OpSignCandidate item)
          (ContFindPinners deployment_ids properties)))"

text \<open>\<open>dump_methods::get_deployment_ids\<close>, compiled with the feature \<open>dev\<close> only.\<close>

definition predefined_deployment_ids :: "host \<Rightarrow> string list option io" where
  "predefined_deployment_ids H = kv_get (h_kv_get_strings H) DEPLOYMENT_IDS_KEY"

definition get_deployment_ids :: "host \<Rightarrow> sign_transaction_response \<Rightarrow> bytes \<Rightarrow> unit io" where
  "get_deployment_ids H res nonce =
     (let query =
        bindA (pure (h_encode_protobuf H (PbGetDeploymentIds (str_multi_sig_account res))))
          (\<lambda>content.
        call H (ECall ''layer1.async.reply.get_deployment_ids'' ''actor.gluon.inbox''
          (as_bytes (h_base64_encode H content)) (CbGetDeploymentIds res nonce)))
      in if h_dev H then
           bindA (predefined_deployment_ids H)
             (\<lambda>deployment_ids.
           case deployment_ids of
             Some deployment_ids \<Rightarrow>
               if 0 < length deployment_ids
               then sign_event_with_deployments H res nonce deployment_ids else query
           | None \<Rightarrow> query)
         else query)"

definition get_deployment_ids_callback ::
  "host \<Rightarrow> sign_transaction_response \<Rightarrow> bytes \<Rightarrow> broker_message \<Rightarrow> unit io"
where
  "get_deployment_ids_callback H res nonce msg =
     bindA (decode_body H (bm_body msg))
       (\<lambda>body.
     bindA (pure (h_decode_get_deployment_ids_response H body))
       (\<lambda>p2_deployment_ids. sign_event_with_deployments H res nonce p2_deployment_ids))"

definition sign_candidate_op :: "host \<Rightarrow> sg_item \<Rightarrow> task_info \<Rightarrow> string \<Rightarrow> unit io" where
  "sign_candidate_op H item task_info peer_id =
     send_message H peer_id (ti_task_id task_info) (SignCandidateRequest
       \<lparr>scr_task_id = ti_task_id task_info, scr_multi_sig_account = sg_multi_sig_account item,
        scr_n = ucast (ei_n (ti_exec_info task_info)),
        scr_k = ucast (ei_k (ti_exec_info task_info)),
        scr_task_type = ei_task_type (ti_exec_info task_info)\<rparr>)"

definition begin_find_pinners :: "host \<Rightarrow> string \<Rightarrow> string hmap \<Rightarrow> unit io" where
  "begin_find_pinners H deployment_id properties =
     bindA (pure (h_serialize_as_much_as_possible H))
       (\<lambda>finding_mode.
     bindA (pure (h_encode_protobuf H (PbFindPinnersRequest MY_ACTOR_NAME deployment_id
         (from_hash_map H properties) 0 finding_mode)))
       (\<lambda>body.
     call_pinner H ''actor.pinner.intercom.find_pinners'' body CbLogOnly))"

definition find_pinners_callback ::
  "host \<Rightarrow> string list \<Rightarrow> string hmap \<Rightarrow> task_info \<Rightarrow> unit io"
where
  "find_pinners_callback H deployment_ids properties task_info =
     seqA (for_each (\<lambda>i. begin_find_pinners H i properties) deployment_ids)
     (bindA (sg_get H (ti_task_id task_info))
       (\<lambda>item. sg_save H (item\<lparr>sg_status := FindingDeployments\<rparr>)))"

section \<open>The executor and the key slices\<close>

definition sg_try_send_to_executor :: "host \<Rightarrow> sg_item \<Rightarrow> unit io" where
  "sg_try_send_to_executor H item =
     (if \<not> ready_send_to_executor item then returnA ()
      else
        let res = TaskSignWithKeySlicesResponse
              \<lparr>sws_task_id = sg_task_id item, sws_adhoc_data = sg_transaction_data item,
               sws_p1_signature = sg_p1_signature item,
               sws_key_type = ei_task_type (ti_exec_info (sg_task_info item)),
               sws_encrypted_key_slices = get_encrypted_key_slices H item\<rparr>
        in bindA (require (NoExecutor (sg_task_id item)) (sg_executor item))
             (\<lambda>executor.
           seqA (send_message H (xi_peer_id executor) (sg_task_id item) res)
           (sg_save H (item\<lparr>sg_status := SgSentToExecutor\<rparr>))))"

definition process_executor_sign_with_key_slices_request ::
  "host \<Rightarrow> task_sign_with_key_slices_request \<Rightarrow> string \<Rightarrow> string \<Rightarrow> unit io"
where
  "process_executor_sign_with_key_slices_request H req peer_id reply_to =
     bindA (sg_get H (swr_task_id req))
       (\<lambda>item.
     if sg_executor item \<noteq> None
     then call H (ERejectP2p reply_to peer_id (swr_task_id req) ''executor already exists'')
     else
       seqA (sg_remote_attestation_executor H req peer_id reply_to)
       (response_reply_with_subject H reply_to (as_bytes ''has sent executor ra request'')))"

definition process_commit_sign_result_request ::
  "host \<Rightarrow> task_commit_sign_result_request \<Rightarrow> string \<Rightarrow> string \<Rightarrow> unit io"
where
  "process_commit_sign_result_request H req peer_id reply_to =
     bindA (sg_get H (csr_task_id req))
       (\<lambda>item.
     seqA (sg_save H (item\<lparr>sg_status := CommitResult\<rparr>))
     (close_p2p H peer_id))"

definition process_pinner_key_slice_response ::
  "host \<Rightarrow> task_sign_get_pinner_key_slice_response \<Rightarrow> string \<Rightarrow> string \<Rightarrow> unit io"
where
  "process_pinner_key_slice_response H res peer_id reply_to =
     bindA (sg_get H (sgs_task_id res))
       (\<lambda>item.
     if has_found_key_slice item (sgs_deployment_id res)
     then call H (ERejectP2p reply_to peer_id (sgs_task_id res)
            (''pinner of '' @ sgs_deployment_id res @ '' already exists''))
     else bindA (pure (insert_key_slice_info (sgs_deployment_id res)
         \<lparr>ks_peer_id = peer_id, ks_encrypted_key_slice = sgs_encrypted_key_slice res\<rparr> item))
       (\<lambda>item.
     seqA (sg_save H item)
     (seqA (close_p2p H peer_id)
     (sg_try_send_to_executor H item))))"

section \<open>After a successful attestation\<close>

definition send_get_pinner_key_slice_request ::
  "host \<Rightarrow> string \<Rightarrow> string \<Rightarrow> string \<Rightarrow> sg_item \<Rightarrow> unit io"
where
  "send_get_pinner_key_slice_request H task_id peer_id deployment_id item =
     (case sg_executor item of
        None \<Rightarrow> panicA
      | Some executor \<Rightarrow>
          send_message H peer_id task_id (TaskSignGetPinnerKeySliceRequest
            \<lparr>sgr_task_id = task_id, sgr_rsa_pub_key = xi_rsa_pub_key executor,
             sgr_deployment_id = deployment_id\<rparr>))"

definition sg_on_executor_ra_success :: "host \<Rightarrow> string \<Rightarrow> string \<Rightarrow> bytes \<Rightarrow> unit io" where
  "sg_on_executor_ra_success H task_id peer_id rsa_pub_key =
     bindA (sg_get H task_id)
       (\<lambda>store_item.
     if sg_executor store_item \<noteq> None then returnA ()
     else
       let store_item1 = store_item
             \<lparr>sg_executor := Some \<lparr>xi_peer_id = peer_id, xi_rsa_pub_key = rsa_pub_key\<rparr>\<rparr>;
           (candidates, store_item2) = pop_all_candidates store_item1
       in seqA (sg_save H store_item2)
          (if ready_send_to_executor store_item2 then sg_try_send_to_executor H store_item2
           else for_each
             (\<lambda>(deployment_id, peers). for_each
                (\<lambda>peer_id. send_get_pinner_key_slice_request H task_id peer_id deployment_id
                   store_item2)
                peers)
             (hm_entries (h_key_order H) candidates)))"

definition on_pinner_ra_success :: "host \<Rightarrow> string \<Rightarrow> string \<Rightarrow> string \<Rightarrow> unit io" where
  "on_pinner_ra_success H task_id peer_id deployment_id =
     bindA (sg_get H task_id)
       (\<lambda>store_item.
     if has_found_key_slice store_item deployment_id then returnA ()
     else if sg_executor store_item = None then
       bindA (pure (insert_deployment deployment_id peer_id store_item))
         (\<lambda>store_item. sg_save H store_item)
     else send_get_pinner_key_slice_request H task_id peer_id deployment_id store_item)"

definition sg_operation_after_verify_handler ::
  "host \<Rightarrow> string \<Rightarrow> bytes \<Rightarrow> challange_store_item \<Rightarrow> unit io"
where
  "sg_operation_after_verify_handler H peer_id ephemeral_id item =
     bindA (require (NoTaskIdProperty (cs_uuid item))
         (find_property PROPERTY_TASK_ID (cs_properties item)))
       (\<lambda>task_id.
     if sg_is_executor_ra_response item then
       bindA (require (NoRsaPubKeyProperty (cs_uuid item))
           (find_property PROPERTY_RSA_PUB_KEY (cs_properties item)))
         (\<lambda>rsa_pub_key_text.
       bindA (pure (h_base64_decode H (as_bytes (pp_value rsa_pub_key_text))))
         (\<lambda>rsa_pub_key.
       sg_on_executor_ra_success H (pp_value task_id) peer_id rsa_pub_key))
     else if is_pinner_ra_response item then
       bindA (require (NoDeploymentIdProperty (cs_uuid item))
           (find_property PROPERTY_KEY_DEPLOYMENT_ID (cs_properties item)))
         (\<lambda>deployment_id.
       on_pinner_ra_success H (pp_value task_id) peer_id (pp_value deployment_id))
     else returnA ())"

lemmas sg_property_defs =
  SG_PROPERTY_DELEGATOR_RA_TARGET_ROLE_def VALUE_RA_TARGET_PINNER_def PROPERTY_SIGN_FLAG_def
  PROPERTY_KEY_DEPLOYMENT_ID_def

end
