(* ===== verification/Gluon_Executor.thy ===== *)
theory Gluon_Executor
  imports Gluon_Common Gluon_Memory_Host
begin

text \<open>
  The executor: its store item (\<open>executor/store_item.rs\<close>), its part in the generation of a key
  (\<open>executor/key_gen.rs\<close>, \<open>executor.rs\<close>) and in a signature (\<open>executor/sign.rs\<close>).
\<close>

section \<open>The store item\<close>

definition ex_item_try_from :: "key_generation_candidate_request \<Rightarrow> error + ex_item" where
  "ex_item_try_from value =
     (case task_info_from_candidate_request value of
        Inl e \<Rightarrow> Inl e
      | Inr task_info \<Rightarrow> Inr \<lparr>ex_task_info = task_info, ex_status = ExInit\<rparr>)"

definition ex_item_try_from_sign :: "sign_candidate_request \<Rightarrow> error + ex_item" where
  "ex_item_try_from_sign value =
     Inr \<lparr>ex_task_info = task_info_from_sign_candidate_request value, ex_status = ExInit\<rparr>"

text \<open>\<open>executor/key_gen.rs\<close> and \<open>executor/sign.rs\<close> each declare these two, with the same bodies.\<close>

definition ex_willing_to_run :: "ex_item \<Rightarrow> bool" where
  "ex_willing_to_run item = True"

definition ex_check_capabilities :: "ex_item \<Rightarrow> error + unit" where
  "ex_check_capabilities item = Inr ()"

section \<open>Key generation\<close>

text \<open>The body of the callback that runs once the invitation is verified.\<close>

definition executor_candidate_callback ::
  "host \<Rightarrow> string \<Rightarrow> key_generation_candidate_request \<Rightarrow> unit io"
where
  "executor_candidate_callback H peer_id req =
     bindA (pure (ex_item_try_from req))
       (\<lambda>store_item.
     if \<not> ex_willing_to_run store_item then returnA ()
     else case ex_check_capabilities store_item of
       Inl e \<Rightarrow> returnA ()
     | Inr _ \<Rightarrow>
         seqA (ex_save H store_item)
         (seqA (send_key_generation_request H peer_id (ex_task_info store_item) True)
         (ex_save H (store_item\<lparr>ex_status := ExRequested\<rparr>))))"

definition ex_task_key_generation_candidate_request_handler ::
  "host \<Rightarrow> string \<Rightarrow> key_generation_candidate_request \<Rightarrow> unit io"
where
  "ex_task_key_generation_candidate_request_handler H peer_id req =
     bindA (ip_contains H (kgc_task_id req))
       (\<lambda>already_pinner.
     if already_pinner then returnA ()
     else verify_to_candidate_signature H peer_id req (ContExecutorCandidate peer_id req))"

definition generate_key_by_type :: "host \<Rightarrow> string \<Rightarrow> (bytes \<times> bytes) io" where
  "generate_key_by_type H key_type = prim (\<lambda>t. h_generate H t key_type) (EPrim ''generate'')"

definition generate_multi_sig_account ::
  "host \<Rightarrow> bytes \<Rightarrow> bytes \<Rightarrow> bytes option \<Rightarrow> u8 \<Rightarrow> string \<Rightarrow> bytes io"
where
  "generate_multi_sig_account H p1 p2 p3 k task_type =
     (let public_keys = [p1, p2] @ (case p3 of Some p3 \<Rightarrow> [p3] | None \<Rightarrow> [])
      in bindA (prim (\<lambda>t. h_generate_multi_sig_asset H t k public_keys task_type)
             (EPrim ''generate_multi_sig_asset''))
           (\<lambda>multi_sig_account. returnA (as_bytes multi_sig_account)))"

text \<open>
  The loop that encrypts slice number \<open>index\<close> for the pinner at that position; reading a slice
  that does not exist panics.
\<close>

fun encrypt_slices ::
  "host \<Rightarrow> bytes list \<Rightarrow> nat \<Rightarrow> task_execution_initial_pinner_data list \<Rightarrow>
   task_result_initial_pinner_data list io"
where
  "encrypt_slices H key_slices index [] = returnA []"
| "encrypt_slices H key_slices index (pinner_data # rest) =
     (if length key_slices \<le> index then panicA
      else bindA (prim
          (\<lambda>t. h_rsa_encrypt H t (tep_rsa_pub_key pinner_data) (key_slices ! index))
          (EPrim ''rsa_encrypt''))
        (\<lambda>encrypted_key_slice.
      bindA (encrypt_slices H key_slices (Suc index) rest)
        (\<lambda>initial_pinners.
      returnA (\<lparr>trp_peer_id = tep_peer_id pinner_data,
                trp_encrypted_key_slice = encrypted_key_slice\<rparr> # initial_pinners))))"

definition generate_task_execution_response ::
  "host \<Rightarrow> ex_item \<Rightarrow> task_execution_request \<Rightarrow> task_execution_response io"
where
  "generate_task_execution_response H item request =
     bindA (generate_key_by_type H (ter_key_type request))
       (\<lambda>(pk, sk).
     bindA (prim
         (\<lambda>t. h_shamir_share H t (word_of_nat (length (ter_initial_pinners request)))
            (ucast (ter_minimum_recovery_number request)) sk)
         (EPrim ''shamir_share''))
       (\<lambda>key_slices.
     bindA (encrypt_slices H key_slices 0 (ter_initial_pinners request))
       (\<lambda>initial_pinners.
     bindA (generate_multi_sig_account H (ter_p1_public_key request) pk None
         (ei_k (ti_exec_info (ex_task_info item)))
         (ei_task_type (ti_exec_info (ex_task_info item))))
       (\<lambda>multi_sig_account.
     returnA \<lparr>tes_task_id = ter_task_id request, tes_initial_pinners = initial_pinners,
              tes_p2_public_key = pk, tes_multi_sig_account = multi_sig_account\<rparr>))))"

definition task_execution_request_handler ::
  "host \<Rightarrow> task_execution_request \<Rightarrow> string \<Rightarrow> string \<Rightarrow> unit io"
where
  "task_execution_request_handler H request peer_id reply_to =
     matchA (ex_get H (ter_task_id request))
       (\<lambda>item.
         let item1 = item\<lparr>ex_status := ExResponded\<rparr> in
         seqA (ex_save H item1)
         (bindA (generate_task_execution_response H item1 request)
           (\<lambda>res.
         seqA (send_message H peer_id (ti_task_id (ex_task_info item1)) (TaskExecutionResponse res))
         (seqA (ex_save H (item1\<lparr>ex_status := Executed\<rparr>))
         (response_reply_with_subject H reply_to
           (as_bytes ''response task execution request successfully''))))))
       (\<lambda>e. call H (ELogError reply_to peer_id (ter_task_id request)
          (''failed to get ExecutorStoreItem with task_id '' @ ter_task_id request @
           '', details: '' @ h_display_error H e)))"

section \<open>Signatures\<close>

definition sign_decrypt_key_slice :: "host \<Rightarrow> string \<Rightarrow> bytes \<Rightarrow> bytes io" where
  "sign_decrypt_key_slice H task_id key_slice_encrypted =
     bindA (kv_get (h_kv_get_string H) (sign_rsa_encrypt_key task_id))
       (\<lambda>found.
     bindA (require (NoRsaPrivateKey task_id) found)
       (\<lambda>rsa_priv_key.
     bindA (pure (h_rsa_key_to_bytes H rsa_priv_key))
       (\<lambda>key.
     prim (\<lambda>t. h_rsa_decrypt H t key key_slice_encrypted) (EPrim ''rsa_decrypt''))))"

definition send_sign_request :: "host \<Rightarrow> string \<Rightarrow> string \<Rightarrow> unit io" where
  "send_sign_request H peer_id task_id =
     bindA (prim (h_generate_rsa_keypair H) (EPrim ''generate_rsa_keypair''))
       (\<lambda>(public_key, private_key).
     seqA (kv_set H (sign_rsa_encrypt_key task_id) (VString private_key) (Some 6000))
     (bindA (pure (h_rsa_key_to_bytes H public_key))
       (\<lambda>rsa_pub_key.
     send_message H peer_id task_id (TaskSignWithKeySlicesRequst
       \<lparr>swr_task_id = task_id, swr_rsa_pub_key = rsa_pub_key\<rparr>))))"

definition process_sign_with_key_slices_handler ::
  "host \<Rightarrow> string \<Rightarrow> sign_candidate_request \<Rightarrow> unit io"
where
  "process_sign_with_key_slices_handler H peer_id req =
     bindA (pure (ex_item_try_from_sign req))
       (\<lambda>store_item.
     if \<not> ex_willing_to_run store_item then returnA ()
     else case ex_check_capabilities store_item of
       Inl e \<Rightarrow> returnA ()
     | Inr _ \<Rightarrow>
         seqA (ex_save H store_item)
         (seqA (send_sign_request H peer_id (ti_task_id (ex_task_info store_item)))
         (ex_save H (store_item\<lparr>ex_status := ExRequested\<rparr>))))"

definition task_sign_with_key_slices_response_handler ::
  "host \<Rightarrow> task_sign_with_key_slices_response \<Rightarrow> string \<Rightarrow> string \<Rightarrow> unit io"
where
  "task_sign_with_key_slices_response_handler H request peer_id reply_to =
     (let task_id = sws_task_id request in
      bindA (ex_get H task_id)
        (\<lambda>item.
      let item1 = item\<lparr>ex_status := ExResponded\<rparr>;
          exec_info = ti_exec_info (ex_task_info item1) in
      seqA (ex_save H item1)
      (bindA (collect_each (sign_decrypt_key_slice H task_id) (sws_encrypted_key_slices request))
        (\<lambda>key_slices.
      bindA (prim (\<lambda>t. h_shamir_recovery H t (ei_k exec_info) key_slices) (EPrim ''shamir_recovery''))
        (\<lambda>p2_private_key.
      bindA (prim (\<lambda>t. h_sign H t (sws_key_type request) p2_private_key (sws_adhoc_data request))
          (EPrim ''sign''))
        (\<lambda>p2_signature.
      bindA (prim (\<lambda>t. h_combine_to_witness H t (ei_k exec_info) [] [p2_signature]
            (ei_task_type exec_info))
          (EPrim ''combine_to_witness''))
        (\<lambda>witness.
      seqA (send_message H peer_id task_id
        (TaskCommitSignResultRequest \<lparr>csr_task_id = task_id, csr_witness = witness\<rparr>))
      (seqA (ex_save H (item1\<lparr>ex_status := Executed\<rparr>))
      (response_reply_with_subject H reply_to (as_bytes ''signed successfully''))))))))))"

end
