(* ===== verification/Gluon_Initial_Pinner.thy ===== *)
theory Gluon_Initial_Pinner
  imports Gluon_Executor
begin

text \<open>
  The initial pinner of a key generation task: its store item
  (\<open>initial_pinner/store_item.rs\<close>), the invitation, the deployment of a key slice in its
  asynchronous steps, and the commit once layer 1 has the asset
  (\<open>initial_pinner/handler.rs\<close>, \<open>initial_pinner.rs\<close>); and the pinner that hands its slice out
  for a signature (\<open>pinner/handler.rs\<close>).
\<close>

section \<open>The store item\<close>

definition ip_item_try_from :: "key_generation_candidate_request \<Rightarrow> error + ip_item" where
  "ip_item_try_from value =
     (case task_info_from_candidate_request value of
        Inl e \<Rightarrow> Inl e
      | Inr task_info \<Rightarrow> Inr \<lparr>ip_task_info = task_info, ip_status = IpInit\<rparr>)"

definition ip_item_from_executor :: "ex_item \<Rightarrow> ip_item" where
  "ip_item_from_executor item =
     \<lparr>ip_task_info = ex_task_info item,
      ip_status = (case ex_status item of
          ExInit \<Rightarrow> IpInit
        | ExRequested \<Rightarrow> IpRequested
        | ExResponded \<Rightarrow> IpResponded
        | Executed \<Rightarrow> Deployed)\<rparr>"

definition ip_willing_to_run :: "ip_item \<Rightarrow> bool" where
  "ip_willing_to_run item = True"

definition ip_check_capabilities :: "ip_item \<Rightarrow> error + unit" where
  "ip_check_capabilities item = Inr ()"

definition trying_get_initial_pinner_store_item :: "host \<Rightarrow> string \<Rightarrow> ip_item io" where
  "trying_get_initial_pinner_store_item H task_id =
     matchA (ip_get H task_id) returnA
       (\<lambda>_. matchA (ex_get H task_id) (\<lambda>item. returnA (ip_item_from_executor item)) failA)"

section \<open>The invitation\<close>

definition pinner_candidate_callback ::
  "host \<Rightarrow> string \<Rightarrow> key_generation_candidate_request \<Rightarrow> unit io"
where
  "pinner_candidate_callback H peer_id req =
     bindA (pure (ip_item_try_from req))
       (\<lambda>store_item.
     if \<not> ip_willing_to_run store_item then returnA ()
     else case ip_check_capabilities store_item of
       Inl e \<Rightarrow> returnA ()
     | Inr _ \<Rightarrow>
         seqA (ip_save H store_item)
         (seqA (send_key_generation_request H peer_id (ip_task_info store_item) False)
         (ip_save H (store_item\<lparr>ip_status := IpRequested\<rparr>))))"

definition ip_task_key_generation_candidate_request_handler ::
  "host \<Rightarrow> string \<Rightarrow> key_generation_candidate_request \<Rightarrow> unit io"
where
  "ip_task_key_generation_candidate_request_handler H peer_id req =
     bindA (ex_contains H (kgc_task_id req))
       (\<lambda>already_executor.
     if already_executor then returnA ()
     else verify_to_candidate_signature H peer_id req (ContPinnerCandidate peer_id req))"

section \<open>The deployment of a key slice\<close>

definition deploy_key_slice :: "host \<Rightarrow> task_pinner_key_slice_request \<Rightarrow> deploy_cont \<Rightarrow> unit io" where
  "deploy_key_slice H req callback =
     bindA (prim (h_get_guid H) (EPrim ''get_guid''))
       (\<lambda>session_id.
     call_pinner H (''actor.pinner.intercom.register_upload_rsa_key.'' @ session_id) []
       (CbRegisterUploadRsaKey session_id req callback))"

definition register_upload_rsa_key_callback ::
  "host \<Rightarrow> string \<Rightarrow> task_pinner_key_slice_request \<Rightarrow> deploy_cont \<Rightarrow> broker_message \<Rightarrow> unit io"
where
  "register_upload_rsa_key_callback H session_id req callback msg =
     bindA (decrypt_key_slice H (pkr_task_id req) (pkr_encrypted_key_slice req))
       (\<lambda>key_slice.
     bindA (prim (h_generate_aes_key H) (EPrim ''generate_aes_key''))
       (\<lambda>key1.
     bindA (prim (\<lambda>t. h_aes_encrypt H t key1 key_slice) (EPrim ''aes_encrypt''))
       (\<lambda>encrypted_data.
     bindA (prim (\<lambda>t. h_ipfs_block_put H t encrypted_data True) (EPrim ''ipfs_block_put''))
       (\<lambda>data_cid.
     seqA (kv_set H (get_temp_data_cid_key H (pkr_multi_sig_account req)) (VString data_cid) (Some 6000))
     (bindA (utf8_string (bm_body msg))
       (\<lambda>pk_str.
     bindA (pure (h_rsa_key_to_bytes H pk_str))
       (\<lambda>rsa_pub_key.
     bindA (prim (\<lambda>t. h_rsa_encrypt H t rsa_pub_key key1) (EPrim ''rsa_encrypt''))
       (\<lambda>encrypted_key1.
     bindA (pure (h_encode_protobuf H (PbDataUploadCompletedProcessRequest
         (Some data_cid) (Some '''') (Some '''') (Some (h_base64_encode H encrypted_key1)))))
       (\<lambda>body.
     call_pinner H (''actor.pinner.intercom.process_data_upload.'' @ session_id) body
       (CbProcessDataUpload callback))))))))))"

text \<open>The closure of \<open>task_pinner_key_slice_request_handler\<close>: it captures the item it was
  created with.\<close>

fun deployed_callback :: "host \<Rightarrow> deploy_cont \<Rightarrow> string \<Rightarrow> unit io" where
  "deployed_callback H (ContDeployed multi_sig_account item peer_id req reply_to) deployment_id =
     seqA (kv_set H (get_temp_deployment_key H multi_sig_account) (VString deployment_id) (Some 6000))
     (seqA (ip_save H (item\<lparr>ip_status := Deployed\<rparr>))
     (seqA (send_message H peer_id (pkr_task_id req) (TaskPinnerKeySliceResponse
       \<lparr>pks_task_id = pkr_task_id req, pks_deployment_id = deployment_id\<rparr>))
     (response_reply_with_subject H reply_to (as_bytes ''pinned key slice successfully''))))"

definition process_data_upload_callback :: "host \<Rightarrow> deploy_cont \<Rightarrow> broker_message \<Rightarrow> unit io" where
  "process_data_upload_callback H callback msg =
     bindA (utf8_string (bm_body msg)) (\<lambda>deployment_id. deployed_callback H callback deployment_id)"

definition task_pinner_key_slice_request_handler ::
  "host \<Rightarrow> task_pinner_key_slice_request \<Rightarrow> string \<Rightarrow> string \<Rightarrow> unit io"
where
  "task_pinner_key_slice_request_handler H req peer_id reply_to =
     matchA (trying_get_initial_pinner_store_item H (pkr_task_id req))
       (\<lambda>item.
         let item1 = item\<lparr>ip_status := IpResponded\<rparr> in
         seqA (ip_save H item1)
         (deploy_key_slice H req
           (ContDeployed (pkr_multi_sig_account req) item1 peer_id req reply_to)))
       (\<lambda>e. call H (ELogError reply_to peer_id (pkr_task_id req)
          (''failed to get InitialPinnerStoreItem with task_id '' @ pkr_task_id req @
           '', details: '' @ h_display_error H e)))"

section \<open>Once layer 1 has the asset\<close>

definition trying_commit_data_upload :: "host \<Rightarrow> string \<Rightarrow> bytes \<Rightarrow> unit io" where
  "trying_commit_data_upload H task_id multi_sig_account =
     matchA (ip_get H task_id)
       (\<lambda>_.
         bindA (kv_get (h_kv_get_string H) (get_temp_data_cid_key H multi_sig_account))
           (\<lambda>found_cid.
         bindA (require NoDataCidOnCommit found_cid)
           (\<lambda>cid_code.
         bindA (kv_get (h_kv_get_string H) (get_temp_deployment_key H multi_sig_account))
           (\<lambda>found_id.
         bindA (require NoDeploymentIdOnCommit found_id)
           (\<lambda>deployment_id.
         bindA (pure (h_encode_protobuf H
             (PbCommitDataUploadRequest deployment_id cid_code '''' '''')))
           (\<lambda>body.
         call_pinner H ''actor.pinner.intercom.commit_data_upload'' body CbLogOnly))))))
       (\<lambda>_. returnA ())"

definition update_conflict_list :: "host \<Rightarrow> bytes \<Rightarrow> string list \<Rightarrow> unit io" where
  "update_conflict_list H multi_sig_account deployment_ids =
     bindA (kv_get (h_kv_get_string H) (get_temp_deployment_key H multi_sig_account))
       (\<lambda>found.
     let current_items = (case found of Some i \<Rightarrow> [i] | None \<Rightarrow> []) in
     bindA (pure (h_encode_protobuf H
         (PbUpdateConflictListRequest multi_sig_account deployment_ids current_items 1)))
       (\<lambda>body.
     call_pinner H ''actor.pinner.intercom.update_conflict_list'' body CbLogOnly))"

section \<open>The pinner of a signature\<close>

definition pinner_task_sign_with_key_slices_request_handler ::
  "host \<Rightarrow> task_sign_get_pinner_key_slice_request \<Rightarrow> string \<Rightarrow> string \<Rightarrow> unit io"
where
  "pinner_task_sign_with_key_slices_request_handler H req peer_id reply_to =
     call H (EGetDeploymentInfo MY_ACTOR_NAME (sgr_deployment_id req)
       (CbPinnerKeySlice req peer_id reply_to))"

definition pinner_key_slice_callback ::
  "host \<Rightarrow> task_sign_get_pinner_key_slice_request \<Rightarrow> string \<Rightarrow> string \<Rightarrow>
   string option \<Rightarrow> bytes option \<Rightarrow> unit io"
where
  "pinner_key_slice_callback H req peer_id reply_to data_cid key1 =
     bindA (require (FailedToGetKey1 (sgr_deployment_id req)) key1)
       (\<lambda>key1.
     bindA (require (FailedToGetKey1 (sgr_deployment_id req)) data_cid)
       (\<lambda>data_cid.
     bindA (prim (\<lambda>t. h_ipfs_block_get H t data_cid) (EPrim ''ipfs_block_get''))
       (\<lambda>encrypted_key_slice.
     bindA (prim (\<lambda>t. h_aes_decrypt H t key1 encrypted_key_slice) (EPrim ''aes_decrypt''))
       (\<lambda>key_slice.
     bindA (prim (\<lambda>t. h_rsa_encrypt H t (sgr_rsa_pub_key req) key_slice) (EPrim ''rsa_encrypt''))
       (\<lambda>encrypted_key_slice.
     seqA (send_message H peer_id (sgr_task_id req) (TaskSignGetPinnerKeySliceResponse
       \<lparr>sgs_task_id = sgr_task_id req, sgs_encrypted_key_slice = encrypted_key_slice,
        sgs_deployment_id = sgr_deployment_id req\<rparr>))
     (response_reply_with_subject H reply_to (as_bytes ''key slice returned'')))))))"

end
