(* ===== verification/Gluon_Dispatch.thy ===== *)
theory Gluon_Dispatch
  imports Gluon_Sign Gluon_Initial_Pinner
begin

text \<open>
  The entry point of the actor (\<open>lib.rs\<close>), the events of layer 1 (\<open>portal/layer1_events.rs\<close>),
  the debug messages of the \<open>dev\<close> feature (\<open>delegator/dump_methods.rs\<close>), and the callbacks the
  inbox runs. A step of the actor is one message handled from the trace so far; the reachable
  traces are the runs of the actor in its environment.
\<close>

section \<open>Events of layer 1\<close>

definition key_generation_request_handler :: "host \<Rightarrow> broker_message \<Rightarrow> unit io" where
  "key_generation_request_handler H msg =
     bindA (decode_body H (bm_body msg))
       (\<lambda>base64_decoded_msg_body.
     call H (EIsNodeReady MY_ACTOR_NAME (CbKeyGenerationRequest base64_decoded_msg_body)))"

definition key_generation_ready_callback :: "host \<Rightarrow> bytes \<Rightarrow> bool \<Rightarrow> unit io" where
  "key_generation_ready_callback H base64_decoded_msg_body ready =
     (if \<not> ready then returnA ()
      else bindA (pure (h_decode_key_generation_response H base64_decoded_msg_body))
        (\<lambda>key_generation_response. process_key_generation_event H key_generation_response))"

definition sign_with_key_slices_handler :: "host \<Rightarrow> broker_message \<Rightarrow> unit io" where
  "sign_with_key_slices_handler H msg =
     bindA (decode_body H (bm_body msg))
       (\<lambda>base64_decoded_msg_body.
     call H (EIsNodeReady MY_ACTOR_NAME (CbSignWithKeySlices base64_decoded_msg_body)))"

definition sign_ready_callback :: "host \<Rightarrow> bytes \<Rightarrow> bool \<Rightarrow> unit io" where
  "sign_ready_callback H base64_decoded_msg_body ready =
     (if \<not> ready then returnA ()
      else bindA (pure (h_decode_sign_transaction_response H base64_decoded_msg_body))
        (\<lambda>sign_with_key_slices_request.
           process_sign_with_key_slices_event H sign_with_key_slices_request))"

definition asset_generated_event_handler :: "host \<Rightarrow> broker_message \<Rightarrow> unit io" where
  "asset_generated_event_handler H msg =
     bindA (decode_body H (bm_body msg))
       (\<lambda>base64_decoded_msg_body.
     bindA (pure (h_decode_asset_generated_response H base64_decoded_msg_body))
       (\<lambda>res.
     seqA (update_conflict_list H (agr_multi_sig_account res) (agr_p2_deployment_ids res))
     (trying_commit_data_upload H (h_base64_encode H (agr_task_id res)) (agr_multi_sig_account res))))"

section \<open>Debug messages (feature \<open>dev\<close>)\<close>

definition delegator_key_operation :: "host \<Rightarrow> string \<Rightarrow> dump_op \<Rightarrow> unit io" where
  "delegator_key_operation H reply_to operation =
     call_pinner H ''actor.pinner.intercom.get_delegator_pub_key'' []
       (CbGetDelegatorPubKey reply_to operation)"

text \<open>The closures that build the message, from the hash and the encryption of the nonce.\<close>

fun dump_operation :: "host \<Rightarrow> dump_op \<Rightarrow> bytes \<Rightarrow> bytes \<Rightarrow> string io" where
  "dump_operation H (DumpSign key_type multi_sig_account) nonce_hash nonce_encryption =
     (let transaction_data = as_bytes ''hello world!'' in
      bindA (prim (\<lambda>t. h_generate H t key_type) (EPrim ''generate''))
        (\<lambda>(_, p1_priv_key).
      bindA (prim (\<lambda>t. h_sign H t key_type p1_priv_key transaction_data) (EPrim ''sign''))
        (\<lambda>p1_signature.
      bindA (prim (\<lambda>t. Inr (h_get_uuid H t)) (EPrim ''get_uuid''))
        (\<lambda>uuid.
      bindA (pure (h_encode_protobuf H (PbSignTransactionResponse
          \<lparr>str_task_id = as_bytes uuid, str_transaction_data = transaction_data,
           str_delegator_tea_nonce_hash = nonce_hash,
           str_delegator_tea_nonce_rsa_encryption = nonce_encryption,
           str_p1_signature = p1_signature, str_multi_sig_account = multi_sig_account\<rparr>)))
        (\<lambda>res. returnA (h_base64_encode H res))))))"
| "dump_operation H (DumpKeyGen key_type) nonce_hash nonce_encryption =
     bindA (prim (\<lambda>t. h_generate H t key_type) (EPrim ''generate''))
       (\<lambda>(p1_public_key, _).
     bindA (prim (\<lambda>t. Inr (h_get_uuid H t)) (EPrim ''get_uuid''))
       (\<lambda>uuid.
     bindA (pure (h_encode_protobuf H (PbKeyGenerationResponse
         \<lparr>kgr_task_id = as_bytes uuid, kgr_n = 2, kgr_k = 1, kgr_key_type = key_type,
          kgr_delegator_tea_nonce_hash = nonce_hash,
          kgr_delegator_tea_nonce_rsa_encryption = nonce_encryption,
          kgr_p1_public_key = p1_public_key\<rparr>)))
       (\<lambda>res. returnA (h_base64_encode H res))))"

definition get_delegator_pub_key_callback ::
  "host \<Rightarrow> string \<Rightarrow> dump_op \<Rightarrow> broker_message \<Rightarrow> unit io"
where
  "get_delegator_pub_key_callback H reply_to operation msg =
     bindA (pure (h_deserialize_key H (bm_body msg)))
       (\<lambda>found.
     bindA (require NoDelegatorKey found)
       (\<lambda>pub_key.
     bindA (prim (h_get_random H) (EPrim ''get_random''))
       (\<lambda>nonce.
     let nonce_bytes = to_le_bytes nonce in
     bindA (prim (\<lambda>t. h_sha256 H t nonce_bytes) (EPrim ''sha256''))
       (\<lambda>delegator_tea_nonce_hash.
     bindA (prim (\<lambda>t. h_rsa_encrypt H t pub_key nonce_bytes) (EPrim ''rsa_encrypt''))
       (\<lambda>delegator_tea_nonce_rsa_encryption.
     bindA (dump_operation H operation delegator_tea_nonce_hash delegator_tea_nonce_rsa_encryption)
       (\<lambda>content. call H (EReplyTo reply_to (as_bytes content))))))))"

text \<open>Fewer than two parameters are reported but not rejected: reading the second one panics.\<close>

definition generate_sign_response_message :: "host \<Rightarrow> broker_message \<Rightarrow> unit io" where
  "generate_sign_response_message H msg =
     bindA (utf8_string (bm_body msg))
       (\<lambda>message.
     case split_on CHR '','' message of
       key_type # multi_sig_account # deployment_ids \<Rightarrow>
         seqA (kv_set H DEPLOYMENT_IDS_KEY (VStrings deployment_ids) (Some 6000))
         (delegator_key_operation H (bm_reply_to msg)
           (DumpSign key_type (as_bytes multi_sig_account)))
     | _ \<Rightarrow> panicA)"

definition generate_key_gen_response_message :: "host \<Rightarrow> broker_message \<Rightarrow> unit io" where
  "generate_key_gen_response_message H msg =
     bindA (utf8_string (bm_body msg))
       (\<lambda>key_type. delegator_key_operation H (bm_reply_to msg) (DumpKeyGen key_type))"

section \<open>The callbacks of the inbox\<close>

fun run_delegator_cont :: "host \<Rightarrow> delegator_cont \<Rightarrow> bytes \<Rightarrow> unit io" where
  "run_delegator_cont H (ContKeyGenEvent res) nonce = key_generation_event_callback H res nonce"
| "run_delegator_cont H (ContSignEvent res) nonce = get_deployment_ids H res nonce"

fun run_verify_cont :: "host \<Rightarrow> verify_cont \<Rightarrow> unit io" where
  "run_verify_cont H (ContExecutorCandidate peer_id req) = executor_candidate_callback H peer_id req"
| "run_verify_cont H (ContPinnerCandidate peer_id req) = pinner_candidate_callback H peer_id req"

fun run_candidate_op :: "host \<Rightarrow> candidate_op \<Rightarrow> task_info \<Rightarrow> string \<Rightarrow> unit io" where
  "run_candidate_op H OpInviteExecutor task_info peer_id =
     send_key_candidate_request H peer_id task_info True"
| "run_candidate_op H (OpSignCandidate item) task_info peer_id =
     sign_candidate_op H item task_info peer_id"

fun run_invited_cont :: "host \<Rightarrow> invited_cont \<Rightarrow> task_info \<Rightarrow> string list \<Rightarrow> unit io" where
  "run_invited_cont H ContInvitePinners task_info peer_ids =
     invite_candidate_initial_pinners H task_info peer_ids"
| "run_invited_cont H (ContFindPinners deployment_ids properties) task_info peer_ids =
     find_pinners_callback H deployment_ids properties task_info"

fun run_msg_callback :: "host \<Rightarrow> msg_callback \<Rightarrow> broker_message \<Rightarrow> unit io" where
  "run_msg_callback H CbLogOnly msg = returnA ()"
| "run_msg_callback H (CbGetDelegatorKey nonce_encrypted nonce_hash cont) msg =
     get_delegator_key_callback H nonce_encrypted nonce_hash (run_delegator_cont H cont) msg"
| "run_msg_callback H (CbGetDelegates task_info op cont) msg =
     get_delegates_callback H task_info op (run_invited_cont H cont) msg"
| "run_msg_callback H (CbRegisterUploadRsaKey session_id req cont) msg =
     register_upload_rsa_key_callback H session_id req cont msg"
| "run_msg_callback H (CbProcessDataUpload cont) msg = process_data_upload_callback H cont msg"
| "run_msg_callback H (CbUpdateKeyGenResult task_id) msg = close_p2p_connections H task_id"
| "run_msg_callback H (CbGetDeploymentIds res nonce) msg = get_deployment_ids_callback H res nonce msg"
| "run_msg_callback H (CbGetDelegatorPubKey reply_to op) msg =
     get_delegator_pub_key_callback H reply_to op msg"

fun run_profile_callback :: "host \<Rightarrow> profile_callback \<Rightarrow> string \<Rightarrow> unit io" where
  "run_profile_callback H (CbVerifyCandidate peer_id cont) profile_peer_id =
     verify_candidate_callback peer_id (run_verify_cont H cont) profile_peer_id"
| "run_profile_callback H (CbInviteCandidate task_info op) profile_peer_id =
     run_candidate_op H op task_info profile_peer_id"

fun run_ready_callback :: "host \<Rightarrow> ready_callback \<Rightarrow> bool \<Rightarrow> unit io" where
  "run_ready_callback H (CbKeyGenerationRequest body) ready = key_generation_ready_callback H body ready"
| "run_ready_callback H (CbSignWithKeySlices body) ready = sign_ready_callback H body ready"

fun run_invocation :: "host \<Rightarrow> invocation \<Rightarrow> unit io" where
  "run_invocation H (InvokeMsg cb msg) = run_msg_callback H cb msg"
| "run_invocation H (InvokeProfile cb peer_id) = run_profile_callback H cb peer_id"
| "run_invocation H (InvokeReady cb ready) = run_ready_callback H cb ready"
| "run_invocation H (InvokeDeployment (CbPinnerKeySlice req peer_id reply_to) data_cid key1) =
     pinner_key_slice_callback H req peer_id reply_to data_cid key1"

definition result_handler :: "host \<Rightarrow> broker_message \<Rightarrow> string \<Rightarrow> unit io" where
  "result_handler H msg uuid =
     bindA (prim (\<lambda>t. h_result_handler H t msg uuid) (EPrim ''result_handler''))
       (\<lambda>i. case i of None \<Rightarrow> returnA () | Some i \<Rightarrow> run_invocation H i)"

section \<open>Messages\<close>

fun handle_general_msg :: "host \<Rightarrow> general_msg \<Rightarrow> string \<Rightarrow> string \<Rightarrow> unit io" where
  "handle_general_msg H (TaskKeyGenerationApplyRequst req) from_peer_id reply_to =
     task_key_generation_apply_request_handler H req from_peer_id reply_to"
| "handle_general_msg H (TaskExecutionRequest req) from_peer_id reply_to =
     task_execution_request_handler H req from_peer_id reply_to"
| "handle_general_msg H (TaskExecutionResponse res) from_peer_id reply_to =
     process_task_execution_response H res from_peer_id reply_to"
| "handle_general_msg H (TaskPinnerKeySliceRequest req) from_peer_id reply_to =
     task_pinner_key_slice_request_handler H req from_peer_id reply_to"
| "handle_general_msg H (TaskPinnerKeySliceResponse res) from_peer_id reply_to =
     process_task_pinner_key_slice_response H res from_peer_id reply_to"
| "handle_general_msg H (TaskSignWithKeySlicesRequst req) from_peer_id reply_to =
     process_executor_sign_with_key_slices_request H req from_peer_id reply_to"
| "handle_general_msg H (TaskSignWithKeySlicesResponse res) from_peer_id reply_to =
     task_sign_with_key_slices_response_handler H res from_peer_id reply_to"
| "handle_general_msg H (TaskSignGetPinnerKeySliceRequest req) from_peer_id reply_to =
     pinner_task_sign_with_key_slices_request_handler H req from_peer_id reply_to"
| "handle_general_msg H (TaskSignGetPinnerKeySliceResponse res) from_peer_id reply_to =
     process_pinner_key_slice_response H res from_peer_id reply_to"
| "handle_general_msg H (TaskCommitSignResultRequest req) from_peer_id reply_to =
     process_commit_sign_result_request H req from_peer_id reply_to"
| "handle_general_msg H (KeyGenerationCandidateRequest req) from_peer_id reply_to =
     (if kgc_executor req
      then ex_task_key_generation_candidate_request_handler H from_peer_id req
      else ip_task_key_generation_candidate_request_handler H from_peer_id req)"
| "handle_general_msg H (SignCandidateRequest req) from_peer_id reply_to =
     process_sign_with_key_slices_handler H from_peer_id req"
| "handle_general_msg H UnknownMsg from_peer_id reply_to =
     response_reply_with_subject H reply_to (as_bytes ''Task actor unknown message'')"

definition listen_p2p_message :: "host \<Rightarrow> string \<Rightarrow> broker_message \<Rightarrow> unit io" where
  "listen_p2p_message H from_peer_id msg =
     bindA (prim (\<lambda>t. h_listen_message H t from_peer_id msg) (EPrim ''listen_message''))
       (\<lambda>(g_msg, from_peer_id, reply_to). handle_general_msg H g_msg from_peer_id reply_to)"

definition pinner_server_check_strategy :: "host \<Rightarrow> broker_message \<Rightarrow> unit io" where
  "pinner_server_check_strategy H msg =
     bindA (pure (h_decode_server_check_strategy H (bm_body msg)))
       (\<lambda>res.
     bindA (require ExpectChallangeStoreItem res)
       (\<lambda>item.
     let (verify, message) =
           if is_key_gen_tag item \<or> is_sign_tag item then (True, ''passed'')
           else (False, ''88:src/lib.rs item not found in delegator'')
     in bindA (pure (h_encode_protobuf H (PbServerCheckStrategyResult verify message)))
          (\<lambda>body. response_reply_with_subject H (bm_reply_to msg) body)))"

definition pinner_client_operation_after_verify :: "host \<Rightarrow> broker_message \<Rightarrow> unit io" where
  "pinner_client_operation_after_verify H msg =
     bindA (pure (h_decode_client_operation H (bm_body msg)))
       (\<lambda>res.
     bindA (require ExpectChallangeStoreItem (coa_item res))
       (\<lambda>item.
     if is_key_gen_tag item
     then kg_operation_after_verify_handler H (coa_peer_id res) (coa_pinner_ephemeral_id res) item
     else if is_sign_tag item
     then sg_operation_after_verify_handler H (coa_peer_id res) (coa_pinner_ephemeral_id res) item
     else returnA ()))"

text \<open>\<open>handle_message\<close>: the patterns in the order of the source, on the parts of the subject.\<close>

definition handle_message :: "host \<Rightarrow> broker_message \<Rightarrow> unit io" where
  "handle_message H msg =
     (case split_on CHR ''.'' (bm_subject msg) of
        [p, q, r, s] \<Rightarrow>
          if p = ''ipfs'' \<and> q = ''p2p'' \<and> r = ''listen'' then listen_p2p_message H s msg
          else if p = ''actor'' \<and> q = PINNER_ACTOR_NAME \<and> r = ''event'' \<and>
            s = ''client_operation_after_verify'' then pinner_client_operation_after_verify H msg
          else if p = ''actor'' \<and> q = PINNER_ACTOR_NAME \<and> r = ''event'' \<and>
            s = ''server_check_strategy'' then pinner_server_check_strategy H msg
          else if p = ''layer1'' \<and> q = ''event'' \<and> s = ''AccountGenerationRequested''
          then key_generation_request_handler H msg
          else if p = ''layer1'' \<and> q = ''event'' \<and> s = ''SignTransactionRequested''
          then sign_with_key_slices_handler H msg
          else if p = ''layer1'' \<and> q = ''event'' \<and> s = ''AssetGenerated''
          then asset_generated_event_handler H msg
          else if p = ''actor'' \<and> q = MY_ACTOR_NAME \<and> r = ''inbox'' then result_handler H msg s
          else if h_dev H \<and> p = ''internal'' \<and> q = ''op'' \<and> r = ''debug'' \<and>
            s = ''key_gen_response_message'' then generate_key_gen_response_message H msg
          else if h_dev H \<and> p = ''internal'' \<and> q = ''op'' \<and> r = ''debug'' \<and>
            s = ''generate_sign_response'' then generate_sign_response_message H msg
          else returnA ()
      | [p, q, r] \<Rightarrow>
          if p = ''reply'' \<and> q = MY_ACTOR_NAME then result_handler H msg r else returnA ()
      | _ \<Rightarrow> returnA ())"

definition health :: "host \<Rightarrow> unit io" where
  "health H = returnA ()"

section \<open>Runs\<close>

text \<open>One step: the broker delivers a message, and the actor handles it, whatever the outcome.\<close>

inductive actor_step :: "host \<Rightarrow> trace \<Rightarrow> trace \<Rightarrow> bool" for H where
  deliver: "handle_message H msg (EDeliver msg # t) = (r, t') \<Longrightarrow> actor_step H t t'"

inductive reachable :: "host \<Rightarrow> trace \<Rightarrow> bool" for H where
  start: "reachable H []"
| step: "reachable H t \<Longrightarrow> actor_step H t t' \<Longrightarrow> reachable H t'"

inductive_simps actor_step_iff: "actor_step H t t'"

lemma reachable_keeps:
  assumes "reachable H t" "I []" "\<And>msg t. I t \<Longrightarrow> I (EDeliver msg # t)"
    and "\<And>msg. keeps_inv I (handle_message H msg)"
  shows "I t"
  using assms(1)
proof (induction rule: reachable.induct)
  case (step t t')
  then obtain msg r where "handle_message H msg (EDeliver msg # t) = (r, t')"
    by (auto simp: actor_step_iff)
  moreover have "I (EDeliver msg # t)"
    using step.IH assms(3) by blast
  ultimately show ?case
    using assms(4) [of msg] keepsD by metis
qed (rule assms(2))

end
