(* ===== verification/Gluon_Tasks.thy ===== *)
theory Gluon_Tasks
  imports Gluon_Dispatch
begin

text \<open>
  The tasks of the delegator as abstract state machines, and what a trace that follows them looks
  like. \<open>kg_step\<close> says how the stored item of a key generation may change, \<open>sg_step\<close> that of a
  signature, each with the guard of the code and without the handlers around it. \<open>follows\<close> holds
  of a trace if every stored item is one step from the one stored before (no update is lost), and
  every message to an executor or pinner is the one its item calls for.
\<close>

section \<open>The machines\<close>

definition elected :: "host \<Rightarrow> kg_item \<Rightarrow> kg_item \<Rightarrow> bool" where
  "elected H it it' \<longleftrightarrow>
     candidates_ready (h_overflow_checks H) it = Ok True \<and> elect it = Ok it' \<and> request_ready it'"

inductive kg_step :: "host \<Rightarrow> kg_item option \<Rightarrow> kg_item \<Rightarrow> bool" for H where
  created: "kg_item_try_from H res = Inr it \<Longrightarrow> kg_step H prev (it\<lparr>kg_nonce := nonce\<rparr>)"
| invited: "kg_status it = KgInit \<Longrightarrow> kg_step H (Some it) (it\<lparr>kg_status := InvitedCandidates\<rparr>)"
| executor_attested: "kg_status it = InvitedCandidates \<Longrightarrow> kg_step H (Some it) (insert_executor e it)"
| pinner_attested: "kg_status it = InvitedCandidates \<Longrightarrow> kg_step H (Some it) (insert_initial_pinner q it)"
| handed_out: "kg_status it = InvitedCandidates \<Longrightarrow> elected H it it' \<Longrightarrow>
    kg_step H (Some it) (it'\<lparr>kg_status := KgSentToExecutor\<rparr>)"
| executed: "kg_step H (Some it) (it\<lparr>kg_p2_public_key := Some pk, kg_multi_sig_account := Some ms,
    kg_status := ReceivedExecutionResult\<rparr>)"
| shared: "kg_status it = ReceivedExecutionResult \<Longrightarrow> kg_step H (Some it)
    (it\<lparr>kg_initial_pinner_responses := await_pinners ps (kg_initial_pinner_responses it),
        kg_status := SentToInitialPinner\<rparr>)"
| answered: "KgSentToExecutor < kg_status it \<Longrightarrow> hm_get (kg_initial_pinner_responses it) p = Some a \<Longrightarrow>
    it' = it\<lparr>kg_initial_pinner_responses := hm_insert p (Some d) (kg_initial_pinner_responses it)\<rparr> \<Longrightarrow>
    \<not> is_all_initial_pinners_ready it' \<Longrightarrow> kg_step H (Some it) it'"
| completed: "KgSentToExecutor < kg_status it \<Longrightarrow> hm_get (kg_initial_pinner_responses it) p = Some a \<Longrightarrow>
    it' = it\<lparr>kg_initial_pinner_responses := hm_insert p (Some d) (kg_initial_pinner_responses it)\<rparr> \<Longrightarrow>
    is_all_initial_pinners_ready it' \<Longrightarrow>
    kg_step H (Some it) (it'\<lparr>kg_status := ReceivedAllPinnerResponse\<rparr>)"

text \<open>The item a signature starts with.\<close>

definition sg_new :: "host \<Rightarrow> sign_transaction_response \<Rightarrow> bytes \<Rightarrow> string list \<Rightarrow> sg_item" where
  "sg_new H res nonce deployment_ids = (init_deployment_resources deployment_ids
     \<lparr>sg_task_info = \<lparr>ti_task_id = h_base64_encode H (str_task_id res),
        ti_exec_info = \<lparr>ei_n = 2, ei_k = 1, ei_task_type = ''bitcoin_mainnet''\<rparr>\<rparr>,
      sg_status = SgInit, sg_executor = None, sg_multi_sig_account = str_multi_sig_account res,
      sg_p1_signature = str_p1_signature res, sg_transaction_data = str_transaction_data res,
      sg_nonce = nonce, sg_key_slices = [], sg_deployment_candidates = []\<rparr>)
     \<lparr>sg_status := Initialized\<rparr>"

inductive sg_step :: "host \<Rightarrow> sg_item option \<Rightarrow> sg_item \<Rightarrow> bool" for H where
  created: "sg_step H prev (sg_new H res nonce ids)"
| finding: "sg_step H (Some it) (it\<lparr>sg_status := FindingDeployments\<rparr>)"
| pinner_waits: "sg_executor it = None \<Longrightarrow> \<not> has_found_key_slice it d \<Longrightarrow>
    insert_deployment d p it = Inr it' \<Longrightarrow> sg_step H (Some it) it'"
| executor_attested: "sg_executor it = None \<Longrightarrow>
    sg_step H (Some it) (it\<lparr>sg_executor := Some e, sg_deployment_candidates := []\<rparr>)"
| slice_found: "\<not> has_found_key_slice it d \<Longrightarrow> insert_key_slice_info d s it = Inr it' \<Longrightarrow>
    sg_step H (Some it) it'"
| slices_sent: "ready_send_to_executor it \<Longrightarrow> sg_executor it \<noteq> None \<Longrightarrow>
    sg_step H (Some it) (it\<lparr>sg_status := SgSentToExecutor\<rparr>)"
| committed: "sg_step H (Some it) (it\<lparr>sg_status := CommitResult\<rparr>)"

text \<open>The message that hands all slices found so far to the executor of a signature.\<close>

definition slices_message :: "host \<Rightarrow> sg_item \<Rightarrow> task_sign_with_key_slices_response" where
  "slices_message H it =
     \<lparr>sws_task_id = sg_task_id it, sws_adhoc_data = sg_transaction_data it,
      sws_p1_signature = sg_p1_signature it,
      sws_key_type = ei_task_type (ti_exec_info (sg_task_info it)),
      sws_encrypted_key_slices = get_encrypted_key_slices H it\<rparr>"

section \<open>Traces that follow the machines\<close>

definition latest_kg :: "trace \<Rightarrow> string \<Rightarrow> kg_item option" where
  "latest_kg t i = (case stored t (kg_task_store_item_key i) of Some (VKeyGen it) \<Rightarrow> Some it | _ \<Rightarrow> None)"

definition latest_sg :: "trace \<Rightarrow> string \<Rightarrow> sg_item option" where
  "latest_sg t i = (case stored t (sg_task_store_item_key i) of Some (VSign it) \<Rightarrow> Some it | _ \<Rightarrow> None)"

text \<open>
  To whom a key generation task was handed, by a message that was accepted, since the task was
  created and since the last save of it that failed.
\<close>

primrec handed_to :: "host \<Rightarrow> trace \<Rightarrow> string \<Rightarrow> (string \<times> task_execution_request) option" where
  "handed_to H [] i = None"
| "handed_to H (e # t) i = (case e of
     ESend p j m \<Rightarrow> (case m of
         TaskExecutionRequest r \<Rightarrow>
           if j = i \<and> h_call H t e = Inr () then Some (p, r) else handed_to H t i
       | _ \<Rightarrow> handed_to H t i)
   | ESet k v ttl \<Rightarrow> (case v of
         VKeyGen it \<Rightarrow>
           if k = kg_task_store_item_key i \<and> kg_status it = KgInit then None else handed_to H t i
       | _ \<Rightarrow> handed_to H t i)
   | ESetFailed k \<Rightarrow> if k = kg_task_store_item_key i then None else handed_to H t i
   | _ \<Rightarrow> handed_to H t i)"

text \<open>Answers are only awaited once there is a result.\<close>

definition awaits_late :: "kg_item \<Rightarrow> bool" where
  "awaits_late it \<longleftrightarrow> (kg_initial_pinner_responses it \<noteq> [] \<longrightarrow> KgSentToExecutor < kg_status it)"

fun follows_event :: "host \<Rightarrow> trace \<Rightarrow> event \<Rightarrow> bool" where
  "follows_event H t (ESet k v ttl) = (case v of
     VKeyGen it \<Rightarrow> k = kg_task_store_item_key (ti_task_id (kg_task_info it)) \<and>
       kg_step H (latest_kg t (ti_task_id (kg_task_info it))) it \<and> awaits_late it
   | VSign it \<Rightarrow> k = sg_task_store_item_key (sg_task_id it) \<and> sg_step H (latest_sg t (sg_task_id it)) it
   | _ \<Rightarrow> key_kind_of k \<noteq> Some KKeyGen \<and> key_kind_of k \<noteq> Some KSign)"
| "follows_event H t (ESend p i m) = (case m of
     TaskExecutionRequest r \<Rightarrow> handed_to H t i = None \<and>
       (\<exists>it it' e. latest_kg t i = Some it \<and> kg_status it = InvitedCandidates \<and> elected H it it' \<and>
          kg_executor it' = Some e \<and> p = xi_peer_id e \<and> r = generate_request it')
   | TaskSignWithKeySlicesResponse r \<Rightarrow>
       (\<exists>it e. latest_sg t i = Some it \<and> ready_send_to_executor it \<and> sg_executor it = Some e \<and>
          p = xi_peer_id e \<and> r = slices_message H it)
   | TaskSignGetPinnerKeySliceRequest r \<Rightarrow>
       (\<exists>it e. latest_sg t i = Some it \<and> sg_executor it = Some e \<and>
          sgr_task_id r = i \<and> sgr_rsa_pub_key r = xi_rsa_pub_key e)
   | _ \<Rightarrow> True)"
| "follows_event H t e = True"

primrec follows :: "host \<Rightarrow> trace \<Rightarrow> bool" where
  "follows H [] = True"
| "follows H (e # t) \<longleftrightarrow> follows H t \<and> follows_event H t e"

text \<open>
  What holds between messages: the trace follows the machines, and a task that was handed to an
  executor is stored with this executor and the request it was sent.
\<close>

definition recorded :: "host \<Rightarrow> trace \<Rightarrow> string \<Rightarrow> bool" where
  "recorded H t i \<longleftrightarrow> (\<forall>p r. handed_to H t i = Some (p, r) \<longrightarrow>
     (\<exists>it e. latest_kg t i = Some it \<and> KgSentToExecutor \<le> kg_status it \<and> kg_executor it = Some e \<and>
        xi_peer_id e = p \<and> generate_request it = r))"

definition on_track :: "host \<Rightarrow> trace \<Rightarrow> bool" where
  "on_track H t \<longleftrightarrow> follows H t \<and> (\<forall>i. recorded H t i)"

section \<open>Facts about the machines\<close>

inductive_cases kg_stepE: "kg_step H (Some it) it'"
inductive_cases sg_stepE: "sg_step H (Some it) it'"

lemma elected_fields:
  assumes "elected H it it'"
  shows "kg_task_info it' = kg_task_info it" "kg_status it' = kg_status it"
    "kg_initial_pinner_responses it' = kg_initial_pinner_responses it"
    "kg_nonce it' = kg_nonce it" "kg_p1_public_key it' = kg_p1_public_key it"
    "kg_executor it' \<noteq> None"
  using assms
  by (auto simp: elected_def request_ready_def elect_eq selected_def with_executor_def split: if_splits)

lemma kg_created: "kg_item_try_from H res = Inr it \<Longrightarrow> kg_status it = KgInit \<and> kg_initial_pinner_responses it = []"
  by (auto simp: kg_item_try_from_def split: sum.splits)

lemma kg_step_awaits_late:
  "kg_step H prev it' \<Longrightarrow> (\<And>it. prev = Some it \<Longrightarrow> awaits_late it) \<Longrightarrow> awaits_late it'"
  by (induction rule: kg_step.induct)
    (auto simp: awaits_late_def kg_created insert_executor_def insert_initial_pinner_def elected_fields
      less_kg_state_def)

text \<open>A task that was handed out keeps what it was handed out with, until it is created anew.\<close>

lemma kg_step_handed_out:
  assumes "kg_step H (Some it) it'" "KgSentToExecutor \<le> kg_status it" "kg_status it' \<noteq> KgInit"
  shows "KgSentToExecutor \<le> kg_status it' \<and> kg_executor it' = kg_executor it \<and>
    generate_request it' = generate_request it \<and> kg_nonce it' = kg_nonce it"
  using assms
  by (elim kg_stepE)
    (auto simp: less_kg_state_def less_eq_kg_state_def generate_request_def kg_created
      dest: kg_created)

lemma insert_key_slice_info_fields:
  assumes "insert_key_slice_info d s it = Inr it'"
  shows "sg_executor it' = sg_executor it" "sg_task_info it' = sg_task_info it"
    "sg_transaction_data it' = sg_transaction_data it" "sg_p1_signature it' = sg_p1_signature it"
    "hm_get (sg_key_slices it') d' = (if d' = d then Some (Some s) else hm_get (sg_key_slices it) d')"
  using assms by (auto simp: insert_key_slice_info_def split: option.splits)

lemma init_deployment_resources_fields:
  "sg_executor (init_deployment_resources ids it) = sg_executor it"
  "sg_task_info (init_deployment_resources ids it) = sg_task_info it"
  unfolding init_deployment_resources_def by (induction ids arbitrary: it) auto

lemma sg_new_fields: "sg_executor (sg_new H res nonce ids) = None"
  by (simp add: sg_new_def init_deployment_resources_fields)

text \<open>A signature keeps its executor and every slice it found, until it is created anew.\<close>

lemma sg_step_executor:
  assumes "sg_step H (Some it) it'" "sg_executor it = Some e" "sg_executor it' \<noteq> None"
  shows "sg_executor it' = Some e \<and> sg_transaction_data it' = sg_transaction_data it \<and>
    sg_p1_signature it' = sg_p1_signature it \<and>
    (hm_get (sg_key_slices it) d = Some (Some s) \<longrightarrow> hm_get (sg_key_slices it') d = Some (Some s))"
  using assms
  by (elim sg_stepE)
    (auto simp: sg_new_fields insert_key_slice_info_fields has_found_key_slice_def)

end
