(* ===== verification/Gluon_Refinement.thy ===== *)
theory Gluon_Refinement
  imports Gluon_Tasks
begin

text \<open>
  The handlers refine the machines of \<open>Gluon_Tasks\<close>: every run of the actor follows them. Handlers
  that do not touch the delegator's items are dealt with once, in the locale \<open>frame\<close>, for every
  assertion about those items; the handlers that do are verified with \<open>restores\<close>, which follows
  an item from the \<open>get\<close> to the saves.
\<close>

section \<open>Events that do not concern the delegator's items\<close>

fun neutral :: "event \<Rightarrow> bool" where
  "neutral (ESet k v ttl) \<longleftrightarrow> (case v of
     VKeyGen it \<Rightarrow> False | VSign it \<Rightarrow> False
   | _ \<Rightarrow> key_kind_of k \<noteq> Some KKeyGen \<and> key_kind_of k \<noteq> Some KSign)"
| "neutral (ESend p i m) \<longleftrightarrow> (case m of
     TaskExecutionRequest r \<Rightarrow> False
   | TaskSignWithKeySlicesResponse r \<Rightarrow> False
   | TaskSignGetPinnerKeySliceRequest r \<Rightarrow> False
   | _ \<Rightarrow> True)"
| "neutral e \<longleftrightarrow> True"

lemma neutral_latest:
  assumes "neutral e"
  shows "latest_kg (e # t) i = latest_kg t i" "latest_sg (e # t) i = latest_sg t i"
  using assms by (cases e; auto simp: latest_kg_def latest_sg_def split: kv_val.splits)+

lemma neutral_handed_to: "neutral e \<Longrightarrow> handed_to H (e # t) i = Some x \<Longrightarrow> handed_to H t i = Some x"
  by (cases e) (auto split: kv_val.splits general_msg.splits if_splits)

lemma neutral_on_track: "neutral e \<Longrightarrow> on_track H t \<Longrightarrow> on_track H (e # t)"
  by (auto simp: on_track_def recorded_def neutral_latest dest: neutral_handed_to)
    (cases e; auto split: kv_val.splits general_msg.splits)

locale frame =
  fixes I :: "trace \<Rightarrow> bool"
  assumes neutral_keeps: "neutral e \<Longrightarrow> I t \<Longrightarrow> I (e # t)"
begin

lemma prims:
  "neutral e \<Longrightarrow> keeps_inv I (prim f e)" "neutral e \<Longrightarrow> keeps_inv I (call H e)"
  "keeps_inv I (call_pinner H s b cb)" "neutral (ESet k v ttl) \<Longrightarrow> keeps_inv I (kv_set H k v ttl)"
  "keeps_inv I (kv_get g k)" "keeps_inv I (ex_get H i)" "keeps_inv I (ip_get H i)"
  "keeps_inv I (ex_save H x)" "keeps_inv I (ip_save H y)"
  "keeps_inv I (ex_contains H i)" "keeps_inv I (ip_contains H i)"
  "keeps_inv I (kg_get H i)" "keeps_inv I (sg_get H i)"
  by (rule keeps_prim keeps_call keeps_call_pinner keeps_kv_set keeps_kv_get ex.keeps_get ip.keeps_get
      ex.keeps_save ip.keeps_save ex.keeps_contains ip.keeps_contains kg.keeps_get sg.keeps_get;
      simp add: neutral_keeps)+

lemma bind: "keeps_inv I m \<Longrightarrow> (\<And>x. keeps I R (f x)) \<Longrightarrow> keeps I R (bindA m f)"
  by (erule keeps_bindA) simp

lemma lifted: "keeps_inv I (pure r)" "keeps_inv I (liftA q)" "keeps_inv I (require e v)"
  "keeps_inv I (returnA x)"
  by (simp_all add: keeps_pure keeps_liftA keeps_require keeps_returnA)

lemma matched:
  "keeps_inv I m \<Longrightarrow> (\<And>x. keeps I R (f x)) \<Longrightarrow> (\<And>e. keeps I R (g e)) \<Longrightarrow> keeps I R (matchA m f g)"
  by (erule keeps_matchA) simp_all

lemma cases_of:
  "(\<And>a b. keeps I R (h a b)) \<Longrightarrow> keeps I R (case p of (a, b) \<Rightarrow> h a b)"
  "keeps I R m \<Longrightarrow> (\<And>y ys. keeps I R (k y ys)) \<Longrightarrow> keeps I R (case xs of [] \<Rightarrow> m | y # ys \<Rightarrow> k y ys)"
  by (cases p, simp) (cases xs, simp_all)

lemmas rules = lifted bind keeps_seqA matched cases_of keeps_for_each keeps_collect_each keeps_if
  keeps_option keeps_failA keeps_panicA prims keeps_utf8_string keeps_decode_body

lemma common:
  "keeps_inv I (send_key_candidate_request H p info b)"
  "keeps_inv I (verify_to_candidate_signature H p req cont)"
  "keeps_inv I (send_key_generation_request H p info b)"
  "keeps_inv I (decrypt_key_slice H i s)" "keeps_inv I (send_ra_request H p m)"
  "keeps_inv I (invite_candidate_executors H info op cont2)"
  "keeps_inv I (try_to_be_delegator H x y cont3)"
  unfolding send_key_candidate_request_def verify_to_candidate_signature_def Let_def
    send_key_generation_request_def decrypt_key_slice_def send_ra_request_def
    invite_candidate_executors_def try_to_be_delegator_def
  by (rule rules | simp)+

lemma initial_pinners_invited: "keeps_inv I (invite_candidate_initial_pinners H info ids)"
  unfolding invite_candidate_initial_pinners_def by (rule rules common | simp)+

lemma delegates_found:
  "(\<And>ids. keeps_inv I (cb info ids)) \<Longrightarrow> keeps_inv I (get_delegates_callback H info op cb msg)"
  unfolding get_delegates_callback_def by (rule rules | simp)+

lemma delegator_key_found:
  "(\<And>nonce. keeps_inv I (cb nonce)) \<Longrightarrow> keeps_inv I (get_delegator_key_callback H x y cb msg)"
  unfolding get_delegator_key_callback_def by (rule rules | simp)+

lemma delegator:
  "keeps_inv I (share_slices_to_initial_pinner H i d pk ms)" "keeps_inv I (update_result_try_from H it)"
  "keeps_inv I (close_p2p_connections H i)" "keeps_inv I (task_key_generation_apply_request_handler H req p r)"
  "keeps_inv I (begin_find_pinners H i m)" "keeps_inv I (sign_candidate_op H item info p)"
  "keeps_inv I (process_executor_sign_with_key_slices_request H sreq p r)"
  unfolding share_slices_to_initial_pinner_def update_result_try_from_def close_p2p_connections_def
    task_key_generation_apply_request_handler_def kg_remote_attestation_executor_def
    remote_attestation_initial_pinner_def begin_find_pinners_def sign_candidate_op_def
    process_executor_sign_with_key_slices_request_def sg_remote_attestation_executor_def
  by (rule rules common | simp)+

lemma slices_encrypted: "keeps_inv I (encrypt_slices H ss j ps)"
proof (induction ps arbitrary: j)
  case (Cons p ps)
  note IH = this
  show ?case
    unfolding encrypt_slices.simps by (rule IH rules | simp)+
qed (simp add: lifted)

lemma executor:
  "keeps_inv I (executor_candidate_callback H p req)"
  "keeps_inv I (ex_task_key_generation_candidate_request_handler H p req)"
  "keeps_inv I (task_execution_request_handler H ereq p r)"
  "keeps_inv I (process_sign_with_key_slices_handler H p sreq)"
  "keeps_inv I (task_sign_with_key_slices_response_handler H wreq p r)"
  unfolding executor_candidate_callback_def ex_check_capabilities_def
    ex_task_key_generation_candidate_request_handler_def task_execution_request_handler_def
    generate_task_execution_response_def generate_key_by_type_def generate_multi_sig_account_def
    process_sign_with_key_slices_handler_def send_sign_request_def
    task_sign_with_key_slices_response_handler_def sign_decrypt_key_slice_def Let_def
  by (rule rules common slices_encrypted | simp)+

lemma pinner:
  "keeps_inv I (pinner_candidate_callback H p req)"
  "keeps_inv I (ip_task_key_generation_candidate_request_handler H p req)"
  "keeps_inv I (register_upload_rsa_key_callback H s kreq cont msg)"
  "keeps_inv I (task_pinner_key_slice_request_handler H kreq p r)"
  "keeps_inv I (trying_commit_data_upload H i ms)" "keeps_inv I (update_conflict_list H ms ids)"
  "keeps_inv I (pinner_task_sign_with_key_slices_request_handler H greq p r)"
  "keeps_inv I (pinner_key_slice_callback H greq p r cid key)"
  unfolding pinner_candidate_callback_def ip_check_capabilities_def
    ip_task_key_generation_candidate_request_handler_def register_upload_rsa_key_callback_def
    task_pinner_key_slice_request_handler_def trying_get_initial_pinner_store_item_def
    deploy_key_slice_def trying_commit_data_upload_def update_conflict_list_def
    pinner_task_sign_with_key_slices_request_handler_def pinner_key_slice_callback_def Let_def
  by (rule rules common | simp)+

lemma deployed: "keeps_inv I (process_data_upload_callback H cont msg)"
  unfolding process_data_upload_callback_def by (cases cont) (rule rules | simp)+

lemma portal:
  "keeps_inv I (key_generation_request_handler H msg)"
  "keeps_inv I (key_generation_ready_callback H body ready)"
  "keeps_inv I (sign_with_key_slices_handler H msg)" "keeps_inv I (sign_ready_callback H body ready)"
  "keeps_inv I (asset_generated_event_handler H msg)"
  "keeps_inv I (pinner_server_check_strategy H msg)"
  unfolding key_generation_request_handler_def key_generation_ready_callback_def
    sign_with_key_slices_handler_def sign_ready_callback_def asset_generated_event_handler_def
    process_key_generation_event_def process_sign_with_key_slices_event_def
    pinner_server_check_strategy_def Let_def
  by (rule rules common pinner | simp)+

lemma key_dumped: "keeps_inv I (dump_operation H op h e)"
  by (cases op) (simp_all add: Let_def, (rule rules | simp)+)

lemma dump_methods:
  "keeps_inv I (get_delegator_pub_key_callback H r op msg)"
  "keeps_inv I (generate_sign_response_message H msg)"
  "keeps_inv I (generate_key_gen_response_message H msg)"
  unfolding get_delegator_pub_key_callback_def generate_sign_response_message_def
    generate_key_gen_response_message_def delegator_key_operation_def Let_def
  by (rule rules key_dumped | simp)+

end

section \<open>Following an item through a handler\<close>

text \<open>From a trace with \<open>P\<close>, the program ends in one with \<open>I\<close>, whatever its outcome.\<close>

definition restores :: "(trace \<Rightarrow> bool) \<Rightarrow> (trace \<Rightarrow> bool) \<Rightarrow> 'a io \<Rightarrow> bool" where
  "restores P I m \<longleftrightarrow> (\<forall>t. P t \<longrightarrow> I (snd (m t)))"

lemma keeps_inv_restores: "keeps_inv I m \<longleftrightarrow> restores I I m"
  by (simp add: keeps_def restores_def)

lemma restores_keeps: "keeps_inv P m \<Longrightarrow> (\<And>t. P t \<Longrightarrow> I t) \<Longrightarrow> restores P I m"
  by (simp add: keeps_def restores_def)

lemma restores_bind:
  assumes "keeps P Q m" "\<And>t. P t \<Longrightarrow> I t" "\<And>x. Q x \<Longrightarrow> restores P I (f x)"
  shows "restores P I (bindA m f)"
  unfolding restores_def
proof (intro allI impI)
  fix t assume "P t"
  show "I (snd (bindA m f t))"
  proof (cases "m t")
    case (Pair r t')
    then have "P t'" "\<And>x. r = Ok x \<Longrightarrow> Q x"
      using assms(1) \<open>P t\<close> by (auto simp: keeps_def dest!: spec [of _ t])
    then show ?thesis
      using Pair assms(2,3) by (cases r) (auto simp: act_simps restores_def)
  qed
qed

lemma restores_lifted:
  "(\<And>t. P t \<Longrightarrow> I t) \<Longrightarrow> (\<And>x. r = Ok x \<Longrightarrow> restores P I (f x)) \<Longrightarrow> restores P I (bindA (liftA r) f)"
  "(\<And>t. P t \<Longrightarrow> I t) \<Longrightarrow> (\<And>x. v = Some x \<Longrightarrow> restores P I (f x)) \<Longrightarrow> restores P I (bindA (require e v) f)"
  "(\<And>t. P t \<Longrightarrow> I t) \<Longrightarrow> (\<And>x. q = Inr x \<Longrightarrow> restores P I (f x)) \<Longrightarrow> restores P I (bindA (pure q) f)"
  by (cases r, auto simp: restores_def bindA_app act_simps)
    (cases v, auto simp: restores_def bindA_app act_simps, cases q, auto simp: restores_def bindA_app act_simps)

lemma restores_seq: "keeps_inv P m \<Longrightarrow> (\<And>t. P t \<Longrightarrow> I t) \<Longrightarrow> restores P I k \<Longrightarrow> restores P I (seqA m k)"
  unfolding seqA_def by (erule restores_bind) auto

lemma restores_if: "(b \<Longrightarrow> restores P I m) \<Longrightarrow> (\<not> b \<Longrightarrow> restores P I k) \<Longrightarrow> restores P I (if b then m else k)"
  by simp

lemma restores_option:
  "(v = None \<Longrightarrow> restores P I m) \<Longrightarrow> (\<And>x. v = Some x \<Longrightarrow> restores P I (f x)) \<Longrightarrow>
   restores P I (case v of None \<Rightarrow> m | Some x \<Rightarrow> f x)"
  by (cases v) auto

text \<open>The task \<open>i\<close> is stored as \<open>it\<close>.\<close>

definition at_kg :: "host \<Rightarrow> string \<Rightarrow> kg_item \<Rightarrow> trace \<Rightarrow> bool" where
  "at_kg H i it t \<longleftrightarrow> on_track H t \<and> latest_kg t i = Some it \<and> ti_task_id (kg_task_info it) = i \<and>
     awaits_late it"

definition at_sg :: "host \<Rightarrow> string \<Rightarrow> sg_item \<Rightarrow> trace \<Rightarrow> bool" where
  "at_sg H i it t \<longleftrightarrow> on_track H t \<and> latest_sg t i = Some it \<and> sg_task_id it = i"

interpretation track: frame "on_track H" for H
  by unfold_locales (rule neutral_on_track)

interpretation kg_at: frame "at_kg H i it" for H i it
  by unfold_locales (simp add: at_kg_def neutral_on_track neutral_latest)

interpretation sg_at: frame "at_sg H i it" for H i it
  by unfold_locales (simp add: at_sg_def neutral_on_track neutral_latest)

lemma at_on_track: "at_kg H i it t \<Longrightarrow> on_track H t" "at_sg H i it' t \<Longrightarrow> on_track H t"
  by (simp_all add: at_kg_def at_sg_def)

subsection \<open>Reading\<close>

lemma follows_stored:
  assumes "follows H t" "stored t k = Some v"
  shows "k = kg_task_store_item_key i \<Longrightarrow>
      \<exists>it. v = VKeyGen it \<and> ti_task_id (kg_task_info it) = i \<and> awaits_late it"
    "k = sg_task_store_item_key i \<Longrightarrow> \<exists>it. v = VSign it \<and> sg_task_id it = i"
  using assms
  by (induction t)
    (auto split: event.splits if_splits kv_val.splits dest: arg_cong [where f = key_kind_of])

lemma kg_get_at:
  assumes "kv_faithful H" "on_track H t" "kg_get H i t = (Ok it, t')"
  shows "at_kg H i it t'"
proof -
  have rb: "reads_back (h_kv_get_keygen H) VKeyGen"
    using assms(1) by (simp add: kv_faithful_def)
  have fol: "follows H t"
    using assms(2) by (simp add: on_track_def)
  obtain v where v: "stored t (kg_task_store_item_key i) = Some v"
    using kg.get_reads(1) [OF rb assms(3)] by blast
  obtain it0 where it0: "v = VKeyGen it0" "ti_task_id (kg_task_info it0) = i" "awaits_late it0"
    using follows_stored(1) [OF fol v refl] by blast
  then have "it = it0"
    using kg.get_reads(2) [OF rb assms(3)] v by simp
  moreover have "on_track H t'"
    using keepsD [OF track.prims(12) assms(2,3)] .
  ultimately show ?thesis
    using v it0 kg.get_stored [OF assms(3)] by (simp add: at_kg_def latest_kg_def)
qed

lemma sg_get_at:
  assumes "kv_faithful H" "on_track H t" "sg_get H i t = (Ok it, t')"
  shows "at_sg H i it t'"
proof -
  have rb: "reads_back (h_kv_get_sign H) VSign"
    using assms(1) by (simp add: kv_faithful_def)
  have fol: "follows H t"
    using assms(2) by (simp add: on_track_def)
  obtain v where v: "stored t (sg_task_store_item_key i) = Some v"
    using sg.get_reads(1) [OF rb assms(3)] by blast
  obtain it0 where it0: "v = VSign it0" "sg_task_id it0 = i"
    using follows_stored(2) [OF fol v refl] by blast
  then have "it = it0"
    using sg.get_reads(2) [OF rb assms(3)] v by simp
  moreover have "on_track H t'"
    using keepsD [OF track.prims(13) assms(2,3)] .
  ultimately show ?thesis
    using v it0 sg.get_stored [OF assms(3)] by (simp add: at_sg_def latest_sg_def)
qed

lemma restores_kg_get:
  assumes "kv_faithful H" "\<And>it. restores (at_kg H i it) (on_track H) (f it)"
  shows "restores (on_track H) (on_track H) (bindA (kg_get H i) f)"
  unfolding restores_def
proof (intro allI impI)
  fix t assume t: "on_track H t"
  show "on_track H (snd (bindA (kg_get H i) f t))"
  proof (cases "kg_get H i t")
    case (Pair r t')
    then show ?thesis
      using assms(2) kg_get_at [OF assms(1) t] keepsD [OF track.prims(12) t Pair]
      by (cases r) (auto simp: act_simps restores_def)
  qed
qed

lemma restores_kg_match:
  assumes "kv_faithful H" "\<And>it. restores (at_kg H i it) (on_track H) (f it)"
    and "\<And>e. keeps_inv (on_track H) (g e)"
  shows "restores (on_track H) (on_track H) (matchA (kg_get H i) f g)"
  unfolding restores_def
proof (intro allI impI)
  fix t assume t: "on_track H t"
  show "on_track H (snd (matchA (kg_get H i) f g t))"
  proof (cases "kg_get H i t")
    case (Pair r t')
    then show ?thesis
      using assms(2,3) kg_get_at [OF assms(1) t] keepsD [OF track.prims(12) t Pair]
      by (cases r) (auto simp: act_simps restores_def keeps_inv_restores)
  qed
qed

lemma restores_sg_get:
  assumes "kv_faithful H" "\<And>it. restores (at_sg H i it) (on_track H) (f it)"
  shows "restores (on_track H) (on_track H) (bindA (sg_get H i) f)"
  unfolding restores_def
proof (intro allI impI)
  fix t assume t: "on_track H t"
  show "on_track H (snd (bindA (sg_get H i) f t))"
  proof (cases "sg_get H i t")
    case (Pair r t')
    then show ?thesis
      using assms(2) sg_get_at [OF assms(1) t] keepsD [OF track.prims(13) t Pair]
      by (cases r) (auto simp: act_simps restores_def)
  qed
qed

subsection \<open>Saving\<close>

lemma latest_after_set:
  "latest_kg (ESet (kg_task_store_item_key j) (VKeyGen it) ttl # t) i = (if i = j then Some it else latest_kg t i)"
  "latest_sg (ESet (sg_task_store_item_key j) (VSign x) ttl # t) i = (if i = j then Some x else latest_sg t i)"
  "latest_sg (ESet (kg_task_store_item_key j) (VKeyGen it) ttl # t) i = latest_sg t i"
  "latest_kg (ESet (sg_task_store_item_key j) (VSign x) ttl # t) i = latest_kg t i"
  by (auto simp: latest_kg_def latest_sg_def dest: arg_cong [where f = key_kind_of])

lemma kg_set_on_track:
  assumes "on_track H t" "kg_step H (latest_kg t i) it'" "ti_task_id (kg_task_info it') = i" "awaits_late it'"
  shows "on_track H (ESet (kg_task_store_item_key i) (VKeyGen it') ttl # t)"
proof -
  have fol: "follows H (ESet (kg_task_store_item_key i) (VKeyGen it') ttl # t)"
    using assms by (simp add: on_track_def)
  moreover have "recorded H (ESet (kg_task_store_item_key i) (VKeyGen it') ttl # t) j" for j
  proof (cases "kg_status it' = KgInit \<and> j = i")
    case True
    then show ?thesis by (simp add: recorded_def)
  next
    case False
    have "recorded H t j"
      using assms(1) by (simp add: on_track_def)
    then show ?thesis
      using False kg_step_handed_out [of H _ it'] assms(2)
      by (fastforce simp: recorded_def latest_after_set split: if_splits)
  qed
  ultimately show ?thesis
    by (simp add: on_track_def)
qed

lemma sg_set_on_track:
  assumes "on_track H t" "sg_step H (latest_sg t i) it'" "sg_task_id it' = i"
  shows "on_track H (ESet (sg_task_store_item_key i) (VSign it') ttl # t)"
  using assms by (auto simp: on_track_def recorded_def latest_after_set)

lemma locks_at:
  "neutral (ELock i)" "neutral (EUnlock i)" "neutral (ESetFailed k)"
  by simp_all

text \<open>A save that is a step, followed by the rest of the handler.\<close>

lemma restores_kg_step:
  assumes "\<And>t. P t \<Longrightarrow> on_track H t \<and> kg_step H (latest_kg t i) it' \<and> P (ELock i # t)"
    and "ti_task_id (kg_task_info it') = i" "awaits_late it'"
    and "restores (at_kg H i it') (on_track H) k"
  shows "restores P (on_track H) (seqA (kg_save H it') k)"
  unfolding restores_def
proof (intro allI impI)
  fix t assume "P t"
  then have t: "on_track H (ELock i # t)" "kg_step H (latest_kg (ELock i # t) i) it'"
    using assms(1) by blast+
  have "at_kg H i it' (EUnlock i # ESet (kg_task_store_item_key i) (VKeyGen it') None # ELock i # t)"
    using neutral_on_track [OF locks_at(2) kg_set_on_track [OF t assms(2,3), of None], of i]
    by (simp add: at_kg_def assms(2,3) neutral_latest latest_after_set)
  moreover have "on_track H (EUnlock i # ESetFailed (kg_task_store_item_key i) # ELock i # t)"
    by (intro neutral_on_track [OF locks_at(2)] neutral_on_track [OF locks_at(3)] t(1))
  ultimately show "on_track H (snd (seqA (kg_save H it') k t))"
    using assms(4) by (simp add: seqA_def bindA_def kg.save_eq assms(2) restores_def split: sum.splits)
qed

lemma restores_sg_step:
  assumes "\<And>t. P t \<Longrightarrow> on_track H t \<and> sg_step H (latest_sg t i) it' \<and> P (ELock i # t)"
    and "sg_task_id it' = i" "restores (at_sg H i it') (on_track H) k"
  shows "restores P (on_track H) (seqA (sg_save H it') k)"
  unfolding restores_def
proof (intro allI impI)
  fix t assume "P t"
  then have t: "on_track H (ELock i # t)" "sg_step H (latest_sg (ELock i # t) i) it'"
    using assms(1) by blast+
  have "at_sg H i it' (EUnlock i # ESet (sg_task_store_item_key i) (VSign it') None # ELock i # t)"
    using neutral_on_track [OF locks_at(2) sg_set_on_track [OF t assms(2), of None], of i]
    by (simp add: at_sg_def assms(2) neutral_latest latest_after_set)
  moreover have "on_track H (EUnlock i # ESetFailed (sg_task_store_item_key i) # ELock i # t)"
    by (intro neutral_on_track [OF locks_at(2)] neutral_on_track [OF locks_at(3)] t(1))
  ultimately show "on_track H (snd (seqA (sg_save H it') k t))"
    using assms(3) by (simp add: seqA_def bindA_def sg.save_eq assms(2) restores_def split: sum.splits)
qed

lemma snd_seq_return: "snd (seqA m (returnA ()) t) = snd (m t)"
  by (cases "m t"; cases "fst (m t)") (auto simp: seqA_def bindA_def act_simps)

lemma restores_last: "restores P I (seqA m (returnA ())) \<Longrightarrow> restores P I m"
  by (simp add: restores_def snd_seq_return)

lemma restores_return: "restores P (on_track H) (returnA x)" if "\<And>t. P t \<Longrightarrow> on_track H t"
  using that by (simp add: restores_def act_simps)

lemma kg_created_save:
  assumes "kg_item_try_from H res = Inr it"
    and "restores (at_kg H i (it\<lparr>kg_nonce := nonce\<rparr>)) (on_track H) k" "ti_task_id (kg_task_info it) = i"
  shows "restores (on_track H) (on_track H) (seqA (kg_save H (it\<lparr>kg_nonce := nonce\<rparr>)) k)"
  using assms kg_created [OF assms(1)]
  by (intro restores_kg_step [where i = i])
    (auto simp: awaits_late_def neutral_on_track intro: kg_step.created)

lemma kg_step_save:
  assumes "kg_step H (Some it) it'" "ti_task_id (kg_task_info it') = i" "awaits_late it"
    and "restores (at_kg H i it') (on_track H) k"
  shows "restores (at_kg H i it) (on_track H) (seqA (kg_save H it') k)"
  using assms kg_step_awaits_late [OF assms(1)]
  by (intro restores_kg_step [where i = i])
    (auto simp: at_kg_def neutral_on_track neutral_latest)

lemma kg_step_last:
  "kg_step H (Some it) it' \<Longrightarrow> ti_task_id (kg_task_info it') = i \<Longrightarrow> awaits_late it \<Longrightarrow>
   restores (at_kg H i it) (on_track H) (kg_save H it')"
  by (rule restores_last [OF kg_step_save [OF _ _ _ restores_return [OF at_on_track(1)]]])

lemma sg_created_save:
  assumes "restores (at_sg H i (sg_new H res nonce ids)) (on_track H) k" "sg_task_id (sg_new H res nonce ids) = i"
  shows "restores (on_track H) (on_track H) (seqA (sg_save H (sg_new H res nonce ids)) k)"
  using assms by (intro restores_sg_step [where i = i]) (auto simp: neutral_on_track intro: sg_step.created)

lemma sg_step_save:
  assumes "sg_step H (Some it) it'" "sg_task_id it' = i" "restores (at_sg H i it') (on_track H) k"
  shows "restores (at_sg H i it) (on_track H) (seqA (sg_save H it') k)"
  using assms by (intro restores_sg_step [where i = i]) (auto simp: at_sg_def neutral_on_track neutral_latest)

lemma sg_step_last:
  "sg_step H (Some it) it' \<Longrightarrow> sg_task_id it' = i \<Longrightarrow> restores (at_sg H i it) (on_track H) (sg_save H it')"
  by (rule restores_last [OF sg_step_save [OF _ _ restores_return [OF at_on_track(2)]]])

text \<open>The rules for \<open>get\<close>, with what is known of the item.\<close>

lemma at_kg_known:
  "(ti_task_id (kg_task_info it) = i \<Longrightarrow> awaits_late it \<Longrightarrow> restores (at_kg H i it) I m) \<Longrightarrow>
   restores (at_kg H i it) I m"
  by (auto simp: restores_def at_kg_def)

lemma at_sg_known:
  "(sg_task_id it = i \<Longrightarrow> restores (at_sg H i it) I m) \<Longrightarrow> restores (at_sg H i it) I m"
  by (auto simp: restores_def at_sg_def)

lemmas kg_get_rule = restores_kg_get [OF _ at_kg_known]
lemmas kg_match_rule = restores_kg_match [OF _ at_kg_known]
lemmas sg_get_rule = restores_sg_get [OF _ at_sg_known]

text \<open>Steps of a handler that leave the item alone.\<close>

lemmas kg_lift = restores_lifted [OF at_on_track(1)]
lemmas sg_lift = restores_lifted [OF at_on_track(2)]
lemmas kg_skip = restores_bind [OF _ at_on_track(1)] restores_seq [OF _ at_on_track(1)]
lemmas sg_skip = restores_bind [OF _ at_on_track(2)] restores_seq [OF _ at_on_track(2)]
lemmas kg_end = restores_keeps [OF _ at_on_track(1)] restores_return [OF at_on_track(1)]
lemmas sg_end = restores_keeps [OF _ at_on_track(2)] restores_return [OF at_on_track(2)]

section \<open>Key generation\<close>

text \<open>The request to the executor and the save that records it: if the save fails, the item is
  still one that invited candidates, and the failure is in the trace.\<close>

lemma hand_out:
  assumes "kg_status it = InvitedCandidates" "elected H it it'" "kg_executor it' = Some e"
    and "ti_task_id (kg_task_info it) = i" "awaits_late it"
  shows "restores (at_kg H i it) (on_track H)
    (seqA (send_message H (xi_peer_id e) i (TaskExecutionRequest (generate_request it')))
      (kg_save H (it'\<lparr>kg_status := KgSentToExecutor\<rparr>)))"
  unfolding restores_def
proof (intro allI impI)
  fix t assume t: "at_kg H i it t"
  let ?it = "it'\<lparr>kg_status := KgSentToExecutor\<rparr>" and ?k = "kg_task_store_item_key i"
  let ?e = "ESend (xi_peer_id e) i (TaskExecutionRequest (generate_request it'))"
  have follow: "follows H t" "\<And>j. recorded H t j" and latest: "latest_kg t i = Some it"
    using t by (simp_all add: at_kg_def on_track_def)
  have "handed_to H t i = None"
  proof (rule ccontr)
    assume "handed_to H t i \<noteq> None"
    then show False
      using follow(2) [of i] latest assms(1) by (auto simp: recorded_def less_eq_kg_state_def)
  qed
  then have sent: "follows H (?e # t)"
    using follow(1) latest assms(1-3) by auto
  have id: "ti_task_id (kg_task_info it') = i"
    using elected_fields [OF assms(2)] assms(4) by simp
  have others: "recorded H (?e # t) j" if "j \<noteq> i" for j
    using follow(2) [of j] that by (simp add: recorded_def latest_kg_def)
  show "on_track H (snd (seqA (send_message H (xi_peer_id e) i (TaskExecutionRequest (generate_request it')))
      (kg_save H ?it) t))"
  proof (cases "h_call H t ?e")
    case (Inl x)
    have "recorded H (?e # t) j" for j
      using follow(2) [of j] Inl by (simp add: recorded_def latest_kg_def)
    then have "on_track H (?e # t)"
      unfolding on_track_def by (intro conjI allI sent)
    then show ?thesis
      using Inl by (simp add: seqA_def bindA_def call_def prim_def)
  next
    case (Inr x)
    have step: "kg_step H (latest_kg (ELock i # ?e # t) i) ?it"
      using latest assms(1,2) by (simp add: latest_kg_def kg_step.handed_out)
    then have f: "follows H (ESet ?k (VKeyGen ?it) None # ELock i # ?e # t)"
      using sent id kg_step_awaits_late [OF step] assms(5) latest by (auto simp: latest_kg_def)
    have r: "recorded H (ESet ?k (VKeyGen ?it) None # ELock i # ?e # t) j" for j
      using others [of j] Inr assms(3)
      by (cases "j = i") (auto simp: recorded_def latest_after_set neutral_latest less_eq_kg_state_def
          generate_request_def latest_kg_def)
    have saved: "on_track H (ESet ?k (VKeyGen ?it) None # ELock i # ?e # t)"
      unfolding on_track_def by (intro conjI allI f r)
    have f: "follows H (ESetFailed ?k # ELock i # ?e # t)"
      using sent by simp
    have r: "recorded H (ESetFailed ?k # ELock i # ?e # t) j" for j
      using others [of j] by (cases "j = i") (auto simp: recorded_def latest_kg_def)
    have "on_track H (ESetFailed ?k # ELock i # ?e # t)"
      unfolding on_track_def by (intro conjI allI f r)
    with saved show ?thesis
      using Inr id
      by (simp add: seqA_def bindA_def call_def prim_def kg.save_eq neutral_on_track split: sum.splits)
  qed
qed

lemma try_send_on_track:
  assumes "kg_status it = InvitedCandidates" "ti_task_id (kg_task_info it) = i" "awaits_late it"
  shows "restores (at_kg H i it) (on_track H) (kg_try_send_to_executor H it)"
  unfolding kg_try_send_to_executor_def
proof (rule kg_lift(1))
  fix ready assume ready: "candidates_ready (h_overflow_checks H) it = Ok ready"
  show "restores (at_kg H i it) (on_track H) (if \<not> ready then returnA ()
     else bindA (liftA (elect it)) (\<lambda>item.
       if \<not> request_ready item then failA (NotElectedProperly (ti_task_id (kg_task_info item)))
       else case kg_executor item of None \<Rightarrow> panicA
         | Some executor \<Rightarrow>
             seqA (send_message H (xi_peer_id executor) (ti_task_id (kg_task_info item))
               (TaskExecutionRequest (generate_request item)))
             (kg_save H (item\<lparr>kg_status := KgSentToExecutor\<rparr>))))"
  proof (rule restores_if, rule kg_end(2), assumption, rule kg_lift(1), assumption)
    fix it' assume it': "elect it = Ok it'" "\<not> \<not> ready"
    show "restores (at_kg H i it) (on_track H)
       (if \<not> request_ready it' then failA (NotElectedProperly (ti_task_id (kg_task_info it')))
       else case kg_executor it' of None \<Rightarrow> panicA
         | Some executor \<Rightarrow>
             seqA (send_message H (xi_peer_id executor) (ti_task_id (kg_task_info it'))
               (TaskExecutionRequest (generate_request it')))
             (kg_save H (it'\<lparr>kg_status := KgSentToExecutor\<rparr>)))"
    proof (intro restores_if restores_option)
      fix e assume "\<not> \<not> request_ready it'" "kg_executor it' = Some e"
      moreover from this have "elected H it it'"
        using ready it' by (simp add: elected_def)
      ultimately show "restores (at_kg H i it) (on_track H)
         (seqA (send_message H (xi_peer_id e) (ti_task_id (kg_task_info it'))
             (TaskExecutionRequest (generate_request it')))
           (kg_save H (it'\<lparr>kg_status := KgSentToExecutor\<rparr>)))"
        using hand_out [OF assms(1) _ _ assms(2,3)] elected_fields(1) [of H it it'] assms(2) by simp
    qed (simp_all add: kg_end(1) keeps_failA keeps_panicA)
  qed
qed auto

lemma on_ra_success_on_track:
  assumes "kv_faithful H"
  shows "restores (on_track H) (on_track H) (kg_on_executor_ra_success H i p k)"
    "restores (on_track H) (on_track H) (on_initial_pinner_ra_success H i p k)"
  unfolding kg_on_executor_ra_success_def on_initial_pinner_ra_success_def Let_def
  using assms
  by (intro kg_get_rule restores_if kg_end(2) kg_step_save try_send_on_track kg_step.executor_attested
      kg_step.pinner_attested;
    simp add: insert_executor_def insert_initial_pinner_def awaits_late_def)+

lemma key_generation_event_on_track:
  "restores (on_track H) (on_track H) (key_generation_event_callback H res nonce)"
  unfolding key_generation_event_callback_def Let_def
proof (rule restores_lifted(3))
  fix it assume it: "kg_item_try_from H res = Inr it"
  have "kg_step H (Some (it\<lparr>kg_nonce := nonce\<rparr>)) (it\<lparr>kg_nonce := nonce, kg_status := InvitedCandidates\<rparr>)"
    using kg_step.invited [of "it\<lparr>kg_nonce := nonce\<rparr>" H] kg_created [OF it] by simp
  then show "restores (on_track H) (on_track H) (seqA (kg_save H (it\<lparr>kg_nonce := nonce\<rparr>))
      (seqA (invite_candidate_executors H (kg_task_info (it\<lparr>kg_nonce := nonce\<rparr>)) OpInviteExecutor ContInvitePinners)
        (kg_save H (it\<lparr>kg_nonce := nonce, kg_status := InvitedCandidates\<rparr>))))"
    using kg_created [OF it]
    by (intro kg_created_save [OF it, where i = "ti_task_id (kg_task_info it)"] kg_skip(2) [OF kg_at.common(6)]
        kg_step_last) (simp_all add: awaits_late_def)
qed

lemma store_item_handler_on_track:
  assumes "kv_faithful H"
    and "\<And>it. ti_task_id (kg_task_info it) = i \<Longrightarrow> awaits_late it \<Longrightarrow>
      restores (at_kg H i it) (on_track H) (action it)"
  shows "restores (on_track H) (on_track H) (delegator_store_item_handler H i p r action)"
  unfolding delegator_store_item_handler_def
  using assms by (intro kg_match_rule) (simp_all add: track.prims(2))

lemma execution_response_on_track:
  assumes "kv_faithful H"
  shows "restores (on_track H) (on_track H) (process_task_execution_response H res p r)"
  unfolding process_task_execution_response_def Let_def
proof (rule store_item_handler_on_track [OF assms], goal_cases)
  case (1 it)
  let ?it1 = "it\<lparr>kg_p2_public_key := Some (tes_p2_public_key res),
    kg_multi_sig_account := Some (tes_multi_sig_account res), kg_status := ReceivedExecutionResult\<rparr>"
  have "awaits_late ?it1"
    using kg_step_awaits_late [OF kg_step.executed] 1 by blast
  moreover have "kg_step H (Some ?it1) (?it1\<lparr>kg_initial_pinner_responses :=
      await_pinners (tes_initial_pinners res) (kg_initial_pinner_responses ?it1), kg_status := SentToInitialPinner\<rparr>)"
    by (rule kg_step.shared) simp
  ultimately show ?case
    using 1
    by (intro kg_step_save [OF kg_step.executed] kg_skip(2) [OF keeps_for_each [OF kg_at.delegator(1)]]
        kg_step_save kg_end(1) kg_at.prims(2)) simp_all
qed

lemma slice_response_on_track:
  assumes "kv_faithful H"
  shows "restores (on_track H) (on_track H) (process_task_pinner_key_slice_response H res p r)"
  unfolding process_task_pinner_key_slice_response_def Let_def
proof (rule store_item_handler_on_track [OF assms], goal_cases)
  case (1 it)
  show ?case
  proof (intro restores_option restores_if)
    fix a assume a: "hm_get (kg_initial_pinner_responses it) p = Some a"
    then have late: "KgSentToExecutor < kg_status it"
      using 1(2) by (auto simp: awaits_late_def)
    let ?it = "it\<lparr>kg_initial_pinner_responses :=
      hm_insert p (Some (pks_deployment_id res)) (kg_initial_pinner_responses it)\<rparr>"
    note steps = kg_step.answered [OF late a refl] kg_step.completed [OF late a refl]
    show "restores (at_kg H (pks_task_id res) it) (on_track H)
        (seqA (kg_save H (?it\<lparr>kg_status := ReceivedAllPinnerResponse\<rparr>))
          (bindA (update_result_try_from H (?it\<lparr>kg_status := ReceivedAllPinnerResponse\<rparr>)) (\<lambda>result.
            bindA (pure (h_encode_protobuf H (PbUpdateKeyGenerationResult result))) (\<lambda>body.
              call H (ECall ''layer1.async.reply.update_generate_key_result'' ''actor.gluon.inbox''
                (as_bytes (h_base64_encode H body))
                (CbUpdateKeyGenResult (ti_task_id (kg_task_info (?it\<lparr>kg_status := ReceivedAllPinnerResponse\<rparr>)))))))))"
      if "is_all_initial_pinners_ready ?it"
      using that 1 steps(2)
      by (intro kg_step_save kg_end(1)) (auto intro!: kg_at.rules kg_at.delegator)
    show "restores (at_kg H (pks_task_id res) it) (on_track H)
        (seqA (kg_save H ?it) (response_reply_with_subject H r
          (as_bytes ''received initial pinner key slice response'')))"
      if "\<not> is_all_initial_pinners_ready ?it"
      using that 1 steps(1) by (intro kg_step_save kg_end(1) kg_at.prims(2)) simp_all
  qed (simp add: kg_end(1) kg_at.prims(2))
qed

lemma kg_verified_on_track:
  "kv_faithful H \<Longrightarrow> restores (on_track H) (on_track H) (kg_operation_after_verify_handler H p e item)"
  unfolding kg_operation_after_verify_handler_def
  by (intro restores_lifted restores_if restores_return on_ra_success_on_track)

section \<open>Signature\<close>

lemma sign_event_on_track: "restores (on_track H) (on_track H) (sign_event_with_deployments H res nonce ids)"
proof -
  have "sg_item_try_from H res = Inr item0 \<Longrightarrow> (init_deployment_resources ids (item0
      \<lparr>sg_nonce := nonce, sg_task_info := (sg_task_info (item0\<lparr>sg_nonce := nonce\<rparr>))
       \<lparr>ti_exec_info := \<lparr>ei_n = 2, ei_k = 1, ei_task_type = ''bitcoin_mainnet''\<rparr>\<rparr>\<rparr>))
      \<lparr>sg_status := Initialized\<rparr> = sg_new H res nonce ids" for item0
    by (auto simp: sg_item_try_from_def sg_new_def)
  then show ?thesis
    unfolding sign_event_with_deployments_def Let_def
    by (intro restores_lifted) (auto intro!: sg_created_save [OF sg_end(1) refl] sg_at.common)
qed

lemma deployment_ids_on_track:
  "restores (on_track H) (on_track H) (get_deployment_ids H res nonce)"
  "restores (on_track H) (on_track H) (get_deployment_ids_callback H res nonce msg)"
  using sign_event_on_track [of H res nonce]
  unfolding get_deployment_ids_def predefined_deployment_ids_def get_deployment_ids_callback_def Let_def
    keeps_inv_restores [symmetric]
  by (auto intro!: track.rules split: option.splits)

lemma find_pinners_on_track:
  assumes "kv_faithful H"
  shows "restores (on_track H) (on_track H) (find_pinners_callback H ids m info)"
  unfolding find_pinners_callback_def
  by (intro restores_seq [OF keeps_for_each [OF track.delegator(5)]] sg_get_rule [OF assms]
      sg_step_last sg_step.finding) simp_all

text \<open>The slices are sent to the executor of the item, and only if there are enough of them.\<close>

lemma sg_try_send_on_track:
  assumes "sg_task_id it = i"
  shows "restores (at_sg H i it) (on_track H) (sg_try_send_to_executor H it)"
  unfolding sg_try_send_to_executor_def Let_def
proof (intro restores_if sg_end(2) sg_lift(2))
  fix e assume ready: "\<not> \<not> ready_send_to_executor it" "sg_executor it = Some e"
  have "keeps_inv (at_sg H i it) (send_message H (xi_peer_id e) i
      (TaskSignWithKeySlicesResponse (slices_message H it)))"
    using ready
    by (intro keeps_call) (auto simp: at_sg_def on_track_def recorded_def latest_sg_def latest_kg_def)
  then show "restores (at_sg H i it) (on_track H) (seqA (send_message H (xi_peer_id e) (sg_task_id it)
      (TaskSignWithKeySlicesResponse \<lparr>sws_task_id = sg_task_id it, sws_adhoc_data = sg_transaction_data it,
        sws_p1_signature = sg_p1_signature it, sws_key_type = ei_task_type (ti_exec_info (sg_task_info it)),
        sws_encrypted_key_slices = get_encrypted_key_slices H it\<rparr>))
      (sg_save H (it\<lparr>sg_status := SgSentToExecutor\<rparr>)))"
    using ready assms
    by (intro sg_skip(2) sg_step_last sg_step.slices_sent) (simp_all add: slices_message_def)
qed auto

lemma commit_on_track:
  "kv_faithful H \<Longrightarrow> restores (on_track H) (on_track H) (process_commit_sign_result_request H req p r)"
  unfolding process_commit_sign_result_request_def
  by (intro sg_get_rule sg_step_save sg_step.committed sg_end(1) sg_at.prims(2)) simp_all

lemma found_slice_on_track:
  assumes "kv_faithful H"
  shows "restores (on_track H) (on_track H) (process_pinner_key_slice_response H res p r)"
  unfolding process_pinner_key_slice_response_def
proof (intro sg_get_rule [OF assms] restores_if sg_lift(3))
  fix it it' assume it: "sg_task_id it = sgs_task_id res" "\<not> has_found_key_slice it (sgs_deployment_id res)"
    "insert_key_slice_info (sgs_deployment_id res)
      \<lparr>ks_peer_id = p, ks_encrypted_key_slice = sgs_encrypted_key_slice res\<rparr> it = Inr it'"
  then show "restores (at_sg H (sgs_task_id res) it) (on_track H)
      (seqA (sg_save H it') (seqA (close_p2p H p) (sg_try_send_to_executor H it')))"
    by (intro sg_step_save [OF sg_step.slice_found [OF it(2,3)]] sg_skip(2) sg_try_send_on_track
        sg_at.prims(2)) (simp_all add: insert_key_slice_info_fields)
qed (simp_all add: sg_end(1) sg_at.prims(2))

lemma ask_pinner_keeps:
  assumes "sg_executor it = Some e"
  shows "keeps_inv (at_sg H i it) (send_get_pinner_key_slice_request H i p d it)"
  unfolding send_get_pinner_key_slice_request_def
  using assms by (auto intro!: keeps_call simp: at_sg_def on_track_def recorded_def latest_sg_def latest_kg_def)

lemma sg_executor_on_track:
  assumes "kv_faithful H"
  shows "restores (on_track H) (on_track H) (sg_on_executor_ra_success H i p k)"
  unfolding sg_on_executor_ra_success_def pop_all_candidates_def Let_def case_prod_conv
proof (intro sg_get_rule [OF assms] restores_if)
  fix it assume it: "sg_task_id it = i" "\<not> sg_executor it \<noteq> None"
  let ?it = "it\<lparr>sg_executor := Some \<lparr>xi_peer_id = p, xi_rsa_pub_key = k\<rparr>, sg_deployment_candidates := []\<rparr>"
  show "restores (at_sg H i it) (on_track H) (seqA (sg_save H ?it)
      (if ready_send_to_executor ?it then sg_try_send_to_executor H ?it
       else for_each (\<lambda>(d, peers). for_each (\<lambda>q. send_get_pinner_key_slice_request H i q d ?it) peers)
         (hm_entries (h_key_order H) (sg_deployment_candidates
           (it\<lparr>sg_executor := Some \<lparr>xi_peer_id = p, xi_rsa_pub_key = k\<rparr>\<rparr>)))))"
    using it
    by (intro sg_step_save sg_step.executor_attested restores_if sg_try_send_on_track sg_end(1) keeps_for_each
        sg_at.cases_of(1) ask_pinner_keeps) simp_all
qed (simp_all add: sg_end(2))

lemma sg_pinner_on_track:
  assumes "kv_faithful H"
  shows "restores (on_track H) (on_track H) (on_pinner_ra_success H i p d)"
  unfolding on_pinner_ra_success_def
proof (intro sg_get_rule [OF assms] restores_if sg_lift(3))
  fix it it' assume it: "sg_task_id it = i" "\<not> has_found_key_slice it d" "sg_executor it = None"
    "insert_deployment d p it = Inr it'"
  then show "restores (at_sg H i it) (on_track H) (sg_save H it')"
    by (intro sg_step_last sg_step.pinner_waits) (auto simp: insert_deployment_def split: option.splits)
qed (auto intro!: sg_end ask_pinner_keeps)

lemma sg_verified_on_track:
  "kv_faithful H \<Longrightarrow> restores (on_track H) (on_track H) (sg_operation_after_verify_handler H p e item)"
  unfolding sg_operation_after_verify_handler_def
  by (intro restores_lifted restores_if restores_return sg_executor_on_track sg_pinner_on_track)

section \<open>The whole actor\<close>

lemma run_msg_callback_on_track:
  assumes "kv_faithful H"
  shows "keeps_inv (on_track H) (run_msg_callback H cb msg)"
proof -
  note started = key_generation_event_on_track [folded keeps_inv_restores]
    deployment_ids_on_track [folded keeps_inv_restores] find_pinners_on_track [OF assms, folded keeps_inv_restores]
  show ?thesis
  proof (cases cb)
    case (CbGetDelegatorKey e h cont)
    then show ?thesis
      by (cases cont) (auto intro!: track.delegator_key_found started)
  next
    case (CbGetDelegates info op cont)
    then show ?thesis
      by (cases cont)
        (auto intro!: track.delegates_found track.initial_pinners_invited started)
  qed (auto intro!: track.lifted track.pinner track.deployed track.delegator track.dump_methods started)
qed

lemma run_invocation_on_track:
  assumes "kv_faithful H"
  shows "keeps_inv (on_track H) (run_invocation H i)"
  using assms
proof (induction H i rule: run_invocation.induct)
  case (1 H cb msg)
  then show ?case by (simp add: run_msg_callback_on_track)
next
  case (2 H cb p)
  then show ?case
  proof (cases cb)
    case (CbVerifyCandidate q cont)
    then show ?thesis
      by (cases cont)
        (auto simp: verify_candidate_callback_def intro!: track.executor track.pinner keeps_failA)
  next
    case (CbInviteCandidate info op)
    then show ?thesis
      by (cases op) (auto intro!: track.common track.delegator)
  qed
next
  case (3 H cb ready)
  then show ?case by (cases cb) (simp_all add: track.portal)
qed (simp add: track.pinner)

lemma handle_general_msg_on_track:
  assumes "kv_faithful H"
  shows "keeps_inv (on_track H) (handle_general_msg H m p r)"
  using execution_response_on_track [OF assms] slice_response_on_track [OF assms]
    found_slice_on_track [OF assms] commit_on_track [OF assms]
  by (cases m)
    (auto intro!: track.delegator track.executor track.pinner track.prims(2)
      simp: keeps_inv_restores [symmetric])

lemma handle_message_on_track:
  assumes "kv_faithful H"
  shows "keeps_inv (on_track H) (handle_message H msg)"
proof -
  have "keeps_inv (on_track H) (listen_p2p_message H p msg)"
    "keeps_inv (on_track H) (result_handler H msg uuid)"
    "keeps_inv (on_track H) (pinner_client_operation_after_verify H msg)" for p uuid
    unfolding listen_p2p_message_def result_handler_def pinner_client_operation_after_verify_def
    using assms kg_verified_on_track [OF assms] sg_verified_on_track [OF assms]
    by (auto intro!: track.rules handle_general_msg_on_track run_invocation_on_track
        simp: keeps_inv_restores [symmetric] split: option.splits)
  then show ?thesis
    unfolding handle_message_def
    by (intro track.cases_of(2) keeps_if track.lifted track.portal track.dump_methods)
qed

theorem reachable_on_track:
  assumes "kv_faithful H" "reachable H t"
  shows "on_track H t"
  using assms(2)
proof (rule reachable_keeps)
  show "on_track H []"
    by (simp add: on_track_def recorded_def)
qed (simp_all add: neutral_on_track handle_message_on_track [OF assms(1)])

lemma follows_append: "follows H (new @ e # old) \<Longrightarrow> follows_event H old e"
  by (induction new) auto

lemma reachable_follows:
  "kv_faithful H \<Longrightarrow> reachable H (new @ e # old) \<Longrightarrow> follows_event H old e"
  using reachable_on_track follows_append unfolding on_track_def by blast

end
