(* ===== verification/Gluon_Scenario.thy ===== *)
theory Gluon_Scenario
  imports Gluon_Dispatch
begin

text \<open>
  Two runs of the delegator over a concrete host: a key generation from the request of layer 1 to
  the report of the key, and a signature up to the slice of a first pinner. They show that the
  hypotheses of the properties of runs hold together on runs in which something happens.
\<close>

text \<open>The latest call of the trace that left a callback, answered with fixed arguments.\<close>

fun answer_of :: "event \<Rightarrow> invocation option" where
  "answer_of (EIntercom to fr m cb) = Some (InvokeMsg cb \<lparr>bm_subject = '''', bm_reply_to = '''', bm_body = []\<rparr>)"
| "answer_of (ECall s inbox body cb) = Some (InvokeMsg cb \<lparr>bm_subject = '''', bm_reply_to = '''', bm_body = []\<rparr>)"
| "answer_of (ELookupProfile eid s cb) = Some (InvokeProfile cb ''peer'')"
| "answer_of (ELookupProfileByTeaId tid s cb) = Some (InvokeProfile cb ''peer'')"
| "answer_of (EIsNodeReady a cb) = Some (InvokeReady cb True)"
| "answer_of (EGetDeploymentInfo a d cb) = Some (InvokeDeployment cb (Some ''cid'') (Some [1]))"
| "answer_of e = None"

fun latest_answer :: "trace \<Rightarrow> invocation option" where
  "latest_answer [] = None"
| "latest_answer (e # t) = (case answer_of e of None \<Rightarrow> latest_answer t | Some i \<Rightarrow> Some i)"

text \<open>An attestation of the peer whose name is the body; names beginning with \<open>e\<close> apply to be
  the executor.\<close>

definition attested :: "bytes \<Rightarrow> client_operation_after_verify" where
  "attested body =
     \<lparr>coa_item = Some \<lparr>cs_uuid = ''uuid'', cs_properties =
        [\<lparr>pp_key = PROPERTY_TASK_ID, pp_value = ''task''\<rparr>,
         \<lparr>pp_key = PROPERTY_RSA_PUB_KEY, pp_value = ''key''\<rparr>,
         \<lparr>pp_key = KG_PROPERTY_DELEGATOR_RA_TARGET_ROLE, pp_value =
            if take 1 body = [101] then VALUE_RA_TARGET_EXECUTOR else VALUE_RA_TARGET_INITIAL_PINNER\<rparr>,
         \<lparr>pp_key = PROPERTY_KEY_GEN_FLAG, pp_value = BINDING_NAME\<rparr>]\<rparr>,
      coa_peer_id = map char_of_byte body, coa_pinner_ephemeral_id = []\<rparr>"

text \<open>The messages of peers: the executor \<open>e\<close> sends its result, the others their deployment.\<close>

definition peer_message :: "string \<Rightarrow> general_msg" where
  "peer_message p =
     (if p = ''e'' then TaskExecutionResponse
        \<lparr>tes_task_id = ''task'', tes_initial_pinners =
           [\<lparr>trp_peer_id = ''q'', trp_encrypted_key_slice = [1]\<rparr>,
            \<lparr>trp_peer_id = ''p'', trp_encrypted_key_slice = [2]\<rparr>],
         tes_p2_public_key = [2], tes_multi_sig_account = [3]\<rparr>
      else TaskPinnerKeySliceResponse \<lparr>pks_task_id = ''task'', pks_deployment_id = p @ ''-deployment''\<rparr>)"

definition scenario_host :: host where
  "scenario_host = memory_host
     \<lparr>h_result_handler := (\<lambda>t m u. Inr (latest_answer t)),
      h_listen_message := (\<lambda>t p m. Inr (peer_message p, p, bm_reply_to m)),
      h_decode_key_generation_response := (\<lambda>_. Inr
        \<lparr>kgr_task_id = as_bytes ''task'', kgr_n = 2, kgr_k = 1, kgr_key_type = ''bitcoin_mainnet'',
         kgr_delegator_tea_nonce_hash = [9], kgr_delegator_tea_nonce_rsa_encryption = [9],
         kgr_p1_public_key = [1]\<rparr>),
      h_decode_client_operation := (\<lambda>body. Inr (attested body))\<rparr>"

lemma registers_answer_of: "answer_of e = Some i \<Longrightarrow> registers e i"
  by (cases e) auto

lemma latest_answer_registered: "latest_answer t = Some i \<Longrightarrow> \<exists>e \<in> set t. registers e i"
  by (induction t) (auto split: option.splits dest: registers_answer_of)

lemma scenario_host_faithful: "kv_faithful scenario_host" "inbox_faithful scenario_host"
  using memory_host_faithful
  by (simp_all add: kv_faithful_def inbox_faithful_def scenario_host_def latest_answer_registered)

text \<open>The messages of the run.\<close>

definition scenario_messages :: "broker_message list" where
  "scenario_messages = map (\<lambda>(s, b). \<lparr>bm_subject = s, bm_reply_to = ''r'', bm_body = as_bytes b\<rparr>)
     [(''layer1.event.0.AccountGenerationRequested'', ''''),
      (''reply.gluon.1'', ''''),
      (''reply.gluon.2'', ''''),
      (''actor.pinner.event.client_operation_after_verify'', ''p''),
      (''actor.pinner.event.client_operation_after_verify'', ''q''),
      (''actor.pinner.event.client_operation_after_verify'', ''e''),
      (''ipfs.p2p.listen.e'', ''''),
      (''ipfs.p2p.listen.p'', ''''),
      (''ipfs.p2p.listen.q'', ''''),
      (''reply.gluon.3'', '''')]"

fun run :: "host \<Rightarrow> broker_message list \<Rightarrow> trace \<Rightarrow> trace" where
  "run H [] t = t"
| "run H (m # ms) t = run H ms (snd (handle_message H m (EDeliver m # t)))"

lemma reachable_run: "reachable H t \<Longrightarrow> reachable H (run H ms t)"
proof (induction ms arbitrary: t)
  case (Cons m ms)
  have "actor_step H t (snd (handle_message H m (EDeliver m # t)))"
    by (metis actor_step.deliver prod.collapse)
  then show ?case
    using Cons by (auto intro: reachable.step)
qed simp

definition scenario_trace :: trace where
  "scenario_trace = run scenario_host scenario_messages []"

lemma scenario_reachable: "reachable scenario_host scenario_trace"
  unfolding scenario_trace_def by (rule reachable_run) (rule reachable.start)


lemma scenario_sends: "map (\<lambda>(p, i, m). (p, i)) (sends scenario_trace) =
  [(''p'', ''task''), (''q'', ''task''), (''e'', ''task'')]"
  by code_simp

lemma scenario_request: "sends scenario_trace ! 2 = (''e'', ''task'', TaskExecutionRequest
  \<lparr>ter_task_id = ''task'', ter_initial_pinners =
     [\<lparr>tep_peer_id = ''q'', tep_rsa_pub_key = as_bytes ''key''\<rparr>,
      \<lparr>tep_peer_id = ''p'', tep_rsa_pub_key = as_bytes ''key''\<rparr>],
   ter_minimum_recovery_number = 1, ter_key_type = ''bitcoin_mainnet'', ter_p1_public_key = [1]\<rparr>)"
  by code_simp

text \<open>In this run the delegator collects three candidates, hands the task out, shares the slices,
  reports the key to layer 1 and closes its connections.\<close>

lemma scenario_completes:
  "(case stored scenario_trace (kg_task_store_item_key ''task'') of
      Some (VKeyGen it) \<Rightarrow> kg_status it = ReceivedAllPinnerResponse \<and>
        kg_initial_pinner_responses it = [(''q'', Some ''q-deployment''), (''p'', Some ''p-deployment'')]
    | _ \<Rightarrow> False) \<and>
   filter (\<lambda>e. case e of EClose p \<Rightarrow> True | _ \<Rightarrow> False) scenario_trace =
     [EClose ''e'', EClose ''p'', EClose ''q'']"
  by code_simp

section \<open>A signature\<close>

text \<open>Attestations for the signature of task \<open>sign\<close>: of its executor, and of a pinner of
  deployment \<open>c\<close>.\<close>

definition sign_attested :: "bytes \<Rightarrow> client_operation_after_verify" where
  "sign_attested body =
     \<lparr>coa_item = Some \<lparr>cs_uuid = ''uuid'', cs_properties =
        [\<lparr>pp_key = PROPERTY_TASK_ID, pp_value = ''sign''\<rparr>,
         \<lparr>pp_key = PROPERTY_RSA_PUB_KEY, pp_value = ''key''\<rparr>,
         \<lparr>pp_key = SG_PROPERTY_DELEGATOR_RA_TARGET_ROLE, pp_value =
            if take 1 body = [101] then VALUE_RA_TARGET_EXECUTOR else VALUE_RA_TARGET_PINNER\<rparr>,
         \<lparr>pp_key = PROPERTY_KEY_DEPLOYMENT_ID, pp_value = ''c''\<rparr>,
         \<lparr>pp_key = PROPERTY_SIGN_FLAG, pp_value = BINDING_NAME\<rparr>]\<rparr>,
      coa_peer_id = map char_of_byte body, coa_pinner_ephemeral_id = []\<rparr>"

definition sign_host :: host where
  "sign_host = scenario_host
     \<lparr>h_listen_message := (\<lambda>t p m. Inr (TaskSignGetPinnerKeySliceResponse
        \<lparr>sgs_task_id = ''sign'', sgs_encrypted_key_slice = [5], sgs_deployment_id = ''c''\<rparr>, p, bm_reply_to m)),
      h_decode_sign_transaction_response := (\<lambda>_. Inr
        \<lparr>str_task_id = as_bytes ''sign'', str_transaction_data = [7],
         str_delegator_tea_nonce_hash = [9], str_delegator_tea_nonce_rsa_encryption = [9],
         str_p1_signature = [8], str_multi_sig_account = [3]\<rparr>),
      h_decode_get_deployment_ids_response := (\<lambda>_. Inr [''c'', ''d'']),
      h_decode_client_operation := (\<lambda>body. Inr (sign_attested body))\<rparr>"

lemma sign_host_faithful: "kv_faithful sign_host" "inbox_faithful sign_host"
  using scenario_host_faithful by (simp_all add: kv_faithful_def inbox_faithful_def sign_host_def)

definition sign_messages :: "broker_message list" where
  "sign_messages = map (\<lambda>(s, b). \<lparr>bm_subject = s, bm_reply_to = ''r'', bm_body = as_bytes b\<rparr>)
     [(''layer1.event.0.SignTransactionRequested'', ''''),
      (''reply.gluon.1'', ''''),
      (''reply.gluon.2'', ''''),
      (''reply.gluon.3'', ''''),
      (''actor.pinner.event.client_operation_after_verify'', ''p''),
      (''actor.pinner.event.client_operation_after_verify'', ''e''),
      (''ipfs.p2p.listen.p'', '''')]"

definition sign_trace :: trace where
  "sign_trace = run sign_host sign_messages []"

lemma sign_reachable: "reachable sign_host sign_trace"
  unfolding sign_trace_def by (rule reachable_run) (rule reachable.start)

section \<open>Moments of a run\<close>

text \<open>The latest event of a kind splits a trace into what came since and what came before.\<close>

definition since :: "(event \<Rightarrow> bool) \<Rightarrow> trace \<Rightarrow> trace" where
  "since P t = takeWhile (Not \<circ> P) t"

definition before :: "(event \<Rightarrow> bool) \<Rightarrow> trace \<Rightarrow> trace" where
  "before P t = tl (dropWhile (Not \<circ> P) t)"

lemma split_at_event: "find P t = Some e \<Longrightarrow> t = since P t @ e # before P t"
  unfolding since_def before_def by (induction t) (auto split: if_splits)

lemma event_found: "find P t = Some e \<Longrightarrow> P e" "find P t = Some e \<Longrightarrow> e \<in> set t"
  by (auto simp: find_Some_iff)

definition is_hand_out :: "event \<Rightarrow> bool" where
  "is_hand_out e = (case e of ESend p i (TaskExecutionRequest r) \<Rightarrow> True | _ \<Rightarrow> False)"

definition is_hand_out_save :: "event \<Rightarrow> bool" where
  "is_hand_out_save e =
     (case e of ESet k (VKeyGen it) ttl \<Rightarrow> kg_status it = KgSentToExecutor | _ \<Rightarrow> False)"

definition is_slice_request :: "event \<Rightarrow> bool" where
  "is_slice_request e = (case e of ESend p i (TaskSignGetPinnerKeySliceRequest m) \<Rightarrow> True | _ \<Rightarrow> False)"

end
