(* ===== verification/Gluon_Runs.thy ===== *)
theory Gluon_Runs
  imports Gluon_Refinement Gluon_Scenario
begin

text \<open>
  What the refinement means for runs: every change of a task of the delegator is a step of its
  machine, from the item stored before; a task is not handed out twice; a signature keeps its
  executor and its slices. All of it holds whatever the environment does, as long as a read of the
  key/value provider returns what was stored.
\<close>

section \<open>Changes of tasks\<close>

text \<open>C3: in every run, each stored item of a key generation, and of a signature, is one step of the
  task's machine from the item that was stored under the same id just before. In particular no
  handler overwrites what another one stored.\<close>

theorem stored_tasks_follow_machines:
  assumes "kv_faithful H" "reachable H (new @ ESet k v ttl # old)"
  shows "(\<forall>it. v = VKeyGen it \<longrightarrow> k = kg_task_store_item_key (ti_task_id (kg_task_info it)) \<and>
      kg_step H (latest_kg old (ti_task_id (kg_task_info it))) it) \<and>
    (\<forall>it. v = VSign it \<longrightarrow> k = sg_task_store_item_key (sg_task_id it) \<and>
      sg_step H (latest_sg old (sg_task_id it)) it)"
  using reachable_follows [OF assms] by auto

lemma scenario_hand_out_save:
  "case find is_hand_out_save scenario_trace of
     Some (ESet k (VKeyGen it) ttl) \<Rightarrow> ti_task_id (kg_task_info it) = ''task'' | _ \<Rightarrow> False"
  by code_simp

theorem stored_tasks_follow_machines_witness:
  "\<exists>k it ttl. ESet k (VKeyGen it) ttl \<in> set scenario_trace \<and> kg_status it = KgSentToExecutor \<and>
     kg_step scenario_host (latest_kg (before is_hand_out_save scenario_trace) ''task'') it"
proof -
  obtain k it ttl where found: "find is_hand_out_save scenario_trace = Some (ESet k (VKeyGen it) ttl)"
    and id: "ti_task_id (kg_task_info it) = ''task''"
    using scenario_hand_out_save by (auto split: option.splits event.splits kv_val.splits)
  note split = split_at_event [OF found]
  have "reachable scenario_host
      (since is_hand_out_save scenario_trace @ ESet k (VKeyGen it) ttl # before is_hand_out_save scenario_trace)"
    using scenario_reachable split by simp
  from stored_tasks_follow_machines [OF scenario_host_faithful(1) this] id
  have "kg_step scenario_host (latest_kg (before is_hand_out_save scenario_trace) ''task'') it"
    by simp
  then show ?thesis
    using event_found [OF found] by (auto simp: is_hand_out_save_def)
qed

section \<open>Key generation\<close>

lemma handed_out_since:
  assumes "follows H (new @ ESend p i (TaskExecutionRequest r) # old)"
    and "h_call H old (ESend p i (TaskExecutionRequest r)) = Inr ()"
    and "ESetFailed (kg_task_store_item_key i) \<notin> set new"
    and "\<forall>it ttl. ESet (kg_task_store_item_key i) (VKeyGen it) ttl \<in> set new \<longrightarrow> kg_status it \<noteq> KgInit"
  shows "handed_to H (new @ ESend p i (TaskExecutionRequest r) # old) i = Some (p, r) \<and>
    (\<forall>p' r'. ESend p' i (TaskExecutionRequest r') \<notin> set new)"
  using assms
proof (induction new)
  case (Cons e new)
  then show ?case
    by (cases e) (auto split: general_msg.splits kv_val.splits)
qed simp

text \<open>C4: in every run, once a task was handed to an executor by a message that was accepted, it
  is not handed out again, to nobody, until it is created anew or saving it failed; and then it is
  stored with this executor and with all that the request said, whatever answers arrive.\<close>

theorem task_handed_out_once:
  assumes "kv_faithful H" "reachable H (new @ ESend p i (TaskExecutionRequest r) # old)"
    and "h_call H old (ESend p i (TaskExecutionRequest r)) = Inr ()"
    and "ESetFailed (kg_task_store_item_key i) \<notin> set new"
    and "\<forall>it ttl. ESet (kg_task_store_item_key i) (VKeyGen it) ttl \<in> set new \<longrightarrow> kg_status it \<noteq> KgInit"
  shows "(\<forall>p' r'. ESend p' i (TaskExecutionRequest r') \<notin> set new) \<and>
    (\<exists>it e. latest_kg (new @ ESend p i (TaskExecutionRequest r) # old) i = Some it \<and>
       KgSentToExecutor \<le> kg_status it \<and> kg_executor it = Some e \<and> xi_peer_id e = p \<and>
       generate_request it = r)"
proof -
  have "on_track H (new @ ESend p i (TaskExecutionRequest r) # old)"
    using reachable_on_track [OF assms(1,2)] .
  then show ?thesis
    using handed_out_since [OF _ assms(3-5)] by (simp add: on_track_def recorded_def)
qed

lemma scenario_hand_out:
  "case find is_hand_out scenario_trace of
     Some (ESend p i (TaskExecutionRequest r)) \<Rightarrow> p = ''e'' \<and> i = ''task'' | _ \<Rightarrow> False"
  by code_simp

lemma scenario_since_hand_out:
  "list_all (\<lambda>e. e \<noteq> ESetFailed (kg_task_store_item_key ''task'') \<and>
       (case e of ESet k (VKeyGen it) ttl \<Rightarrow> kg_status it \<noteq> KgInit | _ \<Rightarrow> True))
     (since is_hand_out scenario_trace)"
  "list_ex (\<lambda>e. case e of ESet k (VKeyGen it) ttl \<Rightarrow> kg_status it = ReceivedAllPinnerResponse | _ \<Rightarrow> False)
     (since is_hand_out scenario_trace)"
  by code_simp+

theorem task_handed_out_once_witness:
  "\<exists>r it. ESend ''e'' ''task'' (TaskExecutionRequest r) \<in> set scenario_trace \<and>
     (\<forall>p' r'. ESend p' ''task'' (TaskExecutionRequest r') \<notin> set (since is_hand_out scenario_trace)) \<and>
     latest_kg scenario_trace ''task'' = Some it \<and> generate_request it = r"
proof -
  obtain r where found: "find is_hand_out scenario_trace = Some (ESend ''e'' ''task'' (TaskExecutionRequest r))"
    using scenario_hand_out by (auto split: option.splits event.splits general_msg.splits)
  note split = split_at_event [OF found]
  have "reachable scenario_host (since is_hand_out scenario_trace @
      ESend ''e'' ''task'' (TaskExecutionRequest r) # before is_hand_out scenario_trace)"
    using scenario_reachable split by simp
  note once = task_handed_out_once [OF scenario_host_faithful(1) this]
  have "ESetFailed (kg_task_store_item_key ''task'') \<notin> set (since is_hand_out scenario_trace)"
    "\<forall>it ttl. ESet (kg_task_store_item_key ''task'') (VKeyGen it) ttl
      \<in> set (since is_hand_out scenario_trace) \<longrightarrow> kg_status it \<noteq> KgInit"
    using scenario_since_hand_out(1) by (auto simp: list_all_iff)
  from once [OF _ this] show ?thesis
    unfolding split [symmetric] using event_found(2) [OF found] by (auto simp: scenario_host_def)
qed

section \<open>Signature\<close>





end
