(* ===== verification/Gluon_KeyGen_Protocol.thy ===== *)
theory Gluon_KeyGen_Protocol
  imports Gluon_KeyGen
begin

text \<open>
  What the delegator of a key generation task achieves: who becomes the delegator, that the
  attestation of a candidate brings back what the candidate applied with, that a task is handed
  to exactly one executor once there are candidates enough, and which answers of the initial
  pinners lead to a report to layer 1.
\<close>

section \<open>Who becomes the delegator\<close>

fun is_prim :: "event \<Rightarrow> bool" where
  "is_prim (EPrim s) = True"
| "is_prim e = False"

text \<open>What a trace did beyond local computations.\<close>

definition effects :: "trace \<Rightarrow> event list" where
  "effects t = filter (\<lambda>e. \<not> is_prim e) t"

lemma effects_Cons [simp]: "effects (e # t) = (if is_prim e then effects t else e # effects t)"
  by (simp add: effects_def)

text \<open>C10: a node has an effect on a task it is offered only if its own key decrypts the nonce of the
  request to a text with the published hash; a node without the key, or whose key does not fit,
  stores nothing and tells nobody.\<close>

theorem delegator_only_with_nonce:
  assumes "get_delegator_key_callback H nonce_encrypted nonce_hash callback msg t = (r, t')"
    and "effects t' \<noteq> effects t"
  shows "\<exists>key nonce. h_deserialize_key H (bm_body msg) = Inr (Some key) \<and>
    h_rsa_decrypt H t key nonce_encrypted = Inr nonce \<and>
    h_sha256 H (EPrim ''rsa_decrypt'' # t) nonce = Inr nonce_hash \<and>
    callback nonce (EPrim ''sha256'' # EPrim ''rsa_decrypt'' # t) = (r, t')"
proof (cases "h_deserialize_key H (bm_body msg)")
  case (Inr found)
  then obtain key where key: "found = Some key"
    using assms by (cases found) (auto simp: get_delegator_key_callback_def act_simps)
  then obtain nonce where nonce: "h_rsa_decrypt H t key nonce_encrypted = Inr nonce"
    using Inr assms
    by (cases "h_rsa_decrypt H t key nonce_encrypted")
      (auto simp: get_delegator_key_callback_def act_simps)
  then show ?thesis
    using Inr assms key
    by (cases "h_sha256 H (EPrim ''rsa_decrypt'' # t) nonce")
      (auto simp: get_delegator_key_callback_def act_simps split: if_splits)
qed (use assms in \<open>auto simp: get_delegator_key_callback_def act_simps\<close>)

theorem delegator_only_with_nonce_witness:
  "\<exists>key nonce. h_deserialize_key memory_host [] = Inr (Some key) \<and>
     h_rsa_decrypt memory_host [] key [9] = Inr nonce \<and>
     h_sha256 memory_host [EPrim ''rsa_decrypt''] nonce = Inr [9]"
  using delegator_only_with_nonce [of memory_host "[9]" "[9]"
      "\<lambda>nonce. close_p2p memory_host ''p''"
      "\<lparr>bm_subject = '''', bm_reply_to = '''', bm_body = []\<rparr>" "[]" "Ok ()"
      "[EClose ''p'', EPrim ''sha256'', EPrim ''rsa_decrypt'']"]
  by (simp add: get_delegator_key_callback_def act_simps memory_host_def) 

section \<open>The remote attestation of a candidate\<close>

text \<open>The role a candidate applies for.\<close>

definition applied_role :: "task_key_generation_apply_request \<Rightarrow> string" where
  "applied_role req =
     (if kga_apply_executor req then VALUE_RA_TARGET_EXECUTOR else VALUE_RA_TARGET_INITIAL_PINNER)"

lemma hm_wf_kg_ra_properties [simp]: "hm_wf (kg_ra_properties H req role)"
  by (simp add: kg_ra_properties_def tag_for_key_gen_def)

lemma kg_ra_property_values:
  "hm_get (kg_ra_properties H req role) PROPERTY_TASK_ID = Some (kga_task_id req)"
  "hm_get (kg_ra_properties H req role) PROPERTY_RSA_PUB_KEY =
     Some (h_base64_encode H (kga_rsa_pub_key req))"
  "hm_get (kg_ra_properties H req role) KG_PROPERTY_DELEGATOR_RA_TARGET_ROLE = Some role"
  "hm_get (kg_ra_properties H req role) PROPERTY_KEY_GEN_FLAG = Some BINDING_NAME"
  by (simp_all add: kg_ra_properties_def tag_for_key_gen_def ra_property_defs)

text \<open>C20: the attestation of a candidate brings back what the candidate applied with: whatever the
  iteration order of the map and the order in which the pinner actor hands the properties back,
  the result is recognised as one of key generation and leads to the task, the role and the
  public key of the application.\<close>

theorem kg_attestation_roundtrip:
  assumes "h_base64_decode H (as_bytes (h_base64_encode H (kga_rsa_pub_key req))) = Inr (kga_rsa_pub_key req)"
    and "mset (cs_properties item) = mset (from_hash_map H (kg_ra_properties H req (applied_role req)))"
  shows "is_key_gen_tag item \<and>
    kg_operation_after_verify_handler H peer_id ephemeral_id item =
      (if kga_apply_executor req
       then kg_on_executor_ra_success H (kga_task_id req) peer_id (kga_rsa_pub_key req)
       else on_initial_pinner_ra_success H (kga_task_id req) peer_id (kga_rsa_pub_key req))"
proof -
  note found = found_in_map [OF hm_wf_kg_ra_properties assms(2)] kg_ra_property_values
  have "kg_is_executor_ra_response item \<longleftrightarrow> kga_apply_executor req"
    "is_initial_pinner_ra_response item \<longleftrightarrow> \<not> kga_apply_executor req" "is_key_gen_tag item"
    unfolding kg_is_executor_ra_response_def is_initial_pinner_ra_response_def is_key_gen_tag_def
      property_or_default_def found
    by (simp_all add: applied_role_def ra_property_defs)
  then show ?thesis
    by (auto simp: kg_operation_after_verify_handler_def found assms(1) fun_eq_iff act_simps)
qed

definition sample_application :: task_key_generation_apply_request where
  "sample_application =
     \<lparr>kga_task_id = ''task'', kga_rsa_pub_key = as_bytes ''key'', kga_apply_executor = True\<rparr>"

theorem kg_attestation_roundtrip_witness:
  "\<exists>item. is_key_gen_tag item \<and>
     kg_operation_after_verify_handler memory_host ''p'' [] item =
       kg_on_executor_ra_success memory_host ''task'' ''p'' (as_bytes ''key'')"
  using kg_attestation_roundtrip [of memory_host sample_application
      "\<lparr>cs_uuid = '''', cs_properties = rev (from_hash_map memory_host
         (kg_ra_properties memory_host sample_application (applied_role sample_application)))\<rparr>"
      "''p''" "[]"]
  by (auto simp: sample_application_def as_bytes_def o_def)

text \<open>C21: what is asked of the pinner actor for a candidate are exactly these properties.\<close>

theorem apply_request_attests:
  assumes "working H" 
    and "h_encode_protobuf H (PbPeerApproveRaRequest MY_ACTOR_NAME peer_id
           (from_hash_map H (kg_ra_properties H req (applied_role req)))) = Inr body"
  shows "\<exists>reply. task_key_generation_apply_request_handler H req peer_id reply_to t =
    (Ok (), EIntercom PINNER_ACTOR_NAME MY_ACTOR_NAME
       \<lparr>bm_subject = ''actor.pinner.intercom.request_peer_approve_ra'', bm_reply_to = '''', bm_body = body\<rparr>
       CbLogOnly # EReply reply_to reply # t)"
  using assms
  by (auto simp: task_key_generation_apply_request_handler_def kg_remote_attestation_executor_def
      remote_attestation_initial_pinner_def applied_role_def send_ra_request_def working_call
      working_call_pinner act_simps seqA_app(1) [OF working_call])

theorem apply_request_attests_witness:
  "\<exists>reply. snd (task_key_generation_apply_request_handler memory_host sample_application ''p'' ''r'' []) =
    [EIntercom PINNER_ACTOR_NAME MY_ACTOR_NAME
       \<lparr>bm_subject = ''actor.pinner.intercom.request_peer_approve_ra'', bm_reply_to = '''', bm_body = []\<rparr>
       CbLogOnly, EReply ''r'' reply]"
  using apply_request_attests [of memory_host "''p''" sample_application "[]" "''r''" "[]"]
  by (auto simp: memory_host_working)

section \<open>Candidates until the work is handed out\<close>

text \<open>An attested candidate: whether it is to be the executor, its peer and its public key. The
  attestations arrive one by one; each is a run of the handler of its own.\<close>

type_synonym attestation = "bool \<times> string \<times> bytes"

definition attest :: "host \<Rightarrow> string \<Rightarrow> attestation \<Rightarrow> unit io" where
  "attest H task_id = (\<lambda>(executor, peer, key).
     if executor then kg_on_executor_ra_success H task_id peer key
     else on_initial_pinner_ra_success H task_id peer key)"

definition attest_all :: "host \<Rightarrow> string \<Rightarrow> attestation list \<Rightarrow> trace \<Rightarrow> trace" where
  "attest_all H task_id as t = fold (\<lambda>a t. snd (attest H task_id a t)) as t"

definition with_candidate :: "attestation \<Rightarrow> kg_item \<Rightarrow> kg_item" where
  "with_candidate = (\<lambda>(executor, peer, key) it.
     if executor then insert_executor \<lparr>xi_peer_id = peer, xi_rsa_pub_key = key\<rparr> it
     else insert_initial_pinner \<lparr>pi_peer_id = peer, pi_rsa_pub_key = key\<rparr> it)"

lemma with_candidate_fields [simp]:
  "kg_task_info (with_candidate a it) = kg_task_info it"
  "kg_status (with_candidate a it) = kg_status it"
  "kg_initial_pinners (with_candidate a it) = kg_initial_pinners it"
  by (simp_all add: with_candidate_def insert_executor_def insert_initial_pinner_def split: prod.splits)

lemma attest_eq:
  assumes "working H" "stored t (kg_task_store_item_key i) = Some (VKeyGen it)"
  shows "attest H i a t =
    (if kg_status it \<noteq> InvitedCandidates then (Ok (), EUnlock i # EGet (kg_task_store_item_key i) # ELock i # t)
     else seqA (kg_save H (with_candidate a it)) (kg_try_send_to_executor H (with_candidate a it))
       (EUnlock i # EGet (kg_task_store_item_key i) # ELock i # t))"
  using working_kg_get [OF assms]
  by (cases a)
    (simp add: attest_def kg_on_executor_ra_success_def on_initial_pinner_ra_success_def
      with_candidate_def act_simps Let_def)

text \<open>Whether there are candidates enough, on the natural numbers.\<close>

definition candidates_complete :: "kg_item \<Rightarrow> bool" where
  "candidates_complete it \<longleftrightarrow> kg_candidate_executors it \<noteq> [] \<and>
     unat (kg_n it) < length (kg_candidate_executors it) + length (kg_candidate_initial_pinners it)"

lemma candidates_ready_complete:
  "kg_n it \<noteq> 255 \<Longrightarrow> candidates_ready checks it = Ok (candidates_complete it)"
  by (auto simp: candidates_ready_def candidates_complete_def unat_n_plus_1)

lemma attest_waits:
  assumes "working H" "stored t (kg_task_store_item_key i) = Some (VKeyGen it)"
    and "ti_task_id (kg_task_info it) = i" "kg_n it \<noteq> 255"
    and "kg_status it = InvitedCandidates" "\<not> candidates_complete (with_candidate a it)"
    and "snd (attest H i a t) = t'"
  shows "sends t' = sends t"
    "stored t' (kg_task_store_item_key i) = Some (VKeyGen (with_candidate a it))"
  using assms
  by (auto simp: attest_eq working_kg_save seqA_app kg_try_send_to_executor_def
      candidates_ready_complete act_simps bindA_liftA)

lemma elect_first:
  assumes "kg_initial_pinners it = []" "kg_n it \<noteq> 255"
    and "\<not> candidates_complete it" "candidates_complete (with_candidate a it)"
  shows "\<exists>it'. elect (with_candidate a it) = Ok it' \<and> request_ready it' \<and>
    kg_executor it' = Some (last (kg_candidate_executors (with_candidate a it)))"
proof -
  let ?it = "with_candidate a it"
  obtain e p k where a: "a = (e, p, k)" by (cases a)
  have "length (kg_candidate_executors ?it) = 1 \<or> length (kg_candidate_initial_pinners ?it) \<le> unat (kg_n ?it)"
    using assms(3,4)
    by (auto simp: a candidates_complete_def with_candidate_def insert_executor_def
        insert_initial_pinner_def not_less split: if_splits)
      (cases "kg_candidate_executors it"; auto)+
  then show ?thesis
    using elect_request_ready [of ?it] assms(1,4) by (auto simp: candidates_complete_def)
qed

lemma attest_sends:
  assumes "working H" "stored t (kg_task_store_item_key i) = Some (VKeyGen it)"
    and "ti_task_id (kg_task_info it) = i" "kg_n it \<noteq> 255"
    and "kg_status it = InvitedCandidates" "candidates_complete (with_candidate a it)"
    and "elect (with_candidate a it) = Ok it'" "request_ready it'" "kg_executor it' = Some e"
    and "snd (attest H i a t) = t'"
  shows "sends t' = (xi_peer_id e, i, TaskExecutionRequest (generate_request it')) # sends t"
    "stored t' (kg_task_store_item_key i) = Some (VKeyGen (it'\<lparr>kg_status := KgSentToExecutor\<rparr>))"
proof -
  have "kg_task_info it' = kg_task_info it"
    using assms(7) by (auto simp: elect_eq selected_def with_executor_def split: if_splits)
  then show "sends t' = (xi_peer_id e, i, TaskExecutionRequest (generate_request it')) # sends t"
    "stored t' (kg_task_store_item_key i) = Some (VKeyGen (it'\<lparr>kg_status := KgSentToExecutor\<rparr>))"
    using assms
    by (auto simp: attest_eq working_kg_save seqA_app kg_try_send_to_executor_def working_call
        candidates_ready_complete act_simps bindA_liftA)
qed

text \<open>Who is elected: the pinners and the executor are candidates, each used once.\<close>

lemma mset_take_rev: "mset (take m (rev xs)) \<subseteq># mset xs"
  by (metis append_take_drop_id mset_append mset_rev mset_subset_eq_add_left)

lemma elected_candidates:
  assumes "elect it = Ok it'" "kg_initial_pinners it = []" "kg_executor it' = Some e"
  shows "add_mset (initial_pinner_info_from e) (mset (kg_initial_pinners it')) \<subseteq>#
      mset (map initial_pinner_info_from (kg_candidate_executors it)) + mset (kg_candidate_initial_pinners it)"
    and "e \<in> set (kg_candidate_executors it)"
proof -
  have it': "it' = selected (with_executor it)" and ne: "kg_candidate_executors it \<noteq> []"
    using assms(1) by (auto simp: elect_eq split: if_splits)
  then obtain es where es: "kg_candidate_executors it = es @ [e]"
    using assms(3) by (cases "kg_candidate_executors it" rule: rev_cases)
      (auto simp: selected_def with_executor_def)
  have "mset (map initial_pinner_info_from (take m (rev es))) \<subseteq># mset (map initial_pinner_info_from es)" for m
    using image_mset_subseteq_mono [OF mset_take_rev [of m es]] by simp
  then show "add_mset (initial_pinner_info_from e) (mset (kg_initial_pinners it')) \<subseteq>#
      mset (map initial_pinner_info_from (kg_candidate_executors it)) + mset (kg_candidate_initial_pinners it)"
    using assms(2)
    by (simp add: it' es selected_def with_executor_def)
      (metis (no_types, lifting) add.commute mset_map mset_take_rev subset_mset.add_mono)
  show "e \<in> set (kg_candidate_executors it)"
    by (simp add: es)
qed

lemma collected_candidates:
  "kg_candidate_executors (fold with_candidate as it) = kg_candidate_executors it @
     map (\<lambda>(e, p, k). \<lparr>xi_peer_id = p, xi_rsa_pub_key = k\<rparr>) (filter fst as)"
  "kg_candidate_initial_pinners (fold with_candidate as it) = kg_candidate_initial_pinners it @
     map (\<lambda>(e, p, k). \<lparr>pi_peer_id = p, pi_rsa_pub_key = k\<rparr>) (filter (\<lambda>a. \<not> fst a) as)"
  "kg_task_info (fold with_candidate as it) = kg_task_info it"
  "kg_status (fold with_candidate as it) = kg_status it"
  "kg_initial_pinners (fold with_candidate as it) = kg_initial_pinners it"
  by (induction as arbitrary: it)
    (auto simp: with_candidate_def insert_executor_def insert_initial_pinner_def)

lemma collected_peers:
  assumes "kg_candidate_executors it = []" "kg_candidate_initial_pinners it = []"
  shows "image_mset pi_peer_id (mset (map initial_pinner_info_from
      (kg_candidate_executors (fold with_candidate as it))) +
      mset (kg_candidate_initial_pinners (fold with_candidate as it))) = mset (map (fst \<circ> snd) as)"
  unfolding collected_candidates assms
  by (induction as) (auto simp: initial_pinner_info_from_def split: prod.splits)

lemma collected_complete:
  assumes "kg_candidate_executors it = []" "kg_candidate_initial_pinners it = []"
  shows "candidates_complete (fold with_candidate as it) \<longleftrightarrow>
    (\<exists>a \<in> set as. fst a) \<and> unat (kg_n it) < length as"
  using sum_length_filter_compl [of fst as]
  by (auto simp: candidates_complete_def collected_candidates assms filter_empty_conv)

text \<open>What a task looks like after the attestations \<open>as\<close>, and what was sent for it.\<close>

definition handed_out :: "kg_item \<Rightarrow> attestation list \<Rightarrow> executor_info \<Rightarrow> kg_item \<Rightarrow> bool" where
  "handed_out it as e it' \<longleftrightarrow>
     kg_status it' = KgSentToExecutor \<and> kg_executor it' = Some e \<and>
     kg_task_info it' = kg_task_info it \<and>
     length (kg_initial_pinners it') = unat (kg_n it) \<and>
     (True, xi_peer_id e, xi_rsa_pub_key e) \<in> set as \<and>
     add_mset (xi_peer_id e) (mset (map pi_peer_id (kg_initial_pinners it'))) \<subseteq>#
       mset (map (fst \<circ> snd) as)"

lemma handed_out_snoc: "handed_out it as e it' \<Longrightarrow> handed_out it (as @ [a]) e it'"
  by (auto simp: handed_out_def intro: subset_mset.order_trans)

lemma distinct_submultiset:
  assumes "mset xs \<subseteq># mset ys" "distinct ys"
  shows "distinct xs"
proof -
  obtain zs where "mset ys = mset (xs @ zs)"
    using assms(1) ex_mset by (metis mset_append mset_subset_eq_exists_conv)
  then show ?thesis
    using assms(2) mset_eq_imp_distinct_iff [of ys "xs @ zs"] by simp
qed

lemma handed_out_distinct:
  assumes "handed_out it as e it'" "distinct (map (fst \<circ> snd) as)"
  shows "distinct (xi_peer_id e # map pi_peer_id (kg_initial_pinners it'))"
  using assms(1) by (intro distinct_submultiset [OF _ assms(2)]) (simp add: handed_out_def)

lemma handed_out_first:
  assumes "kg_initial_pinners it = []" "kg_candidate_executors it = []"
    "kg_candidate_initial_pinners it = []"
    and "elect (fold with_candidate as it) = Ok it'" "request_ready it'" "kg_executor it' = Some e"
  shows "handed_out it as e (it'\<lparr>kg_status := KgSentToExecutor\<rparr>)"
proof -
  let ?c = "fold with_candidate as it"
  have empty: "kg_initial_pinners ?c = []"
    using assms(1) by (simp add: collected_candidates)
  note elected = elected_candidates [OF assms(4) empty assms(6)]
  have info: "kg_task_info it' = kg_task_info it"
    using assms(4) by (auto simp: elect_eq selected_def with_executor_def collected_candidates split: if_splits)
  have "(True, xi_peer_id e, xi_rsa_pub_key e) \<in> set as"
    using elected(2) assms(2) by (auto simp: collected_candidates)
  moreover have "add_mset (xi_peer_id e) (mset (map pi_peer_id (kg_initial_pinners it'))) \<subseteq>#
      mset (map (fst \<circ> snd) as)"
    using image_mset_subseteq_mono [OF elected(1), of pi_peer_id] collected_peers [OF assms(2,3), of as]
    by (simp add: initial_pinner_info_from_def)
  ultimately show ?thesis
    using assms(5,6) info by (simp add: handed_out_def request_ready_def)
qed

text \<open>What is sent and stored after any list of attestations.\<close>

lemma attestations_handed_out:
  assumes "working H" "stored t (kg_task_store_item_key i) = Some (VKeyGen it)"
    and "ti_task_id (kg_task_info it) = i" "kg_n it \<noteq> 255" "kg_status it = InvitedCandidates"
    and "kg_initial_pinners it = []" "kg_candidate_executors it = []"
    and "kg_candidate_initial_pinners it = []"
  shows "if (\<exists>a \<in> set as. fst a) \<and> unat (kg_n it) < length as
    then \<exists>e it'. handed_out it as e it' \<and>
      stored (attest_all H i as t) (kg_task_store_item_key i) = Some (VKeyGen it') \<and>
      sends (attest_all H i as t) =
        (xi_peer_id e, i, TaskExecutionRequest (generate_request it')) # sends t
    else stored (attest_all H i as t) (kg_task_store_item_key i) =
        Some (VKeyGen (fold with_candidate as it)) \<and>
      sends (attest_all H i as t) = sends t"
proof (induction as rule: rev_induct)
  case Nil
  then show ?case using assms(2) by (simp add: attest_all_def)
next
  case (snoc a as)
  let ?t = "attest_all H i as t" and ?c = "fold with_candidate as it"
  have run: "attest_all H i (as @ [a]) t = snd (attest H i a ?t)"
    by (simp add: attest_all_def)
  note complete = collected_complete [OF assms(7,8)]
  have fields: "ti_task_id (kg_task_info ?c) = i" "kg_n ?c \<noteq> 255" "kg_status ?c = InvitedCandidates"
    "kg_initial_pinners ?c = []"
    using assms by (simp_all add: collected_candidates)
  show ?case
  proof (cases "candidates_complete ?c")
    case True
    then have "candidates_complete (fold with_candidate (as @ [a]) it)"
      unfolding complete by auto
    moreover obtain e it' where sent: "handed_out it as e it'"
      "stored ?t (kg_task_store_item_key i) = Some (VKeyGen it')"
      "sends ?t = (xi_peer_id e, i, TaskExecutionRequest (generate_request it')) # sends t"
      using snoc True by (auto simp: complete)
    have "kg_status it' \<noteq> InvitedCandidates"
      using sent(1) by (simp add: handed_out_def)
    then have "sends (snd (attest H i a ?t)) = sends ?t"
      "stored (snd (attest H i a ?t)) = stored ?t"
      by (auto simp: attest_eq [OF assms(1) sent(2)] fun_eq_iff)
    ultimately show ?thesis
      unfolding run complete using sent handed_out_snoc [OF sent(1), of a] by auto
  next
    case waiting: False
    then have st: "stored ?t (kg_task_store_item_key i) = Some (VKeyGen ?c)" "sends ?t = sends t"
      using snoc by (auto simp: complete)
    show ?thesis
    proof (cases "candidates_complete (with_candidate a ?c)")
      case False
      then show ?thesis
        using attest_waits [OF assms(1) st(1) fields(1-3) False refl] st(2)
        by (auto simp: run complete [of "as @ [a]", symmetric, simplified])
    next
      case True
      obtain it' where it': "elect (with_candidate a ?c) = Ok it'" "request_ready it'"
        "kg_executor it' = Some (last (kg_candidate_executors (with_candidate a ?c)))"
        using elect_first [OF fields(4,2) waiting True] by auto
      have "generate_request (it'\<lparr>kg_status := KgSentToExecutor\<rparr>) = generate_request it'"
        by (simp add: generate_request_def)
      then show ?thesis
        using attest_sends [OF assms(1) st(1) fields(1-3) True it' refl] st(2) True
          handed_out_first [OF assms(6-8), of "as @ [a]" it'] it'
        by (fastforce simp: run complete [of "as @ [a]", symmetric, simplified])
    qed
  qed
qed

text \<open>C1: however many candidates are attested, in whatever order, and if no call fails and \<open>n\<close> is not
  255, the delegator hands the task to at most one executor and at most once: it waits until it has
  more than \<open>n\<close> candidates with an executor among them, then sends one request, to an attested
  executor, with \<open>n\<close> initial pinners; each of the chosen stands for an attestation of its own, and
  they are different peers if no peer was attested twice. Later attestations change nothing.\<close>

theorem executor_request_once:
  assumes "working H" "stored t (kg_task_store_item_key i) = Some (VKeyGen it)"
    and "ti_task_id (kg_task_info it) = i" "kg_n it \<noteq> 255" "kg_status it = InvitedCandidates"
    and "kg_initial_pinners it = []" "kg_candidate_executors it = []"
    and "kg_candidate_initial_pinners it = []"
  shows "if (\<exists>a \<in> set as. fst a) \<and> unat (kg_n it) < length as
    then \<exists>e it'. handed_out it as e it' \<and>
      stored (attest_all H i as t) (kg_task_store_item_key i) = Some (VKeyGen it') \<and>
      sends (attest_all H i as t) =
        (xi_peer_id e, i, TaskExecutionRequest (generate_request it')) # sends t \<and>
      (distinct (map (fst \<circ> snd) as) \<longrightarrow>
        distinct (xi_peer_id e # map pi_peer_id (kg_initial_pinners it')))
    else stored (attest_all H i as t) (kg_task_store_item_key i) =
        Some (VKeyGen (fold with_candidate as it)) \<and>
      sends (attest_all H i as t) = sends t"
proof (cases "(\<exists>a \<in> set as. fst a) \<and> unat (kg_n it) < length as")
  case True
  show ?thesis
    using attestations_handed_out [OF assms, of as] handed_out_distinct
    unfolding if_P [OF True] by blast
next
  case False
  show ?thesis
    using attestations_handed_out [OF assms, of as] unfolding if_not_P [OF False] .
qed

theorem executor_request_once_witness:
  "\<exists>e it'. sends (attest_all memory_host ''task'' [(True, ''e'', [1]), (False, ''p'', [2]), (False, ''q'', [3])]
      [ESet (kg_task_store_item_key ''task'') (VKeyGen (sample_item 2 1 [] [])) None]) =
     [(xi_peer_id e, ''task'', TaskExecutionRequest (generate_request it'))] \<and>
     handed_out (sample_item 2 1 [] []) [(True, ''e'', [1]), (False, ''p'', [2]), (False, ''q'', [3])] e it' \<and>
     distinct (xi_peer_id e # map pi_peer_id (kg_initial_pinners it'))"
  using executor_request_once [of memory_host
      "[ESet (kg_task_store_item_key ''task'') (VKeyGen (sample_item 2 1 [] [])) None]" "''task''"
      "sample_item 2 1 [] []" "[(True, ''e'', [1]), (False, ''p'', [2]), (False, ''q'', [3])]"]
  by (auto simp: memory_host_working sample_item_def)

section \<open>From the result of the executor to layer 1\<close>

text \<open>C22: the result of the executor is recorded, and each pinner it names is sent its slice, in
  order, and has to answer; the answers of other pinners are kept.\<close>

theorem execution_result_shared:
  assumes "working H" "stored t (kg_task_store_item_key (tes_task_id res)) = Some (VKeyGen it)"
    and "ti_task_id (kg_task_info it) = tes_task_id res"
  shows "\<exists>t' it'. process_task_execution_response H res peer_id reply_to t = (Ok (), t') \<and>
    sends t' = rev (map (\<lambda>p. (trp_peer_id p, tes_task_id res, TaskPinnerKeySliceRequest
        \<lparr>pkr_task_id = tes_task_id res, pkr_public_key = tes_p2_public_key res,
         pkr_encrypted_key_slice = trp_encrypted_key_slice p,
         pkr_multi_sig_account = tes_multi_sig_account res\<rparr>)) (tes_initial_pinners res)) @ sends t \<and>
    stored t' (kg_task_store_item_key (tes_task_id res)) = Some (VKeyGen it') \<and>
    kg_status it' = SentToInitialPinner \<and> kg_p2_public_key it' = Some (tes_p2_public_key res) \<and>
    kg_multi_sig_account it' = Some (tes_multi_sig_account res) \<and>
    (\<forall>p. hm_get (kg_initial_pinner_responses it') p =
       (if p \<in> trp_peer_id ` set (tes_initial_pinners res) then Some None
        else hm_get (kg_initial_pinner_responses it) p))"
proof -
  have awaited: "hm_get (await_pinners ps m) p =
      (if p \<in> trp_peer_id ` set ps then Some None else hm_get m p)" for ps m p
    by (induction ps arbitrary: m) (auto simp: await_pinners_def)
  show ?thesis
    using assms
    by (simp add: process_task_execution_response_def delegator_store_item_handler_def
        matchA_app(1) [OF working_kg_get] Let_def seqA_app(1) [OF working_kg_save]
        share_slices_to_initial_pinner_def seqA_app(1) [OF working_for_each_call] working_call
        awaited)
qed

theorem execution_result_shared_witness:
  "\<exists>t'. process_task_execution_response memory_host
       \<lparr>tes_task_id = ''task'', tes_initial_pinners = [\<lparr>trp_peer_id = ''p'', trp_encrypted_key_slice = [1]\<rparr>],
        tes_p2_public_key = [2], tes_multi_sig_account = [3]\<rparr> ''e'' ''r''
       [ESet (kg_task_store_item_key ''task'') (VKeyGen (sample_item 2 1 [] [])) None] = (Ok (), t') \<and>
     length (sends t') = 1"
  using execution_result_shared [of memory_host
      "[ESet (kg_task_store_item_key ''task'') (VKeyGen (sample_item 2 1 [] [])) None]"
      "\<lparr>tes_task_id = ''task'', tes_initial_pinners = [\<lparr>trp_peer_id = ''p'', trp_encrypted_key_slice = [1]\<rparr>],
        tes_p2_public_key = [2], tes_multi_sig_account = [3]\<rparr>" "sample_item 2 1 [] []" "''e''" "''r''"]
  by (auto simp: memory_host_working sample_item_def)

text \<open>The answers of the initial pinners (peer and deployment), each a run of its handler.\<close>

definition answer_all ::
  "host \<Rightarrow> string \<Rightarrow> string \<Rightarrow> (string \<times> string) list \<Rightarrow> trace \<Rightarrow> trace"
where
  "answer_all H task_id reply_to as t = fold
     (\<lambda>(peer, deployment_id) t. snd (process_task_pinner_key_slice_response H
        \<lparr>pks_task_id = task_id, pks_deployment_id = deployment_id\<rparr> peer reply_to t)) as t"

text \<open>The updates sent to layer 1: the bodies of these calls.\<close>

definition layer1_updates :: "trace \<Rightarrow> bytes list" where
  "layer1_updates t = List.map_filter
     (\<lambda>e. case e of ECall s inbox body (CbUpdateKeyGenResult i) \<Rightarrow> Some body | _ \<Rightarrow> None) t"

lemma layer1_updates_simps [simp]:
  "layer1_updates [] = []"
  "layer1_updates (e # t) = (case e of
     ECall s inbox body (CbUpdateKeyGenResult i) \<Rightarrow> body # layer1_updates t | _ \<Rightarrow> layer1_updates t)"
  by (simp_all add: layer1_updates_def split: event.splits msg_callback.splits)

lemma all_ready_iff:
  "hm_wf (kg_initial_pinner_responses it) \<Longrightarrow>
   is_all_initial_pinners_ready it \<longleftrightarrow> (\<forall>p. hm_get (kg_initial_pinner_responses it) p \<noteq> Some None)"
proof -
  assume "hm_wf (kg_initial_pinner_responses it)"
  then have "(p, v) \<in> set (kg_initial_pinner_responses it) \<longleftrightarrow>
      hm_get (kg_initial_pinner_responses it) p = Some v" for p v
    by (simp add: hm_get_def hm_wf_def)
  then show ?thesis
    by (auto simp: is_all_initial_pinners_ready_def list_all_iff) (metis not_None_eq)
qed

lemma answer_unknown:
  assumes "working H" "stored t (kg_task_store_item_key i) = Some (VKeyGen it)"
    and "hm_get (kg_initial_pinner_responses it) p = None"
    and "snd (process_task_pinner_key_slice_response H \<lparr>pks_task_id = i, pks_deployment_id = d\<rparr> p r t) = t'"
  shows "stored t' = stored t" "sends t' = sends t" "layer1_updates t' = layer1_updates t"
  using assms
  by (auto simp: process_task_pinner_key_slice_response_def delegator_store_item_handler_def
      matchA_app(1) [OF working_kg_get] working_call fun_eq_iff)

lemma answer_partial:
  assumes "working H" "stored t (kg_task_store_item_key i) = Some (VKeyGen it)"
    and "ti_task_id (kg_task_info it) = i"
    and "hm_get (kg_initial_pinner_responses it) p = Some a"
    and "it' = it\<lparr>kg_initial_pinner_responses := hm_insert p (Some d) (kg_initial_pinner_responses it)\<rparr>"
    and "\<not> is_all_initial_pinners_ready it'"
    and "snd (process_task_pinner_key_slice_response H \<lparr>pks_task_id = i, pks_deployment_id = d\<rparr> p r t) = t'"
  shows "stored t' (kg_task_store_item_key i) = Some (VKeyGen it')"
    "sends t' = sends t" "layer1_updates t' = layer1_updates t"
  using assms
  by (auto simp: process_task_pinner_key_slice_response_def delegator_store_item_handler_def
      matchA_app(1) [OF working_kg_get] working_call Let_def seqA_app(1) [OF working_kg_save])

lemma answer_last:
  assumes "working H" "stored t (kg_task_store_item_key i) = Some (VKeyGen it)"
    and "ti_task_id (kg_task_info it) = i"
    and "hm_get (kg_initial_pinner_responses it) p = Some a"
    and "it' = it\<lparr>kg_initial_pinner_responses := hm_insert p (Some d) (kg_initial_pinner_responses it)\<rparr>"
    and "is_all_initial_pinners_ready it'"
    and "update_result_try_from H (it'\<lparr>kg_status := ReceivedAllPinnerResponse\<rparr>) =
      (\<lambda>t. (Ok result, t))"
    and "h_encode_protobuf H (PbUpdateKeyGenerationResult result) = Inr body"
    and "snd (process_task_pinner_key_slice_response H \<lparr>pks_task_id = i, pks_deployment_id = d\<rparr> p r t) = t'"
  shows "stored t' (kg_task_store_item_key i) = Some (VKeyGen (it'\<lparr>kg_status := ReceivedAllPinnerResponse\<rparr>))"
    "sends t' = sends t" "layer1_updates t' = as_bytes (h_base64_encode H body) # layer1_updates t"
  using assms
  by (auto simp: process_task_pinner_key_slice_response_def delegator_store_item_handler_def
      matchA_app(1) [OF working_kg_get] working_call Let_def seqA_app(1) [OF working_kg_save]
      bindA_app act_simps)

text \<open>The task after the answers \<open>as\<close> of the pinners \<open>P\<close>: for each of them its latest answer is kept, if
  it has answered.\<close>

definition answered_by :: "string set \<Rightarrow> (string \<times> string) list \<Rightarrow> kg_item \<Rightarrow> kg_item \<Rightarrow> bool" where
  "answered_by P as it it' \<longleftrightarrow>
     hm_wf (kg_initial_pinner_responses it') \<and>
     (\<forall>p. hm_get (kg_initial_pinner_responses it') p =
       (if p \<in> P then Some (map_of (rev as) p) else None)) \<and>
     kg_task_info it' = kg_task_info it \<and> kg_p2_public_key it' = kg_p2_public_key it \<and>
     kg_multi_sig_account it' = kg_multi_sig_account it \<and> kg_nonce it' = kg_nonce it \<and>
     kg_status it' = (if P \<subseteq> fst ` set as then ReceivedAllPinnerResponse else SentToInitialPinner)"

text \<open>The latest answers of the pinners \<open>P\<close>, as far as they have answered.\<close>

definition latest_answers :: "string set \<Rightarrow> (string \<times> string) list \<Rightarrow> string multiset" where
  "latest_answers P as = image_mset (\<lambda>p. the (map_of (rev as) p)) (mset_set P)"

lemma answered_deployments:
  assumes "answered_by P as it it'" "P \<subseteq> fst ` set as"
  shows "mset (List.map_filter snd (hm_entries ord (kg_initial_pinner_responses it'))) =
    latest_answers P as"
proof -
  let ?m = "kg_initial_pinner_responses it'"
  obtain ps where ps: "set ps = P" "distinct ps"
    using finite_distinct_list [of P] finite_subset [OF assms(2)] by auto
  define xs where "xs = map (\<lambda>p. (p, the (map_of (rev as) p))) ps"
  have wf: "hm_wf ?m"
    using assms(1) by (simp add: answered_by_def)
  have answered: "map_of (rev as) p \<noteq> None" if "p \<in> P" for p
    using that assms(2) by (auto simp: map_of_eq_None_iff)
  have "map_of xs p = map_of (rev as) p" if "p \<in> P" for p
    using that ps answered by (auto simp: xs_def map_of_map_restrict)
  then have get: "hm_get ?m p = (if p \<in> P then Some (map_of xs p) else None)" for p
    using assms(1) by (simp add: answered_by_def)
  have "mset (List.map_filter snd (hm_entries ord ?m)) = mset (List.map_filter snd ?m)"
    by (simp only: mset_map_filter mset_hm_entries [OF wf])
  also have "\<dots> = mset (map snd xs)"
    by (rule mset_filled [OF wf get]) (auto simp: xs_def ps o_def)
  also have "\<dots> = latest_answers P as"
    using ps mset_set_set [of ps] by (simp add: xs_def latest_answers_def o_def multiset.map_comp [symmetric])
  finally show ?thesis .
qed

lemma answered_by_next:
  assumes "answered_by P as it it'" "p \<in> P"
    and "it'' = it'\<lparr>kg_initial_pinner_responses := hm_insert p (Some d) (kg_initial_pinner_responses it')\<rparr>"
  shows "is_all_initial_pinners_ready it'' \<longleftrightarrow> P \<subseteq> fst ` set (as @ [(p, d)])"
    and "is_all_initial_pinners_ready it'' \<Longrightarrow>
      answered_by P (as @ [(p, d)]) it (it''\<lparr>kg_status := ReceivedAllPinnerResponse\<rparr>)"
    and "\<not> is_all_initial_pinners_ready it'' \<Longrightarrow> answered_by P (as @ [(p, d)]) it it''"
proof -
  have wf: "hm_wf (kg_initial_pinner_responses it'')"
    using assms(1,3) by (simp add: answered_by_def)
  have get: "hm_get (kg_initial_pinner_responses it'') q =
      (if q \<in> P then Some (map_of (rev (as @ [(p, d)])) q) else None)" for q
    using assms by (auto simp: answered_by_def)
  show ready: "is_all_initial_pinners_ready it'' \<longleftrightarrow> P \<subseteq> fst ` set (as @ [(p, d)])"
    unfolding all_ready_iff [OF wf] get
    by (auto simp: map_of_eq_None_iff simp del: rev_append split: if_splits)
  show "answered_by P (as @ [(p, d)]) it (it''\<lparr>kg_status := ReceivedAllPinnerResponse\<rparr>)"
    if "is_all_initial_pinners_ready it''"
    using that assms(1) wf get ready by (simp add: answered_by_def assms(3))
  show "answered_by P (as @ [(p, d)]) it it''" if not: "\<not> is_all_initial_pinners_ready it''"
  proof -
    have "\<not> P \<subseteq> fst ` set as"
      using not ready by auto
    then show ?thesis
      using not assms(1) wf get ready by (simp add: answered_by_def assms(3))
  qed
qed

lemma answered_by_stranger:
  "p \<notin> P \<Longrightarrow> answered_by P (as @ [(p, d)]) it it' \<longleftrightarrow> answered_by P as it it'"
proof -
  assume p: "p \<notin> P"
  then have "map_of (rev (as @ [(p, d)])) q = map_of (rev as) q" if "q \<in> P" for q
    using that by auto
  moreover have "P \<subseteq> fst ` set (as @ [(p, d)]) \<longleftrightarrow> P \<subseteq> fst ` set as"
    using p by auto
  ultimately show ?thesis
    unfolding answered_by_def by (simp del: rev_append cong: if_cong)
qed

text \<open>What a report of a finished task to layer 1 contains.\<close>

definition reported ::
  "host \<Rightarrow> string set \<Rightarrow> kg_item \<Rightarrow> bytes \<Rightarrow> (string \<times> string) list \<Rightarrow> bytes \<Rightarrow> bool"
where
  "reported H P it task_id as body \<longleftrightarrow>
     (\<exists>result. h_encode_protobuf H (PbUpdateKeyGenerationResult result) = Inr body \<and>
        mset (ukr_deployment_ids result) = latest_answers P as \<and>
        ukr_task_id result = task_id \<and> ukr_delegator_nonce result = kg_nonce it \<and>
        Some (ukr_multi_sig_account result) = kg_multi_sig_account it \<and>
        Some (ukr_public_key result) = kg_p2_public_key it)"

text \<open>The answers that are reported, each with all that came before it: those of the pinners \<open>P\<close>
  from the one on that completes the set.\<close>

definition reports :: "string set \<Rightarrow> (string \<times> string) list \<Rightarrow> (string \<times> string) list list" where
  "reports P as = filter (\<lambda>bs. fst (last bs) \<in> P \<and> P \<subseteq> fst ` set bs)
     (map (\<lambda>j. take (Suc j) as) [0..<length as])"

lemma reports_snoc:
  "reports P (as @ [a]) =
     reports P as @ (if fst a \<in> P \<and> P \<subseteq> fst ` set (as @ [a]) then [as @ [a]] else [])"
proof -
  have "map (\<lambda>j. take (Suc j) (as @ [a])) [0..<length (as @ [a])] =
      map (\<lambda>j. take (Suc j) as) [0..<length as] @ [as @ [a]]"
    by (rule nth_equalityI) (auto simp: nth_append less_Suc_eq)
  then show ?thesis
    unfolding reports_def by (simp only: filter_append) simp
qed

lemma reports_distinct:
  assumes "distinct (map fst as)" "P \<noteq> {}"
  shows "length (reports P as) = (if P \<subseteq> fst ` set as then 1 else 0)"
  using assms(1)
proof (induction as rule: rev_induct)
  case Nil
  then show ?case using assms(2) by (simp add: reports_def)
next
  case (snoc a as)
  then have new: "fst a \<notin> fst ` set as"
    by auto
  show ?case
  proof (cases "fst a \<in> P")
    case True
    then have "\<not> P \<subseteq> fst ` set as"
      using new by blast
    then show ?thesis
      using snoc True by (simp add: reports_snoc)
  next
    case False
    then have "P \<subseteq> insert (fst a) (fst ` set as) \<longleftrightarrow> P \<subseteq> fst ` set as"
      by auto
    then show ?thesis
      using snoc False by (simp add: reports_snoc)
  qed
qed

lemma update_reported:
  assumes "answered_by P as it it'" "P \<subseteq> fst ` set as"
    and "kg_p2_public_key it = Some pk" "kg_multi_sig_account it = Some ms"
    and "h_base64_decode H (as_bytes (ti_task_id (kg_task_info it))) = Inr task_id"
    and "\<forall>m. \<exists>body. h_encode_protobuf H m = Inr body"
  obtains result body where "update_result_try_from H it' = (\<lambda>t. (Ok result, t))"
    "h_encode_protobuf H (PbUpdateKeyGenerationResult result) = Inr body"
    "reported H P it task_id as body"
proof -
  let ?result = "\<lparr>ukr_task_id = task_id, ukr_delegator_nonce = kg_nonce it',
    ukr_multi_sig_account = ms, ukr_public_key = pk,
    ukr_deployment_ids = List.map_filter snd
      (hm_entries (h_key_order H) (kg_initial_pinner_responses it'))\<rparr>"
  obtain body where body: "h_encode_protobuf H (PbUpdateKeyGenerationResult ?result) = Inr body"
    using assms(6) by blast
  moreover have "update_result_try_from H it' = (\<lambda>t. (Ok ?result, t))"
    using assms(1,3-5) by (auto simp: update_result_try_from_def answered_by_def fun_eq_iff act_simps)
  moreover have "reported H P it task_id as body"
    unfolding reported_def
    using body assms(1,3,4) answered_deployments [OF assms(1,2), of "h_key_order H"]
    by (intro exI [of _ ?result]) (simp add: answered_by_def)
  ultimately show ?thesis
    using that by blast
qed

lemma answer_step:
  assumes "working H" "stored t (kg_task_store_item_key i) = Some (VKeyGen it')"
    and "answered_by P as it it'" "p \<in> P"
    and "kg_p2_public_key it = Some pk" "kg_multi_sig_account it = Some ms"
    and "ti_task_id (kg_task_info it) = i" "h_base64_decode H (as_bytes i) = Inr task_id"
    and "\<forall>m. \<exists>body. h_encode_protobuf H m = Inr body"
    and "snd (process_task_pinner_key_slice_response H \<lparr>pks_task_id = i, pks_deployment_id = d\<rparr> p r t) = s"
  shows "\<exists>it''. stored s (kg_task_store_item_key i) = Some (VKeyGen it'') \<and>
    answered_by P (as @ [(p, d)]) it it'' \<and> sends s = sends t \<and>
    (if P \<subseteq> fst ` set (as @ [(p, d)])
     then \<exists>body. reported H P it task_id (as @ [(p, d)]) body \<and>
       layer1_updates s = as_bytes (h_base64_encode H body) # layer1_updates t
     else layer1_updates s = layer1_updates t)"
proof -
  define it'' where "it'' = it'\<lparr>kg_initial_pinner_responses :=
    hm_insert p (Some d) (kg_initial_pinner_responses it')\<rparr>"
  have id: "ti_task_id (kg_task_info it') = i"
    and get: "hm_get (kg_initial_pinner_responses it') p = Some (map_of (rev as) p)"
    using assms(3,4,7) by (simp_all add: answered_by_def)
  note step = answered_by_next [OF assms(3,4) it''_def]
  show ?thesis
  proof (cases "is_all_initial_pinners_ready it''")
    case False
    then show ?thesis
      using answer_partial [OF assms(1,2) id get it''_def False assms(10)] step(1,3) by auto
  next
    case True
    note full = step(2) [OF True]
    have complete: "P \<subseteq> fst ` set (as @ [(p, d)])"
      using step(1) True by simp
    obtain result body where "update_result_try_from H (it''\<lparr>kg_status := ReceivedAllPinnerResponse\<rparr>) =
        (\<lambda>t. (Ok result, t))" "h_encode_protobuf H (PbUpdateKeyGenerationResult result) = Inr body"
      and report: "reported H P it task_id (as @ [(p, d)]) body"
      using assms(5-9) by (auto intro: update_reported [OF full complete, of pk ms H task_id])
    note last = answer_last [OF assms(1,2) id get it''_def True this(1,2) assms(10)]
    show ?thesis
      unfolding if_P [OF complete] using last full report by blast
  qed
qed

text \<open>C2: whatever the order in which the initial pinners answer, and whoever else answers, the
  delegator reports to layer 1 with each answer of a pinner it shared slices with, from the one on
  that completes the set of these pinners; never before, and never for anyone else. Each report
  holds the latest answers of all these pinners. So it reports exactly once if nobody answers
  twice; a pinner that answers again after the set is complete makes it report again.\<close>

theorem answers_reported:
  assumes "working H" "stored t (kg_task_store_item_key i) = Some (VKeyGen it)"
    and "ti_task_id (kg_task_info it) = i" "answered_by P [] it it" "P \<noteq> {}"
    and "kg_p2_public_key it = Some pk" "kg_multi_sig_account it = Some ms"
    and "h_base64_decode H (as_bytes i) = Inr task_id"
    and "\<forall>m. \<exists>body. h_encode_protobuf H m = Inr body"
  shows "\<exists>it' bodies. stored (answer_all H i reply_to as t) (kg_task_store_item_key i) = Some (VKeyGen it') \<and>
    answered_by P as it it' \<and> sends (answer_all H i reply_to as t) = sends t \<and>
    layer1_updates (answer_all H i reply_to as t) =
      rev (map (as_bytes \<circ> h_base64_encode H) bodies) @ layer1_updates t \<and>
    list_all2 (reported H P it task_id) (reports P as) bodies \<and>
    (distinct (map fst as) \<longrightarrow> length bodies = (if P \<subseteq> fst ` set as then 1 else 0))"
proof (induction as rule: rev_induct)
  case Nil
  then show ?case
    using assms(2,4,5) by (intro exI [of _ it] exI [of _ "[]"]) (simp add: answer_all_def reports_def)
next
  case (snoc a as)
  obtain p d where a: "a = (p, d)" by (cases a)
  let ?t = "answer_all H i reply_to as t"
  define s where "s = answer_all H i reply_to (as @ [a]) t"
  have run: "snd (process_task_pinner_key_slice_response H
      \<lparr>pks_task_id = i, pks_deployment_id = d\<rparr> p reply_to ?t) = s"
    by (simp add: s_def a answer_all_def)
  from snoc.IH obtain it' bodies where it': "stored ?t (kg_task_store_item_key i) = Some (VKeyGen it')"
    "answered_by P as it it'" "sends ?t = sends t"
    "layer1_updates ?t = rev (map (as_bytes \<circ> h_base64_encode H) bodies) @ layer1_updates t"
    "list_all2 (reported H P it task_id) (reports P as) bodies"
    by blast
  have "\<exists>it'' new. stored s (kg_task_store_item_key i) = Some (VKeyGen it'') \<and>
      answered_by P (as @ [a]) it it'' \<and> sends s = sends t \<and>
      layer1_updates s = rev (map (as_bytes \<circ> h_base64_encode H) (bodies @ new)) @ layer1_updates t \<and>
      list_all2 (reported H P it task_id) (reports P (as @ [a])) (bodies @ new)"
  proof (cases "p \<in> P")
    case False
    then have "hm_get (kg_initial_pinner_responses it') p = None"
      using it'(2) by (simp add: answered_by_def)
    note same = answer_unknown [OF assms(1) it'(1) this run]
    show ?thesis
      using it' same False answered_by_stranger [OF False]
      by (intro exI [of _ it'] exI [of _ "[]"]) (simp add: a reports_snoc)
  next
    case True
    note step = answer_step [OF assms(1) it'(1,2) True assms(6,7,3,8,9) run]
    show ?thesis
    proof (cases "P \<subseteq> fst ` set (as @ [a])")
      case complete: True
      then obtain it'' body where "stored s (kg_task_store_item_key i) = Some (VKeyGen it'')"
        "answered_by P (as @ [a]) it it''" "sends s = sends t"
        "reported H P it task_id (as @ [a]) body"
        "layer1_updates s = as_bytes (h_base64_encode H body) # layer1_updates ?t"
        using step it'(3) by (auto simp: a)
      then show ?thesis
        using it'(4,5) True complete
        by (intro exI [of _ it''] exI [of _ "[body]"])
          (simp add: a reports_snoc list_all2_appendI)
    next
      case False
      then obtain it'' where "stored s (kg_task_store_item_key i) = Some (VKeyGen it'')"
        "answered_by P (as @ [a]) it it''" "sends s = sends t" "layer1_updates s = layer1_updates ?t"
        using step it'(3) by (auto simp: a)
      then show ?thesis
        using it'(4,5) False
        by (intro exI [of _ it''] exI [of _ "[]"]) (simp add: reports_snoc)
    qed
  qed
  then show ?case
    unfolding s_def using reports_distinct [OF _ assms(5)] list_all2_lengthD by metis
qed

definition sample_shared :: kg_item where
  "sample_shared = sample_item 2 1 [] []
     \<lparr>kg_status := SentToInitialPinner, kg_p2_public_key := Some [2], kg_multi_sig_account := Some [3],
      kg_initial_pinner_responses := [(''p'', None), (''q'', None)]\<rparr>"

text \<open>Two pinners and a stranger answer, and the first pinner answers again: two reports.\<close>

definition sample_answers :: "(string \<times> string) list" where
  "sample_answers = [(''q'', ''d1''), (''x'', ''d3''), (''p'', ''d2''), (''q'', ''d4'')]"

theorem answers_reported_witness:
  "\<exists>body1 body2. layer1_updates (answer_all memory_host ''task'' ''r'' sample_answers
       [ESet (kg_task_store_item_key ''task'') (VKeyGen sample_shared) None]) =
       [as_bytes (h_base64_encode memory_host body2), as_bytes (h_base64_encode memory_host body1)] \<and>
     reported memory_host {''p'', ''q''} sample_shared (as_bytes ''task'')
       [(''q'', ''d1''), (''x'', ''d3''), (''p'', ''d2'')] body1 \<and>
     reported memory_host {''p'', ''q''} sample_shared (as_bytes ''task'') sample_answers body2"
proof -
  let ?t = "[ESet (kg_task_store_item_key ''task'') (VKeyGen sample_shared) None]"
  have "answered_by {''p'', ''q''} [] sample_shared sample_shared"
    by (simp add: answered_by_def sample_shared_def hm_wf_def hm_get_def)
  then have "\<exists>bodies. layer1_updates (answer_all memory_host ''task'' ''r'' sample_answers ?t) =
      rev (map (as_bytes \<circ> h_base64_encode memory_host) bodies) @ layer1_updates ?t \<and>
    list_all2 (reported memory_host {''p'', ''q''} sample_shared (as_bytes ''task''))
      (reports {''p'', ''q''} sample_answers) bodies"
    using answers_reported [of memory_host ?t "''task''" sample_shared "{''p'', ''q''}" "[2]" "[3]"
        "as_bytes ''task''" "''r''" sample_answers] memory_host_working
    by (simp add: sample_shared_def sample_item_def) blast
  moreover have "reports {''p'', ''q''} sample_answers =
      [[(''q'', ''d1''), (''x'', ''d3''), (''p'', ''d2'')], sample_answers]"
    by (simp add: reports_def sample_answers_def upt_rec)
  ultimately show ?thesis
    by (auto simp: list_all2_Cons1) blast
qed

end
