(* ===== verification/Gluon_Invariant.thy ===== *)
theory Gluon_Invariant
  imports Gluon_Runs Gluon_KeyGen_Protocol
begin

text \<open>
  The invariant of the whole actor. \<open>legal\<close> says of one event what the program promises of it:
  a value is stored under a key of its own kind and is a well-formed item, a message that hands
  out work carries a sound threshold, a registered callback captured sound data. Every handler
  keeps a trace of legal events legal, so all reachable traces are.
\<close>

section \<open>Legal events\<close>

text \<open>A well-formed key generation item: what its status says of its other fields.\<close>

definition kg_ok :: "kg_item \<Rightarrow> bool" where
  "kg_ok it \<longleftrightarrow>
     valid_task (kg_task_info it) \<and> hm_wf (kg_initial_pinner_responses it) \<and>
     kg_status it \<noteq> RaBegun \<and> kg_status it \<noteq> RaCompleted \<and>
     (kg_status it < KgSentToExecutor \<longrightarrow> kg_executor it = None \<and> kg_initial_pinners it = []) \<and>
     (kg_status it = KgSentToExecutor \<longrightarrow> request_ready it) \<and>
     (kg_status it \<le> KgSentToExecutor \<longrightarrow> kg_initial_pinner_responses it = []) \<and>
     (KgSentToExecutor < kg_status it \<longrightarrow>
        kg_p2_public_key it \<noteq> None \<and> kg_multi_sig_account it \<noteq> None) \<and>
     (kg_status it = ReceivedAllPinnerResponse \<longrightarrow> is_all_initial_pinners_ready it)"

definition sg_ok :: "sg_item \<Rightarrow> bool" where
  "sg_ok it \<longleftrightarrow>
     ei_n (ti_exec_info (sg_task_info it)) = 2 \<and> sg_k it = 1 \<and>
     hm_wf (sg_key_slices it) \<and> hm_wf (sg_deployment_candidates it) \<and>
     (sg_status it = SgSentToExecutor \<longrightarrow> sg_executor it \<noteq> None \<and> ready_send_to_executor it)"

fun stored_ok :: "string \<Rightarrow> kv_val \<Rightarrow> bool" where
  "stored_ok k (VKeyGen it) \<longleftrightarrow> k = kg_task_store_item_key (ti_task_id (kg_task_info it)) \<and> kg_ok it"
| "stored_ok k (VSign it) \<longleftrightarrow> k = sg_task_store_item_key (ti_task_id (sg_task_info it)) \<and> sg_ok it"
| "stored_ok k (VExec it) \<longleftrightarrow> k = ex_task_store_item_key (ti_task_id (ex_task_info it))"
| "stored_ok k (VPinner it) \<longleftrightarrow> k = ip_task_store_item_key (ti_task_id (ip_task_info it))"
| "stored_ok k (VString s) \<longleftrightarrow>
     (\<exists>kind. key_kind_of k = Some kind \<and> kind \<in> {KKeyGenRsa, KSignRsa, KDeployment, KDataCid})"
| "stored_ok k (VStrings ss) \<longleftrightarrow> k = DEPLOYMENT_IDS_KEY"

text \<open>A sound threshold: at least one slice is needed, and not all of them.\<close>

definition sound_threshold :: "nat \<Rightarrow> nat \<Rightarrow> bool" where
  "sound_threshold k n \<longleftrightarrow> 0 < k \<and> k < n \<and> n < 256"

fun msg_ok :: "general_msg \<Rightarrow> bool" where
  "msg_ok (TaskExecutionRequest r) \<longleftrightarrow>
     sound_threshold (unat (ter_minimum_recovery_number r)) (length (ter_initial_pinners r))"
| "msg_ok (KeyGenerationCandidateRequest r) \<longleftrightarrow> sound_threshold (unat (kgc_k r)) (unat (kgc_n r))"
| "msg_ok (SignCandidateRequest r) \<longleftrightarrow> sound_threshold (unat (scr_k r)) (unat (scr_n r))"
| "msg_ok (TaskSignWithKeySlicesResponse r) \<longleftrightarrow> sws_encrypted_key_slices r \<noteq> []"
| "msg_ok m \<longleftrightarrow> True"

fun msg_callback_ok :: "msg_callback \<Rightarrow> bool" where
  "msg_callback_ok (CbGetDelegates info op cont) \<longleftrightarrow> valid_task info"
| "msg_callback_ok cb \<longleftrightarrow> True"

fun profile_callback_ok :: "profile_callback \<Rightarrow> bool" where
  "profile_callback_ok (CbInviteCandidate info op) \<longleftrightarrow> valid_task info"
| "profile_callback_ok cb \<longleftrightarrow> True"

fun legal :: "event \<Rightarrow> bool" where
  "legal (ESet k v ttl) \<longleftrightarrow> stored_ok k v"
| "legal (ESend p i m) \<longleftrightarrow> msg_ok m"
| "legal (EIntercom to fr m cb) \<longleftrightarrow> msg_callback_ok cb"
| "legal (ECall s i b cb) \<longleftrightarrow> msg_callback_ok cb"
| "legal (ELookupProfile eid s cb) \<longleftrightarrow> profile_callback_ok cb"
| "legal (ELookupProfileByTeaId tid s cb) \<longleftrightarrow> profile_callback_ok cb"
| "legal e \<longleftrightarrow> True"

definition legal_trace :: "trace \<Rightarrow> bool" where
  "legal_trace t \<longleftrightarrow> list_all legal t"

lemma legal_trace_simps [simp]: "legal_trace []" "legal_trace (e # t) \<longleftrightarrow> legal e \<and> legal_trace t"
  by (simp_all add: legal_trace_def)

lemma legal_stored: "legal_trace t \<Longrightarrow> stored t k = Some v \<Longrightarrow> stored_ok k v"
  by (induction t) (auto split: event.splits if_splits)

section \<open>Reading and writing the stores\<close>

lemma kg_read_legal:
  assumes "kv_faithful H" "legal_trace t" "h_kv_get_keygen H t (kg_task_store_item_key i) = Inr (Some it)"
  shows "kg_ok it \<and> ti_task_id (kg_task_info it) = i"
proof -
  have rb: "reads_back (h_kv_get_keygen H) VKeyGen"
    using assms(1) by (simp add: kv_faithful_def)
  obtain v where v: "stored t (kg_task_store_item_key i) = Some v"
    using reads_backD(1) [OF rb assms(3)] by fastforce
  with legal_stored [OF assms(2)] have ok: "stored_ok (kg_task_store_item_key i) v"
    by blast
  then obtain it' where "v = VKeyGen it'"
    by (cases v) (auto dest: arg_cong [where f = key_kind_of])
  then show ?thesis
    using ok v reads_backD(2) [OF rb assms(3)] by auto
qed

lemma sg_read_legal:
  assumes "kv_faithful H" "legal_trace t" "h_kv_get_sign H t (sg_task_store_item_key i) = Inr (Some it)"
  shows "sg_ok it \<and> ti_task_id (sg_task_info it) = i"
proof -
  have rb: "reads_back (h_kv_get_sign H) VSign"
    using assms(1) by (simp add: kv_faithful_def)
  obtain v where v: "stored t (sg_task_store_item_key i) = Some v"
    using reads_backD(1) [OF rb assms(3)] by fastforce
  with legal_stored [OF assms(2)] have ok: "stored_ok (sg_task_store_item_key i) v"
    by blast
  then obtain it' where "v = VSign it'"
    by (cases v) (auto dest: arg_cong [where f = key_kind_of])
  then show ?thesis
    using ok v reads_backD(2) [OF rb assms(3)] by auto
qed

lemma legal_kg_get:
  "kv_faithful H \<Longrightarrow> keeps legal_trace (\<lambda>it. kg_ok it \<and> ti_task_id (kg_task_info it) = i) (kg_get H i)"
  by (rule kg.keeps_get) (auto dest: kg_read_legal)

lemma legal_sg_get:
  "kv_faithful H \<Longrightarrow> keeps legal_trace (\<lambda>it. sg_ok it \<and> ti_task_id (sg_task_info it) = i) (sg_get H i)"
  by (rule sg.keeps_get) (auto dest: sg_read_legal)

lemma legal_kg_save: "kg_ok it \<Longrightarrow> keeps_inv legal_trace (kg_save H it)"
  by (rule kg.keeps_save) auto

lemma legal_sg_save: "sg_ok it \<Longrightarrow> keeps_inv legal_trace (sg_save H it)"
  by (rule sg.keeps_save) auto

lemma legal_ex_ip:
  "keeps_inv legal_trace (ex_get H i)" "keeps_inv legal_trace (ip_get H i)"
  "keeps_inv legal_trace (ex_save H e)" "keeps_inv legal_trace (ip_save H p)"
  "keeps_inv legal_trace (ex_contains H i)" "keeps_inv legal_trace (ip_contains H i)"
  by (rule ex.keeps_get ip.keeps_get ex.keeps_save ip.keeps_save ex.keeps_contains ip.keeps_contains;
      simp)+

section \<open>Rules for programs over legal traces\<close>

lemma legal_prim: "legal e \<Longrightarrow> keeps_inv legal_trace (prim f e)"
  by (simp add: keeps_prim)

lemma legal_call: "legal e \<Longrightarrow> keeps_inv legal_trace (call H e)"
  by (simp add: keeps_call)

lemma legal_call_pinner: "msg_callback_ok cb \<Longrightarrow> keeps_inv legal_trace (call_pinner H s b cb)"
  by (simp add: keeps_call_pinner)

lemma legal_kv_set: "stored_ok k v \<Longrightarrow> keeps_inv legal_trace (kv_set H k v ttl)"
  by (simp add: keeps_kv_set)

lemma legal_kv_get: "keeps_inv legal_trace (kv_get g k)"
  by (simp add: keeps_kv_get)

lemma legal_bind: "keeps_inv I m \<Longrightarrow> (\<And>x. keeps I R (f x)) \<Longrightarrow> keeps I R (bindA m f)"
  by (erule keeps_bindA) simp

lemma legal_bind_pure: "(\<And>x. r = Inr x \<Longrightarrow> keeps I R (f x)) \<Longrightarrow> keeps I R (bindA (pure r) f)"
  by (rule keeps_bindA [where Q = "\<lambda>x. r = Inr x"]) (auto intro: keeps_pure)

lemma legal_bind_liftA: "(\<And>x. r = Ok x \<Longrightarrow> keeps I R (f x)) \<Longrightarrow> keeps I R (bindA (liftA r) f)"
  by (rule keeps_bindA [where Q = "\<lambda>x. r = Ok x"]) (auto intro: keeps_liftA)

lemma legal_bind_require: "(\<And>x. v = Some x \<Longrightarrow> keeps I R (f x)) \<Longrightarrow> keeps I R (bindA (require e v) f)"
  by (rule keeps_bindA [where Q = "\<lambda>x. v = Some x"]) (auto intro: keeps_require)

lemma legal_bind_kg_get:
  assumes "kv_faithful H"
    and "\<And>it. kg_ok it \<Longrightarrow> ti_task_id (kg_task_info it) = i \<Longrightarrow> keeps legal_trace R (f it)"
  shows "keeps legal_trace R (bindA (kg_get H i) f)"
  using keeps_bindA [OF legal_kg_get [OF assms(1)]] assms(2) by blast

lemma legal_bind_sg_get:
  assumes "kv_faithful H"
    and "\<And>it. sg_ok it \<Longrightarrow> ti_task_id (sg_task_info it) = i \<Longrightarrow> keeps legal_trace R (f it)"
  shows "keeps legal_trace R (bindA (sg_get H i) f)"
  using keeps_bindA [OF legal_sg_get [OF assms(1)]] assms(2) by blast

lemma legal_match:
  "keeps_inv I m \<Longrightarrow> (\<And>x. keeps I R (f x)) \<Longrightarrow> (\<And>e. keeps I R (g e)) \<Longrightarrow> keeps I R (matchA m f g)"
  by (erule keeps_matchA) simp_all

lemma legal_pair: "(\<And>a b. keeps I R (f a b)) \<Longrightarrow> keeps I R (case p of (a, b) \<Rightarrow> f a b)"
  by (cases p) simp

lemma legal_list:
  "keeps I R m \<Longrightarrow> (\<And>y ys. keeps I R (f y ys)) \<Longrightarrow> keeps I R (case xs of [] \<Rightarrow> m | y # ys \<Rightarrow> f y ys)"
  by (cases xs) simp_all

lemma legal_return: "keeps_inv I (returnA x)"
  by (simp add: keeps_returnA)

lemma legal_for_each:
  "(\<And>x. x \<in> set xs \<Longrightarrow> keeps_inv I (f x)) \<Longrightarrow> keeps_inv I (for_each f xs)"
  by (rule keeps_for_each)

lemma legal_seq: "keeps_inv I m \<Longrightarrow> keeps I R k \<Longrightarrow> keeps I R (seqA m k)"
  by (rule keeps_seqA)

lemmas legal_rules =
  legal_bind_pure legal_bind_liftA legal_bind_require legal_bind_kg_get legal_bind_sg_get legal_bind
  legal_seq legal_match legal_pair legal_list legal_for_each keeps_collect_each keeps_if keeps_option legal_return keeps_failA keeps_panicA
  legal_ex_ip legal_call_pinner legal_call legal_prim legal_kv_set legal_kv_get
  keeps_utf8_string keeps_decode_body

text \<open>Rules for one module are added to these as the module is verified.\<close>

section \<open>The common module\<close>

lemma unat_u8_u32 [simp]: "unat (ucast (w :: u8) :: u32) = unat w"
  by (simp add: unsigned_ucast_eq take_bit_eq_mod)
    (use unsigned_less [of w, where ?'a = nat] in simp)

lemma valid_task_threshold:
  "valid_task info \<Longrightarrow>
   sound_threshold (unat (ei_k (ti_exec_info info))) (unat (ei_n (ti_exec_info info)))"
  using unsigned_less [of "ei_n (ti_exec_info info)", where ?'a = nat]
  by (simp add: valid_task_nat sound_threshold_def)

lemma legal_send_key_candidate_request:
  "valid_task info \<Longrightarrow> keeps_inv legal_trace (send_key_candidate_request H p info e)"
  unfolding send_key_candidate_request_def Let_def
  by (rule legal_rules | simp add: valid_task_threshold)+

lemma legal_verify_to_candidate_signature:
  "keeps_inv legal_trace (verify_to_candidate_signature H p req cont)"
  unfolding verify_to_candidate_signature_def by (rule legal_rules | simp)+

lemma legal_send_key_generation_request:
  "keeps_inv legal_trace (send_key_generation_request H p info e)"
  unfolding send_key_generation_request_def by (rule legal_rules | simp)+

lemma legal_decrypt_key_slice: "keeps_inv legal_trace (decrypt_key_slice H i b)"
  unfolding decrypt_key_slice_def by (rule legal_rules | simp)+

lemma legal_send_ra_request: "keeps_inv legal_trace (send_ra_request H p m)"
  unfolding send_ra_request_def by (rule legal_rules | simp)+

lemma legal_invite_candidate_executors:
  "valid_task info \<Longrightarrow> keeps_inv legal_trace (invite_candidate_executors H info op cont)"
  unfolding invite_candidate_executors_def by (rule legal_rules | simp)+

lemma legal_get_delegates_callback:
  assumes "valid_task info" "\<And>ids. keeps_inv legal_trace (cb info ids)"
  shows "keeps_inv legal_trace (get_delegates_callback H info op cb msg)"
  unfolding get_delegates_callback_def by (rule legal_rules assms | simp add: assms)+

section \<open>The delegator of a key generation\<close>

lemma legal_invite_candidate_initial_pinners:
  "valid_task info \<Longrightarrow> keeps_inv legal_trace (invite_candidate_initial_pinners H info ids)"
  unfolding invite_candidate_initial_pinners_def
  by (rule legal_rules legal_send_key_candidate_request | simp)+

lemma legal_try_to_be_delegator: "keeps_inv legal_trace (try_to_be_delegator H e h cont)"
  unfolding try_to_be_delegator_def by (rule legal_rules | simp)+

lemma legal_get_delegator_key_callback:
  assumes "\<And>nonce. keeps_inv legal_trace (cb nonce)"
  shows "keeps_inv legal_trace (get_delegator_key_callback H e h cb msg)"
  unfolding get_delegator_key_callback_def by (rule legal_rules assms | simp)+

lemma kg_ok_fresh:
  assumes "kg_item_try_from H res = Inr item"
  shows "kg_ok (item\<lparr>kg_nonce := nonce\<rparr>)"
    "kg_ok (item\<lparr>kg_nonce := nonce, kg_status := InvitedCandidates\<rparr>)"
    "valid_task (kg_task_info item)"
  using assms
  by (auto simp: kg_item_try_from_def task_info_from_key_generation_response_def
      validate_task_info_iff kg_ok_def less_kg_state_def less_eq_kg_state_def split: sum.splits)

lemma legal_key_generation_event_callback:
  "keeps_inv legal_trace (key_generation_event_callback H res nonce)"
  unfolding key_generation_event_callback_def Let_def
  by (rule legal_rules legal_kg_save legal_invite_candidate_executors | simp add: kg_ok_fresh)+

lemma elect_keeps_fields:
  assumes "elect it = Ok it'"
  shows "kg_task_info it' = kg_task_info it" "kg_status it' = kg_status it"
    "kg_initial_pinner_responses it' = kg_initial_pinner_responses it"
  using assms by (auto simp: elect_eq selected_def with_executor_def split: if_splits)

lemma kg_ok_sent:
  assumes "kg_ok it" "kg_status it = InvitedCandidates" "elect it = Ok it'" "request_ready it'"
  shows "kg_ok (it'\<lparr>kg_status := KgSentToExecutor\<rparr>)"
  using assms elect_keeps_fields [OF assms(3)]
  by (auto simp: kg_ok_def less_kg_state_def less_eq_kg_state_def request_ready_def)

lemma request_ok:
  assumes "kg_ok it" "elect it = Ok it'" "request_ready it'"
  shows "msg_ok (TaskExecutionRequest (generate_request it'))"
  using assms(1,3) elect_keeps_fields [OF assms(2)] valid_task_threshold [of "kg_task_info it"]
  by (simp add: kg_ok_def generate_request_def request_ready_def)

lemma legal_kg_try_send_to_executor:
  assumes "kg_ok it" "kg_status it = InvitedCandidates"
  shows "keeps_inv legal_trace (kg_try_send_to_executor H it)"
  unfolding kg_try_send_to_executor_def
  by (rule legal_rules legal_kg_save | simp add: kg_ok_sent [OF assms] request_ok [OF assms(1), simplified])+

lemma legal_delegator_store_item_handler:
  assumes "kv_faithful H"
    and "\<And>it. kg_ok it \<Longrightarrow> ti_task_id (kg_task_info it) = i \<Longrightarrow> keeps_inv legal_trace (action it)"
  shows "keeps_inv legal_trace (delegator_store_item_handler H i p r action)"
  unfolding delegator_store_item_handler_def
  using assms by (intro keeps_matchA [OF legal_kg_get]) (auto intro: legal_call)

lemma hm_wf_await_pinners [simp]: "hm_wf m \<Longrightarrow> hm_wf (await_pinners ps m)"
  by (induction ps arbitrary: m) (simp_all add: await_pinners_def)

lemma kg_ok_execution_result:
  assumes "kg_ok it"
  shows "kg_ok (it\<lparr>kg_p2_public_key := Some pk, kg_multi_sig_account := Some ms,
    kg_status := ReceivedExecutionResult\<rparr>)"
    "kg_ok (it\<lparr>kg_p2_public_key := Some pk, kg_multi_sig_account := Some ms,
      kg_initial_pinner_responses := await_pinners ps (kg_initial_pinner_responses it),
      kg_status := SentToInitialPinner\<rparr>)"
  using assms by (auto simp: kg_ok_def less_kg_state_def less_eq_kg_state_def)

lemma legal_share_slices: "keeps_inv legal_trace (share_slices_to_initial_pinner H i d pk ms)"
  unfolding share_slices_to_initial_pinner_def by (rule legal_rules | simp)+

lemma legal_process_task_execution_response:
  assumes "kv_faithful H"
  shows "keeps_inv legal_trace (process_task_execution_response H res p r)"
  unfolding process_task_execution_response_def Let_def
  by (rule legal_delegator_store_item_handler [OF assms] legal_rules legal_kg_save
      legal_share_slices
    | simp add: kg_ok_execution_result)+

lemma all_ready_insert:
  "is_all_initial_pinners_ready it \<Longrightarrow>
   is_all_initial_pinners_ready (it\<lparr>kg_initial_pinner_responses :=
     hm_insert p (Some d) (kg_initial_pinner_responses it)\<rparr>)"
proof -
  have "list_all (\<lambda>(_, v). v \<noteq> None) m \<Longrightarrow> list_all (\<lambda>(_, v). v \<noteq> None) (AList.update p (Some d) m)"
    for m :: "string option hmap"
    by (induction m) auto
  then show "is_all_initial_pinners_ready it \<Longrightarrow> ?thesis"
    by (simp add: is_all_initial_pinners_ready_def hm_insert_def)
qed

lemma kg_ok_answer:
  assumes "kg_ok it" "hm_get (kg_initial_pinner_responses it) p = Some a"
    and "it' = it\<lparr>kg_initial_pinner_responses := hm_insert p (Some d) (kg_initial_pinner_responses it)\<rparr>"
  shows "\<not> is_all_initial_pinners_ready it' \<Longrightarrow> kg_ok it'"
    "is_all_initial_pinners_ready it' \<Longrightarrow> kg_ok (it'\<lparr>kg_status := ReceivedAllPinnerResponse\<rparr>)"
proof -
  have late: "KgSentToExecutor < kg_status it"
    using assms(1,2) by (force simp: kg_ok_def not_le)
  then show "kg_ok it'" if "\<not> is_all_initial_pinners_ready it'"
    using that assms(1) all_ready_insert [of it p d]
    by (auto simp: kg_ok_def assms(3))
  show "kg_ok (it'\<lparr>kg_status := ReceivedAllPinnerResponse\<rparr>)" if "is_all_initial_pinners_ready it'"
    using that late assms(1)
    by (auto simp: kg_ok_def assms(3) is_all_initial_pinners_ready_def less_kg_state_def
        less_eq_kg_state_def)
qed

lemma legal_update_result: "keeps_inv legal_trace (update_result_try_from H it)"
  unfolding update_result_try_from_def by (rule legal_rules | simp)+

lemma legal_process_task_pinner_key_slice_response:
  assumes "kv_faithful H"
  shows "keeps_inv legal_trace (process_task_pinner_key_slice_response H res p r)"
  unfolding process_task_pinner_key_slice_response_def Let_def
  by (rule legal_delegator_store_item_handler [OF assms] legal_rules legal_kg_save
      legal_update_result
    | simp add: kg_ok_answer [OF _ _ refl, simplified])+

lemma legal_close_p2p_connections:
  "kv_faithful H \<Longrightarrow> keeps_inv legal_trace (close_p2p_connections H i)"
  unfolding close_p2p_connections_def by (rule legal_rules | simp)+

lemma legal_task_key_generation_apply_request_handler:
  "keeps_inv legal_trace (task_key_generation_apply_request_handler H req p r)"
  unfolding task_key_generation_apply_request_handler_def kg_remote_attestation_executor_def
    remote_attestation_initial_pinner_def
  by (rule legal_rules legal_send_ra_request | simp)+

lemma kg_ok_candidate:
  assumes "kg_ok it" "kg_status it = InvitedCandidates"
  shows "kg_ok (insert_executor e it)" "kg_status (insert_executor e it) = InvitedCandidates"
    "kg_ok (insert_initial_pinner q it)" "kg_status (insert_initial_pinner q it) = InvitedCandidates"
  using assms
  by (auto simp: kg_ok_def insert_executor_def insert_initial_pinner_def less_kg_state_def
      less_eq_kg_state_def)

lemma legal_on_ra_success:
  assumes "kv_faithful H"
  shows "keeps_inv legal_trace (kg_on_executor_ra_success H i p k)"
    "keeps_inv legal_trace (on_initial_pinner_ra_success H i p k)"
  unfolding kg_on_executor_ra_success_def on_initial_pinner_ra_success_def Let_def
  by (rule legal_rules legal_kg_save legal_kg_try_send_to_executor
    | simp add: assms kg_ok_candidate)+

lemma legal_kg_operation_after_verify_handler:
  "kv_faithful H \<Longrightarrow> keeps_inv legal_trace (kg_operation_after_verify_handler H p e item)"
  unfolding kg_operation_after_verify_handler_def by (rule legal_rules legal_on_ra_success | simp)+

section \<open>The delegator of a signature\<close>

lemma hm_wf_init_deployments:
  "hm_wf (sg_key_slices it) \<and> hm_wf (sg_deployment_candidates it) \<Longrightarrow>
   hm_wf (sg_key_slices (init_deployment_resources ids it)) \<and>
   hm_wf (sg_deployment_candidates (init_deployment_resources ids it)) \<and>
   sg_task_info (init_deployment_resources ids it) = sg_task_info it"
  unfolding init_deployment_resources_def by (induction ids arbitrary: it) auto

lemma legal_sign_event_with_deployments:
  "keeps_inv legal_trace (sign_event_with_deployments H res nonce ids)"
  unfolding sign_event_with_deployments_def Let_def
  apply (rule legal_rules)
  apply (rule legal_seq [OF legal_sg_save])
  subgoal for item0
    using hm_wf_init_deployments [of "item0\<lparr>sg_nonce := nonce, sg_task_info := (sg_task_info item0)
           \<lparr>ti_exec_info := \<lparr>ei_n = 2, ei_k = 1, ei_task_type = ''bitcoin_mainnet''\<rparr>\<rparr>\<rparr>" ids]
    by (auto simp: sg_ok_def sg_item_try_from_def)
  subgoal for item0
    using hm_wf_init_deployments [of "item0\<lparr>sg_nonce := nonce, sg_task_info := (sg_task_info item0)
           \<lparr>ti_exec_info := \<lparr>ei_n = 2, ei_k = 1, ei_task_type = ''bitcoin_mainnet''\<rparr>\<rparr>\<rparr>" ids]
    by (auto intro!: legal_invite_candidate_executors simp: valid_task_def sg_item_try_from_def)
  done

lemma legal_get_deployment_ids: "keeps_inv legal_trace (get_deployment_ids H res nonce)"
  unfolding get_deployment_ids_def predefined_deployment_ids_def Let_def
  by (rule legal_rules legal_sign_event_with_deployments | simp)+

lemma legal_get_deployment_ids_callback:
  "keeps_inv legal_trace (get_deployment_ids_callback H res nonce msg)"
  unfolding get_deployment_ids_callback_def
  by (rule legal_rules legal_sign_event_with_deployments | simp)+

lemma legal_sign_candidate_op: "valid_task info \<Longrightarrow> keeps_inv legal_trace (sign_candidate_op H item info p)"
  unfolding sign_candidate_op_def by (rule legal_rules | simp add: valid_task_threshold)+

lemma legal_begin_find_pinners: "keeps_inv legal_trace (begin_find_pinners H i m)"
  unfolding begin_find_pinners_def by (rule legal_rules | simp)+

lemma sg_ok_found: "sg_ok it \<Longrightarrow> sg_ok (it\<lparr>sg_status := FindingDeployments\<rparr>)"
  "sg_ok it \<Longrightarrow> sg_ok (it\<lparr>sg_status := CommitResult\<rparr>)"
  by (simp_all add: sg_ok_def ready_send_to_executor_def)

lemma legal_find_pinners_callback:
  "kv_faithful H \<Longrightarrow> keeps_inv legal_trace (find_pinners_callback H ids m info)"
  unfolding find_pinners_callback_def
  by (rule legal_rules legal_begin_find_pinners legal_sg_save | simp add: sg_ok_found)+

lemma found_slices_nonempty:
  assumes "sg_ok it" "ready_send_to_executor it"
  shows "get_encrypted_key_slices H it \<noteq> []"
proof -
  from assms have "filter (\<lambda>(_, v). v \<noteq> None) (sg_key_slices it) \<noteq> []"
    by (auto simp: sg_ok_def ready_send_to_executor_def)
  then obtain k v where "(k, Some v) \<in> set (sg_key_slices it)"
    by (auto simp: filter_empty_conv)
  then have "(k, Some v) \<in> set (hm_entries (h_key_order H) (sg_key_slices it))"
    using assms(1) by (simp add: sg_ok_def set_hm_entries)
  then show ?thesis
    unfolding get_encrypted_key_slices_def
    by (metis (mono_tags, lifting) case_prod_conv empty_iff empty_set option.simps(9) set_map_filter_iff)
qed

lemma legal_sg_try_send_to_executor:
  "sg_ok it \<Longrightarrow> keeps_inv legal_trace (sg_try_send_to_executor H it)"
  unfolding sg_try_send_to_executor_def Let_def
  by (rule legal_rules legal_sg_save
    | simp add: found_slices_nonempty sg_ok_def ready_send_to_executor_def)+

lemma legal_process_executor_sign_request:
  "kv_faithful H \<Longrightarrow> keeps_inv legal_trace (process_executor_sign_with_key_slices_request H req p r)"
  unfolding process_executor_sign_with_key_slices_request_def sg_remote_attestation_executor_def
  by (rule legal_rules legal_send_ra_request | simp)+

lemma legal_process_commit_sign_result_request:
  "kv_faithful H \<Longrightarrow> keeps_inv legal_trace (process_commit_sign_result_request H req p r)"
  unfolding process_commit_sign_result_request_def
  by (rule legal_rules legal_sg_save | simp add: sg_ok_found)+

lemma filter_found_update:
  "length (filter (\<lambda>(_, v). v \<noteq> None) m) \<le>
   length (filter (\<lambda>(_, v). v \<noteq> None) (hm_insert d (Some s) m))"
proof (induction m)
  case (Cons x m)
  then show ?case by (cases x) (auto simp: hm_insert_def)
qed (simp add: hm_insert_def)

lemma sg_ok_slice:
  assumes "sg_ok it" "insert_key_slice_info d s it = Inr it'"
  shows "sg_ok it'"
  using assms filter_found_update [of "sg_key_slices it" d s]
  by (auto simp: sg_ok_def insert_key_slice_info_def ready_send_to_executor_def split: option.splits)

lemma legal_process_pinner_key_slice_response:
  "kv_faithful H \<Longrightarrow> keeps_inv legal_trace (process_pinner_key_slice_response H res p r)"
  unfolding process_pinner_key_slice_response_def
  by (rule legal_rules legal_sg_save legal_sg_try_send_to_executor | simp add: sg_ok_slice)+

lemma legal_send_get_pinner_key_slice_request:
  "keeps_inv legal_trace (send_get_pinner_key_slice_request H i p d it)"
  unfolding send_get_pinner_key_slice_request_def by (rule legal_rules | simp)+

lemma sg_ok_executor:
  "sg_ok it \<Longrightarrow> sg_ok (it\<lparr>sg_executor := Some e, sg_deployment_candidates := []\<rparr>)"
  by (auto simp: sg_ok_def ready_send_to_executor_def)

lemma legal_sg_on_executor_ra_success:
  "kv_faithful H \<Longrightarrow> keeps_inv legal_trace (sg_on_executor_ra_success H i p k)"
  unfolding sg_on_executor_ra_success_def pop_all_candidates_def Let_def case_prod_conv
  by (rule legal_rules legal_sg_save legal_sg_try_send_to_executor
      legal_send_get_pinner_key_slice_request
    | simp add: sg_ok_executor)+

lemma sg_ok_deployment:
  "sg_ok it \<Longrightarrow> insert_deployment d p it = Inr it' \<Longrightarrow> sg_ok it'"
  by (auto simp: sg_ok_def insert_deployment_def ready_send_to_executor_def split: option.splits)

lemma legal_on_pinner_ra_success:
  "kv_faithful H \<Longrightarrow> keeps_inv legal_trace (on_pinner_ra_success H i p d)"
  unfolding on_pinner_ra_success_def
  by (rule legal_rules legal_sg_save legal_send_get_pinner_key_slice_request
    | simp add: sg_ok_deployment)+

lemma legal_sg_operation_after_verify_handler:
  "kv_faithful H \<Longrightarrow> keeps_inv legal_trace (sg_operation_after_verify_handler H p e item)"
  unfolding sg_operation_after_verify_handler_def
  by (rule legal_rules legal_sg_on_executor_ra_success legal_on_pinner_ra_success | simp)+

section \<open>The executor, the initial pinner and the pinner\<close>

lemma legal_executor_candidate_callback:
  "keeps_inv legal_trace (executor_candidate_callback H p req)"
  unfolding executor_candidate_callback_def ex_check_capabilities_def
  by (rule legal_rules legal_send_key_generation_request | simp)+

lemma legal_pinner_candidate_callback:
  "keeps_inv legal_trace (pinner_candidate_callback H p req)"
  unfolding pinner_candidate_callback_def ip_check_capabilities_def
  by (rule legal_rules legal_send_key_generation_request | simp)+

lemma legal_candidate_request_handlers:
  "keeps_inv legal_trace (ex_task_key_generation_candidate_request_handler H p req)"
  "keeps_inv legal_trace (ip_task_key_generation_candidate_request_handler H p req)"
  unfolding ex_task_key_generation_candidate_request_handler_def
    ip_task_key_generation_candidate_request_handler_def
  by (rule legal_rules legal_verify_to_candidate_signature | simp)+

lemma legal_encrypt_slices: "keeps_inv legal_trace (encrypt_slices H ss i ps)"
proof (induction ps arbitrary: i)
  case (Cons p ps)
  note IH = this
  show ?case
    unfolding encrypt_slices.simps by (rule IH legal_rules | simp)+
qed (simp add: legal_return)

lemma legal_generate_task_execution_response:
  "keeps_inv legal_trace (generate_task_execution_response H item req)"
  unfolding generate_task_execution_response_def generate_key_by_type_def
    generate_multi_sig_account_def Let_def
  by (rule legal_rules legal_encrypt_slices | simp)+

lemma legal_task_execution_request_handler:
  "keeps_inv legal_trace (task_execution_request_handler H req p r)"
  unfolding task_execution_request_handler_def Let_def
  by (rule legal_rules legal_generate_task_execution_response | simp)+

lemma legal_process_sign_with_key_slices_handler:
  "keeps_inv legal_trace (process_sign_with_key_slices_handler H p req)"
  unfolding process_sign_with_key_slices_handler_def send_sign_request_def ex_check_capabilities_def
  by (rule legal_rules | simp)+

lemma legal_task_sign_with_key_slices_response_handler:
  "keeps_inv legal_trace (task_sign_with_key_slices_response_handler H req p r)"
  unfolding task_sign_with_key_slices_response_handler_def sign_decrypt_key_slice_def Let_def
  by (rule legal_rules | simp)+

lemma legal_register_upload_rsa_key_callback:
  "keeps_inv legal_trace (register_upload_rsa_key_callback H s req cont msg)"
  unfolding register_upload_rsa_key_callback_def by (rule legal_rules legal_decrypt_key_slice | simp)+

lemma legal_process_data_upload_callback:
  "keeps_inv legal_trace (process_data_upload_callback H cont msg)"
  unfolding process_data_upload_callback_def
  by (cases cont) (rule legal_rules | simp)+

lemma legal_task_pinner_key_slice_request_handler:
  "keeps_inv legal_trace (task_pinner_key_slice_request_handler H req p r)"
  unfolding task_pinner_key_slice_request_handler_def trying_get_initial_pinner_store_item_def
    deploy_key_slice_def Let_def
  by (rule legal_rules | simp)+

lemma legal_asset_generated:
  "keeps_inv legal_trace (trying_commit_data_upload H i ms)"
  "keeps_inv legal_trace (update_conflict_list H ms ids)"
  unfolding trying_commit_data_upload_def update_conflict_list_def Let_def
  by (rule legal_rules | simp)+

lemma legal_pinner_key_slice:
  "keeps_inv legal_trace (pinner_task_sign_with_key_slices_request_handler H sreq p r)"
  "keeps_inv legal_trace (pinner_key_slice_callback H sreq p r cid key)"
  unfolding pinner_task_sign_with_key_slices_request_handler_def pinner_key_slice_callback_def
  by (rule legal_rules | simp)+

section \<open>The dispatcher\<close>

lemma legal_portal:
  "keeps_inv legal_trace (key_generation_request_handler H msg)"
  "keeps_inv legal_trace (key_generation_ready_callback H body ready)"
  "keeps_inv legal_trace (sign_with_key_slices_handler H msg)"
  "keeps_inv legal_trace (sign_ready_callback H body ready)"
  "keeps_inv legal_trace (asset_generated_event_handler H msg)"
  unfolding key_generation_request_handler_def key_generation_ready_callback_def
    sign_with_key_slices_handler_def sign_ready_callback_def asset_generated_event_handler_def
    process_key_generation_event_def process_sign_with_key_slices_event_def
  by (rule legal_rules legal_try_to_be_delegator legal_asset_generated | simp)+

lemma legal_dump_operation: "keeps_inv legal_trace (dump_operation H op h e)"
  by (cases op) (simp_all add: Let_def, (rule legal_rules | simp)+)

lemma legal_dump_methods:
  "keeps_inv legal_trace (get_delegator_pub_key_callback H r op msg)"
  "keeps_inv legal_trace (generate_sign_response_message H msg)"
  "keeps_inv legal_trace (generate_key_gen_response_message H msg)"
  unfolding get_delegator_pub_key_callback_def generate_sign_response_message_def
    generate_key_gen_response_message_def delegator_key_operation_def Let_def
  by (rule legal_rules legal_dump_operation | simp)+

lemma legal_run_msg_callback:
  assumes "kv_faithful H" "msg_callback_ok cb"
  shows "keeps_inv legal_trace (run_msg_callback H cb msg)"
proof (cases cb)
  case (CbGetDelegatorKey e h cont)
  then show ?thesis
    by (cases cont)
      (auto intro!: legal_get_delegator_key_callback legal_key_generation_event_callback
        legal_get_deployment_ids)
next
  case (CbGetDelegates info op cont)
  then show ?thesis
    using assms
    by (cases cont)
      (auto intro!: legal_get_delegates_callback legal_invite_candidate_initial_pinners
        legal_find_pinners_callback)
qed (use assms in \<open>auto intro!: legal_return legal_register_upload_rsa_key_callback
      legal_process_data_upload_callback legal_close_p2p_connections
      legal_get_deployment_ids_callback legal_dump_methods\<close>)

lemma legal_run_profile_callback:
  assumes "profile_callback_ok cb"
  shows "keeps_inv legal_trace (run_profile_callback H cb p)"
proof (cases cb)
  case (CbVerifyCandidate q cont)
  then show ?thesis
    by (cases cont)
      (auto simp: verify_candidate_callback_def
        intro!: legal_executor_candidate_callback legal_pinner_candidate_callback keeps_failA)
next
  case (CbInviteCandidate info op)
  then show ?thesis
    using assms by (cases op) (auto intro!: legal_send_key_candidate_request legal_sign_candidate_op)
qed

fun invocation_ok :: "invocation \<Rightarrow> bool" where
  "invocation_ok (InvokeMsg cb msg) \<longleftrightarrow> msg_callback_ok cb"
| "invocation_ok (InvokeProfile cb p) \<longleftrightarrow> profile_callback_ok cb"
| "invocation_ok i \<longleftrightarrow> True"

lemma legal_run_invocation:
  assumes "kv_faithful H" "invocation_ok i"
  shows "keeps_inv legal_trace (run_invocation H i)"
  using assms
proof (induction H i rule: run_invocation.induct)
  case (3 H cb ready)
  then show ?case by (cases cb) (simp_all add: legal_portal)
qed (simp_all add: legal_run_msg_callback legal_run_profile_callback legal_pinner_key_slice)

lemma registered_ok: "legal_trace t \<Longrightarrow> e \<in> set t \<Longrightarrow> registers e i \<Longrightarrow> invocation_ok i"
  by (cases "(e, i)" rule: registers.cases) (auto simp: legal_trace_def list_all_iff)

lemma keeps_prim_value:
  "(\<And>t. I t \<Longrightarrow> I (e # t)) \<Longrightarrow> (\<And>t x. I t \<Longrightarrow> f t = Inr x \<Longrightarrow> Q x) \<Longrightarrow> keeps I Q (prim f e)"
  by (auto simp: keeps_def prim_def)

lemma legal_result_handler:
  assumes "kv_faithful H" "inbox_faithful H"
  shows "keeps_inv legal_trace (result_handler H msg uuid)"
proof -
  have "keeps legal_trace (\<lambda>i. i = None \<or> invocation_ok (the i))
      (prim (\<lambda>t. h_result_handler H t msg uuid) (EPrim ''result_handler''))"
  proof (rule keeps_prim_value)
    fix t x assume "legal_trace t" "h_result_handler H t msg uuid = Inr x"
    then show "x = None \<or> invocation_ok (the x)"
      using assms(2) registered_ok by (cases x) (auto simp: inbox_faithful_def, blast)
  qed simp
  then show ?thesis
    unfolding result_handler_def
    by (rule keeps_bindA)
      (auto intro!: legal_return legal_run_invocation assms split: option.splits)
qed

lemma legal_handle_general_msg:
  assumes "kv_faithful H"
  shows "keeps_inv legal_trace (handle_general_msg H m p r)"
  by (cases m)
    (use assms in \<open>auto intro!: legal_task_key_generation_apply_request_handler
      legal_task_execution_request_handler legal_process_task_execution_response
      legal_task_pinner_key_slice_request_handler legal_process_task_pinner_key_slice_response
      legal_process_executor_sign_request legal_task_sign_with_key_slices_response_handler
      legal_pinner_key_slice legal_process_pinner_key_slice_response
      legal_process_commit_sign_result_request legal_candidate_request_handlers
      legal_process_sign_with_key_slices_handler legal_call\<close>)

lemma legal_lib_handlers:
  assumes "kv_faithful H"
  shows "keeps_inv legal_trace (listen_p2p_message H p msg)"
    "keeps_inv legal_trace (pinner_server_check_strategy H msg)"
    "keeps_inv legal_trace (pinner_client_operation_after_verify H msg)"
  unfolding listen_p2p_message_def pinner_server_check_strategy_def
    pinner_client_operation_after_verify_def Let_def
  by (rule legal_rules legal_handle_general_msg [OF assms]
      legal_kg_operation_after_verify_handler [OF assms]
      legal_sg_operation_after_verify_handler [OF assms]
    | simp)+

lemma legal_handle_message:
  assumes "kv_faithful H" "inbox_faithful H"
  shows "keeps_inv legal_trace (handle_message H msg)"
  unfolding handle_message_def
  by (rule legal_list keeps_if legal_return legal_portal legal_dump_methods
      legal_lib_handlers [OF assms(1)] legal_result_handler [OF assms])+

lemma legal_reachable:
  assumes "kv_faithful H" "inbox_faithful H" "reachable H t"
  shows "legal_trace t"
  using reachable_keeps [OF assms(3), of legal_trace] legal_handle_message [OF assms(1,2)] by simp

text \<open>C6: in every run of the actor over a faithful key/value provider and inbox, whatever the other
  nodes send, whatever fails and in whatever order callbacks run, every stored value is a
  well-formed item (or text) under a key of its own kind.\<close>

theorem stored_items_wellformed:
  assumes "kv_faithful H" "inbox_faithful H" "reachable H t" "stored t k = Some v"
  shows "stored_ok k v"
  using legal_stored [OF legal_reachable [OF assms(1-3)] assms(4)] .

theorem stored_items_wellformed_witness:
  "\<exists>it. stored scenario_trace (kg_task_store_item_key ''task'') = Some (VKeyGen it) \<and> kg_ok it"
proof -
  have "case stored scenario_trace (kg_task_store_item_key ''task'') of Some (VKeyGen it) \<Rightarrow> True | _ \<Rightarrow> False"
    by code_simp
  then show ?thesis
    using stored_items_wellformed [OF scenario_host_faithful scenario_reachable,
        of "kg_task_store_item_key ''task''"]
    by (auto split: option.splits kv_val.splits)
qed

text \<open>What a request to an executor is made of: the task it is for, as it is stored, and candidates
  of this task.\<close>

lemma request_from_task:
  assumes "kv_faithful H" "inbox_faithful H" "reachable H (new @ ESend p i (TaskExecutionRequest r) # old)"
  shows "\<exists>it. latest_kg old i = Some it \<and> kg_status it = InvitedCandidates \<and> ter_task_id r = i \<and>
    length (ter_initial_pinners r) = unat (kg_n it) \<and> ter_minimum_recovery_number r = ucast (kg_k it) \<and>
    p \<in> xi_peer_id ` set (kg_candidate_executors it) \<and>
    add_mset p (mset (map tep_peer_id (ter_initial_pinners r))) \<subseteq>#
      mset (map xi_peer_id (kg_candidate_executors it)) + mset (map pi_peer_id (kg_candidate_initial_pinners it))"
proof -
  obtain it it' e where it: "latest_kg old i = Some it" "kg_status it = InvitedCandidates"
    and elected: "elected H it it'" and e: "kg_executor it' = Some e"
    and p: "p = xi_peer_id e" and r: "r = generate_request it'"
    using reachable_follows [OF assms(1,3)] by auto
  have "stored old (kg_task_store_item_key i) = Some (VKeyGen it)"
    using it(1) by (simp add: latest_kg_def split: option.splits kv_val.splits)
  moreover have "legal_trace old"
    using legal_reachable [OF assms] by (simp add: legal_trace_def)
  ultimately have "stored_ok (kg_task_store_item_key i) (VKeyGen it)"
    using legal_stored by blast
  then have "ti_task_id (kg_task_info it) = i" and empty: "kg_initial_pinners it = []"
    using it(2) by (auto simp: kg_ok_def less_kg_state_def)
  moreover have "length (kg_initial_pinners it') = unat (kg_n it')" "elect it = Ok it'"
    using elected by (simp_all add: elected_def request_ready_def)
  moreover note chosen = elected_candidates [OF this(2) empty e]
  have "add_mset p (mset (map tep_peer_id (ter_initial_pinners r))) \<subseteq>#
      mset (map xi_peer_id (kg_candidate_executors it)) + mset (map pi_peer_id (kg_candidate_initial_pinners it))"
    using image_mset_subseteq_mono [OF chosen(1), of pi_peer_id]
    by (simp add: p r generate_request_def initial_pinner_info_from_def multiset.map_comp o_def)
  ultimately show ?thesis
    using it chosen(2) elected_fields(1) [OF elected] by (simp add: p r generate_request_def)
qed

text \<open>C7: in every such run, each message the actor sends that hands out work carries a sound
  threshold: candidates are invited to a task of \<open>k\<close> of \<open>n\<close> slices with 0 < \<open>k\<close> < \<open>n\<close> < 256, and slices
  are only passed to the executor of a signature when there are some. An executor is asked for
  exactly as many slices, and for the \<open>k\<close>, of the task of this id as it is stored at that moment,
  with all candidates invited; it and the pinners are drawn from the candidates of the task, each
  used once.\<close>

theorem sent_messages_sound:
  assumes "kv_faithful H" "inbox_faithful H" "reachable H (new @ ESend p i m # old)"
  shows "msg_ok m \<and>
    (\<forall>r. m = TaskExecutionRequest r \<longrightarrow>
      (\<exists>it. latest_kg old i = Some it \<and> kg_status it = InvitedCandidates \<and> ter_task_id r = i \<and>
        length (ter_initial_pinners r) = unat (kg_n it) \<and> ter_minimum_recovery_number r = ucast (kg_k it) \<and>
        p \<in> xi_peer_id ` set (kg_candidate_executors it) \<and>
        add_mset p (mset (map tep_peer_id (ter_initial_pinners r))) \<subseteq>#
          mset (map xi_peer_id (kg_candidate_executors it)) +
          mset (map pi_peer_id (kg_candidate_initial_pinners it))))"
  using legal_reachable [OF assms] request_from_task [OF assms(1,2)] assms(3)
  by (auto simp: legal_trace_def)

theorem sent_messages_sound_witness:
  "\<exists>r it. ESend ''e'' ''task'' (TaskExecutionRequest r) \<in> set scenario_trace \<and>
     sound_threshold (unat (ter_minimum_recovery_number r)) (length (ter_initial_pinners r)) \<and>
     latest_kg (before is_hand_out scenario_trace) ''task'' = Some it \<and>
     length (ter_initial_pinners r) = unat (kg_n it)"
proof -
  obtain r where found: "find is_hand_out scenario_trace = Some (ESend ''e'' ''task'' (TaskExecutionRequest r))"
    using scenario_hand_out by (auto split: option.splits event.splits general_msg.splits)
  have "reachable scenario_host (since is_hand_out scenario_trace @
      ESend ''e'' ''task'' (TaskExecutionRequest r) # before is_hand_out scenario_trace)"
    using scenario_reachable split_at_event [OF found] by simp
  from sent_messages_sound [OF scenario_host_faithful this] event_found(2) [OF found]
  show ?thesis
    by auto
qed

end
