(* ===== verification/Gluon_Sign_Protocol.thy ===== *)
theory Gluon_Sign_Protocol
  imports Gluon_Sign
begin

text \<open>
  What the delegator of a sign task achieves: the attestations of the executor and of the pinners
  bring back what was asked for, the first attested executor is the only one and gets the slices
  of the pinners that were waiting for it, and the slices found are passed on as soon as there
  are enough of them.
\<close>

section \<open>The slices of the pinners\<close>

text \<open>A slice that arrives: its peer, its deployment and the encrypted slice; each is a run of the
  handler of its own.\<close>

type_synonym slice_answer = "string \<times> string \<times> bytes"

definition slice_all :: "host \<Rightarrow> string \<Rightarrow> string \<Rightarrow> slice_answer list \<Rightarrow> trace \<Rightarrow> trace" where
  "slice_all H task_id reply_to as t = fold
     (\<lambda>(peer, deployment_id, sl) t. snd (process_pinner_key_slice_response H
        \<lparr>sgs_task_id = task_id, sgs_encrypted_key_slice = sl, sgs_deployment_id = deployment_id\<rparr>
        peer reply_to t)) as t"

definition slice_infos :: "slice_answer list \<Rightarrow> (string \<times> key_slice_info) list" where
  "slice_infos as = map (\<lambda>(peer, deployment_id, sl). (deployment_id,
     \<lparr>ks_peer_id = peer, ks_encrypted_key_slice = sl\<rparr>)) as"

definition slices_of :: "slice_answer list \<Rightarrow> bytes list" where
  "slices_of as = map (\<lambda>(peer, deployment_id, sl). sl) as"

text \<open>The task after the slices \<open>as\<close> have arrived from deployments in \<open>D\<close>.\<close>

definition sliced_by :: "string set \<Rightarrow> slice_answer list \<Rightarrow> sg_item \<Rightarrow> sg_item \<Rightarrow> bool" where
  "sliced_by D as it it' \<longleftrightarrow>
     hm_wf (sg_key_slices it') \<and>
     (\<forall>d. hm_get (sg_key_slices it') d = (if d \<in> D then Some (map_of (slice_infos as) d) else None)) \<and>
     sg_task_info it' = sg_task_info it \<and> sg_executor it' = sg_executor it \<and>
     sg_transaction_data it' = sg_transaction_data it \<and> sg_p1_signature it' = sg_p1_signature it"

lemma slice_infos_simps [simp]:
  "map fst (slice_infos as) = map (\<lambda>(p, d, s). d) as"
  "fst ` set (slice_infos as) = (\<lambda>(p, d, s). d) ` set as"
  "map (ks_encrypted_key_slice \<circ> snd) (slice_infos as) = slices_of as"
  "length (slice_infos as) = length as"
  "slice_infos (as @ bs) = slice_infos as @ slice_infos bs"
  by (simp_all add: slice_infos_def slices_of_def image_image case_prod_beta o_def)

lemma sliced_found:
  assumes "sliced_by D as it it'" "distinct (map (\<lambda>(p, d, s). d) as)" "(\<lambda>(p, d, s). d) ` set as \<subseteq> D"
  shows "ready_send_to_executor it' \<longleftrightarrow> unat (sg_k it) \<le> length as"
    and "mset (get_encrypted_key_slices H it') = mset (slices_of as)"
proof -
  have wf: "hm_wf (sg_key_slices it')"
    and get: "hm_get (sg_key_slices it') d = (if d \<in> D then Some (map_of (slice_infos as) d) else None)" for d
    using assms(1) by (simp_all add: sliced_by_def)
  have "distinct (map fst (slice_infos as))" "fst ` set (slice_infos as) \<subseteq> D"
    using assms(2,3) by simp_all
  note filled = mset_filled [OF wf get this] length_filled [OF wf get this]
  show "ready_send_to_executor it' \<longleftrightarrow> unat (sg_k it) \<le> length as"
    using filled(2) assms(1) by (simp add: ready_send_to_executor_def sliced_by_def)
  have "get_encrypted_key_slices H it' = map ks_encrypted_key_slice
      (List.map_filter snd (hm_entries (h_key_order H) (sg_key_slices it')))"
  proof -
    have "List.map_filter (\<lambda>(_, v). map_option ks_encrypted_key_slice v) es =
        map ks_encrypted_key_slice (List.map_filter snd es)" for es :: "(string \<times> key_slice_info option) list"
      by (induction es) (auto simp: List.map_filter_simps split: option.splits)
    then show ?thesis by (simp add: get_encrypted_key_slices_def)
  qed
  also have "mset \<dots> = mset (map ks_encrypted_key_slice (List.map_filter snd (sg_key_slices it')))"
    by (simp only: mset_map mset_map_filter mset_hm_entries [OF wf])
  also have "\<dots> = mset (slices_of as)"
    using filled(1) slice_infos_simps(3) [of as] by (simp only: mset_map) (metis mset_map map_map)
  finally show "mset (get_encrypted_key_slices H it') = mset (slices_of as)" .
qed

lemma sg_try_send_sends:
  assumes "working H" "ready_send_to_executor it" "sg_executor it = Some e"
  shows "sg_try_send_to_executor H it t = (Ok (), EUnlock (sg_task_id it) #
     ESet (sg_task_store_item_key (sg_task_id it)) (VSign (it\<lparr>sg_status := SgSentToExecutor\<rparr>)) None #
     ELock (sg_task_id it) # ESend (xi_peer_id e) (sg_task_id it) (TaskSignWithKeySlicesResponse
       \<lparr>sws_task_id = sg_task_id it, sws_adhoc_data = sg_transaction_data it,
        sws_p1_signature = sg_p1_signature it,
        sws_key_type = ei_task_type (ti_exec_info (sg_task_info it)),
        sws_encrypted_key_slices = get_encrypted_key_slices H it\<rparr>) # t)"
  using assms
  by (simp add: sg_try_send_to_executor_def act_simps Let_def bindA_app(1) [OF require_app(1)]
      seqA_app(1) [OF working_call] working_sg_save)

lemma sliced_by_next:
  assumes "sliced_by D as it it'" "d \<in> D" "d \<notin> (\<lambda>(p, d, s). d) ` set as"
  shows "has_found_key_slice it' d = False"
    and "\<exists>it''. insert_key_slice_info d \<lparr>ks_peer_id = p, ks_encrypted_key_slice = s\<rparr> it' = Inr it'' \<and>
      sliced_by D (as @ [(p, d, s)]) it it'' \<and> sliced_by D (as @ [(p, d, s)]) it (it''\<lparr>sg_status := st\<rparr>)"
proof -
  have get: "hm_get (sg_key_slices it') d = Some None"
    and none: "map_of (slice_infos as) d = None"
    using assms by (auto simp: sliced_by_def map_of_eq_None_iff)
  then show "has_found_key_slice it' d = False"
    by (simp add: has_found_key_slice_def)
  have "slice_infos [(p, d, s)] = [(d, \<lparr>ks_peer_id = p, ks_encrypted_key_slice = s\<rparr>)]"
    by (simp add: slice_infos_def)
  then show "\<exists>it''. insert_key_slice_info d \<lparr>ks_peer_id = p, ks_encrypted_key_slice = s\<rparr> it' = Inr it'' \<and>
      sliced_by D (as @ [(p, d, s)]) it it'' \<and> sliced_by D (as @ [(p, d, s)]) it (it''\<lparr>sg_status := st\<rparr>)"
    using assms get none
    by (auto simp: insert_key_slice_info_def sliced_by_def map_add_def split: option.splits)
qed

text \<open>C9: whatever the order in which the slices of different deployments arrive, nothing is sent to
  the executor before the \<open>k\<close>-th; with the \<open>k\<close>-th, and again with every further one, the executor
  is sent all the slices found so far, each once.\<close>

theorem slices_forwarded:
  assumes "working H" "stored t (sg_task_store_item_key i) = Some (VSign it)"
    and "sg_task_id it = i" "sg_executor it = Some e" "0 < unat (sg_k it)" "sliced_by D [] it it"
    and "distinct (map (\<lambda>(p, d, s). d) as)" "(\<lambda>(p, d, s). d) ` set as \<subseteq> D"
  shows "\<exists>it' ms. stored (slice_all H i r as t) (sg_task_store_item_key i) = Some (VSign it') \<and>
    sliced_by D as it it' \<and>
    sends (slice_all H i r as t) =
      map (\<lambda>m. (xi_peer_id e, i, TaskSignWithKeySlicesResponse m)) ms @ sends t \<and>
    map (\<lambda>m. mset (sws_encrypted_key_slices m)) ms =
      map (\<lambda>j. mset (slices_of (take j as))) (rev [unat (sg_k it)..<Suc (length as)]) \<and>
    (if unat (sg_k it) \<le> length as then sg_status it' = SgSentToExecutor else sg_status it' = sg_status it)"
  using assms(7,8)
proof (induction as rule: rev_induct)
  case Nil
  then show ?case using assms(2,5,6) by (simp add: slice_all_def)
next
  case (snoc a as)
  obtain p d s where a: "a = (p, d, s)" by (cases a)
  let ?t = "slice_all H i r as t"
  obtain it' ms where IH: "stored ?t (sg_task_store_item_key i) = Some (VSign it')"
    "sliced_by D as it it'"
    "sends ?t = map (\<lambda>m. (xi_peer_id e, i, TaskSignWithKeySlicesResponse m)) ms @ sends t"
    "map (\<lambda>m. mset (sws_encrypted_key_slices m)) ms =
      map (\<lambda>j. mset (slices_of (take j as))) (rev [unat (sg_k it)..<Suc (length as)])"
    "if unat (sg_k it) \<le> length as then sg_status it' = SgSentToExecutor else sg_status it' = sg_status it"
    using snoc by auto
  have d: "d \<in> D" "d \<notin> (\<lambda>(p, d, s). d) ` set as"
    using snoc.prems by (auto simp: a)
  obtain it'' where it'': "insert_key_slice_info d \<lparr>ks_peer_id = p, ks_encrypted_key_slice = s\<rparr> it' = Inr it''"
    "sliced_by D (as @ [a]) it it''" "sliced_by D (as @ [a]) it (it''\<lparr>sg_status := SgSentToExecutor\<rparr>)"
    using sliced_by_next(2) [OF IH(2) d, where st = SgSentToExecutor] unfolding a by blast
  have fields: "sg_task_id it'' = i" "sg_executor it'' = Some e" "sg_status it'' = sg_status it'"
    using it''(1,2) assms(3,4)
    by (auto simp: sliced_by_def insert_key_slice_info_def split: option.splits)
  note found = sliced_found [OF it''(2) snoc.prems]
  have prefixes: "map (\<lambda>j. mset (slices_of (take j (as @ [a])))) (rev [unat (sg_k it)..<Suc (length as)]) =
      map (\<lambda>j. mset (slices_of (take j as))) (rev [unat (sg_k it)..<Suc (length as)])"
    by (rule map_cong) auto
  have step: "slice_all H i r (as @ [a]) t = snd (sg_try_send_to_executor H it''
      (EClose p # EUnlock i # ESet (sg_task_store_item_key i) (VSign it'') None # ELock i #
       EUnlock i # EGet (sg_task_store_item_key i) # ELock i # ?t))"
    using sliced_by_next(1) [OF IH(2) d] fields it''(1) working_sg_get [OF assms(1) IH(1)]
    by (simp add: slice_all_def a process_pinner_key_slice_response_def act_simps
        bindA_app(1) [OF pure_app(1)] seqA_app(1) [OF working_sg_save [OF assms(1)]]
        seqA_app(1) [OF working_call [OF assms(1)]])
  show ?case
  proof (cases "unat (sg_k it) \<le> length (as @ [a])")
    case False
    then have "\<not> ready_send_to_executor it''" using found(1) by simp
    then have "slice_all H i r (as @ [a]) t = EClose p # EUnlock i #
        ESet (sg_task_store_item_key i) (VSign it'') None # ELock i #
        EUnlock i # EGet (sg_task_store_item_key i) # ELock i # ?t"
      unfolding step by (simp add: sg_try_send_to_executor_def act_simps)
    then show ?thesis
      using IH False it''(2) fields by (intro exI [of _ it''] exI [of _ ms]) auto
  next
    case True
    then have ready: "ready_send_to_executor it''" using found(1) by simp
    let ?m = "\<lparr>sws_task_id = sg_task_id it'', sws_adhoc_data = sg_transaction_data it'',
        sws_p1_signature = sg_p1_signature it'',
        sws_key_type = ei_task_type (ti_exec_info (sg_task_info it'')),
        sws_encrypted_key_slices = get_encrypted_key_slices H it''\<rparr>"
    note sent = step [unfolded sg_try_send_sends [OF assms(1) ready fields(2)]]
    show ?thesis
      using IH True it''(3) fields found(2) sent prefixes
      by (intro exI [of _ "it''\<lparr>sg_status := SgSentToExecutor\<rparr>"] exI [of _ "?m # ms"]) simp
  qed
qed

definition sample_sign :: "executor_info option \<Rightarrow> sg_item" where
  "sample_sign e =
     \<lparr>sg_task_info = \<lparr>ti_task_id = ''task'',
        ti_exec_info = \<lparr>ei_n = 2, ei_k = 1, ei_task_type = ''bitcoin_mainnet''\<rparr>\<rparr>,
      sg_status = FindingDeployments, sg_executor = e, sg_multi_sig_account = [3],
      sg_p1_signature = [4], sg_transaction_data = [5], sg_nonce = [],
      sg_key_slices = [(''d'', None), (''c'', None)],
      sg_deployment_candidates = [(''d'', [''p'', ''q'']), (''c'', [])]\<rparr>"

theorem slices_forwarded_witness:
  "\<exists>ms. sends (slice_all memory_host ''task'' ''r'' [(''p'', ''c'', [1]), (''q'', ''d'', [2])]
      [ESet (sg_task_store_item_key ''task'') (VSign (sample_sign (Some (sample_executor ''e'')))) None]) =
     map (\<lambda>m. (''e'', ''task'', TaskSignWithKeySlicesResponse m)) ms \<and>
     map (\<lambda>m. mset (sws_encrypted_key_slices m)) ms = [{#[1], [2]#}, {#[1]#}]"
proof -
  have "sliced_by {''c'', ''d''} [] (sample_sign (Some (sample_executor ''e'')))
      (sample_sign (Some (sample_executor ''e'')))"
    by (auto simp: sliced_by_def sample_sign_def hm_wf_def hm_get_def slice_infos_def)
  then show ?thesis
    using slices_forwarded [of memory_host
        "[ESet (sg_task_store_item_key ''task'') (VSign (sample_sign (Some (sample_executor ''e'')))) None]"
        "''task''" "sample_sign (Some (sample_executor ''e''))" "sample_executor ''e''" "{''c'', ''d''}"
        "[(''p'', ''c'', [1]), (''q'', ''d'', [2])]" "''r''"]
    by (auto simp: memory_host_working sample_sign_def sample_executor_def slices_of_def upt_rec)
qed

text \<open>C25: a second slice for a deployment, and a slice for a deployment of another account, change
  nothing: the first is rejected to its sender, the second is an error.\<close>

theorem slice_refused:
  assumes "working H" "stored t (sg_task_store_item_key (sgs_task_id res)) = Some (VSign it)"
    and "hm_get (sg_key_slices it) (sgs_deployment_id res) \<noteq> Some None"
  shows "\<exists>r t'. process_pinner_key_slice_response H res peer_id reply_to t = (r, t') \<and>
    stored t' = stored t \<and> sends t' = sends t \<and>
    (case hm_get (sg_key_slices it) (sgs_deployment_id res) of
       None \<Rightarrow> r = Err (DeploymentNotExists (sgs_deployment_id res))
     | Some _ \<Rightarrow> r = Ok () \<and> (\<exists>text. hd t' = ERejectP2p reply_to peer_id (sgs_task_id res) text))"
proof (cases "hm_get (sg_key_slices it) (sgs_deployment_id res)")
  case None
  then show ?thesis
    using working_sg_get [OF assms(1,2)]
    by (auto simp: process_pinner_key_slice_response_def has_found_key_slice_def act_simps
        insert_key_slice_info_def fun_eq_iff bindA_app(2) [OF pure_app(2)])
next
  case (Some found)
  then show ?thesis
    using assms(3) working_sg_get [OF assms(1,2)]
    by (auto simp: process_pinner_key_slice_response_def has_found_key_slice_def act_simps
        fun_eq_iff working_call [OF assms(1)])
qed

theorem slice_refused_witness:
  "fst (process_pinner_key_slice_response memory_host
      \<lparr>sgs_task_id = ''task'', sgs_encrypted_key_slice = [1], sgs_deployment_id = ''x''\<rparr> ''p'' ''r''
      [ESet (sg_task_store_item_key ''task'') (VSign (sample_sign None)) None]) =
     Err (DeploymentNotExists ''x'')"
  using slice_refused [of memory_host "[ESet (sg_task_store_item_key ''task'') (VSign (sample_sign None)) None]"
      "\<lparr>sgs_task_id = ''task'', sgs_encrypted_key_slice = [1], sgs_deployment_id = ''x''\<rparr>"
      "sample_sign None" "''p''" "''r''"]
  by (auto simp: memory_host_working sample_sign_def hm_get_def)

section \<open>The executor and the pinners that wait for it\<close>

text \<open>What each waiting pinner is asked for.\<close>

definition slice_requests :: "string \<Rightarrow> bytes \<Rightarrow> string list hmap \<Rightarrow> (string \<times> string \<times> general_msg) list" where
  "slice_requests task_id key candidates = concat (map (\<lambda>(d, ps). map (\<lambda>p. (p, task_id,
     TaskSignGetPinnerKeySliceRequest
       \<lparr>sgr_task_id = task_id, sgr_rsa_pub_key = key, sgr_deployment_id = d\<rparr>)) ps) candidates)"

lemma for_each_sends:
  assumes "\<And>x t. x \<in> set xs \<Longrightarrow> \<exists>t'. f x t = (Ok (), t') \<and> sends t' = rev (out x) @ sends t \<and> stored t' = stored t"
  shows "\<exists>t'. for_each f xs t = (Ok (), t') \<and> sends t' = rev (concat (map out xs)) @ sends t \<and>
    stored t' = stored t"
  using assms
proof (induction xs arbitrary: t)
  case (Cons x xs)
  obtain t1 where t1: "f x t = (Ok (), t1)" "sends t1 = rev (out x) @ sends t" "stored t1 = stored t"
    using Cons.prems [of x t] by auto
  obtain t2 where "for_each f xs t1 = (Ok (), t2)" "sends t2 = rev (concat (map out xs)) @ sends t1"
    "stored t2 = stored t1"
    using Cons.IH [of t1] Cons.prems by auto
  then show ?case
    using t1 by (auto simp: act_simps)
qed (simp add: act_simps)

lemma ask_candidates:
  assumes "working H" "sg_executor it = Some e"
  shows "\<exists>t'. for_each (\<lambda>(d, ps). for_each (\<lambda>p. send_get_pinner_key_slice_request H i p d it) ps) cs t =
      (Ok (), t') \<and> sends t' = rev (slice_requests i (xi_rsa_pub_key e) cs) @ sends t \<and> stored t' = stored t"
  unfolding slice_requests_def
  by (rule for_each_sends)
    (use assms in \<open>auto simp: send_get_pinner_key_slice_request_def working_for_each_call o_def\<close>)

text \<open>C24: the first attested executor becomes the executor of the task, and each pinner attested
  before it is asked for its slice, once for each deployment it was found for, encrypted for this
  executor, where not enough slices are found yet, as is the case unless slices came unasked; a
  later attestation of an executor changes nothing.\<close>

theorem first_executor_served:
  assumes "working H" "stored t (sg_task_store_item_key i) = Some (VSign it)" "sg_task_id it = i"
    and "hm_wf (sg_deployment_candidates it)" "\<not> ready_send_to_executor it"
  shows "\<exists>t'. sg_on_executor_ra_success H i peer_id key t = (Ok (), t') \<and>
    (case sg_executor it of
       Some _ \<Rightarrow> stored t' = stored t \<and> sends t' = sends t
     | None \<Rightarrow>
         stored t' (sg_task_store_item_key i) = Some (VSign (it
           \<lparr>sg_executor := Some \<lparr>xi_peer_id = peer_id, xi_rsa_pub_key = key\<rparr>,
            sg_deployment_candidates := []\<rparr>)) \<and>
         mset (sends t') = mset (slice_requests i key (sg_deployment_candidates it)) + mset (sends t))"
proof (cases "sg_executor it")
  case (Some e)
  then show ?thesis
    using working_sg_get [OF assms(1,2)]
    by (auto simp: sg_on_executor_ra_success_def act_simps fun_eq_iff)
next
  case None
  let ?it = "it\<lparr>sg_executor := Some \<lparr>xi_peer_id = peer_id, xi_rsa_pub_key = key\<rparr>,
            sg_deployment_candidates := []\<rparr>"
  let ?cs = "hm_entries (h_key_order H) (sg_deployment_candidates it)"
  let ?t = "EUnlock i # ESet (sg_task_store_item_key i) (VSign ?it) None # ELock i #
     EUnlock i # EGet (sg_task_store_item_key i) # ELock i # t"
  have "sg_executor ?it = Some \<lparr>xi_peer_id = peer_id, xi_rsa_pub_key = key\<rparr>"
    by simp
  from ask_candidates [OF assms(1) this, of i ?cs ?t] obtain t' where t':
    "for_each (\<lambda>(d, ps). for_each (\<lambda>p. send_get_pinner_key_slice_request H i p d ?it) ps) ?cs ?t = (Ok (), t')"
    "sends t' = rev (slice_requests i key ?cs) @ sends t" "stored t' = stored ?t"
    by auto
  have "\<not> ready_send_to_executor ?it"
    using assms(5) by (simp add: ready_send_to_executor_def)
  then have "sg_on_executor_ra_success H i peer_id key t = (Ok (), t')"
    using None t'(1) working_sg_get [OF assms(1,2)] assms(3)
    by (simp add: sg_on_executor_ra_success_def act_simps pop_all_candidates_def Let_def
        seqA_app(1) [OF working_sg_save [OF assms(1)]])
  moreover have "mset (slice_requests i key ?cs) = mset (slice_requests i key (sg_deployment_candidates it))"
    unfolding slice_requests_def
    by (simp add: mset_concat mset_hm_entries [OF assms(4)] flip: sum_mset_sum_list)
  ultimately show ?thesis
    using None t'(2,3) by simp
qed

theorem first_executor_served_witness:
  "\<exists>t'. sg_on_executor_ra_success memory_host ''task'' ''e'' [9]
      [ESet (sg_task_store_item_key ''task'') (VSign (sample_sign None)) None] = (Ok (), t') \<and>
     mset (sends t') = mset (slice_requests ''task'' [9] [(''d'', [''p'', ''q'']), (''c'', [])])"
  using first_executor_served [of memory_host
      "[ESet (sg_task_store_item_key ''task'') (VSign (sample_sign None)) None]" "''task''"
      "sample_sign None" "''e''" "[9]"]
  by (auto simp: memory_host_working sample_sign_def hm_wf_def ready_send_to_executor_def)

text \<open>The encrypted slices a signature has found so far.\<close>

definition found_slices :: "sg_item \<Rightarrow> bytes multiset" where
  "found_slices it =
     mset (List.map_filter (\<lambda>(_, v). map_option ks_encrypted_key_slice v) (sg_key_slices it))"

lemma get_encrypted_found:
  "hm_wf (sg_key_slices it) \<Longrightarrow> mset (get_encrypted_key_slices H it) = found_slices it"
  by (simp add: get_encrypted_key_slices_def found_slices_def mset_map_filter mset_hm_entries)

lemma found_slices_more:
  assumes "hm_get (sg_key_slices it) d = Some None"
    and "it' = it\<lparr>sg_key_slices := hm_insert d (Some x) (sg_key_slices it)\<rparr>"
  shows "found_slices it' = add_mset (ks_encrypted_key_slice x) (found_slices it)"
proof -
  let ?g = "\<lambda>(_ :: string, v). map_option ks_encrypted_key_slice v"
  have "mset (List.map_filter ?g (hm_insert d (Some x) m)) =
      add_mset (ks_encrypted_key_slice x) (mset (List.map_filter ?g m))" if "hm_get m d = Some None" for m
    using that by (induction m) (auto simp: hm_get_def hm_insert_def List.map_filter_simps split: option.splits)
  then show ?thesis
    using assms by (simp add: found_slices_def)
qed

text \<open>C26: a slice that arrives after the result of the signature was committed reopens the task: the
  executor is sent again all slices found, together with the late one, for the transaction and
  the signature of the task, and the task counts as sent once more.\<close>

theorem late_slice_reopens:
  assumes "working H" "stored t (sg_task_store_item_key i) = Some (VSign it)" "sg_task_id it = i"
    and "sg_status it = CommitResult" "sg_executor it = Some e" "ready_send_to_executor it"
    and "hm_wf (sg_key_slices it)" "hm_get (sg_key_slices it) d = Some None"
  shows "\<exists>t' it' m. process_pinner_key_slice_response H
       \<lparr>sgs_task_id = i, sgs_encrypted_key_slice = s, sgs_deployment_id = d\<rparr> p r t = (Ok (), t') \<and>
     stored t' (sg_task_store_item_key i) = Some (VSign it') \<and> sg_status it' = SgSentToExecutor \<and>
     hm_get (sg_key_slices it') d = Some (Some \<lparr>ks_peer_id = p, ks_encrypted_key_slice = s\<rparr>) \<and>
     sends t' = (xi_peer_id e, i, TaskSignWithKeySlicesResponse m) # sends t \<and>
     mset (sws_encrypted_key_slices m) = add_mset s (found_slices it) \<and>
     sws_task_id m = i \<and> sws_adhoc_data m = sg_transaction_data it \<and>
     sws_p1_signature m = sg_p1_signature it"
proof -
  let ?it = "it\<lparr>sg_key_slices := hm_insert d
     (Some \<lparr>ks_peer_id = p, ks_encrypted_key_slice = s\<rparr>) (sg_key_slices it)\<rparr>"
  have more: "length (filter (\<lambda>(_, v). v \<noteq> None) m) \<le>
      length (filter (\<lambda>(_, v). v \<noteq> None) (AList.update d (Some x) m))" for m :: "key_slice_info option hmap" and x
    by (induction m) auto
  have ready: "ready_send_to_executor ?it"
    using assms(6) more [of "sg_key_slices it"]
    by (force simp: ready_send_to_executor_def hm_insert_def intro: order_trans)
  have exe: "sg_executor ?it = Some e"
    using assms(5) by simp
  have "mset (get_encrypted_key_slices H ?it) = add_mset s (found_slices it)"
    using assms(7) get_encrypted_found [of ?it H] found_slices_more [OF assms(8) refl] by simp
  then show ?thesis
    using assms(3,8) working_sg_get [OF assms(1,2)]
    by (simp add: process_pinner_key_slice_response_def act_simps has_found_key_slice_def
        insert_key_slice_info_def bindA_app(1) [OF pure_app(1)]
        seqA_app(1) [OF working_sg_save [OF assms(1)]] seqA_app(1) [OF working_call [OF assms(1)]]
        sg_try_send_sends [OF assms(1) ready exe])
qed

definition sample_committed :: sg_item where
  "sample_committed = sample_sign (Some (sample_executor ''e''))
     \<lparr>sg_status := CommitResult, sg_key_slices := [(''d'', None),
        (''c'', Some \<lparr>ks_peer_id = ''q'', ks_encrypted_key_slice = [1]\<rparr>)]\<rparr>"

theorem late_slice_reopens_witness:
  "\<exists>t' m. process_pinner_key_slice_response memory_host
       \<lparr>sgs_task_id = ''task'', sgs_encrypted_key_slice = [2], sgs_deployment_id = ''d''\<rparr> ''p'' ''r''
       [ESet (sg_task_store_item_key ''task'') (VSign sample_committed) None] = (Ok (), t') \<and>
     sends t' = [(''e'', ''task'', TaskSignWithKeySlicesResponse m)] \<and>
     mset (sws_encrypted_key_slices m) = {#[2], [1]#}"
  using late_slice_reopens [of memory_host
      "[ESet (sg_task_store_item_key ''task'') (VSign sample_committed) None]"
      "''task''" sample_committed "sample_executor ''e''" "''d''" "[2]" "''p''" "''r''"]
  by (auto simp: memory_host_working sample_committed_def sample_sign_def sample_executor_def
      ready_send_to_executor_def hm_get_def hm_wf_def found_slices_def List.map_filter_simps)

section \<open>The remote attestations of a signature\<close>

lemma sg_executor_property_values:
  "hm_wf (sg_executor_ra_properties H req)"
  "hm_get (sg_executor_ra_properties H req) PROPERTY_TASK_ID = Some (swr_task_id req)"
  "hm_get (sg_executor_ra_properties H req) PROPERTY_RSA_PUB_KEY =
     Some (h_base64_encode H (swr_rsa_pub_key req))"
  "hm_get (sg_executor_ra_properties H req) SG_PROPERTY_DELEGATOR_RA_TARGET_ROLE =
     Some VALUE_RA_TARGET_EXECUTOR"
  "hm_get (sg_executor_ra_properties H req) PROPERTY_SIGN_FLAG = Some BINDING_NAME"
  "hm_get (sg_executor_ra_properties H req) PROPERTY_KEY_GEN_FLAG = None"
  by (simp_all add: sg_executor_ra_properties_def tag_for_sign_def ra_property_defs sg_property_defs)

text \<open>C27: the attestation of the executor of a signature brings back the task and the public key it
  was asked for, is told apart from one of key generation, and is handled as the executor's.\<close>

theorem sg_attestation_roundtrip:
  assumes "h_base64_decode H (as_bytes (h_base64_encode H (swr_rsa_pub_key req))) = Inr (swr_rsa_pub_key req)"
    and "mset (cs_properties item) = mset (from_hash_map H (sg_executor_ra_properties H req))"
  shows "is_sign_tag item \<and> \<not> is_key_gen_tag item \<and>
    sg_operation_after_verify_handler H peer_id ephemeral_id item =
      sg_on_executor_ra_success H (swr_task_id req) peer_id (swr_rsa_pub_key req)"
proof -
  note found = found_in_map [OF sg_executor_property_values(1) assms(2)] sg_executor_property_values(2-)
  have "sg_is_executor_ra_response item" "is_sign_tag item" "\<not> is_key_gen_tag item"
    unfolding sg_is_executor_ra_response_def is_sign_tag_def is_key_gen_tag_def
      property_or_default_def found
    by (simp_all add: property_key_pair_default_def BINDING_NAME_def)
  then show ?thesis
    by (simp add: sg_operation_after_verify_handler_def found assms(1) fun_eq_iff act_simps)
qed

theorem sg_attestation_roundtrip_witness:
  "\<exists>item. is_sign_tag item \<and> sg_operation_after_verify_handler memory_host ''p'' [] item =
     sg_on_executor_ra_success memory_host ''task'' ''p'' (as_bytes ''key'')"
  using sg_attestation_roundtrip [of memory_host "\<lparr>swr_task_id = ''task'', swr_rsa_pub_key = as_bytes ''key''\<rparr>"
      "\<lparr>cs_uuid = '''', cs_properties = rev (from_hash_map memory_host (sg_executor_ra_properties
         memory_host \<lparr>swr_task_id = ''task'', swr_rsa_pub_key = as_bytes ''key''\<rparr>))\<rparr>" "''p''" "[]"]
  by (auto simp: as_bytes_def o_def)

text \<open>C28: the pinner actor returns the properties it was given for a deployment with the deployment
  added. A pinner found this way is taken for one of this task and this deployment.\<close>

theorem pinner_attestation_roundtrip:
  assumes "mset (cs_properties item) = mset (\<lparr>pp_key = PROPERTY_KEY_DEPLOYMENT_ID, pp_value = d\<rparr> #
      from_hash_map H (generate_pinner_ra_properties task_id))"
  shows "is_sign_tag item \<and> \<not> is_key_gen_tag item \<and>
    sg_operation_after_verify_handler H peer_id ephemeral_id item =
      on_pinner_ra_success H task_id peer_id d"
proof -
  let ?ps = "\<lparr>pp_key = PROPERTY_KEY_DEPLOYMENT_ID, pp_value = d\<rparr> #
      from_hash_map H (generate_pinner_ra_properties task_id)"
  have wf: "hm_wf (generate_pinner_ra_properties task_id)"
    by (simp add: generate_pinner_ra_properties_def tag_for_sign_def)
  have vals: "hm_get (generate_pinner_ra_properties task_id) PROPERTY_TASK_ID = Some task_id"
    "hm_get (generate_pinner_ra_properties task_id) SG_PROPERTY_DELEGATOR_RA_TARGET_ROLE =
       Some VALUE_RA_TARGET_PINNER"
    "hm_get (generate_pinner_ra_properties task_id) PROPERTY_SIGN_FLAG = Some BINDING_NAME"
    "hm_get (generate_pinner_ra_properties task_id) PROPERTY_KEY_GEN_FLAG = None"
    "hm_get (generate_pinner_ra_properties task_id) PROPERTY_KEY_DEPLOYMENT_ID = None"
    by (simp_all add: generate_pinner_ra_properties_def tag_for_sign_def ra_property_defs
        sg_property_defs)
  have "find_property PROPERTY_KEY_DEPLOYMENT_ID (from_hash_map H (generate_pinner_ra_properties task_id)) = None"
    by (simp add: find_property_from_hash_map [OF wf] vals)
  then have "PROPERTY_KEY_DEPLOYMENT_ID \<notin> pp_key ` set (from_hash_map H (generate_pinner_ra_properties task_id))"
    by (auto simp: find_property_def find_None_iff)
  then have "distinct (map pp_key ?ps)"
    using distinct_from_hash_map [OF wf] by simp
  note same = find_property_perm [OF assms [symmetric] this, symmetric]
  have found: "find_property key (cs_properties item) =
      (if key = PROPERTY_KEY_DEPLOYMENT_ID then Some \<lparr>pp_key = key, pp_value = d\<rparr>
       else map_option (\<lambda>v. \<lparr>pp_key = key, pp_value = v\<rparr>)
         (hm_get (generate_pinner_ra_properties task_id) key))" for key
  proof -
    have "find_property key ?ps = (if key = PROPERTY_KEY_DEPLOYMENT_ID
        then Some \<lparr>pp_key = key, pp_value = d\<rparr>
        else find_property key (from_hash_map H (generate_pinner_ra_properties task_id)))"
      by (auto simp: find_property_def)
    then show ?thesis
      using same [of key] find_property_from_hash_map [OF wf, of key H] by simp
  qed
  have "\<not> sg_is_executor_ra_response item" "is_pinner_ra_response item" "is_sign_tag item"
    "\<not> is_key_gen_tag item"
    unfolding sg_is_executor_ra_response_def is_pinner_ra_response_def is_sign_tag_def
      is_key_gen_tag_def property_or_default_def found vals
    by (simp_all add: property_key_pair_default_def BINDING_NAME_def ra_property_defs sg_property_defs)
  then show ?thesis
    by (simp add: sg_operation_after_verify_handler_def found vals fun_eq_iff act_simps)
      (simp add: ra_property_defs sg_property_defs)
qed

theorem pinner_attestation_roundtrip_witness:
  "\<exists>item. is_sign_tag item \<and> sg_operation_after_verify_handler memory_host ''p'' [] item =
     on_pinner_ra_success memory_host ''task'' ''p'' ''d''"
  using pinner_attestation_roundtrip [of
      "\<lparr>cs_uuid = '''', cs_properties = \<lparr>pp_key = PROPERTY_KEY_DEPLOYMENT_ID, pp_value = ''d''\<rparr> #
         from_hash_map memory_host (generate_pinner_ra_properties ''task'')\<rparr>" "''d''" memory_host "''task''" "''p''" "[]"]
  by auto

end
