(* ===== verification/Gluon_Roles.thy ===== *)
theory Gluon_Roles
  imports Gluon_Initial_Pinner
begin

text \<open>
  What the executor, the initial pinner and the pinner achieve: an executor encrypts one slice of
  the key it generated for each initial pinner, a candidate stores the task and applies for it, a
  slice is deployed and reported in its asynchronous steps, and a deployed slice comes back for a
  signature.
\<close>

section \<open>The executor of a key generation\<close>

lemma encrypt_slices_Ok:
  assumes "encrypt_slices H slices i ps t = (Ok out, t')"
  shows "map trp_peer_id out = map tep_peer_id ps" "i + length ps \<le> length slices \<or> ps = []"
    "\<forall>j < length ps. \<exists>t. h_rsa_encrypt H t (tep_rsa_pub_key (ps ! j)) (slices ! (i + j)) =
       Inr (trp_encrypted_key_slice (out ! j))"
proof -
  have "map trp_peer_id out = map tep_peer_id ps \<and> (i + length ps \<le> length slices \<or> ps = []) \<and>
    (\<forall>j < length ps. \<exists>t. h_rsa_encrypt H t (tep_rsa_pub_key (ps ! j)) (slices ! (i + j)) =
       Inr (trp_encrypted_key_slice (out ! j)))"
    using assms
  proof (induction ps arbitrary: i t out)
    case (Cons p ps)
    then have i: "i < length slices" by (auto simp: act_simps split: if_splits)
    then obtain c where c: "h_rsa_encrypt H t (tep_rsa_pub_key p) (slices ! i) = Inr c"
      using Cons.prems by (cases "h_rsa_encrypt H t (tep_rsa_pub_key p) (slices ! i)")
        (auto simp: bindA_Ok_iff prim_def)
    then obtain out' where out': "out = \<lparr>trp_peer_id = tep_peer_id p, trp_encrypted_key_slice = c\<rparr> # out'"
      "encrypt_slices H slices (Suc i) ps (EPrim ''rsa_encrypt'' # t) = (Ok out', t')"
      using Cons.prems i by (auto simp: bindA_Ok_iff prim_def act_simps)
    note IH = Cons.IH [OF out'(2)]
    show ?case
    proof (intro conjI allI impI)
      show "map trp_peer_id out = map tep_peer_id (p # ps)"
        using IH out'(1) by simp
      show "i + length (p # ps) \<le> length slices \<or> p # ps = []"
        using IH i by auto
      fix j assume "j < length (p # ps)"
      then show "\<exists>t. h_rsa_encrypt H t (tep_rsa_pub_key ((p # ps) ! j)) (slices ! (i + j)) =
          Inr (trp_encrypted_key_slice (out ! j))"
        using IH c out'(1) by (cases j) auto
    qed
  qed (auto simp: act_simps)
  then show "map trp_peer_id out = map tep_peer_id ps" "i + length ps \<le> length slices \<or> ps = []"
    "\<forall>j < length ps. \<exists>t. h_rsa_encrypt H t (tep_rsa_pub_key (ps ! j)) (slices ! (i + j)) =
       Inr (trp_encrypted_key_slice (out ! j))"
    by auto
qed

lemma response_slices:
  assumes "generate_task_execution_response H item req t = (Ok res, t')"
  shows "\<exists>pk sk slices t1. h_generate H t (ter_key_type req) = Inr (pk, sk) \<and>
    h_shamir_share H t1 (word_of_nat (length (ter_initial_pinners req)))
      (ucast (ter_minimum_recovery_number req)) sk = Inr slices \<and>
    length (ter_initial_pinners req) \<le> length slices \<and>
    tes_task_id res = ter_task_id req \<and> tes_p2_public_key res = pk \<and>
    map trp_peer_id (tes_initial_pinners res) = map tep_peer_id (ter_initial_pinners req) \<and>
    (\<forall>j < length (ter_initial_pinners req). \<exists>t2.
       h_rsa_encrypt H t2 (tep_rsa_pub_key (ter_initial_pinners req ! j)) (slices ! j) =
         Inr (trp_encrypted_key_slice (tes_initial_pinners res ! j)))"
proof -
  obtain pk sk where generate: "h_generate H t (ter_key_type req) = Inr (pk, sk)"
    using assms by (cases "h_generate H t (ter_key_type req)")
      (auto simp: generate_task_execution_response_def generate_key_by_type_def bindA_Ok_iff prim_def)
  then obtain slices out t1 t2 where
    "h_shamir_share H (EPrim ''generate'' # t) (word_of_nat (length (ter_initial_pinners req)))
      (ucast (ter_minimum_recovery_number req)) sk = Inr slices"
    "encrypt_slices H slices 0 (ter_initial_pinners req) t1 = (Ok out, t2)"
    "tes_task_id res = ter_task_id req" "tes_p2_public_key res = pk" "tes_initial_pinners res = out"
    using assms
    by (auto simp: generate_task_execution_response_def generate_key_by_type_def bindA_Ok_iff prim_def
        act_simps)
  then show ?thesis
    using generate encrypt_slices_Ok [of H slices 0 "ter_initial_pinners req" t1 out t2]
    by (metis add_0 le0 list.size(3))
qed

text \<open>C30: a result of the executor names the initial pinners of the request in their order, and holds
  for each the slice at its place, encrypted for this pinner: slices of the private key that was
  generated together with the reported public key, shared among as many as there are pinners
  with the requested threshold.\<close>

theorem execution_response_slices:
  assumes "generate_task_execution_response H item req t = (Ok res, t')"
  shows "\<exists>pk sk slices t1. h_generate H t (ter_key_type req) = Inr (pk, sk) \<and>
    h_shamir_share H t1 (word_of_nat (length (ter_initial_pinners req)))
      (ucast (ter_minimum_recovery_number req)) sk = Inr slices \<and>
    length (ter_initial_pinners req) \<le> length slices \<and>
    tes_task_id res = ter_task_id req \<and> tes_p2_public_key res = pk \<and>
    map trp_peer_id (tes_initial_pinners res) = map tep_peer_id (ter_initial_pinners req) \<and>
    (\<forall>j < length (ter_initial_pinners req). \<exists>t2.
       h_rsa_encrypt H t2 (tep_rsa_pub_key (ter_initial_pinners req ! j)) (slices ! j) =
         Inr (trp_encrypted_key_slice (tes_initial_pinners res ! j)))"
  by (rule response_slices) (rule assms)

definition sample_request :: "nat \<Rightarrow> task_execution_request" where
  "sample_request m =
     \<lparr>ter_task_id = ''task'', ter_initial_pinners =
        replicate m \<lparr>tep_peer_id = ''p'', tep_rsa_pub_key = [1]\<rparr>,
      ter_minimum_recovery_number = 1, ter_key_type = ''bitcoin_mainnet'', ter_p1_public_key = [9]\<rparr>"

definition sample_ex_item :: ex_item where
  "sample_ex_item =
     \<lparr>ex_task_info = \<lparr>ti_task_id = ''task'',
        ti_exec_info = \<lparr>ei_n = 2, ei_k = 1, ei_task_type = ''bitcoin_mainnet''\<rparr>\<rparr>, ex_status = ExRequested\<rparr>"

theorem execution_response_slices_witness:
  "\<exists>res t'. generate_task_execution_response memory_host sample_ex_item (sample_request 2) [] = (Ok res, t') \<and>
     map trp_peer_id (tes_initial_pinners res) = [''p'', ''p'']"
proof -
  have "fst (generate_task_execution_response memory_host sample_ex_item (sample_request 2) []) =
      Ok \<lparr>tes_task_id = ''task'', tes_initial_pinners =
           replicate 2 \<lparr>trp_peer_id = ''p'', trp_encrypted_key_slice = [3]\<rparr>,
         tes_p2_public_key = [2], tes_multi_sig_account = as_bytes ''multisig''\<rparr>"
    by code_simp
  then obtain res t' where
    run: "generate_task_execution_response memory_host sample_ex_item (sample_request 2) [] = (Ok res, t')"
    by (metis prod.collapse)
  then show ?thesis
    using execution_response_slices [OF run] by (auto simp: sample_request_def numeral_2_eq_2)
qed

lemma encrypt_slices_panic:
  assumes "\<forall>t k d. \<exists>c. h_rsa_encrypt H t k d = Inr c"
  shows "if ps \<noteq> [] \<and> length slices < i + length ps then fst (encrypt_slices H slices i ps t) = Panic
    else \<exists>out t'. encrypt_slices H slices i ps t = (Ok out, t')"
proof (induction ps arbitrary: i t)
  case (Cons p ps)
  show ?case
  proof (cases "length slices \<le> i")
    case False
    obtain c where c: "h_rsa_encrypt H t (tep_rsa_pub_key p) (slices ! i) = Inr c"
      using assms by blast
    obtain r t' where r: "encrypt_slices H slices (Suc i) ps (EPrim ''rsa_encrypt'' # t) = (r, t')"
      by fastforce
    then show ?thesis
      using False c Cons.IH [of "Suc i" "EPrim ''rsa_encrypt'' # t"]
      by (cases r) (auto simp: act_simps split: if_splits)
  qed (simp add: act_simps)
qed (simp add: act_simps)

text \<open>C31: where the primitives do not fail and the sharing returns as many slices as it is asked for,
  the executor panics exactly on a request with more than 255 initial pinners: their number is
  passed on as a \<open>u8\<close>, and the slice of the first pinner without one is read all the same.\<close>

theorem executor_panics_iff:
  assumes "\<forall>t. \<exists>p. h_generate H t (ter_key_type req) = Inr p"
    and "\<forall>t k d. \<exists>c. h_rsa_encrypt H t k d = Inr c"
    and "\<forall>t n k d. \<exists>ss. h_shamir_share H t n k d = Inr ss \<and> length ss = unat n"
    and "\<forall>t k ks s. \<exists>a. h_generate_multi_sig_asset H t k ks s = Inr a"
  shows "fst (generate_task_execution_response H item req t) = Panic \<longleftrightarrow>
    255 < length (ter_initial_pinners req)"
proof -
  let ?m = "length (ter_initial_pinners req)"
  let ?t = "EPrim ''shamir_share'' # EPrim ''generate'' # t"
  obtain pk sk where generate: "h_generate H t (ter_key_type req) = Inr (pk, sk)"
    using assms(1) by (metis surj_pair)
  obtain ss where ss: "h_shamir_share H (EPrim ''generate'' # t) (word_of_nat ?m)
      (ucast (ter_minimum_recovery_number req)) sk = Inr ss" "length ss = unat (word_of_nat ?m :: u8)"
    using assms(3) by blast
  have "length ss = ?m mod 256"
    using ss(2) by (simp add: unat_of_nat)
  then have short: "?m \<noteq> 0 \<and> length ss < ?m \<longleftrightarrow> 255 < ?m"
    using mod_less_divisor [of 256 ?m] by (cases "?m < 256") (auto simp del: mod_less_divisor)
  obtain r t' where r: "encrypt_slices H ss 0 (ter_initial_pinners req) ?t = (r, t')"
    by fastforce
  obtain a where "h_generate_multi_sig_asset H t' (ei_k (ti_exec_info (ex_task_info item)))
      [ter_p1_public_key req, pk] (ei_task_type (ti_exec_info (ex_task_info item))) = Inr a"
    using assms(4) by blast
  then show ?thesis
    using generate ss(1) r short encrypt_slices_panic [OF assms(2), of "ter_initial_pinners req" ss 0 ?t]
    by (cases r)
      (auto simp: generate_task_execution_response_def generate_key_by_type_def act_simps
        generate_multi_sig_account_def split: if_splits)
qed

theorem executor_panics_iff_witness:
  "fst (generate_task_execution_response memory_host sample_ex_item (sample_request 300) []) = Panic"
  using executor_panics_iff [of memory_host "sample_request 300" sample_ex_item "[]"]
  by (simp add: sample_request_def)

section \<open>The two roles of a node\<close>

lemma send_key_generation_request_ok:
  assumes "working H" "h_generate_rsa_keypair H t = Inr (pub, priv)" "h_rsa_key_to_bytes H pub = Inr key"
  shows "send_key_generation_request H peer info e t =
    (Ok (), ESend peer (ti_task_id info) (TaskKeyGenerationApplyRequst
       \<lparr>kga_task_id = ti_task_id info, kga_rsa_pub_key = key, kga_apply_executor = e\<rparr>) #
     ESet (key_gen_rsa_encrypt_key (ti_task_id info)) (VString priv) (Some 6000) #
     EPrim ''generate_rsa_keypair'' # t)"
  using assms(2,3)
  by (simp add: send_key_generation_request_def bindA_app(1) [OF prim_app(1)] act_simps
      seqA_app(1) [OF working_kv_set [OF assms(1)]] working_call [OF assms(1)])

lemma key_gen_rsa_key_neq [simp]:
  "key_gen_rsa_encrypt_key i \<noteq> ex_task_store_item_key j" "key_gen_rsa_encrypt_key i \<noteq> ip_task_store_item_key j"
  "ip_task_store_item_key i \<noteq> ex_task_store_item_key j" "ex_task_store_item_key i \<noteq> ip_task_store_item_key j"
  by (rule key_kind_neq, simp)+

text \<open>What a node does once an invitation is verified: it stores the task and applies.\<close>

lemma executor_candidate_applies:
  assumes "working H" "task_info_from_candidate_request req = Inr info"
    and "\<forall>t. \<exists>p. h_generate_rsa_keypair H t = Inr p" "\<forall>s. \<exists>b. h_rsa_key_to_bytes H s = Inr b"
    and "executor_candidate_callback H peer req t = (r, t')"
  shows "\<exists>key. sends t' = (peer, kgc_task_id req, TaskKeyGenerationApplyRequst
         \<lparr>kga_task_id = kgc_task_id req, kga_rsa_pub_key = key, kga_apply_executor = True\<rparr>) # sends t"
    "stored t' (ex_task_store_item_key (kgc_task_id req)) =
       Some (VExec \<lparr>ex_task_info = info, ex_status = ExRequested\<rparr>)"
proof -
  have id: "ti_task_id info = kgc_task_id req"
    using assms(2) by (auto simp: task_info_from_candidate_request_def validate_task_info_iff)
  obtain pub priv key where k: "h_generate_rsa_keypair H (EUnlock (kgc_task_id req) #
      ESet (ex_task_store_item_key (kgc_task_id req)) (VExec \<lparr>ex_task_info = info, ex_status = ExInit\<rparr>) None #
      ELock (kgc_task_id req) # t) = Inr (pub, priv)" "h_rsa_key_to_bytes H pub = Inr key"
    using assms(3,4) by (metis surj_pair)
  then have "sends t' = (peer, kgc_task_id req, TaskKeyGenerationApplyRequst
         \<lparr>kga_task_id = kgc_task_id req, kga_rsa_pub_key = key, kga_apply_executor = True\<rparr>) # sends t \<and>
    stored t' (ex_task_store_item_key (kgc_task_id req)) =
       Some (VExec \<lparr>ex_task_info = info, ex_status = ExRequested\<rparr>)"
    using send_key_generation_request_ok [OF assms(1) k, of peer info True] assms(2,5) id
    by (auto simp: executor_candidate_callback_def ex_item_try_from_def ex_willing_to_run_def
        ex_check_capabilities_def act_simps bindA_app(1) [OF pure_app(1)]
        seqA_app(1) [OF working_ex_save [OF assms(1)]] working_ex_save [OF assms(1)])
  then show "\<exists>key. sends t' = (peer, kgc_task_id req, TaskKeyGenerationApplyRequst
         \<lparr>kga_task_id = kgc_task_id req, kga_rsa_pub_key = key, kga_apply_executor = True\<rparr>) # sends t"
    "stored t' (ex_task_store_item_key (kgc_task_id req)) =
       Some (VExec \<lparr>ex_task_info = info, ex_status = ExRequested\<rparr>)"
    by blast+
qed

lemma pinner_candidate_applies:
  assumes "working H" "task_info_from_candidate_request req = Inr info"
    and "\<forall>t. \<exists>p. h_generate_rsa_keypair H t = Inr p" "\<forall>s. \<exists>b. h_rsa_key_to_bytes H s = Inr b"
    and "pinner_candidate_callback H peer req t = (r, t')"
  shows "\<exists>key. sends t' = (peer, kgc_task_id req, TaskKeyGenerationApplyRequst
         \<lparr>kga_task_id = kgc_task_id req, kga_rsa_pub_key = key, kga_apply_executor = False\<rparr>) # sends t"
    "stored t' (ip_task_store_item_key (kgc_task_id req)) =
       Some (VPinner \<lparr>ip_task_info = info, ip_status = IpRequested\<rparr>)"
    "stored t' (ex_task_store_item_key i) = stored t (ex_task_store_item_key i)"
proof -
  have id: "ti_task_id info = kgc_task_id req"
    using assms(2) by (auto simp: task_info_from_candidate_request_def validate_task_info_iff)
  obtain pub priv key where k: "h_generate_rsa_keypair H (EUnlock (kgc_task_id req) #
      ESet (ip_task_store_item_key (kgc_task_id req)) (VPinner \<lparr>ip_task_info = info, ip_status = IpInit\<rparr>) None #
      ELock (kgc_task_id req) # t) = Inr (pub, priv)" "h_rsa_key_to_bytes H pub = Inr key"
    using assms(3,4) by (metis surj_pair)
  then have "sends t' = (peer, kgc_task_id req, TaskKeyGenerationApplyRequst
         \<lparr>kga_task_id = kgc_task_id req, kga_rsa_pub_key = key, kga_apply_executor = False\<rparr>) # sends t \<and>
    stored t' (ip_task_store_item_key (kgc_task_id req)) =
       Some (VPinner \<lparr>ip_task_info = info, ip_status = IpRequested\<rparr>) \<and>
    stored t' (ex_task_store_item_key i) = stored t (ex_task_store_item_key i)"
    using send_key_generation_request_ok [OF assms(1) k, of peer info False] assms(2,5) id
    by (auto simp: pinner_candidate_callback_def ip_item_try_from_def ip_willing_to_run_def
        ip_check_capabilities_def act_simps bindA_app(1) [OF pure_app(1)]
        seqA_app(1) [OF working_ip_save [OF assms(1)]] working_ip_save [OF assms(1)])
  then show "\<exists>key. sends t' = (peer, kgc_task_id req, TaskKeyGenerationApplyRequst
         \<lparr>kga_task_id = kgc_task_id req, kga_rsa_pub_key = key, kga_apply_executor = False\<rparr>) # sends t"
    "stored t' (ip_task_store_item_key (kgc_task_id req)) =
       Some (VPinner \<lparr>ip_task_info = info, ip_status = IpRequested\<rparr>)"
    "stored t' (ex_task_store_item_key i) = stored t (ex_task_store_item_key i)"
    by blast+
qed

section \<open>The deployment of a slice\<close>

text \<open>The item of the task, whatever role the node invited itself to.\<close>

definition pinner_item_of :: "kv_val option \<Rightarrow> kv_val option \<Rightarrow> ip_item option" where
  "pinner_item_of p e = (case p of
       Some (VPinner it) \<Rightarrow> Some it
     | None \<Rightarrow> (case e of Some (VExec it) \<Rightarrow> Some (ip_item_from_executor it) | _ \<Rightarrow> None)
     | _ \<Rightarrow> None)"

lemma trying_get_initial_pinner_store_item_Ok:
  assumes "working H"
    and "pinner_item_of (stored t (ip_task_store_item_key i)) (stored t (ex_task_store_item_key i)) = Some it"
  shows "\<exists>t1. trying_get_initial_pinner_store_item H i t = (Ok it, t1) \<and> sends t1 = sends t"
proof -
  consider "stored t (ip_task_store_item_key i) = Some (VPinner it)"
    | e where "stored t (ip_task_store_item_key i) = None"
      "stored t (ex_task_store_item_key i) = Some (VExec e)" "it = ip_item_from_executor e"
    using assms(2) by (auto simp: pinner_item_of_def split: option.splits kv_val.splits)
  then show ?thesis
  proof cases
    case 1
    then show ?thesis
      using working_ip_get [OF assms(1), of t i it]
      by (simp add: trying_get_initial_pinner_store_item_def act_simps)
  next
    case 2
    have "ex_get H i (EUnlock i # EGet (ip_task_store_item_key i) # ELock i # t) =
        (Ok e, EUnlock i # EGet (ex_task_store_item_key i) # ELock i #
          EUnlock i # EGet (ip_task_store_item_key i) # ELock i # t)"
      using 2 by (intro working_ex_get [OF assms(1)]) simp
    then show ?thesis
      using 2 working_get_none(4) [OF assms(1) 2(1)]
      by (simp add: trying_get_initial_pinner_store_item_def act_simps)
  qed
qed

text \<open>C34: a slice is accepted by an initial pinner, and by a node that applied to be the executor and
  was elected to pin: the item becomes one of an initial pinner that responded, and the
  registration of the upload is under way, to go on with this item and this request.\<close>

theorem slice_request_accepted:
  assumes "working H" "\<forall>t. \<exists>session. h_get_guid H t = Inr session"
    and "pinner_item_of (stored t (ip_task_store_item_key (pkr_task_id req)))
      (stored t (ex_task_store_item_key (pkr_task_id req))) = Some it"
    and "ti_task_id (ip_task_info it) = pkr_task_id req"
  shows "\<exists>t' session. task_pinner_key_slice_request_handler H req peer_id reply_to t = (Ok (), t') \<and>
    stored t' (ip_task_store_item_key (pkr_task_id req)) =
      Some (VPinner (it\<lparr>ip_status := IpResponded\<rparr>)) \<and> sends t' = sends t \<and>
    registers (hd t') (InvokeMsg (CbRegisterUploadRsaKey session req
      (ContDeployed (pkr_multi_sig_account req) (it\<lparr>ip_status := IpResponded\<rparr>) peer_id req reply_to)) msg)"
proof -
  obtain t1 where t1: "trying_get_initial_pinner_store_item H (pkr_task_id req) t = (Ok it, t1)"
    "sends t1 = sends t"
    using trying_get_initial_pinner_store_item_Ok [OF assms(1,3)] by blast
  obtain session where "h_get_guid H (EUnlock (pkr_task_id req) #
      ESet (ip_task_store_item_key (pkr_task_id req)) (VPinner (it\<lparr>ip_status := IpResponded\<rparr>)) None #
      ELock (pkr_task_id req) # t1) = Inr session"
    using assms(2) by blast
  then show ?thesis
    using t1 assms(4)
    by (auto simp: task_pinner_key_slice_request_handler_def act_simps Let_def deploy_key_slice_def
        seqA_app(1) [OF working_ip_save [OF assms(1)]] working_call_pinner [OF assms(1)]
        bindA_app(1) [OF prim_app(1)])
qed

definition sample_slice_request :: task_pinner_key_slice_request where
  "sample_slice_request =
     \<lparr>pkr_task_id = ''task'', pkr_public_key = [2], pkr_encrypted_key_slice = [3],
      pkr_multi_sig_account = [4]\<rparr>"

theorem slice_request_accepted_witness:
  "\<exists>t'. task_pinner_key_slice_request_handler memory_host sample_slice_request ''d'' ''r''
      [ESet (ex_task_store_item_key ''task'') (VExec sample_ex_item) None] = (Ok (), t') \<and>
     stored t' (ip_task_store_item_key ''task'') =
       Some (VPinner \<lparr>ip_task_info = ex_task_info sample_ex_item, ip_status = IpResponded\<rparr>)"
proof -
  have "\<forall>t. \<exists>g. h_get_guid memory_host t = Inr g"
    by (simp add: memory_host_def)
  then show ?thesis
    using slice_request_accepted [OF memory_host_working, of
        "[ESet (ex_task_store_item_key ''task'') (VExec sample_ex_item) None]" sample_slice_request
        "ip_item_from_executor sample_ex_item" "''d''" "''r''"]
    by (auto simp: sample_slice_request_def sample_ex_item_def pinner_item_of_def ip_item_from_executor_def)
qed

lemma deployment_key_neq [simp]:
  "get_temp_deployment_key H a \<noteq> ip_task_store_item_key i" "ip_task_store_item_key i \<noteq> get_temp_deployment_key H a"
  by (rule key_kind_neq, simp)+

text \<open>C35: once the pinner actor reports the deployment, it is kept for the commit, the item is that
  of a deployed slice, and the delegator that asked is told which deployment it is.\<close>

theorem deployment_reported:
  assumes "working H" "from_utf8 (bm_body msg) = Some deployment_id"
    and "ti_task_id (ip_task_info item) = pkr_task_id req"
  shows "\<exists>t'. process_data_upload_callback H (ContDeployed account item peer_id req reply_to) msg t = (Ok (), t') \<and>
    stored t' (get_temp_deployment_key H account) = Some (VString deployment_id) \<and>
    stored t' (ip_task_store_item_key (pkr_task_id req)) = Some (VPinner (item\<lparr>ip_status := Deployed\<rparr>)) \<and>
    sends t' = (peer_id, pkr_task_id req, TaskPinnerKeySliceResponse
      \<lparr>pks_task_id = pkr_task_id req, pks_deployment_id = deployment_id\<rparr>) # sends t"
  using assms
  by (auto simp: process_data_upload_callback_def utf8_string_def bindA_app(1) [OF require_app(1)]
      seqA_app(1) [OF working_kv_set] seqA_app(1) [OF working_ip_save] seqA_app(1) [OF working_call]
      working_call)

theorem deployment_reported_witness:
  "\<exists>t'. process_data_upload_callback memory_host (ContDeployed [4] (ip_item_from_executor sample_ex_item)
       ''d'' sample_slice_request ''r'') \<lparr>bm_subject = '''', bm_reply_to = '''', bm_body = [65]\<rparr> [] = (Ok (), t') \<and>
     sends t' = [(''d'', ''task'', TaskPinnerKeySliceResponse
       \<lparr>pks_task_id = ''task'', pks_deployment_id = ''A''\<rparr>)]"
proof -
  have "from_utf8 [65] = Some ''A''" by code_simp
  then show ?thesis
    using deployment_reported [OF memory_host_working, of "\<lparr>bm_subject = '''', bm_reply_to = '''', bm_body = [65]\<rparr>"
        "''A''" "ip_item_from_executor sample_ex_item" sample_slice_request "[4]" "''d''" "''r''" "[]"]
    by (auto simp: sample_slice_request_def sample_ex_item_def ip_item_from_executor_def)
qed

text \<open>The public half of an RSA key and, on the node that holds it, the private half.\<close>

definition rsa_pair :: "host \<Rightarrow> bytes \<Rightarrow> host \<Rightarrow> bytes \<Rightarrow> bool" where
  "rsa_pair H pub H' priv \<longleftrightarrow>
     (\<forall>t t' d c. h_rsa_encrypt H t pub d = Inr c \<longrightarrow> h_rsa_decrypt H' t' priv c = Inr d)"

text \<open>The upload of a slice that succeeded: what was stored, and what the pinner actor is told.\<close>

lemma slice_uploaded:
  assumes "working H" "register_upload_rsa_key_callback H session req cont msg s = (Ok (), s')"
    and "decrypt_key_slice H (pkr_task_id req) (pkr_encrypted_key_slice req) s = (Ok key_slice, s1)"
    and "from_utf8 (bm_body msg) = Some upload_pub" "h_rsa_key_to_bytes H upload_pub = Inr upload_key"
  shows "\<exists>t1 t2 t3 key1 block cid enc body. h_aes_encrypt H t1 key1 key_slice = Inr block \<and>
    h_ipfs_block_put H t2 block True = Inr cid \<and> h_rsa_encrypt H t3 upload_key key1 = Inr enc \<and>
    h_encode_protobuf H (PbDataUploadCompletedProcessRequest
      (Some cid) (Some '''') (Some '''') (Some (h_base64_encode H enc))) = Inr body \<and>
    hd s' = EIntercom PINNER_ACTOR_NAME MY_ACTOR_NAME
      \<lparr>bm_subject = ''actor.pinner.intercom.process_data_upload.'' @ session, bm_reply_to = '''',
       bm_body = body\<rparr> (CbProcessDataUpload cont) \<and>
    stored s' (get_temp_data_cid_key H (pkr_multi_sig_account req)) = Some (VString cid)"
  using assms(2-5)
  by (auto simp: register_upload_rsa_key_callback_def bindA_Ok_iff seqA_Ok_iff prim_def act_simps
      pure_def liftA_def utf8_string_def working_kv_set [OF assms(1)] working_call_pinner [OF assms(1)]
      split: sum.splits) blast

text \<open>C36: a slice that was pinned comes back. If the upload of a slice runs to its end, the pinner
  actor is told a data id and a key, encrypted with the upload key; with this id and this key, at
  any later time, the slice that was decrypted from the delegator's message is what is sent to the
  delegator that asks for it, encrypted for the executor of the signature. The laws of the
  services it rests on: a cipher text decrypts under its key, a block is read back under the id
  it was stored with, and base64 decodes what it encoded.\<close>

theorem deployed_slice_returned:
  assumes "working H"
    and "\<forall>t t' k d c. h_aes_encrypt H t k d = Inr c \<longrightarrow> h_aes_decrypt H t' k c = Inr d"
    and "\<forall>t t' d b cid. h_ipfs_block_put H t d b = Inr cid \<longrightarrow> h_ipfs_block_get H t' cid = Inr d"
    and "rsa_pair H upload_key P upload_priv"
    and "\<forall>bs. h_base64_decode P (as_bytes (h_base64_encode H bs)) = Inr bs"
    and "register_upload_rsa_key_callback H session req cont msg s = (Ok (), s')"
    and "decrypt_key_slice H (pkr_task_id req) (pkr_encrypted_key_slice req) s = (Ok key_slice, s1)"
    and "from_utf8 (bm_body msg) = Some upload_pub" "h_rsa_key_to_bytes H upload_pub = Inr upload_key"
    and "\<forall>t. \<exists>c. h_rsa_encrypt H t (sgr_rsa_pub_key sreq) key_slice = Inr c"
  shows "\<exists>cid text body enc key1.
    hd s' = EIntercom PINNER_ACTOR_NAME MY_ACTOR_NAME
      \<lparr>bm_subject = ''actor.pinner.intercom.process_data_upload.'' @ session, bm_reply_to = '''',
       bm_body = body\<rparr> (CbProcessDataUpload cont) \<and>
    h_encode_protobuf H (PbDataUploadCompletedProcessRequest
      (Some cid) (Some '''') (Some '''') (Some text)) = Inr body \<and>
    stored s' (get_temp_data_cid_key H (pkr_multi_sig_account req)) = Some (VString cid) \<and>
    h_base64_decode P (as_bytes text) = Inr enc \<and>
    (\<forall>t. h_rsa_decrypt P t upload_priv enc = Inr key1) \<and>
    (\<forall>t. \<exists>t' t1 c. pinner_key_slice_callback H sreq peer_id reply_to (Some cid) (Some key1) t = (Ok (), t') \<and>
      h_rsa_encrypt H t1 (sgr_rsa_pub_key sreq) key_slice = Inr c \<and>
      sends t' = (peer_id, sgr_task_id sreq, TaskSignGetPinnerKeySliceResponse
        \<lparr>sgs_task_id = sgr_task_id sreq, sgs_encrypted_key_slice = c,
         sgs_deployment_id = sgr_deployment_id sreq\<rparr>) # sends t)"
proof -
  obtain t1 t2 t3 key1 block cid enc body where up: "h_aes_encrypt H t1 key1 key_slice = Inr block"
    "h_ipfs_block_put H t2 block True = Inr cid" "h_rsa_encrypt H t3 upload_key key1 = Inr enc"
    "h_encode_protobuf H (PbDataUploadCompletedProcessRequest
      (Some cid) (Some '''') (Some '''') (Some (h_base64_encode H enc))) = Inr body"
    "hd s' = EIntercom PINNER_ACTOR_NAME MY_ACTOR_NAME
      \<lparr>bm_subject = ''actor.pinner.intercom.process_data_upload.'' @ session, bm_reply_to = '''',
       bm_body = body\<rparr> (CbProcessDataUpload cont)"
    "stored s' (get_temp_data_cid_key H (pkr_multi_sig_account req)) = Some (VString cid)"
    using slice_uploaded [OF assms(1,6-9)] by blast
  have readable: "h_aes_decrypt H t key1 block = Inr key_slice" "h_ipfs_block_get H t cid = Inr block" for t
    using up(1,2) assms(2,3) by blast+
  have "\<exists>t' t1 c. pinner_key_slice_callback H sreq peer_id reply_to (Some cid) (Some key1) t = (Ok (), t') \<and>
      h_rsa_encrypt H t1 (sgr_rsa_pub_key sreq) key_slice = Inr c \<and>
      sends t' = (peer_id, sgr_task_id sreq, TaskSignGetPinnerKeySliceResponse
        \<lparr>sgs_task_id = sgr_task_id sreq, sgs_encrypted_key_slice = c,
         sgs_deployment_id = sgr_deployment_id sreq\<rparr>) # sends t" for t
  proof -
    obtain c where "h_rsa_encrypt H (EPrim ''aes_decrypt'' # EPrim ''ipfs_block_get'' # t)
        (sgr_rsa_pub_key sreq) key_slice = Inr c"
      using assms(10) by blast
    then show ?thesis
      using readable
      by (auto simp: pinner_key_slice_callback_def bindA_app(1) [OF require_app(1)]
          bindA_app(1) [OF prim_app(1)] seqA_app(1) [OF working_call [OF assms(1)]]
          working_call [OF assms(1)])
  qed
  moreover have "\<forall>t. h_rsa_decrypt P t upload_priv enc = Inr key1"
    using up(3) assms(4) unfolding rsa_pair_def by blast
  ultimately show ?thesis
    using up(4-6) assms(5) by blast
qed

theorem deployed_slice_returned_witness:
  "\<exists>cid key1. \<forall>t. \<exists>t'. pinner_key_slice_callback memory_host
       \<lparr>sgr_task_id = ''task'', sgr_rsa_pub_key = [8], sgr_deployment_id = ''d''\<rparr> ''p'' ''r''
       (Some cid) (Some key1) t = (Ok (), t') \<and>
     sends t' = (''p'', ''task'', TaskSignGetPinnerKeySliceResponse
       \<lparr>sgs_task_id = ''task'', sgs_encrypted_key_slice = [3], sgs_deployment_id = ''d''\<rparr>) # sends t"
proof -
  let ?s = "[ESet (key_gen_rsa_encrypt_key ''task'') (VString ''key'') (Some 6000)]"
    and ?msg = "\<lparr>bm_subject = '''', bm_reply_to = '''', bm_body = [65]\<rparr>"
    and ?sreq = "\<lparr>sgr_task_id = ''task'', sgr_rsa_pub_key = [8], sgr_deployment_id = ''d''\<rparr>"
  have utf8: "from_utf8 [65] = Some ''A''" by code_simp
  have read: "h_kv_get_string memory_host ?s (key_gen_rsa_encrypt_key ''task'') = Inr (Some ''key'')"
    by (simp add: memory_host_def memory_read_def)
  have slice: "\<exists>s1. decrypt_key_slice memory_host (pkr_task_id sample_slice_request)
      (pkr_encrypted_key_slice sample_slice_request) ?s = (Ok [3], s1)"
    by (simp add: decrypt_key_slice_def sample_slice_request_def kv_get_def read act_simps)
  have run: "\<exists>s'. register_upload_rsa_key_callback memory_host ''guid'' sample_slice_request cont ?msg ?s
      = (Ok (), s')" for cont
    using slice
    by (auto simp: register_upload_rsa_key_callback_def utf8_string_def utf8 act_simps memory_host_def
        bindA_app seqA_app kv_set_def call_pinner_def call_def)
  have laws: "\<forall>t t' k d c. h_aes_encrypt memory_host t k d = Inr c \<longrightarrow> h_aes_decrypt memory_host t' k c = Inr d"
    "\<forall>t t' d b cid. h_ipfs_block_put memory_host t d b = Inr cid \<longrightarrow> h_ipfs_block_get memory_host t' cid = Inr d"
    "rsa_pair memory_host [65] memory_host []"
    "\<forall>bs. h_base64_decode memory_host (as_bytes (h_base64_encode memory_host bs)) = Inr bs"
    by (simp_all add: rsa_pair_def) (simp_all add: memory_host_def as_bytes_def o_def)
  obtain s1 where s1: "decrypt_key_slice memory_host (pkr_task_id sample_slice_request)
      (pkr_encrypted_key_slice sample_slice_request) ?s = (Ok [3], s1)"
    using slice by blast
  obtain s' where s': "register_upload_rsa_key_callback memory_host ''guid'' sample_slice_request
      (ContDeployed [] (ip_item_from_executor sample_ex_item) ''d'' sample_slice_request ''r'') ?msg ?s = (Ok (), s')"
    using run by blast
  have key: "from_utf8 (bm_body ?msg) = Some ''A''" "h_rsa_key_to_bytes memory_host ''A'' = Inr [65]"
    "\<forall>t. \<exists>c. h_rsa_encrypt memory_host t (sgr_rsa_pub_key ?sreq) [3] = Inr c"
    using utf8 from_utf8_as_bytes by auto
  show ?thesis
    using deployed_slice_returned [OF memory_host_working laws s' s1 key, of "''p''" "''r''"] by fastforce
qed

section \<open>Unknown tasks\<close>

text \<open>C37: a request for a task the node does not know is answered with an error to its sender and has
  no other effect: a slice to be computed, one to be pinned.\<close>

theorem unknown_task_refused:
  assumes "working H" "stored t (ex_task_store_item_key i) = None" "stored t (ip_task_store_item_key i) = None"
    and "ter_task_id ereq = i" "pkr_task_id preq = i"
  shows "(\<exists>t' text. task_execution_request_handler H ereq peer_id reply_to t =
      (Ok (), ELogError reply_to peer_id i text # t') \<and> sends t' = sends t \<and> stored t' = stored t) \<and>
    (\<exists>t' text. task_pinner_key_slice_request_handler H preq peer_id reply_to t =
      (Ok (), ELogError reply_to peer_id i text # t') \<and> sends t' = sends t \<and> stored t' = stored t)"
proof
  show "\<exists>t' text. task_execution_request_handler H ereq peer_id reply_to t =
      (Ok (), ELogError reply_to peer_id i text # t') \<and> sends t' = sends t \<and> stored t' = stored t"
    using assms(4) working_get_none(3) [OF assms(1,2)]
    by (simp add: task_execution_request_handler_def act_simps working_call [OF assms(1)] fun_eq_iff)
  have "ex_get H i (EUnlock i # EGet (ip_task_store_item_key i) # ELock i # t) =
      (Err (TaskNotFound i), EUnlock i # EGet (ex_task_store_item_key i) # ELock i #
        EUnlock i # EGet (ip_task_store_item_key i) # ELock i # t)"
    using assms(2) by (intro working_get_none(3) [OF assms(1)]) simp
  then have "trying_get_initial_pinner_store_item H i t = (Err (TaskNotFound i),
      EUnlock i # EGet (ex_task_store_item_key i) # ELock i #
        EUnlock i # EGet (ip_task_store_item_key i) # ELock i # t)"
    using working_get_none(4) [OF assms(1,3)]
    by (simp add: trying_get_initial_pinner_store_item_def act_simps)
  then show "\<exists>t' text. task_pinner_key_slice_request_handler H preq peer_id reply_to t =
      (Ok (), ELogError reply_to peer_id i text # t') \<and> sends t' = sends t \<and> stored t' = stored t"
    using assms(5)
    by (simp add: task_pinner_key_slice_request_handler_def act_simps working_call [OF assms(1)] fun_eq_iff)
qed

theorem unknown_task_refused_witness:
  "\<exists>t' text. task_execution_request_handler memory_host (sample_request 2) ''d'' ''r'' [] =
     (Ok (), ELogError ''r'' ''d'' ''task'' text # t')"
  using unknown_task_refused [OF memory_host_working, of "[]" "''task''" "sample_request 2"
      sample_slice_request "''d''" "''r''"]
  by (auto simp: sample_request_def sample_slice_request_def)

end
