(* ===== verification/Gluon_Signature.thy ===== *)
theory Gluon_Signature
  imports Gluon_Roles
begin

text \<open>
  The executor of a signature, and the way of the key from the node that generates it to the node
  that signs with it: the slices of enough pinners give back the generated private key.
\<close>

section \<open>Decrypting and recovering\<close>

lemma sign_decrypt_ok:
  assumes "working H" "stored t (sign_rsa_encrypt_key i) = Some (VString priv)"
    and "h_rsa_key_to_bytes H priv = Inr key" "\<forall>t. h_rsa_decrypt H t key c = Inr d"
  shows "sign_decrypt_key_slice H i c t =
    (Ok d, EPrim ''rsa_decrypt'' # EGet (sign_rsa_encrypt_key i) # t)"
proof -
  have "h_kv_get_string H t (sign_rsa_encrypt_key i) = Inr (Some priv)"
    using assms(1,2) by (simp add: working_def reads_all_def)
  then show ?thesis
    using assms(3,4)
    by (simp add: sign_decrypt_key_slice_def kv_get_def bindA_app(1) [OF prim_app(1)]
        bindA_app(1) [OF require_app(1)] bindA_app(1) [OF pure_app(1)] act_simps)
qed

lemma collect_decrypted:
  assumes "working H" "h_rsa_key_to_bytes H priv = Inr key"
    and "list_all2 (\<lambda>c d. \<forall>t. h_rsa_decrypt H t key c = Inr d) cs ds"
    and "stored t (sign_rsa_encrypt_key i) = Some (VString priv)"
  shows "\<exists>t'. collect_each (sign_decrypt_key_slice H i) cs t = (Ok ds, t') \<and>
    sends t' = sends t \<and> stored t' = stored t"
  using assms(3,4)
proof (induction cs arbitrary: ds t)
  case (Cons c cs)
  then obtain d ds' where ds: "ds = d # ds'" "\<forall>t. h_rsa_decrypt H t key c = Inr d"
    "list_all2 (\<lambda>c d. \<forall>t. h_rsa_decrypt H t key c = Inr d) cs ds'"
    by (auto simp: list_all2_Cons1)
  let ?t = "EPrim ''rsa_decrypt'' # EGet (sign_rsa_encrypt_key i) # t"
  have "stored ?t (sign_rsa_encrypt_key i) = Some (VString priv)"
    using Cons.prems by simp
  from Cons.IH [OF ds(3) this] obtain t' where "collect_each (sign_decrypt_key_slice H i) cs ?t = (Ok ds', t')"
    "sends t' = sends t" "stored t' = stored t"
    by (auto simp: fun_eq_iff)
  then show ?case
    using sign_decrypt_ok [OF assms(1) Cons.prems(2) assms(2) ds(2)] ds(1)
    by (auto simp: bindA_def act_simps fun_eq_iff)
qed (simp add: act_simps)

text \<open>C29: the executor of a signature that holds the private key its slices are encrypted for
  recovers the key from them, signs the transaction with it, and sends the witness to the
  delegator; the task counts as executed.\<close>

theorem signature_executed:
  assumes "working H" "stored t (ex_task_store_item_key i) = Some (VExec it)" "ti_task_id (ex_task_info it) = i"
    and "stored t (sign_rsa_encrypt_key i) = Some (VString priv)" "h_rsa_key_to_bytes H priv = Inr key"
    and "sws_task_id req = i"
    and "list_all2 (\<lambda>c d. \<forall>t. h_rsa_decrypt H t key c = Inr d) (sws_encrypted_key_slices req) ds"
    and "\<forall>t. h_shamir_recovery H t (ei_k (ti_exec_info (ex_task_info it))) ds = Inr sk"
    and "\<forall>t. \<exists>s. h_sign H t (sws_key_type req) sk (sws_adhoc_data req) = Inr s"
    and "\<forall>t sigs. \<exists>w. h_combine_to_witness H t (ei_k (ti_exec_info (ex_task_info it))) [] sigs
      (ei_task_type (ti_exec_info (ex_task_info it))) = Inr w"
  shows "\<exists>t' t1 t2 s w. task_sign_with_key_slices_response_handler H req peer_id reply_to t = (Ok (), t') \<and>
    h_sign H t1 (sws_key_type req) sk (sws_adhoc_data req) = Inr s \<and>
    h_combine_to_witness H t2 (ei_k (ti_exec_info (ex_task_info it))) [] [s]
      (ei_task_type (ti_exec_info (ex_task_info it))) = Inr w \<and>
    sends t' = (peer_id, i, TaskCommitSignResultRequest \<lparr>csr_task_id = i, csr_witness = w\<rparr>) # sends t \<and>
    stored t' (ex_task_store_item_key i) = Some (VExec (it\<lparr>ex_status := Executed\<rparr>))"
proof -
  let ?e = "ti_exec_info (ex_task_info it)"
  let ?t0 = "EUnlock i # ESet (ex_task_store_item_key i) (VExec (it\<lparr>ex_status := ExResponded\<rparr>)) None # ELock i #
    EUnlock i # EGet (ex_task_store_item_key i) # ELock i # t"
  have "sign_rsa_encrypt_key i \<noteq> ex_task_store_item_key i"
    by (rule key_kind_neq) simp
  then have "stored ?t0 (sign_rsa_encrypt_key i) = Some (VString priv)"
    using assms(4) by simp
  from collect_decrypted [OF assms(1,5,7) this] obtain t1 where
    t1: "collect_each (sign_decrypt_key_slice H i) (sws_encrypted_key_slices req) ?t0 = (Ok ds, t1)"
      "sends t1 = sends t" "stored t1 = stored ?t0"
    by auto
  obtain s where s: "h_sign H (EPrim ''shamir_recovery'' # t1) (sws_key_type req) sk (sws_adhoc_data req) = Inr s"
    using assms(9) by blast
  obtain w where w: "h_combine_to_witness H (EPrim ''sign'' # EPrim ''shamir_recovery'' # t1) (ei_k ?e) [] [s]
      (ei_task_type ?e) = Inr w"
    using assms(10) by blast
  show ?thesis
    using assms(3,6,8) t1 s w working_ex_get [OF assms(1,2)]
    by (simp add: task_sign_with_key_slices_response_handler_def Let_def act_simps
        seqA_app(1) [OF working_ex_save [OF assms(1)]] seqA_app(1) [OF working_call [OF assms(1)]]
        working_call [OF assms(1)]) blast
qed

definition sample_sign_response :: task_sign_with_key_slices_response where
  "sample_sign_response =
     \<lparr>sws_task_id = ''task'', sws_adhoc_data = [6], sws_p1_signature = [], sws_key_type = ''t'',
      sws_encrypted_key_slices = [[3]]\<rparr>"

definition sample_sign_trace :: trace where
  "sample_sign_trace =
     [ESet (sign_rsa_encrypt_key ''task'') (VString ''private'') (Some 6000),
      ESet (ex_task_store_item_key ''task'') (VExec sample_ex_item) None]"

lemma sample_sign_facts:
  "stored sample_sign_trace (ex_task_store_item_key ''task'') = Some (VExec sample_ex_item)"
  "stored sample_sign_trace (sign_rsa_encrypt_key ''task'') = Some (VString ''private'')"
  "ti_task_id (ex_task_info sample_ex_item) = ''task''"
  "list_all2 (\<lambda>c d. \<forall>t. h_rsa_decrypt memory_host t (as_bytes ''private'') c = Inr d)
     (sws_encrypted_key_slices sample_sign_response) [[3]]"
  "\<forall>t. h_shamir_recovery memory_host t (ei_k (ti_exec_info (ex_task_info sample_ex_item))) [[3]] = Inr [3]"
  "\<forall>t. \<exists>s. h_sign memory_host t (sws_key_type sample_sign_response) [3] (sws_adhoc_data sample_sign_response) = Inr s"
  "\<forall>t sigs. \<exists>w. h_combine_to_witness memory_host t (ei_k (ti_exec_info (ex_task_info sample_ex_item))) [] sigs
      (ei_task_type (ti_exec_info (ex_task_info sample_ex_item))) = Inr w"
proof -
  have "sign_rsa_encrypt_key ''task'' \<noteq> ex_task_store_item_key ''task''"
    by (rule key_kind_neq) simp
  then show "stored sample_sign_trace (ex_task_store_item_key ''task'') = Some (VExec sample_ex_item)"
    "stored sample_sign_trace (sign_rsa_encrypt_key ''task'') = Some (VString ''private'')"
    by (simp_all add: sample_sign_trace_def)
qed (simp_all add: sample_ex_item_def sample_sign_response_def memory_host_def)

theorem signature_executed_witness:
  "\<exists>t' w. task_sign_with_key_slices_response_handler memory_host sample_sign_response ''d'' ''r''
      sample_sign_trace = (Ok (), t') \<and>
    sends t' = [(''d'', ''task'', TaskCommitSignResultRequest \<lparr>csr_task_id = ''task'', csr_witness = w\<rparr>)]"
proof -
  have "h_rsa_key_to_bytes memory_host ''private'' = Inr (as_bytes ''private'')"
    "sws_task_id sample_sign_response = ''task''" "sends sample_sign_trace = []"
    by (simp_all add: sample_sign_response_def sample_sign_trace_def)
  then show ?thesis
    using signature_executed [OF memory_host_working sample_sign_facts(1,3,2) _ _ sample_sign_facts(4-7), of "''d''" "''r''"]
    by fastforce
qed

section \<open>The way of the key\<close>

text \<open>
  The law of the secret sharing: enough different slices give back what was shared.
\<close>

definition shamir_recovers :: "host \<Rightarrow> host \<Rightarrow> bool" where
  "shamir_recovers H H' \<longleftrightarrow>
     (\<forall>t t' n k d ss js. h_shamir_share H t n k d = Inr ss \<longrightarrow> distinct js \<longrightarrow>
        set js \<subseteq> {..<length ss} \<longrightarrow> 0 < unat k \<longrightarrow> unat k \<le> length js \<longrightarrow>
        h_shamir_recovery H' t' k (map (\<lambda>j. ss ! j) js) = Inr d)"

text \<open>C8: the slices a result of the executor distributes give back the generated private key: when
  the initial pinners \<open>js\<close>, as many as the threshold asks for, decrypt what was encrypted for
  them, the recovery from their slices is the private key of the reported public key.\<close>

theorem distributed_key_recovers:
  assumes "generate_task_execution_response H item req t = (Ok res, t')"
    and "distinct js" "set js \<subseteq> {..<length (ter_initial_pinners req)}"
    and "k = ucast (ter_minimum_recovery_number req)" "0 < unat (k :: u8)" "unat k \<le> length js"
    and "\<forall>j \<in> set js. rsa_pair H (tep_rsa_pub_key (ter_initial_pinners req ! j)) (P j) (priv j)"
    and "shamir_recovers H H'"
  shows "\<exists>sk ds. h_generate H t (ter_key_type req) = Inr (tes_p2_public_key res, sk) \<and>
    (\<forall>s. map (\<lambda>j. h_rsa_decrypt (P j) s (priv j)
       (trp_encrypted_key_slice (tes_initial_pinners res ! j))) js = map Inr ds) \<and>
    (\<forall>s. h_shamir_recovery H' s k ds = Inr sk)"
proof -
  obtain pk sk slices t1 where gen: "h_generate H t (ter_key_type req) = Inr (pk, sk)"
    "h_shamir_share H t1 (word_of_nat (length (ter_initial_pinners req)))
      (ucast (ter_minimum_recovery_number req)) sk = Inr slices"
    "length (ter_initial_pinners req) \<le> length slices" "tes_p2_public_key res = pk"
    "\<forall>j < length (ter_initial_pinners req). \<exists>t2.
       h_rsa_encrypt H t2 (tep_rsa_pub_key (ter_initial_pinners req ! j)) (slices ! j) =
         Inr (trp_encrypted_key_slice (tes_initial_pinners res ! j))"
    using response_slices [OF assms(1)] by blast
  have "h_rsa_decrypt (P j) s (priv j) (trp_encrypted_key_slice (tes_initial_pinners res ! j)) =
      Inr (slices ! j)" if "j \<in> set js" for j s
    using that assms(3,7) gen(5) unfolding rsa_pair_def by (metis lessThan_iff subsetD)
  moreover have "set js \<subseteq> {..<length slices}"
    using assms(3) gen(3) by auto
  then have "h_shamir_recovery H' s k (map (\<lambda>j. slices ! j) js) = Inr sk" for s
    using assms(2,4-6,8) gen(2) unfolding shamir_recovers_def by blast
  ultimately show ?thesis
    using gen(1,4) by (intro exI [of _ sk] exI [of _ "map (\<lambda>j. slices ! j) js"]) simp
qed

lemma memory_host_laws: "rsa_pair memory_host pub memory_host priv" "shamir_recovers memory_host memory_host"
proof -
  show "rsa_pair memory_host pub memory_host priv"
    by (simp add: rsa_pair_def)
  show "shamir_recovers memory_host memory_host"
    unfolding shamir_recovers_def
  proof (intro allI impI)
    fix t t' :: trace and n k d ss and js :: "nat list"
    assume share: "h_shamir_share memory_host t n k d = Inr ss"
      and js: "set js \<subseteq> {..<length ss}" "0 < unat k" "unat k \<le> length js"
    then obtain j js' where "js = j # js'" "j < unat n"
      by (cases js) auto
    then show "h_shamir_recovery memory_host t' k (map ((!) ss) js) = Inr d"
      using share by (auto simp: memory_host_def)
  qed
qed

theorem distributed_key_recovers_witness:
  "\<exists>sk ds. h_generate memory_host [] ''bitcoin_mainnet'' = Inr ([2], sk) \<and>
     (\<forall>s. h_shamir_recovery memory_host s 1 ds = Inr sk)"
proof -
  obtain res t' where run: "generate_task_execution_response memory_host sample_ex_item (sample_request 2) [] = (Ok res, t')"
  proof -
    have "case generate_task_execution_response memory_host sample_ex_item (sample_request 2) [] of
        (Ok res, t') \<Rightarrow> True | _ \<Rightarrow> False"
      by code_simp
    then show ?thesis
      using that by (auto split: prod.splits outcome.splits)
  qed
  show ?thesis
    using distributed_key_recovers [OF run, of "[1]" 1 "\<lambda>_. memory_host" "\<lambda>_. []" memory_host]
    by (auto simp: sample_request_def memory_host_laws)
qed

end
