(* ===== verification/Gluon_Invitations.thy ===== *)
theory Gluon_Invitations
  imports Gluon_Candidates Gluon_Memory_Host
begin

text \<open>
  What an invitation promises: the task description that both sides read from it, the signature
  that binds it, and who is invited to pin.
\<close>

section \<open>The task description\<close>

text \<open>C19: a task description made from a request, of a peer or of layer 1, keeps the id and the type
  and holds \<open>n\<close> and \<open>k\<close> modulo 256; it exists exactly if these are a sound threshold, and the
  error tells which of the two is wrong.\<close>

theorem task_info_conversion:
  "task_info_from_candidate_request req =
     (let n = unat (kgc_n req) mod 256; k = unat (kgc_k req) mod 256
      in if n = 0 then Inl InvalidN
         else if k = 0 then Inl InvalidK
         else if n \<le> k then Inl InvalidK
         else Inr \<lparr>ti_task_id = kgc_task_id req,
           ti_exec_info = \<lparr>ei_n = word_of_nat n, ei_k = word_of_nat k, ei_task_type = kgc_key_type req\<rparr>\<rparr>) \<and>
   task_info_from_key_generation_response H res =
     (let n = unat (kgr_n res) mod 256; k = unat (kgr_k res) mod 256
      in if n = 0 then Inl InvalidN
         else if k = 0 then Inl InvalidK
         else if n \<le> k then Inl InvalidK
         else Inr \<lparr>ti_task_id = h_base64_encode H (kgr_task_id res),
           ti_exec_info = \<lparr>ei_n = word_of_nat n, ei_k = word_of_nat k, ei_task_type = kgr_key_type res\<rparr>\<rparr>)"
proof -
  have conv: "word_of_nat (unat w mod 256) = (ucast w :: u8)" for w :: u32
    by (rule unsigned_word_eqI [where ?'a = nat]) (simp add: u8_of_u32 unat_of_nat)
  have zero: "(ucast w :: u8) = 0 \<longleftrightarrow> unat w mod 256 = 0" for w :: u32
    by (metis u8_of_u32 unat_eq_zero)
  have le: "(ucast v :: u8) \<le> ucast w \<longleftrightarrow> unat v mod 256 \<le> unat w mod 256" for v w :: u32
    by (simp add: word_le_nat_alt u8_of_u32)
  show ?thesis
    by (simp add: task_info_from_candidate_request_def task_info_from_key_generation_response_def
        validate_task_info_def Let_def zero le conv)
qed

section \<open>The signature\<close>

text \<open>C18: the signed bytes determine the invitation, among invitations with task ids and delegator
  ids of the same lengths: the signature cannot be moved to another task, threshold, key type,
  delegator or role.\<close>

theorem signature_binds_invitation:
  fixes r r' :: key_generation_candidate_request
  assumes "length (kgc_task_id r) = length (kgc_task_id r')"
    and "length (kgc_delegator_ephemeral_id r) = length (kgc_delegator_ephemeral_id r')"
    and "to_candidate_signature_bytes (kgc_task_id r) (kgc_n r) (kgc_k r) (kgc_key_type r)
        (kgc_delegator_ephemeral_id r) (kgc_executor r) =
      to_candidate_signature_bytes (kgc_task_id r') (kgc_n r') (kgc_k r') (kgc_key_type r')
        (kgc_delegator_ephemeral_id r') (kgc_executor r')"
  shows "r\<lparr>kgc_signature := s\<rparr> = r'\<lparr>kgc_signature := s\<rparr>"
  using assms by (cases r; cases r') (simp add: to_candidate_signature_bytes_inject)

definition sample_invite :: "bool \<Rightarrow> key_generation_candidate_request" where
  "sample_invite e =
     \<lparr>kgc_task_id = ''task'', kgc_n = 2, kgc_k = 1, kgc_key_type = ''bitcoin_mainnet'',
      kgc_delegator_ephemeral_id = [7], kgc_executor = e, kgc_signature = []\<rparr>"

theorem signature_binds_invitation_witness:
  "sample_invite True\<lparr>kgc_signature := [1]\<rparr> = (sample_invite True\<lparr>kgc_signature := [2]\<rparr>)\<lparr>kgc_signature := [1]\<rparr>"
  by (rule signature_binds_invitation) (simp_all add: sample_invite_def)

section \<open>Invitations that are sent\<close>

text \<open>An invitation whose signature verifies, as far as a node can tell.\<close>

definition genuine :: "host \<Rightarrow> key_generation_candidate_request \<Rightarrow> bool" where
  "genuine H req \<longleftrightarrow> (\<forall>t. h_verify_ed25519 H t (kgc_delegator_ephemeral_id req)
     (to_candidate_signature_bytes (kgc_task_id req) (kgc_n req) (kgc_k req) (kgc_key_type req)
        (kgc_delegator_ephemeral_id req) (kgc_executor req)) (kgc_signature req) = Inr True)"

lemma invitation_sent:
  assumes "working H" "valid_task info"
    and "\<forall>t. h_get_my_ephemeral_id H t = Inr eid" "\<forall>t d. \<exists>s. h_sign_ed25519 H t d = Inr s"
    and "\<forall>t t' d s. h_sign_ed25519 H t d = Inr s \<longrightarrow> h_verify_ed25519 H' t' eid d s = Inr True"
  obtains req where "sends (snd (send_key_candidate_request H peer info executor t)) =
      (peer, ti_task_id info, KeyGenerationCandidateRequest req) # sends t"
    "task_info_from_candidate_request req = Inr info" "kgc_task_id req = ti_task_id info"
    "kgc_executor req = executor" "kgc_delegator_ephemeral_id req = eid" "genuine H' req"
proof -
  let ?n = "ucast (ei_n (ti_exec_info info)) :: u32" and ?k = "ucast (ei_k (ti_exec_info info)) :: u32"
  let ?d = "to_candidate_signature_bytes (ti_task_id info) ?n ?k (ei_task_type (ti_exec_info info)) eid executor"
  obtain s where s: "h_sign_ed25519 H (EPrim ''get_my_ephemeral_id'' # t) ?d = Inr s"
    using assms(4) by blast
  let ?req = "\<lparr>kgc_task_id = ti_task_id info, kgc_n = ?n, kgc_k = ?k,
    kgc_key_type = ei_task_type (ti_exec_info info), kgc_delegator_ephemeral_id = eid,
    kgc_executor = executor, kgc_signature = s\<rparr>"
  have "sends (snd (send_key_candidate_request H peer info executor t)) =
      (peer, ti_task_id info, KeyGenerationCandidateRequest ?req) # sends t"
    using s assms(3)
    by (simp add: send_key_candidate_request_def Let_def bindA_app(1) [OF prim_app(1)]
        working_call [OF assms(1)])
  moreover have "ucast (ucast w :: u32) = w" for w :: u8
    by (rule bit_word_eqI) (auto simp: bit_simps)
  then have "task_info_from_candidate_request ?req = Inr info"
    using assms(2)
    by (simp add: task_info_from_candidate_request_def validate_task_info_iff valid_task_def)
  moreover have "genuine H' ?req"
    using assms(5) s by (simp add: genuine_def)
  ultimately show ?thesis
    using that [of ?req] by simp
qed

section \<open>Who is invited to pin\<close>

lemma nearest_sorted: "sorted (map (peer_distance n l) (nearest n l D ids))"
proof (induction D)
  case (Suc D)
  have "peer_distance n l p < D" if "p \<in> set (nearest n l D ids)" for p
    using that by (simp add: set_nearest)
  moreover have "sorted (map (peer_distance n l) (filter (\<lambda>p. peer_distance n l p = D) ids))"
    by (induction ids) auto
  ultimately show ?case
    using Suc by (auto simp: nearest_Suc sorted_append less_imp_le)
qed (simp add: nearest_def)

lemma selected_prefix_nearest:
  assumes "random_select_peers checks ids n task_id = Ok ps"
    and "x \<in> set (take m ps)" "y \<in> set ids - set (take m ps)" "unat n * 2 \<le> m"
  shows "peer_distance n (last (as_bytes task_id) mod n) x \<le>
    peer_distance n (last (as_bytes task_id) mod n) y"
proof -
  let ?l = "last (as_bytes task_id) mod n"
  consider "ps = ids" "length ids < unat n * 2"
    | "ps = nearest n ?l (sufficient_distance n ?l ids) ids"
    using assms(1) by (auto simp: random_select_peers_eq Let_def split: if_splits)
  then show ?thesis
  proof cases
    case 1
    then show ?thesis using assms(3,4) by simp
  next
    case 2
    have "sorted (map (peer_distance n ?l) (take m ps) @ map (peer_distance n ?l) (drop m ps))"
      using 2 nearest_sorted by (metis append_take_drop_id map_append)
    then have rest: "y \<in> set (drop m ps) \<Longrightarrow> ?thesis"
      using assms(2) by (auto simp only: sorted_append set_map)
    have "y \<in> set ps \<or> \<not> peer_distance n ?l y < sufficient_distance n ?l ids"
      using 2 assms(3) by (auto simp: set_nearest)
    moreover have "peer_distance n ?l x < sufficient_distance n ?l ids"
      using 2 assms(2) by (auto simp: set_nearest dest: in_set_takeD)
    moreover have "y \<in> set ps \<Longrightarrow> y \<in> set (drop m ps)"
      using assms(3) by (metis DiffD2 Un_iff append_take_drop_id set_append)
    ultimately show ?thesis using rest by auto
  qed
qed

lemma invitations_sent:
  assumes "working H" "\<forall>t. \<exists>e. h_get_my_ephemeral_id H t = Inr e"
    and "\<forall>t d. \<exists>s. h_sign_ed25519 H t d = Inr s"
  shows "\<exists>t' rs. for_each (\<lambda>p. send_key_candidate_request H p info False) ps t = (Ok (), t') \<and>
    length rs = length ps \<and> list_all (\<lambda>r. kgc_task_id r = ti_task_id info \<and> \<not> kgc_executor r) rs \<and>
    sends t' = rev (map (\<lambda>(p, r). (p, ti_task_id info, KeyGenerationCandidateRequest r)) (zip ps rs)) @ sends t"
proof (induction ps arbitrary: t)
  case (Cons p ps)
  obtain e where e: "h_get_my_ephemeral_id H t = Inr e" using assms(2) by blast
  have "\<exists>r t1. send_key_candidate_request H p info False t = (Ok (), t1) \<and>
      kgc_task_id r = ti_task_id info \<and> \<not> kgc_executor r \<and>
      sends t1 = (p, ti_task_id info, KeyGenerationCandidateRequest r) # sends t"
  proof -
    obtain s where "h_sign_ed25519 H (EPrim ''get_my_ephemeral_id'' # t)
        (to_candidate_signature_bytes (ti_task_id info) (ucast (ei_n (ti_exec_info info)))
          (ucast (ei_k (ti_exec_info info))) (ei_task_type (ti_exec_info info)) e False) = Inr s"
      using assms(3) by blast
    then show ?thesis
      using e by (auto simp: send_key_candidate_request_def Let_def bindA_app(1) [OF prim_app(1)]
          working_call [OF assms(1)])
  qed
  then obtain r t1 where t1: "send_key_candidate_request H p info False t = (Ok (), t1)"
    "kgc_task_id r = ti_task_id info" "\<not> kgc_executor r"
    "sends t1 = (p, ti_task_id info, KeyGenerationCandidateRequest r) # sends t"
    by blast
  obtain t' rs where "for_each (\<lambda>p. send_key_candidate_request H p info False) ps t1 = (Ok (), t')"
    "length rs = length ps" "list_all (\<lambda>r. kgc_task_id r = ti_task_id info \<and> \<not> kgc_executor r) rs"
    "sends t' = rev (map (\<lambda>(p, r). (p, ti_task_id info, KeyGenerationCandidateRequest r)) (zip ps rs)) @ sends t1"
    using Cons.IH [of t1] by blast
  then show ?case
    using t1 by (intro exI [of _ t'] exI [of _ "r # rs"]) (simp add: act_simps)
qed (simp add: act_simps)

text \<open>C16: twice as many peers as there are slices are invited to pin, all if there are not so many;
  each is a peer of the swarm that is no delegate, each is told the task and that it is to pin,
  and no peer is passed over for one whose distance to the task is greater.\<close>

theorem pinners_invited:
  assumes "working H" "\<forall>t. \<exists>e. h_get_my_ephemeral_id H t = Inr e"
    and "\<forall>t d. \<exists>s. h_sign_ed25519 H t d = Inr s"
    and "h_ipfs_swarm_peers H t = Inr peers" "[] \<notin> set peers" "ti_task_id info \<noteq> []"
    and "ei_n (ti_exec_info info) \<noteq> 0" "ids = filter (\<lambda>p. p \<notin> set filter_ids) peers"
  shows "\<exists>t' ps rs. invite_candidate_initial_pinners H info filter_ids t = (Ok (), t') \<and>
    mset ps \<subseteq># mset ids \<and>
    length ps = min (unat (ei_n (ti_exec_info info)) * 2) (length ids) \<and>
    list_all (\<lambda>r. kgc_task_id r = ti_task_id info \<and> \<not> kgc_executor r) rs \<and>
    sends t' = rev (map (\<lambda>(p, r). (p, ti_task_id info, KeyGenerationCandidateRequest r)) (zip ps rs)) @ sends t \<and>
    length rs = length ps \<and>
    (\<forall>x \<in> set ps. \<forall>y \<in> set ids - set ps.
       peer_distance (ei_n (ti_exec_info info)) (last (as_bytes (ti_task_id info)) mod ei_n (ti_exec_info info)) x \<le>
       peer_distance (ei_n (ti_exec_info info)) (last (as_bytes (ti_task_id info)) mod ei_n (ti_exec_info info)) y)"
proof -
  let ?n = "ei_n (ti_exec_info info)" and ?m = "unat (ei_n (ti_exec_info info)) * 2"
  have "\<exists>qs. random_select_peers (h_overflow_checks H) ids ?n (ti_task_id info) = Ok qs"
    unfolding random_select_peers_eq Let_def using assms(5-8) by auto
  then obtain qs where qs: "random_select_peers (h_overflow_checks H) ids ?n (ti_task_id info) = Ok qs"
    by blast
  note sel = random_select_peers_Ok(1,2) [OF qs] selected_prefix_nearest [OF qs, where m = ?m]
  let ?ps = "take ?m qs"
  obtain t' rs where run: "for_each (\<lambda>p. send_key_candidate_request H p info False) ?ps
      (EPrim ''ipfs_swarm_peers'' # t) = (Ok (), t')" "length rs = length ?ps"
    "list_all (\<lambda>r. kgc_task_id r = ti_task_id info \<and> \<not> kgc_executor r) rs"
    "sends t' = rev (map (\<lambda>(p, r). (p, ti_task_id info, KeyGenerationCandidateRequest r)) (zip ?ps rs)) @ sends t"
    using invitations_sent [OF assms(1-3), of info ?ps "EPrim ''ipfs_swarm_peers'' # t"] by auto
  have "invite_candidate_initial_pinners H info filter_ids t = (Ok (), t')"
    using assms(4,8) qs run(1)
    by (simp add: invite_candidate_initial_pinners_def bindA_app(1) [OF prim_app(1)] bindA_liftA)
  moreover have "mset ?ps \<subseteq># mset ids"
    using sel(1) by (metis append_take_drop_id mset_append mset_subset_eq_add_left subset_mset.order_trans)
  moreover have "length ?ps = min ?m (length ids)"
    using sel(2) size_mset_mono [OF sel(1)] by (auto simp: min_def)
  ultimately show ?thesis
    using run(2-4) sel(3) by blast
qed

theorem pinners_invited_witness:
  "\<exists>t' ps rs. invite_candidate_initial_pinners (memory_host\<lparr>h_ipfs_swarm_peers := (\<lambda>_. Inr [''p'', ''q'', ''d''])\<rparr>)
       \<lparr>ti_task_id = ''task'', ti_exec_info = \<lparr>ei_n = 2, ei_k = 1, ei_task_type = ''t''\<rparr>\<rparr> [''d''] [] = (Ok (), t') \<and>
     mset ps \<subseteq># {#''p'', ''q''#} \<and> length ps = 2 \<and> length (sends t') = 2"
proof -
  let ?H = "memory_host\<lparr>h_ipfs_swarm_peers := (\<lambda>_. Inr [''p'', ''q'', ''d''])\<rparr>"
  have "working ?H"
    using memory_host_working by (simp add: working_def accepting_def)
  moreover have "\<forall>t. \<exists>e. h_get_my_ephemeral_id ?H t = Inr e" "\<forall>t d. \<exists>s. h_sign_ed25519 ?H t d = Inr s"
    by (simp_all add: memory_host_def)
  ultimately show ?thesis
    using pinners_invited [of ?H "[]" "[''p'', ''q'', ''d'']"
        "\<lparr>ti_task_id = ''task'', ti_exec_info = \<lparr>ei_n = 2, ei_k = 1, ei_task_type = ''t''\<rparr>\<rparr>" "[''p'', ''q'']" "[''d'']"]
    by fastforce
qed

end
