(* ===== verification/Gluon_Actor.thy ===== *)
theory Gluon_Actor
  imports Gluon_Dispatch Gluon_Roles Gluon_Invitations
begin

text \<open>
  What the entry point promises: which subjects reach which handler, what the pinner actor is told
  about an attestation, when an invitation is accepted, that one to a second role is ignored unless
  both are under way at once, and when the debug messages panic.
\<close>

section \<open>Routing\<close>

lemma split_subject:
  "split_on CHR ''.'' (''ipfs.p2p.listen.'' @ p) = ''ipfs'' # ''p2p'' # ''listen'' # split_on CHR ''.'' p"
  "split_on CHR ''.'' (''actor.gluon.inbox.'' @ u) = ''actor'' # ''gluon'' # ''inbox'' # split_on CHR ''.'' u"
  "split_on CHR ''.'' (''reply.gluon.'' @ u) = ''reply'' # ''gluon'' # split_on CHR ''.'' u"
  by simp_all

lemma split_on_length:
  "length (split_on c s) = Suc (count_list s c)"
  by (induction s) (auto split: list.splits)

lemma split_on_parts:
  "(c \<notin> set s \<and> split_on c s = [s]) \<or> (\<exists>a b r. c \<in> set s \<and> split_on c s = a # b # r)"
proof (cases "c \<in> set s")
  case True
  then have "2 \<le> length (split_on c s)"
    by (simp add: split_on_length Suc_le_eq count_list_0_iff flip: neq0_conv)
  then show ?thesis
    using True by (cases "split_on c s"; cases "tl (split_on c s)") auto
qed (simp add: split_on_plain)

text \<open>C38: a message reaches the peer-to-peer handler, or the inbox, with exactly the peer or the id
  that its subject ends with; a peer or an id with a dot in it is never heard, without an error.\<close>

theorem subject_routing:
  "handle_message H (msg\<lparr>bm_subject := ''ipfs.p2p.listen.'' @ p\<rparr>) =
     (if CHR ''.'' \<in> set p then returnA ()
      else listen_p2p_message H p (msg\<lparr>bm_subject := ''ipfs.p2p.listen.'' @ p\<rparr>)) \<and>
   handle_message H (msg\<lparr>bm_subject := ''actor.gluon.inbox.'' @ u\<rparr>) =
     (if CHR ''.'' \<in> set u then returnA ()
      else result_handler H (msg\<lparr>bm_subject := ''actor.gluon.inbox.'' @ u\<rparr>) u) \<and>
   handle_message H (msg\<lparr>bm_subject := ''reply.gluon.'' @ u\<rparr>) =
     (if CHR ''.'' \<in> set u then returnA ()
      else result_handler H (msg\<lparr>bm_subject := ''reply.gluon.'' @ u\<rparr>) u)"
  using split_on_parts [of "CHR ''.''" p] split_on_parts [of "CHR ''.''" u]
  by (auto simp: handle_message_def split_subject MY_ACTOR_NAME_def PINNER_ACTOR_NAME_def
      simp del: split_on.simps append.simps split: list.splits)

section \<open>Attestations\<close>

text \<open>C39: the pinner actor is told to accept an attestation exactly if it carries the tag of a key
  generation or of a signature of this actor; without a challenge it is an error, and nothing is
  told.\<close>

theorem strategy_checked:
  assumes "working H" "h_decode_server_check_strategy H (bm_body msg) = Inr challenge"
    and "\<forall>m. \<exists>body. h_encode_protobuf H m = Inr body"
  shows "case challenge of
      None \<Rightarrow> pinner_server_check_strategy H msg t = (Err ExpectChallangeStoreItem, t)
    | Some item \<Rightarrow> \<exists>text body. pinner_server_check_strategy H msg t = (Ok (), EReply (bm_reply_to msg) body # t) \<and>
        h_encode_protobuf H (PbServerCheckStrategyResult
          (property_or_default PROPERTY_KEY_GEN_FLAG item = BINDING_NAME \<or>
           property_or_default PROPERTY_SIGN_FLAG item = BINDING_NAME) text) = Inr body"
proof (cases challenge)
  case None
  then show ?thesis
    using assms(2)
    by (simp add: pinner_server_check_strategy_def bindA_app(1) [OF pure_app(1)]
        bindA_app(2) [OF require_app(2)])
next
  case (Some item)
  let ?v = "is_key_gen_tag item \<or> is_sign_tag item"
  let ?text = "if ?v then ''passed'' else ''88:src/lib.rs item not found in delegator''"
  obtain body where body: "h_encode_protobuf H (PbServerCheckStrategyResult ?v ?text) = Inr body"
    using assms(3) by blast
  have "pinner_server_check_strategy H msg t = (Ok (), EReply (bm_reply_to msg) body # t)"
    using Some assms(2) body
    by (auto simp: pinner_server_check_strategy_def bindA_app(1) [OF pure_app(1)]
        bindA_app(1) [OF require_app(1)] working_call [OF assms(1)] Let_def)
  then show ?thesis
    using Some body by (auto simp: is_key_gen_tag_def is_sign_tag_def)
qed

theorem strategy_checked_witness:
  "\<exists>body. pinner_server_check_strategy (memory_host\<lparr>h_decode_server_check_strategy :=
       (\<lambda>_. Inr (Some \<lparr>cs_uuid = '''', cs_properties = []\<rparr>))\<rparr>)
     \<lparr>bm_subject = '''', bm_reply_to = ''r'', bm_body = []\<rparr> [] = (Ok (), [EReply ''r'' body])"
proof -
  let ?H = "memory_host\<lparr>h_decode_server_check_strategy :=
       (\<lambda>_. Inr (Some \<lparr>cs_uuid = '''', cs_properties = []\<rparr>))\<rparr>"
  have "working ?H"
    using memory_host_working by (simp add: working_def accepting_def)
  then show ?thesis
    using strategy_checked [of ?H "\<lparr>bm_subject = '''', bm_reply_to = ''r'', bm_body = []\<rparr>"
        "Some \<lparr>cs_uuid = '''', cs_properties = []\<rparr>" "[]"]
    by auto
qed

section \<open>Invitations\<close>

text \<open>Whether a node may still take the role it is invited to: it has not the other one.\<close>

definition role_free :: "trace \<Rightarrow> key_generation_candidate_request \<Rightarrow> bool" where
  "role_free t req \<longleftrightarrow>
     (if kgc_executor req then stored t (ip_task_store_item_key (kgc_task_id req)) = None
      else stored t (ex_task_store_item_key (kgc_task_id req)) = None)"

definition candidate_cont :: "string \<Rightarrow> key_generation_candidate_request \<Rightarrow> verify_cont" where
  "candidate_cont peer req =
     (if kgc_executor req then ContExecutorCandidate peer req else ContPinnerCandidate peer req)"

text \<open>The task is stored, in the role of the invitation, as one the node applied for.\<close>

definition applied_for :: "trace \<Rightarrow> key_generation_candidate_request \<Rightarrow> task_info \<Rightarrow> bool" where
  "applied_for t req info \<longleftrightarrow>
     (if kgc_executor req
      then stored t (ex_task_store_item_key (kgc_task_id req)) =
        Some (VExec \<lparr>ex_task_info = info, ex_status = ExRequested\<rparr>)
      else stored t (ip_task_store_item_key (kgc_task_id req)) =
        Some (VPinner \<lparr>ip_task_info = info, ip_status = IpRequested\<rparr>))"

lemma working_contains_none:
  assumes "working H"
  shows "stored t (ex_task_store_item_key i) = None \<Longrightarrow>
      ex_contains H i t = (Ok False, EUnlock i # EGet (ex_task_store_item_key i) # ELock i # t)"
    "stored t (ip_task_store_item_key i) = None \<Longrightarrow>
      ip_contains H i t = (Ok False, EUnlock i # EGet (ip_task_store_item_key i) # ELock i # t)"
  using assms by (simp_all add: ex.contains_eq ip.contains_eq working_def reads_all_def)

text \<open>A genuine invitation only leads to a lookup of the delegator's profile.\<close>

lemma invitation_registered:
  assumes "working H" "genuine H req" "role_free t req"
  shows "\<exists>t'. handle_general_msg H (KeyGenerationCandidateRequest req) peer reply_to t =
      (Ok (), ELookupProfile (kgc_delegator_ephemeral_id req) ''actor.gluon.inbox''
         (CbVerifyCandidate peer (candidate_cont peer req)) # t') \<and>
    sends t' = sends t \<and> stored t' = stored t"
proof -
  let ?i = "kgc_task_id req"
  let ?k = "if kgc_executor req then ip_task_store_item_key ?i else ex_task_store_item_key ?i"
  have "handle_general_msg H (KeyGenerationCandidateRequest req) peer reply_to t =
      (Ok (), ELookupProfile (kgc_delegator_ephemeral_id req) ''actor.gluon.inbox''
         (CbVerifyCandidate peer (candidate_cont peer req)) # EPrim ''verify_ed25519_signature'' #
         EUnlock ?i # EGet ?k # ELock ?i # t)"
    using assms(2,3)
    by (cases "kgc_executor req")
      (simp_all add: role_free_def genuine_def candidate_cont_def working_call [OF assms(1)]
        ex_task_key_generation_candidate_request_handler_def bindA_app(1) [OF prim_app(1)]
        ip_task_key_generation_candidate_request_handler_def verify_to_candidate_signature_def
        bindA_app(1) [OF working_contains_none(1) [OF assms(1)]]
        bindA_app(1) [OF working_contains_none(2) [OF assms(1)]])
  then show ?thesis
    by (simp add: fun_eq_iff)
qed

lemma verified_candidate_applies:
  assumes "working H" "task_info_from_candidate_request req = Inr info"
    and "\<forall>t. \<exists>p. h_generate_rsa_keypair H t = Inr p" "\<forall>s. \<exists>b. h_rsa_key_to_bytes H s = Inr b"
  shows "(\<exists>key. sends (snd (run_profile_callback H (CbVerifyCandidate peer (candidate_cont peer req)) peer t)) =
      (peer, kgc_task_id req, TaskKeyGenerationApplyRequst \<lparr>kga_task_id = kgc_task_id req,
         kga_rsa_pub_key = key, kga_apply_executor = kgc_executor req\<rparr>) # sends t) \<and>
    applied_for (snd (run_profile_callback H (CbVerifyCandidate peer (candidate_cont peer req)) peer t)) req info"
  using executor_candidate_applies(1,2) [OF assms prod.collapse [symmetric]]
    pinner_candidate_applies(1,2) [OF assms prod.collapse [symmetric]]
  by (auto simp: candidate_cont_def verify_candidate_callback_def applied_for_def)

text \<open>C17: an invitation the delegator sends is one its receiver accepts. A node that does not hold the
  other role of the task, and to which signatures of the delegator verify, stores nothing and
  sends nothing yet, but looks up the profile of the delegator the invitation names. If the
  peer in this profile is the sender, the node stores the task the delegator holds and applies
  to the sender for the role of the invitation; any other peer is refused, and nothing happens.\<close>

theorem invitation_roundtrip:
  assumes "working H" "working H'" "valid_task info"
    and "\<forall>t. h_get_my_ephemeral_id H t = Inr eid" "\<forall>t d. \<exists>s. h_sign_ed25519 H t d = Inr s"
    and "\<forall>t t' d s. h_sign_ed25519 H t d = Inr s \<longrightarrow> h_verify_ed25519 H' t' eid d s = Inr True"
    and "\<forall>t. \<exists>p. h_generate_rsa_keypair H' t = Inr p" "\<forall>s. \<exists>b. h_rsa_key_to_bytes H' s = Inr b"
    and "stored t' (ip_task_store_item_key (ti_task_id info)) = None"
    and "stored t' (ex_task_store_item_key (ti_task_id info)) = None"
  shows "\<exists>req cb t''. sends (snd (send_key_candidate_request H peer info executor t)) =
      (peer, ti_task_id info, KeyGenerationCandidateRequest req) # sends t \<and> kgc_executor req = executor \<and>
    handle_general_msg H' (KeyGenerationCandidateRequest req) sender reply_to t' =
      (Ok (), ELookupProfile eid ''actor.gluon.inbox'' cb # t'') \<and>
    sends t'' = sends t' \<and> stored t'' = stored t' \<and>
    (\<forall>s key_peer. if key_peer = sender
       then applied_for (snd (run_profile_callback H' cb key_peer s)) req info \<and>
         (\<exists>key. sends (snd (run_profile_callback H' cb key_peer s)) =
           (sender, ti_task_id info, TaskKeyGenerationApplyRequst \<lparr>kga_task_id = ti_task_id info,
              kga_rsa_pub_key = key, kga_apply_executor = executor\<rparr>) # sends s)
       else run_profile_callback H' cb key_peer s = (Err (DelegatorPeerMismatch key_peer sender), s))"
proof -
  obtain req where req: "sends (snd (send_key_candidate_request H peer info executor t)) =
      (peer, ti_task_id info, KeyGenerationCandidateRequest req) # sends t"
    "task_info_from_candidate_request req = Inr info" "kgc_task_id req = ti_task_id info"
    "kgc_executor req = executor" "kgc_delegator_ephemeral_id req = eid" "genuine H' req"
    using invitation_sent [OF assms(1,3-6)] by blast
  have "role_free t' req"
    using assms(9,10) req(3) by (simp add: role_free_def)
  from invitation_registered [OF assms(2) req(6) this] obtain t''
    where handled: "handle_general_msg H' (KeyGenerationCandidateRequest req) sender reply_to t' =
      (Ok (), ELookupProfile eid ''actor.gluon.inbox'' (CbVerifyCandidate sender (candidate_cont sender req)) # t'')"
      "sends t'' = sends t'" "stored t'' = stored t'"
    using req(5) by metis
  have "run_profile_callback H' (CbVerifyCandidate sender cont) p s = (Err (DelegatorPeerMismatch p sender), s)"
    if "p \<noteq> sender" for cont p s
    using that by (simp add: verify_candidate_callback_def act_simps)
  then show ?thesis
    using req(1,4) handled verified_candidate_applies [OF assms(2) req(2) assms(7,8), of sender] req(3)
    by (intro exI [of _ req] exI [of _ "CbVerifyCandidate sender (candidate_cont sender req)"] exI [of _ t''])
      (simp del: run_profile_callback.simps)
qed

definition sample_task :: task_info where
  "sample_task = \<lparr>ti_task_id = ''task'', ti_exec_info = \<lparr>ei_n = 2, ei_k = 1, ei_task_type = ''t''\<rparr>\<rparr>"

theorem invitation_roundtrip_witness:
  "\<exists>req cb t'. sends (snd (send_key_candidate_request memory_host ''p'' sample_task True [])) =
       [(''p'', ''task'', KeyGenerationCandidateRequest req)] \<and>
     handle_general_msg memory_host (KeyGenerationCandidateRequest req) ''d'' ''r'' [] =
       (Ok (), ELookupProfile [7] ''actor.gluon.inbox'' cb # t') \<and>
     applied_for (snd (run_profile_callback memory_host cb ''d'' t')) req sample_task \<and>
     run_profile_callback memory_host cb ''x'' t' = (Err (DelegatorPeerMismatch ''x'' ''d''), t')"
proof -
  have "valid_task sample_task"
    by (simp add: valid_task_def sample_task_def)
  moreover have "\<forall>t. h_get_my_ephemeral_id memory_host t = Inr [7]"
    "\<forall>t d. \<exists>s. h_sign_ed25519 memory_host t d = Inr s"
    "\<forall>t t' d s. h_sign_ed25519 memory_host t d = Inr s \<longrightarrow> h_verify_ed25519 memory_host t' [7] d s = Inr True"
    "\<forall>t. \<exists>p. h_generate_rsa_keypair memory_host t = Inr p"
    "\<forall>s. \<exists>b. h_rsa_key_to_bytes memory_host s = Inr b"
    by (simp_all add: memory_host_def)
  moreover have "stored [] (ip_task_store_item_key (ti_task_id sample_task)) = None"
    "stored [] (ex_task_store_item_key (ti_task_id sample_task)) = None"
    by simp_all
  moreover note all = calculation
  obtain req cb t' where "sends (snd (send_key_candidate_request memory_host ''p'' sample_task True [])) =
      [(''p'', ti_task_id sample_task, KeyGenerationCandidateRequest req)]"
    "handle_general_msg memory_host (KeyGenerationCandidateRequest req) ''d'' ''r'' [] =
      (Ok (), ELookupProfile [7] ''actor.gluon.inbox'' cb # t')"
    and run: "\<forall>s p. if p = ''d''
      then applied_for (snd (run_profile_callback memory_host cb p s)) req sample_task \<and>
        (\<exists>key. sends (snd (run_profile_callback memory_host cb p s)) =
           (''d'', ti_task_id sample_task, TaskKeyGenerationApplyRequst \<lparr>kga_task_id = ti_task_id sample_task,
              kga_rsa_pub_key = key, kga_apply_executor = True\<rparr>) # sends s)
      else run_profile_callback memory_host cb p s = (Err (DelegatorPeerMismatch p ''d''), s)"
    using invitation_roundtrip [OF memory_host_working memory_host_working all, of "''p''" True "[]" "''d''" "''r''"]
    by fastforce
  then show ?thesis
    using spec [OF spec [OF run, of t'], of "''d''"] spec [OF spec [OF run, of t'], of "''x''"]
    by (intro exI [of _ req] exI [of _ cb] exI [of _ t']) (simp add: sample_task_def)
qed

text \<open>C32: the check for a second role is made when an invitation arrives, not when it is acted on. If a
  node is invited to be the executor and to be an initial pinner of the same task, and both
  invitations are genuine and arrive before either lookup returns, it takes both roles, stores
  both and applies for both.\<close>

theorem overlapping_invitations:
  assumes "working H" "genuine H req" "genuine H req'"
    and "kgc_executor req" "\<not> kgc_executor req'" "kgc_task_id req = i" "kgc_task_id req' = i"
    and "task_info_from_candidate_request req = Inr info" "task_info_from_candidate_request req' = Inr info'"
    and "\<forall>t. \<exists>p. h_generate_rsa_keypair H t = Inr p" "\<forall>s. \<exists>b. h_rsa_key_to_bytes H s = Inr b"
    and "stored t (ip_task_store_item_key i) = None" "stored t (ex_task_store_item_key i) = None"
    and "handle_general_msg H (KeyGenerationCandidateRequest req) peer r t = (x1, t1)"
    and "handle_general_msg H (KeyGenerationCandidateRequest req') peer' r' t1 = (x2, t2)"
  shows "\<exists>cb cb'. registers (hd t1) (InvokeProfile cb peer) \<and> registers (hd t2) (InvokeProfile cb' peer') \<and>
    (let t3 = snd (run_profile_callback H cb peer t2); t4 = snd (run_profile_callback H cb' peer' t3)
     in stored t4 (ex_task_store_item_key i) = Some (VExec \<lparr>ex_task_info = info, ex_status = ExRequested\<rparr>) \<and>
       stored t4 (ip_task_store_item_key i) = Some (VPinner \<lparr>ip_task_info = info', ip_status = IpRequested\<rparr>) \<and>
       (\<exists>key key'. sends t4 =
          (peer', i, TaskKeyGenerationApplyRequst
             \<lparr>kga_task_id = i, kga_rsa_pub_key = key', kga_apply_executor = False\<rparr>) #
          (peer, i, TaskKeyGenerationApplyRequst
             \<lparr>kga_task_id = i, kga_rsa_pub_key = key, kga_apply_executor = True\<rparr>) # sends t))"
proof -
  let ?cb = "CbVerifyCandidate peer (ContExecutorCandidate peer req)"
    and ?cb' = "CbVerifyCandidate peer' (ContPinnerCandidate peer' req')"
  have "role_free t req"
    using assms(4,6,12) by (simp add: role_free_def)
  from invitation_registered [OF assms(1,2) this, of peer r] obtain s1 where t1: "t1 = ELookupProfile
      (kgc_delegator_ephemeral_id req) ''actor.gluon.inbox'' ?cb # s1" "sends s1 = sends t" "stored s1 = stored t"
    using assms(4,14) by (auto simp: candidate_cont_def simp del: handle_general_msg.simps)
  then have "role_free t1 req'"
    using assms(5,7,13) by (simp add: role_free_def)
  from invitation_registered [OF assms(1,3) this, of peer' r'] obtain s2 where t2: "t2 = ELookupProfile
      (kgc_delegator_ephemeral_id req') ''actor.gluon.inbox'' ?cb' # s2" "sends s2 = sends t1"
    using assms(5,15) by (auto simp: candidate_cont_def simp del: handle_general_msg.simps)
  define t3 where "t3 = snd (run_profile_callback H ?cb peer t2)"
  define t4 where "t4 = snd (run_profile_callback H ?cb' peer' t3)"
  have run: "executor_candidate_callback H peer req t2 = (fst (run_profile_callback H ?cb peer t2), t3)"
    "pinner_candidate_callback H peer' req' t3 = (fst (run_profile_callback H ?cb' peer' t3), t4)"
    by (simp_all add: t3_def t4_def verify_candidate_callback_def)
  note first = executor_candidate_applies [OF assms(1,8,10,11) run(1)]
    and second = pinner_candidate_applies [OF assms(1,9,10,11) run(2)]
  have "registers (hd t1) (InvokeProfile ?cb peer)" "registers (hd t2) (InvokeProfile ?cb' peer')"
    by (simp_all add: t1 t2)
  moreover have "stored t4 (ex_task_store_item_key i) = Some (VExec \<lparr>ex_task_info = info, ex_status = ExRequested\<rparr>)"
    "stored t4 (ip_task_store_item_key i) = Some (VPinner \<lparr>ip_task_info = info', ip_status = IpRequested\<rparr>)"
    using first(2) second(2,3) by (simp_all add: assms(6,7))
  moreover have "sends t2 = sends t"
    using t1 t2 by simp
  ultimately show ?thesis
    using first(1) second(1) unfolding assms(6,7) Let_def t4_def [symmetric] t3_def [symmetric]
    by (intro exI [of _ ?cb] exI [of _ ?cb']) (auto simp flip: t3_def t4_def simp del: run_profile_callback.simps)
qed

text \<open>A genuine invitation for the node \<open>memory_host\<close>, whose signatures are the signed text.\<close>

definition signed_invite :: "bool \<Rightarrow> key_generation_candidate_request" where
  "signed_invite e = sample_invite e\<lparr>kgc_signature :=
     to_candidate_signature_bytes ''task'' 2 1 ''bitcoin_mainnet'' [7] e\<rparr>"

theorem overlapping_invitations_witness:
  "\<exists>cb cb'. let t1 = snd (handle_general_msg memory_host (KeyGenerationCandidateRequest (signed_invite True)) ''d'' ''r'' []);
       t2 = snd (handle_general_msg memory_host (KeyGenerationCandidateRequest (signed_invite False)) ''d'' ''r'' t1);
       t3 = snd (run_profile_callback memory_host cb ''d'' t2);
       t4 = snd (run_profile_callback memory_host cb' ''d'' t3)
   in registers (hd t1) (InvokeProfile cb ''d'') \<and> registers (hd t2) (InvokeProfile cb' ''d'') \<and>
      stored t4 (ex_task_store_item_key ''task'') \<noteq> None \<and>
      stored t4 (ip_task_store_item_key ''task'') \<noteq> None \<and> length (sends t4) = 2"
proof -
  have genuine: "genuine memory_host (signed_invite e)" for e
    by (simp add: genuine_def signed_invite_def sample_invite_def memory_host_def)
  have info: "task_info_from_candidate_request (signed_invite True) = Inr \<lparr>ti_task_id = ''task'',
      ti_exec_info = \<lparr>ei_n = 2, ei_k = 1, ei_task_type = ''bitcoin_mainnet''\<rparr>\<rparr>"
    "task_info_from_candidate_request (signed_invite False) = Inr \<lparr>ti_task_id = ''task'',
      ti_exec_info = \<lparr>ei_n = 2, ei_k = 1, ei_task_type = ''bitcoin_mainnet''\<rparr>\<rparr>"
    by code_simp+
  have fields: "kgc_executor (signed_invite True)" "\<not> kgc_executor (signed_invite False)"
    "kgc_task_id (signed_invite True) = ''task''" "kgc_task_id (signed_invite False) = ''task''"
    by (simp_all add: signed_invite_def sample_invite_def)
  have keys: "\<forall>t. \<exists>p. h_generate_rsa_keypair memory_host t = Inr p"
    "\<forall>s. \<exists>b. h_rsa_key_to_bytes memory_host s = Inr b"
    by (simp_all add: memory_host_def)
  have empty: "stored [] (ip_task_store_item_key ''task'') = None" "stored [] (ex_task_store_item_key ''task'') = None"
    by simp_all
  show ?thesis
    using overlapping_invitations [OF memory_host_working genuine genuine fields info keys empty
        prod.collapse [symmetric] prod.collapse [symmetric], of "''d''" "''r''" "''d''" "''r''"]
    unfolding Let_def by fastforce
qed

section \<open>Invitations to a second role\<close>

text \<open>C33: once a node holds a task as an initial pinner it ignores invitations to be its executor, and
  the other way round: it reads its store and nothing else happens.\<close>

theorem second_role_ignored:
  assumes "kv_faithful H"
    and "if kgc_executor req
      then \<exists>it. stored t (ip_task_store_item_key (kgc_task_id req)) = Some (VPinner it)
      else \<exists>it. stored t (ex_task_store_item_key (kgc_task_id req)) = Some (VExec it)"
    and "handle_general_msg H (KeyGenerationCandidateRequest req) peer_id reply_to t = (r, t')"
  shows "(\<exists>k. t' = EUnlock (kgc_task_id req) # EGet k # ELock (kgc_task_id req) # t) \<and>
    (r = Ok () \<or> (\<exists>e. r = Err e))"
proof (cases "kgc_executor req")
  case True
  obtain it where it: "stored t (ip_task_store_item_key (kgc_task_id req)) = Some (VPinner it)"
    using assms(2) True by auto
  obtain b t1 where b: "ip_contains H (kgc_task_id req) t = (b, t1)" by fastforce
  have "b = Ok False \<Longrightarrow> False"
    using ip.contains_stored(2) [of H "kgc_task_id req" t False t1 it] b it assms(1)
    by (auto simp: kv_faithful_def)
  then have "b = Ok True \<or> (\<exists>e. b = Err e)"
    using b by (auto simp: ip.contains_eq split: sum.splits)
  then show ?thesis
    using assms(3) True b ip.contains_eq [of H "kgc_task_id req" t]
    by (auto simp: ex_task_key_generation_candidate_request_handler_def act_simps)
next
  case False
  obtain it where it: "stored t (ex_task_store_item_key (kgc_task_id req)) = Some (VExec it)"
    using assms(2) False by auto
  obtain b t1 where b: "ex_contains H (kgc_task_id req) t = (b, t1)" by fastforce
  have "b = Ok False \<Longrightarrow> False"
    using ex.contains_stored(2) [of H "kgc_task_id req" t False t1 it] b it assms(1)
    by (auto simp: kv_faithful_def)
  then have "b = Ok True \<or> (\<exists>e. b = Err e)"
    using b by (auto simp: ex.contains_eq split: sum.splits)
  then show ?thesis
    using assms(3) False b ex.contains_eq [of H "kgc_task_id req" t]
    by (auto simp: ip_task_key_generation_candidate_request_handler_def act_simps)
qed

theorem second_role_ignored_witness:
  "\<exists>k. snd (handle_general_msg memory_host (KeyGenerationCandidateRequest
      \<lparr>kgc_task_id = ''task'', kgc_n = 2, kgc_k = 1, kgc_key_type = ''t'', kgc_delegator_ephemeral_id = [],
       kgc_executor = False, kgc_signature = []\<rparr>) ''d'' ''r''
      [ESet (ex_task_store_item_key ''task'') (VExec \<lparr>ex_task_info = \<lparr>ti_task_id = ''task'',
         ti_exec_info = execution_info_default\<rparr>, ex_status = ExInit\<rparr>) None]) =
    [EUnlock ''task'', EGet k, ELock ''task'',
     ESet (ex_task_store_item_key ''task'') (VExec \<lparr>ex_task_info = \<lparr>ti_task_id = ''task'',
         ti_exec_info = execution_info_default\<rparr>, ex_status = ExInit\<rparr>) None]"
  using second_role_ignored [OF memory_host_faithful _ prod.collapse [symmetric], of
      "\<lparr>kgc_task_id = ''task'', kgc_n = 2, kgc_k = 1, kgc_key_type = ''t'', kgc_delegator_ephemeral_id = [],
       kgc_executor = False, kgc_signature = []\<rparr>"
      "[ESet (ex_task_store_item_key ''task'') (VExec \<lparr>ex_task_info = \<lparr>ti_task_id = ''task'',
         ti_exec_info = execution_info_default\<rparr>, ex_status = ExInit\<rparr>) None]" "''d''" "''r''"]
  by (auto simp del: handle_general_msg.simps)

section \<open>Debug messages\<close>

text \<open>C40: the debug message for a signature panics exactly if it has fewer than two parameters, that
  is no comma: the check that reports them does not return.\<close>

theorem sign_response_message_panics_iff:
  assumes "from_utf8 (bm_body msg) = Some s"
  shows "fst (generate_sign_response_message H msg t) = Panic \<longleftrightarrow> CHR '','' \<notin> set s"
proof -
  have run: "generate_sign_response_message H msg t = (case split_on CHR '','' s of
       key_type # multi_sig_account # deployment_ids \<Rightarrow>
         seqA (kv_set H DEPLOYMENT_IDS_KEY (VStrings deployment_ids) (Some 6000))
         (delegator_key_operation H (bm_reply_to msg)
           (DumpSign key_type (as_bytes multi_sig_account)))
     | _ \<Rightarrow> panicA) t"
    by (simp add: generate_sign_response_message_def utf8_string_def assms
        bindA_app(1) [OF require_app(1)])
  have call: "fst (seqA (kv_set H k v ttl) (delegator_key_operation H r op) t) \<noteq> Panic" for k v ttl r op
    by (auto simp: seqA_def bindA_def kv_set_def delegator_key_operation_def call_pinner_def call_def
        prim_def split: sum.splits prod.splits outcome.splits)
  show ?thesis
    unfolding run using split_on_parts [of "CHR '',''" s] call by (auto simp: act_simps)
qed

theorem sign_response_message_panics_iff_witness:
  "fst (generate_sign_response_message memory_host
      \<lparr>bm_subject = '''', bm_reply_to = '''', bm_body = [65]\<rparr> []) = Panic"
proof -
  have "from_utf8 [65] = Some ''A''" by code_simp
  then show ?thesis
    using sign_response_message_panics_iff [of "\<lparr>bm_subject = '''', bm_reply_to = '''', bm_body = [65]\<rparr>"
        "''A''" memory_host "[]"]
    by simp
qed

end
