(* ===== verification/Spec2Isabelle.thy ===== *)
theory Spec2Isabelle
  imports Gluon_Invariant Gluon_Sign_Protocol Gluon_Signature Gluon_Actor
begin

text \<open>
  A verification development of the gluon actor (\<open>src/src\<close>), the part of a TEA node that
  generates multi-signature keys and signs with them. The actor is a waSCC module: it is handed
  one broker message at a time (\<open>lib.rs\<close>, \<open>handle_message\<close>), reads and writes items in a key/value
  store, sends messages to other nodes, and leaves callbacks for what it has to wait for.

  \<^bold>\<open>The program.\<close> A node plays up to four parts, for each task.

  \<^item> The \<^emph>\<open>delegator\<close> (\<open>delegator/\<close>) is the node whose key decrypts the nonce of a request of layer 1.
    For a new key it invites candidates, has them attested by the pinner actor, elects an executor
    and \<open>n\<close> initial pinners, gets the encrypted key slices from the executor, hands them to the
    pinners, and reports the deployments to layer 1 (\<open>delegator/key_gen\<close>). For a signature it finds
    an executor and the pinners of the deployments, and forwards the slices (\<open>delegator/sign\<close>).
  \<^item> The \<^emph>\<open>executor\<close> (\<open>executor/\<close>) generates a key and shares it, or recovers a key and signs.
  \<^item> The \<^emph>\<open>initial pinner\<close> (\<open>initial_pinner/\<close>) stores a slice and has it deployed.
  \<^item> The \<^emph>\<open>pinner\<close> (\<open>pinner/\<close>) returns a slice it holds, encrypted for the executor that asks.

  \<^bold>\<open>How it is modelled.\<close> The world is the trace of what the actor did so far, newest event first
  (\<open>Gluon_Host\<close>). A handler is a function from a trace to an outcome (a value, an error, a panic,
  or no return) and a longer trace; \<open>?\<close> is \<open>bindA\<close>, \<open>match\<close> on a result is \<open>matchA\<close>, a \<open>for\<close> loop
  \<open>for_each\<close> (\<open>Gluon_Prelude\<close>). All that is not in this repository (the key/value provider, the
  messages, cryptography, IPFS, base64, the protobuf codec) is a field of the record \<open>host\<close>, which
  is an argument of the definitions that use it and answers from the trace; so any behaviour of
  the environment, with failures and with texts that expire, is some host. A callback is a value of a datatype
  that lists the variables the closure captures; the event that leaves it records it, and the
  inbox (\<open>result_handler\<close>) runs the one the host returns. \<open>reachable\<close> are the traces of all runs:
  any messages and callbacks, in any order (\<open>Gluon_Dispatch\<close>). Structs are records, enumerations
  datatypes, \<open>u8\<close> and \<open>u32\<close> words of their width, vectors lists, hash maps association lists whose
  order of iteration is chosen by the host, as a function of the keys (two maps with the same keys
  are iterated in the same order; no property relies on that). The build profile (overflow checks) and the feature
  \<open>dev\<close> are fields of the host, too.

  \<^bold>\<open>Theories and files.\<close>

  \<^item> \<open>Gluon_Prelude\<close>: bytes, UTF-8, actions and their logic \<open>keeps\<close>, hash maps.
  \<^item> \<open>Gluon_Data\<close>: the structs of the source and the fields of the protobuf messages it uses.
  \<^item> \<open>Gluon_Host\<close>: errors, callbacks, events, the host and its primitive operations.
  \<^item> \<open>Gluon_Store\<close>: the keys, and \<open>get\<close>, \<open>save\<close> and \<open>contains\<close> of the four \<open>store_item.rs\<close>; the locale
    \<open>item_store\<close> states what the handlers rely on, and each of the four stores interprets it.
  \<^item> \<open>Gluon_Common\<close>: \<open>common/\<close>. \<open>Gluon_Candidates\<close>: \<open>delegator/key_gen/candidates.rs\<close>.
  \<^item> \<open>Gluon_KeyGen_Item\<close>: \<open>delegator/key_gen/store_item.rs\<close>. \<open>Gluon_KeyGen\<close>: \<open>delegator/verifier.rs\<close>,
    \<open>delegator/key_gen.rs\<close>, \<open>key_gen/ra.rs\<close>, \<open>key_gen/observers*\<close>.
  \<^item> \<open>Gluon_Sign\<close>: \<open>delegator/sign.rs\<close>, \<open>sign/store_item.rs\<close>, \<open>sign/ra.rs\<close>, \<open>sign/observers*\<close>.
  \<^item> \<open>Gluon_Executor\<close>: \<open>executor.rs\<close>, \<open>executor/\<close>. \<open>Gluon_Initial_Pinner\<close>: \<open>initial_pinner.rs\<close>,
    \<open>initial_pinner/\<close>, \<open>pinner/\<close>.
  \<^item> \<open>Gluon_Dispatch\<close>: \<open>lib.rs\<close>, \<open>portal/\<close>, \<open>delegator/handler.rs\<close>, \<open>delegator/dump_methods.rs\<close>, the inbox.

  The definitions have the names of the functions; a prefix \<open>kg\<close>, \<open>sg\<close>, \<open>ex\<close> or \<open>ip\<close> tells those
  apart that several files declare (\<open>try_send_to_executor\<close>, \<open>StoreItemState\<close>). The fields of the four
  store items have the names of the source with the same prefixes, \<open>status\<close> for \<open>state\<close>.

  \<^bold>\<open>What is proved.\<close>

  \<^item> Runs as machines (\<open>Gluon_Tasks\<close>, \<open>Gluon_Refinement\<close>, \<open>Gluon_Runs\<close>): the tasks of the delegator
    as abstract state machines \<open>kg_step\<close> and \<open>sg_step\<close>, and a trace that \<open>follows\<close> them. Every run
    does (\<open>reachable_follows\<close>): each stored item is one step from the item stored before, whatever
    the environment does. Handlers that do not touch these items are covered once, in the locale
    \<open>frame\<close>, which is interpreted for each assertion about them; the others are verified with
    \<open>restores\<close>. Hence a task is not handed out twice, and a signature keeps its executor.
  \<^item> All runs (\<open>Gluon_Invariant\<close>): every stored value is a well-formed item of its own kind, and every
    message that hands out work is sound, whatever fails and in whatever order things happen. Each
    handler and callback has a lemma that it keeps the invariant.
  \<^item> Key generation (\<open>Gluon_KeyGen_Item\<close>, \<open>Gluon_Candidates\<close>, \<open>Gluon_KeyGen_Protocol\<close>): when the loops
    of the election and of the choice of peers end, and what they select, against reference
    definitions; only the owner of the nonce acts; one executor is handed the task, once, for any
    order of candidates; which answers are reported, in any order and with any repetitions.
  \<^item> Signature (\<open>Gluon_Sign_Protocol\<close>, \<open>Gluon_Signature\<close>): which slices the executor gets and when, which
    pinners are asked, what the executor does with the slices.
  \<^item> The other parts (\<open>Gluon_Roles\<close>, \<open>Gluon_Invitations\<close>, \<open>Gluon_Actor\<close>): what the executor shares, when
    it panics, what the pinners store, return and report; invitations, their signature and their
    round trip up to the application; the routing of messages and the refusals.
  \<^item> Runs of a key generation and of a signature over concrete hosts (\<open>Gluon_Scenario\<close>), which
    show that the hypotheses on runs can hold where something happens.

  \<^bold>\<open>Hypotheses on the environment.\<close> Each is a predicate on the host, and \<open>memory_host\<close>
  (\<open>Gluon_Memory_Host\<close>), \<open>scenario_host\<close> or \<open>sign_host\<close> (\<open>Gluon_Scenario\<close>) satisfies it.

  \<^item> \<open>kv_faithful\<close>: a read of an item fails, or returns the item last stored under the key, and nothing
    if none was stored. The source stores items without a time to live; nothing is assumed of the
    texts it stores with one. \<open>working\<close>: nothing fails and nothing expires.
  \<^item> \<open>inbox_faithful\<close>: the inbox runs only callbacks that were left before.
  \<^item> \<open>rsa_pair\<close>: a key decrypts what its other half encrypted. \<open>shamir_recovers\<close>: enough slices of a
    secret recover it. That the codecs return, that a cipher text decrypts and that a block is read
    back under its id is said in the theorems that rest on it.

  \<^bold>\<open>Loops.\<close> \<open>select_rounds\<close> (the choice of peers) is a total function, by the number of peers left and
  256 less the distance. \<open>select_initial_pinners\<close> (the election) need not end, so it is a partial
  function into an option, and \<open>None\<close> becomes the outcome \<open>Diverge\<close>; it ends exactly if there are
  enough candidates. All others iterate over a list. No fuel is used.

  \<^bold>\<open>Not modelled.\<close> Log output; the text of errors beyond the values it contains (an error is a
  constructor for its place, and its text is what the host displays for it); the locks are events
  without effect, since the actor handles one message at a time; the unit test of \<open>candidates.rs\<close>;
  module declarations and the protobuf and build files.
\<close>

end
